(* ===== verification/SA_Prelude.thy ===== *)
theory SA_Prelude imports Main "HOL-Library.Word" "HOL-Library.Sublist" begin

text \<open>
  Shared vocabulary of the development: the widths of the C types the program uses on an LP64
  target (both for the BPF object and for the user space binary), the generic lemmas on words
  and lists, and the reserve / fill / submit idiom of the BPF ring buffers, which every probe
  handler ends with.
\<close>

unbundle bit_operations_syntax

section \<open>C types\<close>

text \<open>
  \<open>s32\<close> and \<open>s64\<close> are bit patterns read with \<^const>\<open>sint\<close>; \<open>u32\<close> and \<open>u64\<close> are read with
  \<^const>\<open>uint\<close>. A pointer is a 64 bit address. The C constant \<open>-1\<close> assigned to an unsigned field is
  \<^term>\<open>- 1 :: 64 word\<close>, the value the program uses for "not collected".
\<close>

type_synonym u32 = "32 word"
type_synonym s32 = "32 word"
type_synonym u64 = "64 word"
type_synonym s64 = "64 word"
type_synonym ptr = "64 word"

section \<open>Fact collections\<close>

named_theorems probe_defs \<open>definitions of the BPF probe handlers\<close>
named_theorems consumer_defs \<open>definitions of the user space event handlers\<close>
named_theorems ring_simps \<open>what a probe handler leaves unchanged\<close>

section \<open>Words\<close>

lemma unat_ucast_32_64 [simp]: "unat (ucast (x :: u32) :: u64) = unat x"
proof -
  have "unat x < 2 ^ LENGTH(32)" by (rule unsigned_less)
  then have "unat x < 2 ^ LENGTH(64)" by simp
  then show ?thesis by (simp only: unsigned_ucast_eq take_bit_nat_eq_self)
qed

lemma unat_ucast_11_64 [simp]: "unat (ucast (x :: 11 word) :: u64) = unat x"
proof -
  have "unat x < 2 ^ LENGTH(11)" by (rule unsigned_less)
  then have "unat x < 2 ^ LENGTH(64)" by simp
  then show ?thesis by (simp only: unsigned_ucast_eq take_bit_nat_eq_self)
qed

lemma unat_minus_one_64: "unat (- 1 :: u64) = 2 ^ 64 - 1"
  by (simp add: unsigned_minus_1_eq_mask mask_eq_exp_minus_1)

lemma small_neq_minus_one: "unat (x :: u64) < 2 ^ 63 \<Longrightarrow> x \<noteq> - 1"
  using unat_minus_one_64 by auto

lemma ucast_32_64_neq_minus_one [simp]: "(ucast (x :: u32) :: u64) \<noteq> - 1"
proof (rule small_neq_minus_one)
  have "unat x < 2 ^ 32" using unsigned_less [of x] by simp
  then show "unat (ucast x :: u64) < 2 ^ 63" by simp
qed

lemma ucast_11_64_neq_minus_one [simp]: "(ucast (x :: 11 word) :: u64) \<noteq> - 1"
proof (rule small_neq_minus_one)
  have "unat x < 2 ^ 11" using unsigned_less [of x] by simp
  then show "unat (ucast x :: u64) < 2 ^ 63" by simp
qed

text \<open>Narrowing an \<open>unsigned long\<close> to an \<open>int\<close> keeps every value below \<open>2 ^ 31\<close>.\<close>

lemma sint_ucast_64_32:
  assumes "unat (x :: u64) < 2 ^ 31"
  shows "sint (ucast x :: s32) = int (unat x)"
proof -
  have "unat (ucast x :: s32) = unat x"
    using assms by (simp add: unsigned_ucast_eq take_bit_nat_eq_self)
  then have u: "uint (ucast x :: s32) = int (unat x)"
    by (metis uint_nat)
  have "sint (ucast x :: s32) = signed_take_bit (LENGTH(32) - Suc 0) (uint (ucast x :: s32))"
    by (rule sint_uint)
  also have "\<dots> = signed_take_bit (LENGTH(32) - Suc 0) (int (unat x))"
    by (simp only: u)
  also have "\<dots> = int (unat x)"
    using assms by (intro signed_take_bit_int_eq_self) (simp_all del: of_nat_unat)
  finally show ?thesis .
qed

lemma sint_word_of_int_64:
  "- (2 ^ 63) \<le> k \<Longrightarrow> k < 2 ^ 63 \<Longrightarrow> sint (word_of_int k :: s64) = k"
  by (simp add: signed_of_int signed_take_bit_int_eq_self)

lemma sint_word_of_int_32:
  "- (2 ^ 31) \<le> k \<Longrightarrow> k < 2 ^ 31 \<Longrightarrow> sint (word_of_int k :: s32) = k"
  by (simp add: signed_of_int signed_take_bit_int_eq_self)

section \<open>Ring buffers\<close>

text \<open>
  The idiom every handler ends with:
  \<^verbatim>\<open>
    e = bpf_ringbuf_reserve(&rb, sizeof(*e), 0);
    if (e) { ...fill *e...; bpf_ringbuf_submit(e, 0); }
  \<close>
  \<open>r\<close> is what the reservation returned: \<^const>\<open>None\<close> for NULL, otherwise the memory as it was
  handed out, whose old contents stay in every field the code does not write. Submitting makes
  the record the newest one of the ring.
\<close>

definition reserve_submit :: "'e option \<Rightarrow> ('e \<Rightarrow> 'e) \<Rightarrow> 'e list \<Rightarrow> 'e list" where
  "reserve_submit r fill rb = (case r of None \<Rightarrow> rb | Some e \<Rightarrow> rb @ [fill e])"

lemma reserve_submit_simps [simp]:
  "reserve_submit None f rb = rb"
  "reserve_submit (Some e) f rb = rb @ [f e]"
  by (simp_all add: reserve_submit_def)

lemma reserve_submit_grows: "\<exists>new. reserve_submit r f rb = rb @ new \<and> length new \<le> 1"
  by (cases r) auto

lemma reserve_submit_set: "e \<in> set (reserve_submit r f rb) \<Longrightarrow> e \<in> set rb \<or> (\<exists>m. r = Some m \<and> e = f m)"
  by (cases r) auto

end
