(* ===== verification/SA_Libc.thy ===== *)
theory SA_Libc imports SA_Prelude "HOL-Library.Char_ord" begin

text \<open>
  What the program uses of the C library, as functions on strings. A C string is a list of
  characters up to, and without, its terminating NUL; a char array is the list of all its
  characters. Conversions return the pair of facts the callers look at: whether any digit was
  consumed (\<open>end_ptr == arg\<close>) and whether \<open>errno\<close> was set to \<open>ERANGE\<close>.
\<close>

section \<open>Char arrays\<close>

abbreviation NUL :: char where
  "NUL \<equiv> CHR 0x00"

definition c_str :: "char list \<Rightarrow> string" where
  "c_str a = takeWhile (\<lambda>c. c \<noteq> NUL) a"

text \<open>\<open>strncpy(dst, src, n)\<close>: at most \<open>n\<close> characters, padded with NULs up to \<open>n\<close>.\<close>

definition strncpy :: "char list \<Rightarrow> string \<Rightarrow> nat \<Rightarrow> char list" where
  "strncpy dst src n = take n (src @ replicate n NUL) @ drop n dst"

definition strstr :: "string \<Rightarrow> string \<Rightarrow> string option" where
  "strstr hay needle = List.find (\<lambda>s. prefix needle s) (suffixes hay)"

text \<open>\<open>snprintf(buf, n, ...)\<close> keeps the first \<open>n - 1\<close> characters of the formatted text.\<close>

definition snprintf :: "nat \<Rightarrow> string \<Rightarrow> string" where
  "snprintf n text = take (n - 1) text"

lemma c_str_no_nul: "NUL \<notin> set (c_str a)"
  by (auto simp: c_str_def dest: set_takeWhileD)

lemma c_str_length: "length (c_str a) \<le> length a"
  by (simp add: c_str_def length_takeWhile_le)

lemma c_str_id: "NUL \<notin> set s \<Longrightarrow> c_str s = s"
  by (induction s) (auto simp: c_str_def)

lemma c_str_terminated: "NUL \<notin> set s \<Longrightarrow> c_str (s @ NUL # t) = s"
  by (induction s) (auto simp: c_str_def)

lemma strncpy_length: "n \<le> length dst \<Longrightarrow> length (strncpy dst src n) = length dst"
  by (simp add: strncpy_def)

lemma strncpy_eq: "strncpy dst src n = take n src @ replicate (n - length src) NUL @ drop n dst"
  by (simp add: strncpy_def)

lemma strstr_iff: "strstr hay needle \<noteq> None \<longleftrightarrow> sublist needle hay"
proof -
  have "strstr hay needle \<noteq> None \<longleftrightarrow> (\<exists>s. suffix s hay \<and> prefix needle s)"
    by (auto simp: strstr_def find_None_iff)
  also have "\<dots> \<longleftrightarrow> sublist needle hay"
    by (auto simp: sublist_def suffix_def prefix_def)
  finally show ?thesis .
qed

lemma snprintf_length: "length (snprintf n s) \<le> n - 1"
  by (simp add: snprintf_def)

lemma snprintf_fits: "length s < n \<Longrightarrow> snprintf n s = s"
  by (simp add: snprintf_def)

section \<open>Decimal output: \<open>%d\<close>\<close>

definition digit_char :: "nat \<Rightarrow> char" where
  "digit_char d = ''0123456789'' ! d"

fun dec_nat :: "nat \<Rightarrow> string" where
  "dec_nat n = (if n < 10 then [digit_char n] else dec_nat (n div 10) @ [digit_char (n mod 10)])"

declare dec_nat.simps [simp del]

definition dec_int :: "int \<Rightarrow> string" where
  "dec_int i = (if i < 0 then CHR ''-'' # dec_nat (nat (- i)) else dec_nat (nat i))"

definition fmt_d :: "s32 \<Rightarrow> string" where
  "fmt_d x = dec_int (sint x)"

section \<open>\<open>strtol\<close> and \<open>strtoul\<close>\<close>

definition isspace :: "char \<Rightarrow> bool" where
  "isspace c \<longleftrightarrow> c = CHR '' '' \<or> (9 \<le> (of_char c :: nat) \<and> (of_char c :: nat) \<le> 13)"

definition digit_value :: "char \<Rightarrow> nat option" where
  "digit_value c =
     (let n = of_char c :: nat in
      if 48 \<le> n \<and> n \<le> 57 then Some (n - 48)
      else if 97 \<le> n \<and> n \<le> 122 then Some (n - 87)
      else if 65 \<le> n \<and> n \<le> 90 then Some (n - 55)
      else None)"

definition is_digit :: "nat \<Rightarrow> char \<Rightarrow> bool" where
  "is_digit base c = (case digit_value c of None \<Rightarrow> False | Some d \<Rightarrow> d < base)"

fun strto_digits :: "nat \<Rightarrow> nat \<Rightarrow> string \<Rightarrow> nat \<times> string" where
  "strto_digits base acc [] = (acc, [])"
| "strto_digits base acc (c # cs) =
     (if is_digit base c then strto_digits base (acc * base + the (digit_value c)) cs
      else (acc, c # cs))"

text \<open>The base prefix: \<open>0x\<close> when a hexadecimal digit follows, a leading \<open>0\<close> for octal.\<close>

fun strto_prefix :: "nat \<Rightarrow> string \<Rightarrow> nat \<times> string" where
  "strto_prefix base (c0 # x # d # cs) =
     (if c0 = CHR ''0'' \<and> (x = CHR ''x'' \<or> x = CHR ''X'') \<and> is_digit 16 d \<and> (base = 0 \<or> base = 16)
      then (16, d # cs)
      else if base = 0 then (if c0 = CHR ''0'' then 8 else 10, c0 # x # d # cs)
      else (base, c0 # x # d # cs))"
| "strto_prefix base cs =
     (if base = 0 then (if cs \<noteq> [] \<and> hd cs = CHR ''0'' then 8 else 10, cs) else (base, cs))"

definition strto_sign :: "string \<Rightarrow> bool \<times> string" where
  "strto_sign s =
     (case dropWhile isspace s of
        [] \<Rightarrow> (False, [])
      | c # cs \<Rightarrow> if c = CHR ''-'' then (True, cs) else if c = CHR ''+'' then (False, cs)
                 else (False, c # cs))"

record 'v strto_result =
  strto_value :: 'v
  strto_no_digits :: bool   \<comment> \<open>\<open>end_ptr == nptr\<close>\<close>
  strto_erange :: bool      \<comment> \<open>\<open>errno == ERANGE\<close>\<close>

definition strto_scan :: "nat \<Rightarrow> string \<Rightarrow> bool \<times> nat \<times> bool" where
  "strto_scan base s =
     (let (neg, t) = strto_sign s; (b, u) = strto_prefix base t; (n, rest) = strto_digits b 0 u
      in (neg, n, rest = u))"

definition LONG_MAX :: int where "LONG_MAX = 2 ^ 63 - 1"
definition LONG_MIN :: int where "LONG_MIN = - (2 ^ 63)"
definition ULONG_MAX :: nat where "ULONG_MAX = 2 ^ 64 - 1"

definition strtol :: "string \<Rightarrow> nat \<Rightarrow> int strto_result" where
  "strtol s base =
     (let (neg, n, none) = strto_scan base s; v = (if neg then - int n else int n) in
      if none then \<lparr>strto_value = 0, strto_no_digits = True, strto_erange = False\<rparr>
      else if v > LONG_MAX then \<lparr>strto_value = LONG_MAX, strto_no_digits = False, strto_erange = True\<rparr>
      else if v < LONG_MIN then \<lparr>strto_value = LONG_MIN, strto_no_digits = False, strto_erange = True\<rparr>
      else \<lparr>strto_value = v, strto_no_digits = False, strto_erange = False\<rparr>)"

definition strtoul :: "string \<Rightarrow> nat \<Rightarrow> u64 strto_result" where
  "strtoul s base =
     (let (neg, n, none) = strto_scan base s in
      if none then \<lparr>strto_value = 0, strto_no_digits = True, strto_erange = False\<rparr>
      else if n > ULONG_MAX then \<lparr>strto_value = - 1, strto_no_digits = False, strto_erange = True\<rparr>
      else \<lparr>strto_value = (if neg then - of_nat n else of_nat n),
            strto_no_digits = False, strto_erange = False\<rparr>)"

section \<open>Reading back what \<open>%d\<close> prints\<close>

lemma less_10_cases: "d < (10 :: nat) \<Longrightarrow> d = 0 \<or> d = 1 \<or> d = 2 \<or> d = 3 \<or> d = 4 \<or> d = 5 \<or> d = 6 \<or> d = 7 \<or> d = 8 \<or> d = 9"
  by presburger

lemma digit_value_digit_char: "d < 10 \<Longrightarrow> digit_value (digit_char d) = Some d"
  by (drule less_10_cases) (auto simp: digit_char_def digit_value_def Let_def)

lemma is_digit_digit_char: "d < 10 \<Longrightarrow> 10 \<le> b \<Longrightarrow> is_digit b (digit_char d)"
  by (simp add: is_digit_def digit_value_digit_char)

lemma digit_char_plain:
  "d < 10 \<Longrightarrow> \<not> isspace (digit_char d) \<and> digit_char d \<noteq> CHR ''-'' \<and> digit_char d \<noteq> CHR ''+'' \<and>
     digit_char d \<noteq> CHR ''x'' \<and> digit_char d \<noteq> CHR ''X'' \<and> digit_char d \<noteq> NUL"
  by (drule less_10_cases) (auto simp: digit_char_def isspace_def)

lemma digit_char_zero_iff: "d < 10 \<Longrightarrow> digit_char d = CHR ''0'' \<longleftrightarrow> d = 0"
  by (drule less_10_cases) (auto simp: digit_char_def)

lemma dec_nat_digits: "\<forall>c \<in> set (dec_nat n). \<exists>d < 10. c = digit_char d"
proof (induction n rule: dec_nat.induct)
  case (1 n)
  have "\<exists>d < 10. digit_char (n mod 10) = digit_char d"
    by (intro exI [of _ "n mod 10"]) simp
  with 1 show ?case by (subst dec_nat.simps) auto
qed

lemma dec_nat_nonempty [simp]: "dec_nat n \<noteq> []"
  by (subst dec_nat.simps) simp

lemma hd_dec_nat: "0 < n \<Longrightarrow> hd (dec_nat n) \<noteq> CHR ''0''"
proof (induction n rule: dec_nat.induct)
  case (1 n)
  then show ?case
    by (subst dec_nat.simps) (auto simp: digit_char_zero_iff)
qed

lemma strto_digits_snoc:
  "\<forall>c \<in> set xs. is_digit b c \<Longrightarrow> is_digit b c \<Longrightarrow> strto_digits b acc xs = (v, []) \<Longrightarrow>
     strto_digits b acc (xs @ [c]) = (v * b + the (digit_value c), [])"
  by (induction xs arbitrary: acc) auto

lemma strto_digits_dec_nat: "strto_digits 10 0 (dec_nat n) = (n, [])"
proof (induction n rule: dec_nat.induct)
  case (1 n)
  show ?case
  proof (cases "n < 10")
    case True
    then show ?thesis
      by (simp add: dec_nat.simps [of n] is_digit_digit_char digit_value_digit_char)
  next
    case False
    have "\<forall>c \<in> set (dec_nat (n div 10)). is_digit 10 c"
      using dec_nat_digits [of "n div 10"] by (auto simp: is_digit_digit_char)
    then have "strto_digits 10 0 (dec_nat (n div 10) @ [digit_char (n mod 10)])
        = (n div 10 * 10 + the (digit_value (digit_char (n mod 10))), [])"
      using False 1 by (intro strto_digits_snoc) (auto simp: is_digit_digit_char)
    then show ?thesis
      using False by (simp add: dec_nat.simps [of n] digit_value_digit_char)
  qed
qed

lemma strto_prefix_dec_nat: "0 < n \<Longrightarrow> strto_prefix 0 (dec_nat n) = (10, dec_nat n)"
  using hd_dec_nat [of n] by (cases "(0 :: nat, dec_nat n)" rule: strto_prefix.cases) auto

lemma strto_prefix_zero: "strto_prefix 0 (dec_nat 0) = (8, dec_nat 0)"
  by (simp add: dec_nat.simps [of 0] digit_char_def)

lemma strto_digits_zero: "strto_digits 8 0 (dec_nat 0) = (0, [])"
  by (simp add: dec_nat.simps [of 0] digit_char_def is_digit_def digit_value_def)

lemma strto_sign_dec_nat: "strto_sign (dec_nat n) = (False, dec_nat n)"
proof -
  obtain c cs where eq: "dec_nat n = c # cs" by (cases "dec_nat n") auto
  moreover obtain d where "d < 10" "c = digit_char d"
    using dec_nat_digits [of n] eq by auto
  ultimately show ?thesis using digit_char_plain [of d] by (simp add: strto_sign_def)
qed

lemma strto_sign_minus: "strto_sign (CHR ''-'' # s) = (True, s)"
  by (simp add: strto_sign_def isspace_def)

lemma strto_scan_dec_nat: "strto_scan 0 (dec_nat n) = (False, n, False)"
  using strto_digits_dec_nat [of n]
  by (cases "n = 0") (simp_all add: strto_scan_def strto_sign_dec_nat strto_prefix_dec_nat
    strto_prefix_zero strto_digits_zero eq_commute [of "[]"])

lemma strto_scan_minus_dec_nat: "strto_scan 0 (CHR ''-'' # dec_nat n) = (True, n, False)"
  using strto_digits_dec_nat [of n]
  by (cases "n = 0") (simp_all add: strto_scan_def strto_sign_minus strto_prefix_dec_nat
    strto_prefix_zero strto_digits_zero eq_commute [of "[]"])

text \<open>\<open>strtol(s, &end, 0)\<close> reads back every \<open>long\<close> printed in decimal.\<close>

lemma strtol_dec_int:
  assumes "LONG_MIN \<le> i" "i \<le> LONG_MAX"
  shows "strtol (dec_int i) 0 = \<lparr>strto_value = i, strto_no_digits = False, strto_erange = False\<rparr>"
  using assms
  by (cases "i < 0") (simp_all add: strtol_def dec_int_def strto_scan_dec_nat strto_scan_minus_dec_nat)

lemma dec_int_no_nul: "NUL \<notin> set (dec_int i)"
proof -
  have "NUL \<notin> set (dec_nat n)" for n
    using dec_nat_digits [of n] digit_char_plain by metis
  then show ?thesis by (simp add: dec_int_def)
qed

end
