(* ===== verification/SA_Options.thy ===== *)
theory SA_Options imports SA_Libc begin

text \<open>
  Component: command line options (\<open>parse_argp.h\<close>, \<open>parse_argp.c\<close>). The global \<open>sa_opts\<close> is the
  record \<^emph>\<open>sa_opts\<close>; \<open>parse_arg\<close> is the argp callback, one equation per \<open>case\<close> of its switch.
  Everything the callback can do is a value of \<^emph>\<open>parse_outcome\<close>, the store past the end of an
  unchecked array included.
\<close>

section \<open>State\<close>

definition MAX_FILTERS_NUM :: nat where "MAX_FILTERS_NUM = 128"
definition TASK_COMM_LEN :: nat where "TASK_COMM_LEN = 16"

record sa_opts =
  system :: bool
  app :: bool
  output_name :: string
  output_path :: "string option"
  max_size :: s64
  num_ftrace_event :: u32
  num_atrace_cat :: u32
  num_function_graph :: u32
  num_function_filter :: u32
  ftrace_event :: "string option list"
  atrace_cat :: "string option list"
  function_graph :: "string option list"
  function_filter :: "string option list"
  load_avg_cpu :: bool
  runnable_avg_cpu :: bool
  util_avg_cpu :: bool
  load_avg_task :: bool
  runnable_avg_task :: bool
  util_avg_task :: bool
  util_avg_rt :: bool
  util_avg_dl :: bool
  util_avg_irq :: bool
  load_avg_thermal :: bool
  util_est_cpu :: bool
  util_est_task :: bool
  cpu_nr_running :: bool
  cpu_freq :: bool
  cpu_idle :: bool
  softirq :: bool
  sched_switch :: bool
  load_balance :: bool
  ipi :: bool
  irq :: bool
  num_pids :: u32
  num_comms :: u32
  pid :: "s32 list"
  comm :: "char list list"

text \<open>The initialiser of \<open>sa_opts\<close>.\<close>

definition sa_opts_init :: sa_opts where
  "sa_opts_init = \<lparr>
     system = True, app = False,
     output_name = ''sched-analyzer.perfetto-trace'', output_path = None,
     max_size = 250 * 1024 * 1024,
     num_ftrace_event = 0, num_atrace_cat = 0, num_function_graph = 0, num_function_filter = 0,
     ftrace_event = replicate MAX_FILTERS_NUM None, atrace_cat = replicate MAX_FILTERS_NUM None,
     function_graph = replicate MAX_FILTERS_NUM None,
     function_filter = replicate MAX_FILTERS_NUM None,
     load_avg_cpu = False, runnable_avg_cpu = False, util_avg_cpu = False,
     load_avg_task = False, runnable_avg_task = False, util_avg_task = False,
     util_avg_rt = False, util_avg_dl = False, util_avg_irq = False, load_avg_thermal = False,
     util_est_cpu = False, util_est_task = False, cpu_nr_running = False,
     cpu_freq = False, cpu_idle = False, softirq = False, sched_switch = False,
     load_balance = False, ipi = False, irq = False,
     num_pids = 0, num_comms = 0,
     pid = replicate MAX_FILTERS_NUM 0,
     comm = replicate MAX_FILTERS_NUM (replicate TASK_COMM_LEN NUL)\<rparr>"

section \<open>Option keys and the options table\<close>

text \<open>\<open>enum sa_opts_flags\<close>, with the two argp keys \<open>parse_arg\<close> also handles and any other key.\<close>

datatype opt_key =
    OPT_SYSTEM | OPT_APP
  | OPT_OUTPUT | OPT_OUTPUT_PATH | OPT_MAX_SIZE | OPT_FTRACE_EVENT | OPT_ATRACE_CAT
  | OPT_FUNCTION_GRAPH | OPT_FUNCTION_FILTER
  | OPT_LOAD_AVG | OPT_RUNNABLE_AVG | OPT_UTIL_AVG
  | OPT_LOAD_AVG_CPU | OPT_RUNNABLE_AVG_CPU | OPT_UTIL_AVG_CPU
  | OPT_LOAD_AVG_TASK | OPT_RUNNABLE_AVG_TASK | OPT_UTIL_AVG_TASK
  | OPT_UTIL_AVG_RT | OPT_UTIL_AVG_DL | OPT_UTIL_AVG_IRQ | OPT_LOAD_AVG_THERMAL
  | OPT_UTIL_EST | OPT_UTIL_EST_CPU | OPT_UTIL_EST_TASK
  | OPT_CPU_NR_RUNNING | OPT_CPU_IDLE | OPT_LOAD_BALANCE | OPT_IPI | OPT_IRQ
  | OPT_FILTER_PID | OPT_FILTER_COMM
  | ARGP_KEY_ARG | ARGP_KEY_END | Other_key

text \<open>The enumerators after \<open>OPT_DUMMY_START = 0x80\<close>, in the order of the enum.\<close>

definition sa_opts_flags :: "opt_key list" where
  "sa_opts_flags =
    [OPT_SYSTEM, OPT_APP,
     OPT_OUTPUT, OPT_OUTPUT_PATH, OPT_MAX_SIZE, OPT_FTRACE_EVENT, OPT_ATRACE_CAT,
     OPT_FUNCTION_GRAPH, OPT_FUNCTION_FILTER,
     OPT_LOAD_AVG, OPT_RUNNABLE_AVG, OPT_UTIL_AVG,
     OPT_LOAD_AVG_CPU, OPT_RUNNABLE_AVG_CPU, OPT_UTIL_AVG_CPU,
     OPT_LOAD_AVG_TASK, OPT_RUNNABLE_AVG_TASK, OPT_UTIL_AVG_TASK,
     OPT_UTIL_AVG_RT, OPT_UTIL_AVG_DL, OPT_UTIL_AVG_IRQ, OPT_LOAD_AVG_THERMAL,
     OPT_UTIL_EST, OPT_UTIL_EST_CPU, OPT_UTIL_EST_TASK,
     OPT_CPU_NR_RUNNING, OPT_CPU_IDLE, OPT_LOAD_BALANCE, OPT_IPI, OPT_IRQ,
     OPT_FILTER_PID, OPT_FILTER_COMM]"

text \<open>\<open>options[]\<close>: the long name, its key, and whether it takes an argument.\<close>

definition options :: "(string \<times> opt_key \<times> bool) list" where
  "options =
    [(''system'', OPT_SYSTEM, False),
     (''app'', OPT_APP, False),
     (''output'', OPT_OUTPUT, True),
     (''output_path'', OPT_OUTPUT_PATH, True),
     (''max_size'', OPT_MAX_SIZE, True),
     (''ftrace_event'', OPT_FTRACE_EVENT, True),
     (''atrace_cat'', OPT_ATRACE_CAT, True),
     (''function_graph'', OPT_FUNCTION_GRAPH, True),
     (''function_filter'', OPT_FUNCTION_FILTER, True),
     (''load_avg'', OPT_LOAD_AVG, False),
     (''runnable_avg'', OPT_RUNNABLE_AVG, False),
     (''util_avg'', OPT_UTIL_AVG, False),
     (''load_avg_cpu'', OPT_LOAD_AVG_CPU, False),
     (''runnable_avg_cpu'', OPT_RUNNABLE_AVG_CPU, False),
     (''util_avg_cpu'', OPT_UTIL_AVG_CPU, False),
     (''load_avg_task'', OPT_LOAD_AVG_TASK, False),
     (''runnable_avg_task'', OPT_RUNNABLE_AVG_TASK, False),
     (''util_avg_task'', OPT_UTIL_AVG_TASK, False),
     (''util_avg_rt'', OPT_UTIL_AVG_RT, False),
     (''util_avg_dl'', OPT_UTIL_AVG_DL, False),
     (''util_avg_irq'', OPT_UTIL_AVG_IRQ, False),
     (''load_avg_thermal'', OPT_LOAD_AVG_THERMAL, False),
     (''util_est'', OPT_UTIL_EST, False),
     (''util_est_cpu'', OPT_UTIL_EST_CPU, False),
     (''util_est_task'', OPT_UTIL_EST_TASK, False),
     (''cpu_nr_running'', OPT_CPU_NR_RUNNING, False),
     (''cpu_idle'', OPT_CPU_IDLE, False),
     (''load_balance'', OPT_LOAD_BALANCE, False),
     (''ipi'', OPT_IPI, False),
     (''irq'', OPT_IRQ, False),
     (''pid'', OPT_FILTER_PID, True),
     (''comm'', OPT_FILTER_COMM, True)]"

section \<open>The parser\<close>

text \<open>
  \<open>Parsed\<close> is \<open>return 0\<close>, \<open>Failed\<close> a non-zero error code, \<open>Usage\<close> the call of \<open>argp_usage\<close>, which
  prints the usage text and exits, and \<open>Bad_store\<close> a store past the end of the named array, which
  C leaves undefined.
\<close>

datatype parse_outcome =
    Parsed sa_opts
  | Failed int sa_opts
  | Usage sa_opts
  | Bad_store string

definition ERANGE :: int where "ERANGE = 34"
definition ARGP_ERR_UNKNOWN :: int where "ARGP_ERR_UNKNOWN = 7"

fun parse_arg :: "sa_opts \<Rightarrow> opt_key \<Rightarrow> string \<Rightarrow> parse_outcome" where
  "parse_arg s OPT_SYSTEM arg = Parsed (s\<lparr>system := True, app := False\<rparr>)"
| "parse_arg s OPT_APP arg = Parsed (s\<lparr>system := False, app := True\<rparr>)"
| "parse_arg s OPT_OUTPUT arg = Parsed (s\<lparr>output_name := arg\<rparr>)"
| "parse_arg s OPT_OUTPUT_PATH arg = Parsed (s\<lparr>output_path := Some arg\<rparr>)"
| "parse_arg s OPT_MAX_SIZE arg =
     (let r = strtol arg 0; s' = s\<lparr>max_size := word_of_int (strto_value r) * 1024 * 1024\<rparr> in
      if strto_erange r then Failed ERANGE s'
      else if strto_no_digits r then Usage s'
      else Parsed s')"
| "parse_arg s OPT_FTRACE_EVENT arg =
     (if unat (num_ftrace_event s) < MAX_FILTERS_NUM then
        Parsed (s\<lparr>ftrace_event := (ftrace_event s)[unat (num_ftrace_event s) := Some arg],
                  num_ftrace_event := num_ftrace_event s + 1\<rparr>)
      else Bad_store ''ftrace_event'')"
| "parse_arg s OPT_ATRACE_CAT arg =
     (if unat (num_atrace_cat s) < MAX_FILTERS_NUM then
        Parsed (s\<lparr>atrace_cat := (atrace_cat s)[unat (num_atrace_cat s) := Some arg],
                  num_atrace_cat := num_atrace_cat s + 1\<rparr>)
      else Bad_store ''atrace_cat'')"
| "parse_arg s OPT_FUNCTION_GRAPH arg =
     (if unat (num_function_graph s) < MAX_FILTERS_NUM then
        Parsed (s\<lparr>function_graph := (function_graph s)[unat (num_function_graph s) := Some arg],
                  num_function_graph := num_function_graph s + 1\<rparr>)
      else Bad_store ''function_graph'')"
| "parse_arg s OPT_FUNCTION_FILTER arg =
     (if unat (num_function_filter s) < MAX_FILTERS_NUM then
        Parsed (s\<lparr>function_filter := (function_filter s)[unat (num_function_filter s) := Some arg],
                  num_function_filter := num_function_filter s + 1\<rparr>)
      else Bad_store ''function_filter'')"
| "parse_arg s OPT_LOAD_AVG arg =
     Parsed (s\<lparr>load_avg_cpu := True, load_avg_task := True, load_avg_thermal := True\<rparr>)"
| "parse_arg s OPT_RUNNABLE_AVG arg =
     Parsed (s\<lparr>runnable_avg_cpu := True, runnable_avg_task := True\<rparr>)"
| "parse_arg s OPT_UTIL_AVG arg =
     Parsed (s\<lparr>util_avg_cpu := True, util_avg_task := True, util_avg_rt := True,
               util_avg_dl := True, util_avg_irq := True\<rparr>)"
| "parse_arg s OPT_LOAD_AVG_CPU arg = Parsed (s\<lparr>load_avg_cpu := True\<rparr>)"
| "parse_arg s OPT_RUNNABLE_AVG_CPU arg = Parsed (s\<lparr>runnable_avg_cpu := True\<rparr>)"
| "parse_arg s OPT_UTIL_AVG_CPU arg = Parsed (s\<lparr>util_avg_cpu := True\<rparr>)"
| "parse_arg s OPT_LOAD_AVG_TASK arg = Parsed (s\<lparr>load_avg_task := True\<rparr>)"
| "parse_arg s OPT_RUNNABLE_AVG_TASK arg = Parsed (s\<lparr>runnable_avg_task := True\<rparr>)"
| "parse_arg s OPT_UTIL_AVG_TASK arg = Parsed (s\<lparr>util_avg_task := True\<rparr>)"
| "parse_arg s OPT_UTIL_AVG_RT arg = Parsed (s\<lparr>util_avg_rt := True\<rparr>)"
| "parse_arg s OPT_UTIL_AVG_DL arg = Parsed (s\<lparr>util_avg_dl := True\<rparr>)"
| "parse_arg s OPT_UTIL_AVG_IRQ arg = Parsed (s\<lparr>util_avg_irq := True\<rparr>)"
| "parse_arg s OPT_LOAD_AVG_THERMAL arg = Parsed (s\<lparr>load_avg_thermal := True\<rparr>)"
| "parse_arg s OPT_UTIL_EST arg = Parsed (s\<lparr>util_est_cpu := True, util_est_task := True\<rparr>)"
| "parse_arg s OPT_UTIL_EST_CPU arg = Parsed (s\<lparr>util_est_cpu := True\<rparr>)"
| "parse_arg s OPT_UTIL_EST_TASK arg = Parsed (s\<lparr>util_est_task := True\<rparr>)"
| "parse_arg s OPT_CPU_NR_RUNNING arg = Parsed (s\<lparr>cpu_nr_running := True\<rparr>)"
| "parse_arg s OPT_CPU_IDLE arg = Parsed (s\<lparr>cpu_idle := True\<rparr>)"
| "parse_arg s OPT_LOAD_BALANCE arg = Parsed (s\<lparr>load_balance := True\<rparr>)"
| "parse_arg s OPT_IPI arg = Parsed (s\<lparr>ipi := True\<rparr>)"
| "parse_arg s OPT_IRQ arg = Parsed (s\<lparr>irq := True\<rparr>)"
| "parse_arg s OPT_FILTER_PID arg =
     (if unat (num_pids s) \<ge> MAX_FILTERS_NUM then Parsed s
      else let r = strtol arg 0;
               s' = s\<lparr>pid := (pid s)[unat (num_pids s) := word_of_int (strto_value r)]\<rparr> in
        if strto_erange r then Failed ERANGE s'
        else if strto_no_digits r then Usage s'
        else Parsed (s'\<lparr>num_pids := num_pids s' + 1\<rparr>))"
| "parse_arg s OPT_FILTER_COMM arg =
     (if unat (num_comms s) \<ge> MAX_FILTERS_NUM then Parsed s
      else let i = unat (num_comms s);
               a = (strncpy (comm s ! i) arg (TASK_COMM_LEN - 1))[TASK_COMM_LEN - 1 := NUL] in
        Parsed (s\<lparr>comm := (comm s)[i := a], num_comms := num_comms s + 1\<rparr>))"
| "parse_arg s ARGP_KEY_ARG arg = Usage s"
| "parse_arg s ARGP_KEY_END arg = Parsed s"
| "parse_arg s Other_key arg = Failed ARGP_ERR_UNKNOWN s"

text \<open>
  \<open>argp_parse\<close> calls the parser once per option, in the order of the command line, and stops at
  the first call that does not return 0. How argp cuts the command line into options is its own
  code; the model starts from the resulting list of keys and arguments.
\<close>

fun argp_run :: "sa_opts \<Rightarrow> (opt_key \<times> string) list \<Rightarrow> parse_outcome" where
  "argp_run s [] = Parsed s"
| "argp_run s ((k, a) # ks) =
     (case parse_arg s k a of Parsed s' \<Rightarrow> argp_run s' ks | r \<Rightarrow> r)"

section \<open>Well-formed options\<close>

text \<open>
  What the rest of the program relies on: one backend is chosen, the arrays have the size they
  are declared with, the filter counters stay inside them, and every stored \<open>comm\<close> is terminated.
\<close>

definition comm_wf :: "char list \<Rightarrow> bool" where
  "comm_wf a \<longleftrightarrow> length a = TASK_COMM_LEN \<and> a ! (TASK_COMM_LEN - 1) = NUL"

definition opts_wf :: "sa_opts \<Rightarrow> bool" where
  "opts_wf s \<longleftrightarrow>
     system s \<noteq> app s \<and>
     length (ftrace_event s) = MAX_FILTERS_NUM \<and> length (atrace_cat s) = MAX_FILTERS_NUM \<and>
     length (function_graph s) = MAX_FILTERS_NUM \<and> length (function_filter s) = MAX_FILTERS_NUM \<and>
     unat (num_ftrace_event s) \<le> MAX_FILTERS_NUM \<and> unat (num_atrace_cat s) \<le> MAX_FILTERS_NUM \<and>
     unat (num_function_graph s) \<le> MAX_FILTERS_NUM \<and>
     unat (num_function_filter s) \<le> MAX_FILTERS_NUM \<and>
     unat (num_pids s) \<le> MAX_FILTERS_NUM \<and> unat (num_comms s) \<le> MAX_FILTERS_NUM \<and>
     length (pid s) = MAX_FILTERS_NUM \<and> length (comm s) = MAX_FILTERS_NUM \<and>
     (\<forall>a \<in> set (comm s). comm_wf a)"

lemma unat_filter_succ: "unat (n :: u32) < MAX_FILTERS_NUM \<Longrightarrow> unat (n + 1) = Suc (unat n)"
  by (simp add: MAX_FILTERS_NUM_def unat_word_ariths)

lemma comm_wf_stored:
  "length d = TASK_COMM_LEN \<Longrightarrow>
     comm_wf ((strncpy d arg (TASK_COMM_LEN - 1))[TASK_COMM_LEN - 1 := NUL])"
  by (simp add: comm_wf_def TASK_COMM_LEN_def strncpy_length)

lemma opts_wf_init: "opts_wf sa_opts_init"
  by (simp add: opts_wf_def sa_opts_init_def comm_wf_def TASK_COMM_LEN_def)

lemma parse_arg_wf: "opts_wf s \<Longrightarrow> parse_arg s k a = Parsed s' \<Longrightarrow> opts_wf s'"
proof (cases k)
  case OPT_FILTER_COMM
  assume wf: "opts_wf s" and eq: "parse_arg s k a = Parsed s'"
  show ?thesis
  proof (cases "unat (num_comms s) \<ge> MAX_FILTERS_NUM")
    case True
    with wf eq OPT_FILTER_COMM show ?thesis by simp
  next
    case False
    let ?i = "unat (num_comms s)"
    have "length (comm s ! ?i) = TASK_COMM_LEN"
      using wf False by (auto simp: opts_wf_def comm_wf_def)
    then have "comm_wf ((strncpy (comm s ! ?i) a (TASK_COMM_LEN - 1))[TASK_COMM_LEN - 1 := NUL])"
      by (rule comm_wf_stored)
    then have "\<forall>b \<in> set ((comm s)[?i := (strncpy (comm s ! ?i) a (TASK_COMM_LEN - 1))
        [TASK_COMM_LEN - 1 := NUL]]). comm_wf b"
      using wf by (auto simp: opts_wf_def dest: set_update_subset_insert [THEN subsetD])
    with wf eq OPT_FILTER_COMM False show ?thesis
      by (clarsimp simp: opts_wf_def Let_def unat_filter_succ Suc_le_eq)
  qed
qed (clarsimp simp: opts_wf_def unat_filter_succ Suc_le_eq Let_def split: if_splits)+

section \<open>Event selection\<close>

text \<open>
  The abstract view of the event options: a set of signals, each named by the option that
  collects it alone. \<open>flag\<close> reads a signal off the record, \<open>selects\<close> is what an option asks for.
\<close>

fun flag :: "sa_opts \<Rightarrow> opt_key \<Rightarrow> bool" where
  "flag s OPT_LOAD_AVG_CPU = load_avg_cpu s"
| "flag s OPT_RUNNABLE_AVG_CPU = runnable_avg_cpu s"
| "flag s OPT_UTIL_AVG_CPU = util_avg_cpu s"
| "flag s OPT_LOAD_AVG_TASK = load_avg_task s"
| "flag s OPT_RUNNABLE_AVG_TASK = runnable_avg_task s"
| "flag s OPT_UTIL_AVG_TASK = util_avg_task s"
| "flag s OPT_UTIL_AVG_RT = util_avg_rt s"
| "flag s OPT_UTIL_AVG_DL = util_avg_dl s"
| "flag s OPT_UTIL_AVG_IRQ = util_avg_irq s"
| "flag s OPT_LOAD_AVG_THERMAL = load_avg_thermal s"
| "flag s OPT_UTIL_EST_CPU = util_est_cpu s"
| "flag s OPT_UTIL_EST_TASK = util_est_task s"
| "flag s OPT_CPU_NR_RUNNING = cpu_nr_running s"
| "flag s OPT_CPU_IDLE = cpu_idle s"
| "flag s OPT_LOAD_BALANCE = load_balance s"
| "flag s OPT_IPI = ipi s"
| "flag s OPT_IRQ = irq s"
| "flag s _ = False"

fun selects :: "opt_key \<Rightarrow> opt_key set" where
  "selects OPT_LOAD_AVG = {OPT_LOAD_AVG_CPU, OPT_LOAD_AVG_TASK, OPT_LOAD_AVG_THERMAL}"
| "selects OPT_RUNNABLE_AVG = {OPT_RUNNABLE_AVG_CPU, OPT_RUNNABLE_AVG_TASK}"
| "selects OPT_UTIL_AVG =
     {OPT_UTIL_AVG_CPU, OPT_UTIL_AVG_TASK, OPT_UTIL_AVG_RT, OPT_UTIL_AVG_DL, OPT_UTIL_AVG_IRQ}"
| "selects OPT_UTIL_EST = {OPT_UTIL_EST_CPU, OPT_UTIL_EST_TASK}"
| "selects k =
     (if k \<in> {OPT_LOAD_AVG_CPU, OPT_RUNNABLE_AVG_CPU, OPT_UTIL_AVG_CPU, OPT_LOAD_AVG_TASK,
               OPT_RUNNABLE_AVG_TASK, OPT_UTIL_AVG_TASK, OPT_UTIL_AVG_RT, OPT_UTIL_AVG_DL,
               OPT_UTIL_AVG_IRQ, OPT_LOAD_AVG_THERMAL, OPT_UTIL_EST_CPU, OPT_UTIL_EST_TASK,
               OPT_CPU_NR_RUNNING, OPT_CPU_IDLE, OPT_LOAD_BALANCE, OPT_IPI, OPT_IRQ}
      then {k} else {})"

definition flags :: "sa_opts \<Rightarrow> opt_key set" where
  "flags s = {k. flag s k}"

lemma mem_flags [simp]: "k \<in> flags s \<longleftrightarrow> flag s k"
  by (simp add: flags_def)

lemma parse_arg_flags: "parse_arg s k a = Parsed s' \<Longrightarrow> flags s' = flags s \<union> selects k"
proof -
  assume eq: "parse_arg s k a = Parsed s'"
  have "flag s' f \<longleftrightarrow> flag s f \<or> f \<in> selects k" for f
    using eq by (cases k; clarsimp simp: Let_def split: if_splits; cases f; simp)
  then show ?thesis by (auto simp: flags_def)
qed

section \<open>Filters\<close>

text \<open>The filters the consumers look at: the first \<open>num_pids\<close> and \<open>num_comms\<close> entries.\<close>

definition pid_filter :: "sa_opts \<Rightarrow> s32 list" where
  "pid_filter s = take (unat (num_pids s)) (pid s)"

definition comm_filter :: "sa_opts \<Rightarrow> string list" where
  "comm_filter s = map c_str (take (unat (num_comms s)) (comm s))"

definition pid_args :: "(opt_key \<times> string) list \<Rightarrow> s32 list" where
  "pid_args ks = map (\<lambda>(k, a). word_of_int (strto_value (strtol a 0))) (filter (\<lambda>(k, a). k = OPT_FILTER_PID) ks)"

definition comm_args :: "(opt_key \<times> string) list \<Rightarrow> string list" where
  "comm_args ks = map (\<lambda>(k, a). take (TASK_COMM_LEN - 1) a) (filter (\<lambda>(k, a). k = OPT_FILTER_COMM) ks)"

lemma take_store: "n < length xs \<Longrightarrow> take (Suc n) (xs[n := x]) = take n xs @ [x]"
  by (simp add: take_Suc_conv_app_nth)

lemma c_str_stored:
  assumes "NUL \<notin> set a" "length d = TASK_COMM_LEN"
  shows "c_str ((strncpy d a (TASK_COMM_LEN - 1))[TASK_COMM_LEN - 1 := NUL]) = take (TASK_COMM_LEN - 1) a"
proof -
  let ?n = "TASK_COMM_LEN - 1"
  let ?p = "take ?n a @ replicate (?n - length a) NUL"
  have len: "length ?p = ?n" by simp
  have drop: "drop ?n d = [d ! ?n]"
    using assms(2) by (simp add: TASK_COMM_LEN_def Cons_nth_drop_Suc [of 15 d, symmetric])
  have "(strncpy d a ?n)[?n := NUL] = (?p @ [d ! ?n])[length ?p := NUL]"
    by (simp only: strncpy_eq drop len append_assoc)
  also have "\<dots> = ?p @ [NUL]" by (simp only: list_update_length)
  also have "\<dots> = take ?n a @ NUL # replicate (?n - length a) NUL"
    by (simp add: replicate_append_same)
  finally have "(strncpy d a ?n)[?n := NUL] = take ?n a @ NUL # replicate (?n - length a) NUL" .
  moreover have "NUL \<notin> set (take ?n a)" using assms(1) by (auto dest: in_set_takeD)
  ultimately show ?thesis by (simp add: c_str_terminated)
qed

lemma parse_arg_pid_filter:
  assumes "opts_wf s" "parse_arg s k a = Parsed s'"
  shows "pid_filter s' = take MAX_FILTERS_NUM (pid_filter s @ pid_args [(k, a)])"
proof (cases "k = OPT_FILTER_PID")
  case True
  then show ?thesis using assms
    by (clarsimp simp: opts_wf_def pid_filter_def pid_args_def Let_def unat_filter_succ take_store
      min_def split: if_splits)
next
  case False
  then have "pid s' = pid s \<and> num_pids s' = num_pids s"
    using assms(2) by (cases k) (clarsimp simp: Let_def split: if_splits)+
  then show ?thesis using False assms(1)
    by (simp add: pid_filter_def pid_args_def opts_wf_def)
qed

lemma parse_arg_comm_filter:
  assumes "opts_wf s" "parse_arg s k a = Parsed s'" "NUL \<notin> set a"
  shows "comm_filter s' = take MAX_FILTERS_NUM (comm_filter s @ comm_args [(k, a)])"
proof (cases "k = OPT_FILTER_COMM")
  case True
  show ?thesis
  proof (cases "unat (num_comms s) \<ge> MAX_FILTERS_NUM")
    case full: True
    then show ?thesis using True assms by (simp add: comm_filter_def opts_wf_def)
  next
    case False
    then have "length (comm s ! unat (num_comms s)) = TASK_COMM_LEN"
      using assms(1) by (auto simp: opts_wf_def comm_wf_def)
    from c_str_stored [OF assms(3) this] show ?thesis
      using True False assms(1,2)
      by (clarsimp simp: opts_wf_def comm_filter_def comm_args_def Let_def unat_filter_succ
        take_store min_def)
  qed
next
  case False
  then have "comm s' = comm s \<and> num_comms s' = num_comms s"
    using assms(2) by (cases k) (clarsimp simp: Let_def split: if_splits)+
  then show ?thesis using False assms(1)
    by (simp add: comm_filter_def comm_args_def opts_wf_def)
qed

lemma take_append_take: "take n (take n xs @ ys) = take n (xs @ ys)"
  by (cases "n \<le> length xs") simp_all

section \<open>Properties of the whole command line\<close>

lemma argp_wf: "opts_wf s \<Longrightarrow> argp_run s ks = Parsed s' \<Longrightarrow> opts_wf s'"
proof (induction s ks rule: argp_run.induct)
  case (2 s k a ks)
  then show ?case by (auto split: parse_outcome.splits dest: parse_arg_wf)
qed simp

lemma argp_flags:
  "argp_run s ks = Parsed s' \<Longrightarrow> flags s' = flags s \<union> (\<Union>(k, a) \<in> set ks. selects k)"
proof (induction s ks rule: argp_run.induct)
  case (2 s k a ks)
  from "2.prems" obtain t where t: "parse_arg s k a = Parsed t" "argp_run t ks = Parsed s'"
    by (auto split: parse_outcome.splits)
  then have "flags s' = flags t \<union> (\<Union>(k, a) \<in> set ks. selects k)" by (rule "2.IH")
  then show ?case using parse_arg_flags [OF t(1)] by auto
qed simp

lemma argp_filters:
  assumes "opts_wf s" "argp_run s ks = Parsed s'" "\<forall>(k, a) \<in> set ks. NUL \<notin> set a"
  shows "pid_filter s' = take MAX_FILTERS_NUM (pid_filter s @ pid_args ks)
    \<and> comm_filter s' = take MAX_FILTERS_NUM (comm_filter s @ comm_args ks)"
  using assms
proof (induction s ks rule: argp_run.induct)
  case (1 s)
  then show ?case
    by (auto simp: opts_wf_def pid_filter_def comm_filter_def pid_args_def comm_args_def)
next
  case (2 s k a ks)
  from "2.prems" obtain t where t: "parse_arg s k a = Parsed t" "argp_run t ks = Parsed s'"
    by (auto split: parse_outcome.splits)
  have "pid_filter t = take MAX_FILTERS_NUM (pid_filter s @ pid_args [(k, a)])"
    "comm_filter t = take MAX_FILTERS_NUM (comm_filter s @ comm_args [(k, a)])"
    using "2.prems" t(1) parse_arg_pid_filter parse_arg_comm_filter by auto
  moreover have "pid_args ((k, a) # ks) = pid_args [(k, a)] @ pid_args ks"
    "comm_args ((k, a) # ks) = comm_args [(k, a)] @ comm_args ks"
    by (simp_all add: pid_args_def comm_args_def)
  ultimately show ?case
    using "2.IH" [OF t(1) parse_arg_wf [OF "2.prems"(1) t(1)] t(2)] "2.prems"(3)
    by (simp only: take_append_take append_assoc) simp
qed

lemma flags_init: "flags sa_opts_init = {}"
proof -
  have "\<not> flag sa_opts_init k" for k by (cases k) (simp_all add: sa_opts_init_def)
  then show ?thesis by (simp add: flags_def)
qed

text \<open>
  Claim C25: argp never leaves ill-formed options behind: whatever list of options is parsed
  successfully, exactly one backend is selected, no filter counter passes the size of its array
  and every stored \<open>comm\<close> is a terminated string of 15 characters at most.
\<close>

theorem argp_run_wf:
  assumes "argp_run sa_opts_init ks = Parsed s"
  shows "opts_wf s"
  using opts_wf_init assms by (rule argp_wf)

theorem argp_run_wf_witness:
  "\<exists>s. argp_run sa_opts_init [(OPT_APP, []), (OPT_FILTER_COMM, ''surfaceflinger-main'')] = Parsed s
    \<and> opts_wf s"
proof -
  obtain s where "argp_run sa_opts_init [(OPT_APP, []), (OPT_FILTER_COMM, ''surfaceflinger-main'')] = Parsed s"
    by (simp add: Let_def sa_opts_init_def MAX_FILTERS_NUM_def)
  with argp_run_wf [OF this] show ?thesis by blast
qed

text \<open>
  Claim C24: the signals a command line collects are exactly those some option on it asks for,
  \<open>--load_avg\<close>, \<open>--runnable_avg\<close>, \<open>--util_avg\<close> and \<open>--util_est\<close> standing for their groups;
  order and repetition do not matter.
\<close>

theorem argp_run_flags:
  assumes "argp_run sa_opts_init ks = Parsed s"
  shows "flags s = (\<Union>(k, a) \<in> set ks. selects k)"
  using argp_flags [OF assms] flags_init by simp

theorem argp_run_flags_witness:
  "\<exists>s. argp_run sa_opts_init [(OPT_UTIL_EST, []), (OPT_IPI, [])] = Parsed s
    \<and> flags s = {OPT_UTIL_EST_CPU, OPT_UTIL_EST_TASK, OPT_IPI}"
proof -
  obtain s where "argp_run sa_opts_init [(OPT_UTIL_EST, []), (OPT_IPI, [])] = Parsed s" by simp
  with argp_run_flags [OF this] show ?thesis by auto
qed

lemma sint_s32_bounds: "LONG_MIN \<le> sint (p :: s32) \<and> sint p \<le> LONG_MAX"
  using sint_range_size [of p] by (auto simp: LONG_MIN_def LONG_MAX_def word_size)

text \<open>\<open>--pid\<close> reads back the decimal form of every \<open>pid_t\<close>: while there is room the
  value lands in the next slot of the filter.\<close>

lemma parse_pid_roundtrip:
  assumes "unat (num_pids s) < MAX_FILTERS_NUM"
  shows "parse_arg s OPT_FILTER_PID (fmt_d p) =
    Parsed (s\<lparr>pid := (pid s)[unat (num_pids s) := p], num_pids := num_pids s + 1\<rparr>)"
  using assms sint_s32_bounds [of p] by (simp add: fmt_d_def strtol_dec_int Let_def)

lemma parse_pid_roundtrip_instance:
  "parse_arg sa_opts_init OPT_FILTER_PID (fmt_d 1234) =
    Parsed (sa_opts_init\<lparr>pid := (pid sa_opts_init)[0 := 1234], num_pids := 1\<rparr>)"
  using parse_pid_roundtrip [of sa_opts_init 1234]
  by (simp add: sa_opts_init_def MAX_FILTERS_NUM_def del: parse_arg.simps)

text \<open>\<open>--max_size\<close> turns a number of MiB into bytes without wrapping for every size below
  8 EiB, and only then.\<close>

lemma parse_max_size_bytes:
  assumes "0 \<le> n" "n \<le> LONG_MAX"
  shows "\<exists>s'. parse_arg s OPT_MAX_SIZE (dec_int n) = Parsed s'
    \<and> (sint (max_size s') = n * 2 ^ 20 \<longleftrightarrow> n < 2 ^ 43)"
proof -
  let ?w = "word_of_int n * 1024 * 1024 :: s64"
  have "strtol (dec_int n) 0 = \<lparr>strto_value = n, strto_no_digits = False, strto_erange = False\<rparr>"
    using assms by (intro strtol_dec_int) (simp_all add: LONG_MIN_def)
  then have p: "parse_arg s OPT_MAX_SIZE (dec_int n) = Parsed (s\<lparr>max_size := ?w\<rparr>)"
    by (simp add: Let_def)
  have w: "?w = word_of_int (n * 2 ^ 20)"
    by (simp add: mult.assoc)
  have "sint ?w = n * 2 ^ 20 \<longleftrightarrow> n * 2 ^ 20 < 2 ^ 63"
  proof
    assume "sint ?w = n * 2 ^ 20"
    moreover have "sint ?w < 2 ^ 63" using sint_lt [of ?w] by simp
    ultimately show "n * 2 ^ 20 < 2 ^ 63" by simp
  next
    assume "n * 2 ^ 20 < 2 ^ 63"
    then show "sint ?w = n * 2 ^ 20"
      unfolding w using assms(1) by (intro sint_word_of_int_64) simp_all
  qed
  then have "sint ?w = n * 2 ^ 20 \<longleftrightarrow> n < 2 ^ 43" by simp
  with p show ?thesis by (intro exI [of _ "s\<lparr>max_size := ?w\<rparr>"]) simp
qed

lemma parse_max_size_bytes_instance:
  "\<exists>s. parse_arg sa_opts_init OPT_MAX_SIZE (dec_int 250) = Parsed s \<and> sint (max_size s) = 250 * 2 ^ 20"
  using parse_max_size_bytes [of 250 sa_opts_init] by (auto simp: LONG_MAX_def)

lemma argp_run_ftrace:
  "opts_wf s \<Longrightarrow> unat (num_ftrace_event s) + length as \<le> MAX_FILTERS_NUM \<Longrightarrow>
     \<exists>s'. argp_run s (map (Pair OPT_FTRACE_EVENT) as) = Parsed s' \<and> opts_wf s'
       \<and> unat (num_ftrace_event s') = unat (num_ftrace_event s) + length as
       \<and> take (unat (num_ftrace_event s')) (ftrace_event s')
           = take (unat (num_ftrace_event s)) (ftrace_event s) @ map Some as"
proof (induction as arbitrary: s)
  case (Cons a as)
  let ?n = "unat (num_ftrace_event s)"
  let ?t = "s\<lparr>ftrace_event := (ftrace_event s)[?n := Some a], num_ftrace_event := num_ftrace_event s + 1\<rparr>"
  have n: "?n < MAX_FILTERS_NUM" using Cons.prems(2) by simp
  then have p: "parse_arg s OPT_FTRACE_EVENT a = Parsed ?t" by simp
  have wf: "opts_wf ?t" using Cons.prems(1) p by (rule parse_arg_wf)
  have "take (unat (num_ftrace_event ?t)) (ftrace_event ?t) = take ?n (ftrace_event s) @ [Some a]"
    using n Cons.prems(1) by (simp add: unat_filter_succ take_store opts_wf_def)
  with Cons.IH [OF wf] Cons.prems(2) show ?case
    by (auto simp: unat_filter_succ [OF n] n)
qed simp

lemma argp_run_append:
  "argp_run s (xs @ ys) = (case argp_run s xs of Parsed s' \<Rightarrow> argp_run s' ys | r \<Rightarrow> r)"
  by (induction s xs rule: argp_run.induct) (auto split: parse_outcome.splits)

text \<open>Claim C38: \<open>--ftrace_event\<close> has no bound check: up to 128 of them are recorded in order, and the
  129th is stored past the end of the array.\<close>

theorem ftrace_event_unchecked:
  "(length as \<le> MAX_FILTERS_NUM \<and>
      (\<exists>s'. argp_run sa_opts_init (map (Pair OPT_FTRACE_EVENT) as) = Parsed s' \<and>
         take (unat (num_ftrace_event s')) (ftrace_event s') = map Some as))
   \<or> (MAX_FILTERS_NUM < length as \<and>
      argp_run sa_opts_init (map (Pair OPT_FTRACE_EVENT) as) = Bad_store ''ftrace_event'')"
proof (cases "length as \<le> MAX_FILTERS_NUM")
  case True
  then show ?thesis
    using argp_run_ftrace [OF opts_wf_init, of as] by (auto simp: sa_opts_init_def)
next
  case False
  let ?xs = "take MAX_FILTERS_NUM as" and ?ys = "drop MAX_FILTERS_NUM as"
  obtain s' where s': "argp_run sa_opts_init (map (Pair OPT_FTRACE_EVENT) ?xs) = Parsed s'"
    "unat (num_ftrace_event s') = MAX_FILTERS_NUM"
    using argp_run_ftrace [OF opts_wf_init, of ?xs] False by (auto simp: sa_opts_init_def)
  obtain y ys where ys: "?ys = y # ys" using False by (cases ?ys) auto
  have "argp_run s' (map (Pair OPT_FTRACE_EVENT) ?ys) = Bad_store ''ftrace_event''"
    using s'(2) by (simp add: ys)
  then have "argp_run sa_opts_init (map (Pair OPT_FTRACE_EVENT) (?xs @ ?ys)) = Bad_store ''ftrace_event''"
    using s'(1) by (simp only: map_append argp_run_append) simp
  then show ?thesis using False by simp
qed

text \<open>The options table lists every key of the enum exactly once, in the enum's order, under
  names that are all different, and only the keys whose handler reads \<open>arg\<close> take an argument.\<close>

lemma options_table:
  "map (fst \<circ> snd) options = sa_opts_flags \<and> distinct (map fst options) \<and> distinct sa_opts_flags
   \<and> (\<forall>(n, k, has_arg) \<in> set options. has_arg \<or> (\<forall>s a b. parse_arg s k a = parse_arg s k b))"
proof -
  have "map (fst \<circ> snd) options = sa_opts_flags" "distinct (map fst options)" "distinct sa_opts_flags"
    by (simp_all add: options_def sa_opts_flags_def)
  moreover have "\<forall>(n, k, has_arg) \<in> set options. has_arg \<or> (\<forall>s a b. parse_arg s k a = parse_arg s k b)"
    by (simp add: options_def)
  ultimately show ?thesis by blast
qed

lemma options_table_instance:
  "(''pid'', OPT_FILTER_PID, True) \<in> set options \<and> ''pid'' \<noteq> ''comm''"
  using options_table by (simp add: options_def)

end
