(* ===== verification/SA_Events.thy ===== *)
theory SA_Events imports SA_Options begin

text \<open>
  Component: the event records (\<open>sched-analyzer-events.h\<close>), the data the BPF programs and the
  user space threads share. One record per \<open>struct\<close>, with a short prefix in front of the source's
  field names; \<open>copy_str\<close> and \<open>copy_softirq\<close> are the only code of the header.
\<close>

section \<open>Records\<close>

datatype pelt_type = PELT_TYPE_CFS | PELT_TYPE_RT | PELT_TYPE_DL | PELT_TYPE_IRQ | PELT_TYPE_THERMAL
  | Other_pelt_type u32   \<comment> \<open>a value that is no enumerator, from memory the code did not write\<close>

fun pelt_code :: "pelt_type \<Rightarrow> u32" where
  "pelt_code PELT_TYPE_CFS = 0"
| "pelt_code PELT_TYPE_RT = 1"
| "pelt_code PELT_TYPE_DL = 2"
| "pelt_code PELT_TYPE_IRQ = 3"
| "pelt_code PELT_TYPE_THERMAL = 4"
| "pelt_code (Other_pelt_type c) = c"

record rq_pelt_event =
  rp_ts :: u64
  rp_cpu :: s32
  rp_type :: pelt_type
  rp_load_avg :: u64
  rp_runnable_avg :: u64
  rp_util_avg :: u64
  rp_util_est_enqueued :: u64
  rp_util_est_ewma :: u64
  rp_uclamp_min :: u64
  rp_uclamp_max :: u64

record task_pelt_event =
  tp_ts :: u64
  tp_cpu :: s32
  tp_pid :: s32
  tp_comm :: string
  tp_load_avg :: u64
  tp_runnable_avg :: u64
  tp_util_avg :: u64
  tp_util_est_enqueued :: u64
  tp_util_est_ewma :: u64
  tp_uclamp_min :: u64
  tp_uclamp_max :: u64
  tp_running :: s32

record rq_nr_running_event =
  nr_ts :: u64
  nr_cpu :: s32
  nr_nr_running :: s32
  nr_change :: s32

record sched_switch_event =
  ss_ts :: u64
  ss_cpu :: s32
  ss_pid :: s32
  ss_comm :: string
  ss_running :: s32

record freq_idle_event =
  fi_ts :: u64
  fi_cpu :: s32
  fi_frequency :: u32
  fi_idle_state :: s32
  fi_idle_miss :: s32

record softirq_event =
  si_ts :: u64
  si_cpu :: s32
  si_softirq :: "char list"
  si_duration :: u64

datatype lb_phases = LB_NOHZ_IDLE_BALANCE | LB_RUN_REBALANCE_DOMAINS | LB_REBALANCE_DOMAINS
  | LB_BALANCE_FAIR | LB_PICK_NEXT_TASK_FAIR | LB_NEWIDLE_BALANCE | LB_LOAD_BALANCE

text \<open>The value of the enumerator.\<close>

fun lb_code :: "lb_phases \<Rightarrow> s32" where
  "lb_code LB_NOHZ_IDLE_BALANCE = 0"
| "lb_code LB_RUN_REBALANCE_DOMAINS = 1"
| "lb_code LB_REBALANCE_DOMAINS = 2"
| "lb_code LB_BALANCE_FAIR = 3"
| "lb_code LB_PICK_NEXT_TASK_FAIR = 4"
| "lb_code LB_NEWIDLE_BALANCE = 5"
| "lb_code LB_LOAD_BALANCE = 6"

definition MAX_SD_LEVELS :: nat where "MAX_SD_LEVELS = 10"

text \<open>
  \<open>struct lb_sd_stats\<close>. The two arrays are adjacent and both hold 32 bit values, so the record
  keeps them as one block of words: \<open>level[i]\<close> is word \<open>i\<close>, \<open>balance_interval[i]\<close> is word
  \<open>MAX_SD_LEVELS + i\<close>, and the last word is the padding at the end of the enclosing
  \<open>struct lb_event\<close> (whose fields end at byte 124 of 128), which a store one past the end of
  \<open>balance_interval\<close> hits.
\<close>

record lb_sd_stats =
  sd_cpu :: s32
  sd_words :: "u32 list"

definition stat_level :: "lb_sd_stats \<Rightarrow> nat \<Rightarrow> s32" where
  "stat_level st i = sd_words st ! i"

definition stat_balance_interval :: "lb_sd_stats \<Rightarrow> nat \<Rightarrow> u32" where
  "stat_balance_interval st i = sd_words st ! (MAX_SD_LEVELS + i)"

definition set_stat_level :: "nat \<Rightarrow> s32 \<Rightarrow> lb_sd_stats \<Rightarrow> lb_sd_stats" where
  "set_stat_level i v st = st\<lparr>sd_words := (sd_words st)[i := v]\<rparr>"

definition set_stat_balance_interval :: "nat \<Rightarrow> u32 \<Rightarrow> lb_sd_stats \<Rightarrow> lb_sd_stats" where
  "set_stat_balance_interval i v st = st\<lparr>sd_words := (sd_words st)[MAX_SD_LEVELS + i := v]\<rparr>"

definition sd_stats_wf :: "lb_sd_stats \<Rightarrow> bool" where
  "sd_stats_wf st \<longleftrightarrow> length (sd_words st) = 2 * MAX_SD_LEVELS + 1"

record lb_event =
  lb_ts :: u64
  lb_this_cpu :: s32
  lb_lb_cpu :: s32
  lb_phase :: lb_phases
  lb_entry :: bool
  lb_overloaded :: u32
  lb_overutilized :: u32
  lb_misfit_task_load :: u64
  lb_sd_stats :: lb_sd_stats

record ipi_event =
  ipi_ts :: u64
  ipi_from_cpu :: s32
  ipi_target_cpu :: s32
  ipi_callsite :: ptr
  ipi_callback :: ptr

section \<open>\<open>copy_str\<close> and \<open>copy_softirq\<close>\<close>

text \<open>\<open>for (i = 0; i < len; i++) dst[i] = src[i]\<close>\<close>

fun copy_str_from :: "nat \<Rightarrow> nat \<Rightarrow> char list \<Rightarrow> char list \<Rightarrow> char list" where
  "copy_str_from i 0 dst src = dst"
| "copy_str_from i (Suc n) dst src = copy_str_from (Suc i) n (dst[i := src ! i]) src"

definition copy_str :: "char list \<Rightarrow> char list \<Rightarrow> nat \<Rightarrow> char list" where
  "copy_str dst src len = copy_str_from 0 len dst src"

text \<open>The initialised char arrays \<open>hi_softirq\<close> to \<open>unknown_softirq\<close>.\<close>

definition softirq_array :: "string \<Rightarrow> char list" where
  "softirq_array s = s @ replicate (TASK_COMM_LEN - length s) NUL"

definition hi_softirq where "hi_softirq = softirq_array ''hi''"
definition timer_softirq where "timer_softirq = softirq_array ''timer''"
definition net_tx_softirq where "net_tx_softirq = softirq_array ''net_tx''"
definition net_rx_softirq where "net_rx_softirq = softirq_array ''net_rx''"
definition block_softirq where "block_softirq = softirq_array ''block''"
definition irq_poll_softirq where "irq_poll_softirq = softirq_array ''irq_poll''"
definition tasklet_softirq where "tasklet_softirq = softirq_array ''tasklet''"
definition sched_softirq where "sched_softirq = softirq_array ''sched''"
definition hrtimer_softirq where "hrtimer_softirq = softirq_array ''hrtimer''"
definition rcu_softirq where "rcu_softirq = softirq_array ''rcu''"
definition unknown_softirq where "unknown_softirq = softirq_array ''unknown''"

lemmas softirq_arrays = hi_softirq_def timer_softirq_def net_tx_softirq_def net_rx_softirq_def
  block_softirq_def irq_poll_softirq_def tasklet_softirq_def sched_softirq_def
  hrtimer_softirq_def rcu_softirq_def unknown_softirq_def

text \<open>The vector numbers of \<open>vmlinux.h\<close>: \<open>HI_SOFTIRQ = 0\<close> to \<open>RCU_SOFTIRQ = 9\<close>.\<close>

definition copy_softirq :: "char list \<Rightarrow> u32 \<Rightarrow> char list" where
  "copy_softirq dst vec_nr =
     (if vec_nr = 0 then copy_str dst hi_softirq TASK_COMM_LEN
      else if vec_nr = 1 then copy_str dst timer_softirq TASK_COMM_LEN
      else if vec_nr = 2 then copy_str dst net_tx_softirq TASK_COMM_LEN
      else if vec_nr = 3 then copy_str dst net_rx_softirq TASK_COMM_LEN
      else if vec_nr = 4 then copy_str dst block_softirq TASK_COMM_LEN
      else if vec_nr = 5 then copy_str dst irq_poll_softirq TASK_COMM_LEN
      else if vec_nr = 6 then copy_str dst tasklet_softirq TASK_COMM_LEN
      else if vec_nr = 7 then copy_str dst sched_softirq TASK_COMM_LEN
      else if vec_nr = 8 then copy_str dst hrtimer_softirq TASK_COMM_LEN
      else if vec_nr = 9 then copy_str dst rcu_softirq TASK_COMM_LEN
      else copy_str dst unknown_softirq TASK_COMM_LEN)"

lemma copy_str_from_eq:
  "i + n \<le> length dst \<Longrightarrow> i + n \<le> length src \<Longrightarrow>
     copy_str_from i n dst src = take i dst @ take n (drop i src) @ drop (i + n) dst"
proof (induction n arbitrary: i dst)
  case (Suc n)
  have "drop i src = src ! i # drop (Suc i) src"
    using Suc.prems by (simp add: Cons_nth_drop_Suc)
  then show ?case
    using Suc by (simp add: take_Suc_conv_app_nth)
qed simp

lemma copy_str_eq: "len \<le> length dst \<Longrightarrow> len \<le> length src \<Longrightarrow> copy_str dst src len = take len src @ drop len dst"
  using copy_str_from_eq [of 0 len dst src] by (simp add: copy_str_def)

lemma copy_str_array:
  "length dst = TASK_COMM_LEN \<Longrightarrow> length s \<le> 16 \<Longrightarrow>
     copy_str dst (softirq_array s) TASK_COMM_LEN = softirq_array s"
  by (simp add: copy_str_eq softirq_array_def TASK_COMM_LEN_def)

lemma c_str_softirq_array:
  "length s < TASK_COMM_LEN \<Longrightarrow> NUL \<notin> set s \<Longrightarrow> c_str (softirq_array s) = s"
  by (cases "TASK_COMM_LEN - length s") (auto simp: softirq_array_def c_str_terminated)

text \<open>The name of a softirq vector, as the kernel numbers them.\<close>

definition softirq_name :: "nat \<Rightarrow> string" where
  "softirq_name v =
     (if v < 10 then [''hi'', ''timer'', ''net_tx'', ''net_rx'', ''block'', ''irq_poll'',
        ''tasklet'', ''sched'', ''hrtimer'', ''rcu''] ! v else ''unknown'')"

lemma copy_softirq_array:
  assumes "length dst = TASK_COMM_LEN"
  shows "copy_softirq dst v = softirq_array (softirq_name (unat v))"
proof -
  have c: "v = 0 \<or> v = 1 \<or> v = 2 \<or> v = 3 \<or> v = 4 \<or> v = 5 \<or> v = 6 \<or> v = 7 \<or> v = 8 \<or> v = 9"
    if "unat v < 10"
    using less_10_cases [OF that] by (auto simp: word_unat_eq_iff)
  show ?thesis
  proof (cases "unat v < 10")
    case True
    from c [OF this] show ?thesis using assms
      by (elim disjE) (simp_all add: copy_softirq_def softirq_name_def softirq_arrays
        copy_str_array)
  next
    case False
    then have "v \<noteq> 0" "v \<noteq> 1" "v \<noteq> 2" "v \<noteq> 3" "v \<noteq> 4" "v \<noteq> 5" "v \<noteq> 6" "v \<noteq> 7" "v \<noteq> 8" "v \<noteq> 9"
      by auto
    then show ?thesis using False assms
      by (simp add: copy_softirq_def softirq_name_def unknown_softirq_def copy_str_array)
  qed
qed

end
