(* ===== verification/SA_Kernel.thy ===== *)
theory SA_Kernel imports SA_Events begin

text \<open>
  The kernel as the BPF programs see it. The structures are views of those of \<open>vmlinux.h\<close>, with the
  fields the programs read; the running kernel (its version, which fields its types have, where
  they are, and what its memory holds) is a parameter of the model, the record \<^emph>\<open>kernel\<close>. A
  pointer is an address and a read through it applies one of the memory functions, so
  \<open>container_of\<close> and \<open>&rq->cfs\<close> are address arithmetic, as in the code. One run of a program
  sees one snapshot of the memory.
\<close>

section \<open>Kernel structures\<close>

record sched_avg =
  avg_last_update_time :: u64
  avg_load_sum :: u64
  avg_runnable_sum :: u64
  avg_util_sum :: u32
  avg_period_contrib :: u32
  avg_load_avg :: u64
  avg_runnable_avg :: u64
  avg_util_avg :: u64
  avg_util_est :: u32

text \<open>The layout before Linux 6.8, declared by the program itself.\<close>

record util_est =
  ue_enqueued :: u32
  ue_ewma :: u32

record sched_avg__pre68 =
  pre68_last_update_time :: u64
  pre68_load_sum :: u64
  pre68_runnable_sum :: u64
  pre68_util_sum :: u32
  pre68_period_contrib :: u32
  pre68_load_avg :: u64
  pre68_runnable_avg :: u64
  pre68_util_avg :: u64
  pre68_util_est :: util_est

datatype uclamp_id = UCLAMP_MIN | UCLAMP_MAX

text \<open>\<open>value\<close> is an 11 bit field, \<open>active\<close> a single bit.\<close>

record uclamp_se =
  uc_value :: "11 word"
  uc_bucket_id :: "3 word"
  uc_active :: bool
  uc_user_defined :: bool

record sched_entity =
  se_my_q :: ptr
  se_avg :: sched_avg

record task_struct =
  p_pid :: s32
  p_comm :: string      \<comment> \<open>what \<open>BPF_CORE_READ_STR_INTO\<close> delivers: cut and terminated\<close>
  p_wake_cpu :: s32
  p_uclamp_req :: "uclamp_id \<Rightarrow> uclamp_se"
  p_uclamp :: "uclamp_id \<Rightarrow> uclamp_se"

record task_struct__old =
  old_cpu :: s32

record cfs_rq =
  cfs_idle_h_nr_running :: u32
  cfs_avg :: sched_avg
  cfs_rq_rq :: ptr

record rq =
  rq_nr_running :: u32
  rq_uclamp :: "uclamp_id \<Rightarrow> u32"
  rq_rd :: ptr
  rq_sd :: ptr
  rq_misfit_task_load :: u64
  rq_cpu :: s32
  rq_avg_rt :: sched_avg
  rq_avg_dl :: sched_avg
  rq_avg_irq :: sched_avg
  rq_avg_thermal :: sched_avg

record root_domain =
  rd_overload :: s32
  rd_overutilized :: s32

record sched_domain =
  dom_parent :: ptr
  dom_busy_factor :: u32
  dom_level :: s32
  dom_balance_interval :: u32

text \<open>The second argument of \<open>rebalance_domains\<close>; only the comparison with \<open>CPU_IDLE\<close> matters.\<close>

datatype cpu_idle_type = CPU_IDLE | CPU_NOT_IDLE | CPU_NEWLY_IDLE | CPU_MAX_IDLE_TYPES

section \<open>The running kernel\<close>

text \<open>The fields the programs ask \<open>bpf_core_field_exists\<close> about.\<close>

datatype core_field =
    SE_my_q | CFS_rq_rq | P_wake_cpu
  | P_uclamp_req uclamp_id | P_uclamp uclamp_id | RQ_uclamp uclamp_id
  | RQ_avg_rt | RQ_avg_dl | RQ_avg_irq | RQ_avg_thermal

record kernel =
  LINUX_KERNEL_VERSION :: s32
  field_exists :: "core_field \<Rightarrow> bool"
  off_task_se :: ptr      \<comment> \<open>\<open>offsetof(struct task_struct, se)\<close>\<close>
  off_rq_cfs :: ptr       \<comment> \<open>\<open>offsetof(struct rq, cfs)\<close>\<close>
  off_se_avg :: ptr       \<comment> \<open>\<open>offsetof(struct sched_entity, avg)\<close>\<close>
  off_cfs_avg :: ptr      \<comment> \<open>\<open>offsetof(struct cfs_rq, avg)\<close>\<close>
  mem_task :: "ptr \<Rightarrow> task_struct"
  mem_task_old :: "ptr \<Rightarrow> task_struct__old"
  mem_se :: "ptr \<Rightarrow> sched_entity"
  mem_cfs :: "ptr \<Rightarrow> cfs_rq"
  mem_rq :: "ptr \<Rightarrow> rq"
  mem_rd :: "ptr \<Rightarrow> root_domain"
  mem_sd :: "ptr \<Rightarrow> sched_domain"
  mem_avg_pre68 :: "ptr \<Rightarrow> sched_avg__pre68"

text \<open>The macro of libbpf: \<open>(a << 16) + (b << 8) + (c > 255 ? 255 : c)\<close>.\<close>

definition KERNEL_VERSION :: "nat \<Rightarrow> nat \<Rightarrow> nat \<Rightarrow> s32" where
  "KERNEL_VERSION a b c = of_nat (a * 2 ^ 16 + b * 2 ^ 8 + min c 255)"

definition pre68 :: "kernel \<Rightarrow> bool" where
  "pre68 k \<longleftrightarrow> LINUX_KERNEL_VERSION k <s KERNEL_VERSION 6 8 0"

section \<open>Helpers of the BPF programs\<close>

definition entity_is_task :: "kernel \<Rightarrow> ptr \<Rightarrow> bool" where
  "entity_is_task k se =
     (if field_exists k SE_my_q then se_my_q (mem_se k se) = 0 else True)"

definition rq_of :: "kernel \<Rightarrow> ptr \<Rightarrow> ptr" where
  "rq_of k cfs = (if field_exists k CFS_rq_rq then cfs_rq_rq (mem_cfs k cfs) else cfs - off_rq_cfs k)"

definition cfs_rq_is_root :: "kernel \<Rightarrow> ptr \<Rightarrow> bool" where
  "cfs_rq_is_root k cfs = (let rq = rq_of k cfs in if rq \<noteq> 0 then rq + off_rq_cfs k = cfs else False)"

text \<open>\<open>container_of(se, struct task_struct, se)\<close>, and the two ways to a task's CPU.\<close>

definition task_of :: "kernel \<Rightarrow> ptr \<Rightarrow> ptr" where
  "task_of k se = se - off_task_se k"

definition task_cpu :: "kernel \<Rightarrow> ptr \<Rightarrow> s32" where
  "task_cpu k p =
     (if field_exists k P_wake_cpu then p_wake_cpu (mem_task k p) else old_cpu (mem_task_old k p))"

definition UTIL_AVG_UNCHANGED :: u32 where "UTIL_AVG_UNCHANGED = 0x80000000"

text \<open>\<open>util_est_enqueued & ~UTIL_AVG_UNCHANGED\<close>: the complement is taken in 32 bits and widened.\<close>

definition drop_unchanged :: "u64 \<Rightarrow> u64" where
  "drop_unchanged v = v AND ucast (NOT UTIL_AVG_UNCHANGED)"

lemma drop_unchanged_mask: "drop_unchanged v = take_bit 31 v"
proof -
  have "ucast (NOT UTIL_AVG_UNCHANGED) = (mask 31 :: u64)"
    by (simp add: UTIL_AVG_UNCHANGED_def mask_eq_exp_minus_1)
  then show ?thesis by (simp add: drop_unchanged_def take_bit_eq_mask)
qed

lemma drop_unchanged_less: "unat (drop_unchanged v) < 2 ^ 31"
  using take_bit_nat_less_exp [of 31 "unat v"]
  by (simp add: drop_unchanged_mask unsigned_take_bit_eq)

lemma drop_unchanged_neq [simp]: "drop_unchanged v \<noteq> - 1"
  using drop_unchanged_less [of v] by (intro small_neq_minus_one) simp

lemma drop_unchanged_small: "unat v < 2 ^ 31 \<Longrightarrow> drop_unchanged v = v"
  by (simp add: drop_unchanged_mask word_unat_eq_iff unsigned_take_bit_eq take_bit_nat_eq_self)

text \<open>
  Where the kernel has no \<open>cfs_rq->rq\<close> (no group scheduling) every \<open>cfs_rq\<close> is the one embedded
  in its runqueue, and the code says so.
\<close>

lemma cfs_rq_is_root_embedded:
  "\<not> field_exists k CFS_rq_rq \<Longrightarrow> cfs_rq_is_root k cfs \<longleftrightarrow> cfs \<noteq> off_rq_cfs k"
  by (simp add: cfs_rq_is_root_def rq_of_def)

lemma cfs_rq_is_root_rq:
  "cfs_rq_is_root k cfs \<Longrightarrow> rq_of k cfs = cfs - off_rq_cfs k \<and> rq_of k cfs \<noteq> 0"
  by (auto simp: cfs_rq_is_root_def Let_def eq_diff_eq split: if_splits)

end
