(* ===== verification/SA_Bpf.thy ===== *)
theory SA_Bpf imports SA_Kernel begin

text \<open>
  Component: what \<open>sched-analyzer.bpf.c\<close> shares between its programs: three hash maps and eight
  ring buffers. The maps are implemented by the kernel, so their operations are a parameter
  (\<^emph>\<open>bpf_map\<close>) and what the programs rely on is the contract \<^emph>\<open>bpf_hash\<close>. A preallocated hash table
  with a free list, the shape the kernel uses for \<open>BPF_MAP_TYPE_HASH\<close>, meets the contract.
\<close>

section \<open>The interface of a hash map\<close>

text \<open>
  \<open>map_lookup_elem\<close> returns a pointer to the stored value or NULL, \<open>map_read\<close> dereferences it,
  update and delete return 0 or a negative error, which the programs ignore.
\<close>

record ('k, 'v, 'm) bpf_map =
  map_lookup_elem :: "'m \<Rightarrow> 'k \<Rightarrow> ptr option"
  map_read :: "'m \<Rightarrow> ptr \<Rightarrow> 'v"
  map_update_elem :: "'m \<Rightarrow> 'k \<Rightarrow> 'v \<Rightarrow> s32 \<times> 'm"
  map_delete_elem :: "'m \<Rightarrow> 'k \<Rightarrow> s32 \<times> 'm"

text \<open>The partial function a map stands for.\<close>

definition map_value :: "('k, 'v, 'm) bpf_map \<Rightarrow> 'm \<Rightarrow> 'k \<Rightarrow> 'v option" where
  "map_value M m k = map_option (map_read M m) (map_lookup_elem M m k)"

lemma map_value_Some_iff:
  "map_value M m k = Some v \<longleftrightarrow> (\<exists>p. map_lookup_elem M m k = Some p \<and> map_read M m p = v)"
  by (auto simp: map_value_def)

text \<open>
  The contract: an update of a present key, or of a new one while there is room, succeeds; it
  changes that key only; a failed update changes nothing; a delete removes its key only; and a
  value can still be read through a pointer right after its key was deleted (the memory is
  reused by a later update at the earliest).
\<close>

locale bpf_hash =
  fixes M :: "('k, 'v, 'm) bpf_map"
    and inv :: "'m \<Rightarrow> bool"
    and max_entries :: nat
  assumes update_inv: "inv m \<Longrightarrow> inv (snd (map_update_elem M m k v))"
    and delete_inv: "inv m \<Longrightarrow> inv (snd (map_delete_elem M m k))"
    and finite_value: "inv m \<Longrightarrow> finite (dom (map_value M m))"
    and card_value: "inv m \<Longrightarrow> card (dom (map_value M m)) \<le> max_entries"
    and update_succeeds: "inv m \<Longrightarrow> k \<in> dom (map_value M m) \<or> card (dom (map_value M m)) < max_entries
      \<Longrightarrow> fst (map_update_elem M m k v) = 0"
    and update_value: "inv m \<Longrightarrow> fst (map_update_elem M m k v) = 0
      \<Longrightarrow> map_value M (snd (map_update_elem M m k v)) = (map_value M m)(k \<mapsto> v)"
    and update_fails: "inv m \<Longrightarrow> fst (map_update_elem M m k v) \<noteq> 0
      \<Longrightarrow> map_value M (snd (map_update_elem M m k v)) = map_value M m"
    and delete_value: "inv m \<Longrightarrow> map_value M (snd (map_delete_elem M m k)) = (map_value M m)(k := None)"
    and read_after_delete: "inv m \<Longrightarrow> map_lookup_elem M m k = Some p
      \<Longrightarrow> map_read M (snd (map_delete_elem M m k)) p = map_read M m p"
begin

text \<open>The idiom of the exit probes: look up, delete, then read through the old pointer.\<close>

lemma take_value:
  assumes "inv m" "map_lookup_elem M m k = Some p"
  shows "map_value M m k = Some (map_read M (snd (map_delete_elem M m k)) p)"
  using assms by (simp add: map_value_def read_after_delete)

lemma update_own: "inv m \<Longrightarrow> card (dom (map_value M m)) < max_entries
    \<Longrightarrow> map_value M (snd (map_update_elem M m k v)) = (map_value M m)(k \<mapsto> v)"
  by (simp add: update_value update_succeeds)

lemma update_other:
  "inv m \<Longrightarrow> k' \<noteq> k \<Longrightarrow> map_value M (snd (map_update_elem M m k v)) k' = map_value M m k'"
  by (cases "fst (map_update_elem M m k v) = 0") (simp_all add: update_value update_fails)

lemma update_self_cases:
  "inv m \<Longrightarrow> map_value M (snd (map_update_elem M m k v)) k \<in> {Some v, map_value M m k}"
  by (cases "fst (map_update_elem M m k v) = 0") (simp_all add: update_value update_fails)

lemma lookup_None_iff: "map_lookup_elem M m k = None \<longleftrightarrow> map_value M m k = None"
  by (simp add: map_value_def)

end

section \<open>A preallocated hash table\<close>

text \<open>
  \<open>ht_index\<close> maps keys to slots, \<open>ht_cells\<close> holds the values of the slots, \<open>ht_free\<close> is the stack of
  unused slots. A delete leaves the value in its cell.
\<close>

record ('k, 'v) htab =
  ht_index :: "('k \<times> nat) list"
  ht_free :: "nat list"
  ht_cells :: "'v list"

definition E2BIG :: s32 where "E2BIG = 7"
definition ENOENT :: s32 where "ENOENT = 2"

definition htab_lookup :: "('k, 'v) htab \<Rightarrow> 'k \<Rightarrow> ptr option" where
  "htab_lookup m k = map_option of_nat (map_of (ht_index m) k)"

definition htab_read :: "('k, 'v) htab \<Rightarrow> ptr \<Rightarrow> 'v" where
  "htab_read m p = ht_cells m ! unat p"

definition htab_update :: "('k, 'v) htab \<Rightarrow> 'k \<Rightarrow> 'v \<Rightarrow> s32 \<times> ('k, 'v) htab" where
  "htab_update m k v =
     (case map_of (ht_index m) k of
        Some s \<Rightarrow> (0, m\<lparr>ht_cells := (ht_cells m)[s := v]\<rparr>)
      | None \<Rightarrow>
         (case ht_free m of
            [] \<Rightarrow> (- E2BIG, m)
          | s # fs \<Rightarrow> (0, m\<lparr>ht_index := (k, s) # ht_index m, ht_free := fs,
                           ht_cells := (ht_cells m)[s := v]\<rparr>)))"

definition htab_delete :: "('k, 'v) htab \<Rightarrow> 'k \<Rightarrow> s32 \<times> ('k, 'v) htab" where
  "htab_delete m k =
     (case map_of (ht_index m) k of
        None \<Rightarrow> (- ENOENT, m)
      | Some s \<Rightarrow> (0, m\<lparr>ht_index := filter (\<lambda>(k', _). k' \<noteq> k) (ht_index m),
                       ht_free := s # ht_free m\<rparr>))"

definition htab_ops :: "('k, 'v, ('k, 'v) htab) bpf_map" where
  "htab_ops = \<lparr>map_lookup_elem = htab_lookup, map_read = htab_read,
               map_update_elem = htab_update, map_delete_elem = htab_delete\<rparr>"

lemma htab_ops_simps [simp]:
  "map_lookup_elem htab_ops = htab_lookup" "map_read htab_ops = htab_read"
  "map_update_elem htab_ops = htab_update" "map_delete_elem htab_ops = htab_delete"
  by (simp_all add: htab_ops_def)

definition htab_empty :: "nat \<Rightarrow> 'v \<Rightarrow> ('k, 'v) htab" where
  "htab_empty n v = \<lparr>ht_index = [], ht_free = [0..<n], ht_cells = replicate n v\<rparr>"

definition htab_inv :: "nat \<Rightarrow> ('k, 'v) htab \<Rightarrow> bool" where
  "htab_inv n m \<longleftrightarrow>
     n < 2 ^ 64 \<and> length (ht_cells m) = n \<and> distinct (map fst (ht_index m)) \<and>
     distinct (map snd (ht_index m) @ ht_free m) \<and>
     set (map snd (ht_index m) @ ht_free m) = {..<n}"

lemma htab_inv_empty: "n < 2 ^ 64 \<Longrightarrow> htab_inv n (htab_empty n v)"
  by (auto simp: htab_inv_def htab_empty_def)

lemma map_of_filter_neq: "map_of (filter (\<lambda>(k', _). k' \<noteq> k) xs) = (map_of xs)(k := None)"
  by (induction xs) (auto simp: fun_eq_iff)

lemma htab_slot_less:
  "htab_inv n m \<Longrightarrow> map_of (ht_index m) k = Some s \<Longrightarrow> s < n"
  by (force simp: htab_inv_def dest: map_of_SomeD)

lemma unat_slot: "htab_inv n m \<Longrightarrow> s < n \<Longrightarrow> unat (of_nat s :: ptr) = s"
  by (simp add: htab_inv_def unat_of_nat take_bit_nat_eq_self)

lemma htab_slots_inj:
  assumes "htab_inv n m" "map_of (ht_index m) k = Some s" "map_of (ht_index m) k' = Some s"
  shows "k = k'"
proof -
  have "(k, s) \<in> set (ht_index m)" "(k', s) \<in> set (ht_index m)"
    using assms(2,3) by (auto dest: map_of_SomeD)
  moreover have "inj_on snd (set (ht_index m))"
    using assms(1) by (simp add: htab_inv_def distinct_map)
  ultimately show ?thesis by (metis inj_onD snd_conv prod.inject)
qed

text \<open>The value of the table: the cell of the slot the index names.\<close>

lemma htab_value:
  assumes "htab_inv n m"
  shows "map_value htab_ops m k = map_option (\<lambda>s. ht_cells m ! s) (map_of (ht_index m) k)"
  using assms
  by (cases "map_of (ht_index m) k")
    (auto simp: map_value_def htab_ops_def htab_lookup_def htab_read_def unat_slot htab_slot_less)

lemma dom_htab_value: "htab_inv n m \<Longrightarrow> dom (map_value htab_ops m) = fst ` set (ht_index m)"
  by (auto simp: htab_value dom_def map_of_eq_None_iff)

lemma card_htab_index:
  assumes "htab_inv n m"
  shows "card (fst ` set (ht_index m)) + length (ht_free m) = n"
proof -
  have d: "distinct (map snd (ht_index m) @ ht_free m)" "distinct (map fst (ht_index m))"
    and s: "set (map snd (ht_index m) @ ht_free m) = {..<n}"
    using assms by (simp_all add: htab_inv_def)
  have "length (map snd (ht_index m) @ ht_free m) = n"
    using distinct_card [OF d(1)] s by simp
  moreover have "card (fst ` set (ht_index m)) = length (ht_index m)"
    using distinct_card [OF d(2)] by simp
  ultimately show ?thesis by simp
qed

lemma htab_update_inv: "htab_inv n m \<Longrightarrow> htab_inv n (snd (htab_update m k v))"
  by (auto simp: htab_inv_def htab_update_def map_of_eq_None_iff split: option.splits list.splits)

lemma htab_delete_inv:
  assumes "htab_inv n m"
  shows "htab_inv n (snd (htab_delete m k))"
proof (cases "map_of (ht_index m) k")
  case None
  then show ?thesis using assms by (simp add: htab_delete_def)
next
  case (Some s)
  let ?idx = "filter (\<lambda>(k', _). k' \<noteq> k) (ht_index m)"
  have mem: "(k, s) \<in> set (ht_index m)" using Some by (rule map_of_SomeD)
  have dk: "distinct (map fst (ht_index m))" and ds: "distinct (map snd (ht_index m) @ ht_free m)"
    and sl: "set (map snd (ht_index m) @ ht_free m) = {..<n}"
    using assms by (simp_all add: htab_inv_def)
  have inj: "inj_on snd (set (ht_index m))" using ds by (simp add: distinct_map)
  have fresh: "s \<notin> snd ` set ?idx"
    using inj mem unfolding inj_on_def by force
  have ix: "snd ` set (ht_index m) = insert s (snd ` set ?idx)"
    using mem dk by (force simp: eq_key_imp_eq_value)
  have "distinct (map fst ?idx)" "distinct (map snd ?idx)"
    using dk ds by (simp_all add: distinct_map_filter)
  moreover have "s \<notin> set (ht_free m)" using ds mem by force
  ultimately show ?thesis
    using assms Some fresh ix ds sl by (auto simp: htab_inv_def htab_delete_def)
qed

lemma htab_update_succeeds:
  assumes "htab_inv n m" "k \<in> fst ` set (ht_index m) \<or> card (fst ` set (ht_index m)) < n"
  shows "fst (htab_update m k v) = 0"
proof (cases "map_of (ht_index m) k")
  case None
  then have "k \<notin> fst ` set (ht_index m)" by (simp add: map_of_eq_None_iff)
  with assms(2) card_htab_index [OF assms(1)] obtain s fs where "ht_free m = s # fs"
    by (cases "ht_free m") auto
  with None show ?thesis by (simp add: htab_update_def)
qed (simp add: htab_update_def)

text \<open>The sizes the program declares for \<open>sched_switch\<close>, \<open>softirq_entry\<close> and \<open>lb_map\<close>.\<close>

definition MAX_ENTRIES :: nat where "MAX_ENTRIES = 8192"

interpretation htab: bpf_hash htab_ops "htab_inv MAX_ENTRIES" MAX_ENTRIES
proof (unfold_locales, goal_cases)
  case (1 m k v)
  then show ?case by (simp add: htab_update_inv)
next
  case (2 m k)
  then show ?case by (simp add: htab_delete_inv)
next
  case (3 m)
  then show ?case by (simp add: dom_htab_value)
next
  case (4 m)
  then show ?case using card_htab_index [OF 4] by (simp add: dom_htab_value)
next
  case (5 m k v)
  then show ?case
    using htab_update_succeeds [OF 5(1)] by (simp add: dom_htab_value)
next
  case (6 m k v)
  have inv: "htab_inv MAX_ENTRIES (snd (htab_update m k v))" using 6(1) by (rule htab_update_inv)
  have val: "map_value htab_ops (snd (htab_update m k v)) = (map_value htab_ops m)(k \<mapsto> v)"
  proof
    fix k'
    show "map_value htab_ops (snd (htab_update m k v)) k' = ((map_value htab_ops m)(k \<mapsto> v)) k'"
    proof (cases "map_of (ht_index m) k")
      case None
      then obtain s fs where "ht_free m = s # fs"
        using 6(2) by (auto simp: htab_update_def E2BIG_def split: list.splits)
      moreover from this have "s < length (ht_cells m)" using 6(1) by (auto simp: htab_inv_def)
      moreover have "map_of (ht_index m) k' \<noteq> Some s"
        using 6(1) \<open>ht_free m = s # fs\<close> by (force simp: htab_inv_def dest: map_of_SomeD)
      ultimately show ?thesis
        using None 6(1) inv unfolding htab_value [OF inv] fun_upd_def htab_value [OF 6(1)]
        by (cases "map_of (ht_index m) k'") (auto simp: htab_update_def)
    next
      case (Some s)
      moreover have "s < length (ht_cells m)"
        using htab_slot_less [OF 6(1) Some] 6(1) by (simp add: htab_inv_def)
      ultimately show ?thesis
        using 6(1) unfolding htab_value [OF inv] fun_upd_def htab_value [OF 6(1)]
        by (cases "map_of (ht_index m) k'")
          (auto simp: htab_update_def nth_list_update dest: htab_slots_inj)
    qed
  qed
  then show ?case by simp
next
  case (7 m k v)
  then show ?case by (simp add: htab_update_def split: option.splits list.splits)
next
  case (8 m k)
  have inv: "htab_inv MAX_ENTRIES (snd (htab_delete m k))" using 8 by (rule htab_delete_inv)
  have "map_value htab_ops (snd (htab_delete m k)) = (map_value htab_ops m)(k := None)"
    unfolding htab_value [OF inv] fun_upd_def htab_value [OF 8] fun_eq_iff
    by (auto simp: htab_delete_def map_of_filter_neq split: option.splits)
  then show ?case by simp
next
  case (9 m k p)
  then show ?case
    by (auto simp: htab_read_def htab_delete_def split: option.splits)
qed

section \<open>The state of the BPF object\<close>

text \<open>The three hash maps and the eight ring buffers, each ring as the records submitted to it.\<close>

record ('sw, 'si, 'lb) bpf_state =
  sched_switch_map :: 'sw
  softirq_entry_map :: 'si
  lb_map :: 'lb
  rq_pelt_rb :: "rq_pelt_event list"
  task_pelt_rb :: "task_pelt_event list"
  rq_nr_running_rb :: "rq_nr_running_event list"
  sched_switch_rb :: "sched_switch_event list"
  freq_idle_rb :: "freq_idle_event list"
  softirq_rb :: "softirq_event list"
  lb_rb :: "lb_event list"
  ipi_rb :: "ipi_event list"

text \<open>
  What one run of a program gets from the kernel: the maps' operations, the kernel's memory, the
  CPU it runs on, the time its \<open>n\<close>-th call of \<open>bpf_ktime_get_boot_ns\<close> returns, and what its
  \<open>n\<close>-th reservation on a ring returns.
\<close>

record ('sw, 'si, 'lb) run_env =
  sw_ops :: "(s32, s32, 'sw) bpf_map"
  si_ops :: "(s32, u64, 'si) bpf_map"
  lb_ops :: "(s32, s32, 'lb) bpf_map"
  env_kernel :: kernel
  smp_processor_id :: s32
  ktime_boot_ns :: "nat \<Rightarrow> u64"
  reserve_rq_pelt :: "nat \<Rightarrow> rq_pelt_event option"
  reserve_task_pelt :: "nat \<Rightarrow> task_pelt_event option"
  reserve_rq_nr_running :: "nat \<Rightarrow> rq_nr_running_event option"
  reserve_sched_switch :: "nat \<Rightarrow> sched_switch_event option"
  reserve_freq_idle :: "nat \<Rightarrow> freq_idle_event option"
  reserve_softirq :: "nat \<Rightarrow> softirq_event option"
  reserve_lb :: "nat \<Rightarrow> lb_event option"
  reserve_ipi :: "nat \<Rightarrow> ipi_event option"

end
