(* ===== verification/SA_Pelt.thy ===== *)
theory SA_Pelt imports SA_Bpf begin

text \<open>
  Component: the PELT probes of \<open>sched-analyzer.bpf.c\<close>. A probe handler maps the state of the BPF
  object to the state it leaves; all of them return 0. Assignments to the event keep the order of
  the source, and a field that is not assigned keeps what the reserved memory held.
\<close>

section \<open>The handlers\<close>

definition handle_pelt_se ::
  "('sw, 'si, 'lb) run_env \<Rightarrow> ptr \<Rightarrow> ('sw, 'si, 'lb) bpf_state \<Rightarrow> ('sw, 'si, 'lb) bpf_state" where
  "handle_pelt_se env se st =
     (let k = env_kernel env in
      if entity_is_task k se then
        let p = task_of k se;
            cpu = task_cpu k p;
            pid' = p_pid (mem_task k p);
            running = map_lookup_elem (sw_ops env) (sched_switch_map st) pid';
            umin0 = (if field_exists k (P_uclamp_req UCLAMP_MIN)
                     then ucast (uc_value (p_uclamp_req (mem_task k p) UCLAMP_MIN)) else - 1);
            umax0 = (if field_exists k (P_uclamp_req UCLAMP_MAX)
                     then ucast (uc_value (p_uclamp_req (mem_task k p) UCLAMP_MAX)) else - 1);
            umin = (if field_exists k (P_uclamp UCLAMP_MIN)
                       \<and> uc_active (p_uclamp (mem_task k p) UCLAMP_MIN)
                    then ucast (uc_value (p_uclamp (mem_task k p) UCLAMP_MIN)) else umin0);
            umax = (if field_exists k (P_uclamp UCLAMP_MAX)
                       \<and> uc_active (p_uclamp (mem_task k p) UCLAMP_MAX)
                    then ucast (uc_value (p_uclamp (mem_task k p) UCLAMP_MAX)) else umax0)
        in st\<lparr>task_pelt_rb := reserve_submit (reserve_task_pelt env 0)
               (\<lambda>e. e\<lparr>tp_ts := ktime_boot_ns env 0, tp_cpu := cpu, tp_pid := pid',
                      tp_comm := p_comm (mem_task k p),
                      tp_load_avg := avg_load_avg (se_avg (mem_se k se)),
                      tp_runnable_avg := avg_runnable_avg (se_avg (mem_se k se)),
                      tp_util_avg := avg_util_avg (se_avg (mem_se k se)),
                      tp_util_est_enqueued := - 1, tp_util_est_ewma := - 1,
                      tp_uclamp_min := umin, tp_uclamp_max := umax,
                      tp_running := (if running \<noteq> None then 1 else 0)\<rparr>)
               (task_pelt_rb st)\<rparr>
      else st)"

definition handle_util_est_se ::
  "('sw, 'si, 'lb) run_env \<Rightarrow> ptr \<Rightarrow> ('sw, 'si, 'lb) bpf_state \<Rightarrow> ('sw, 'si, 'lb) bpf_state" where
  "handle_util_est_se env se st =
     (let k = env_kernel env in
      if entity_is_task k se then
        let p = task_of k se;
            cpu = task_cpu k p;
            pid' = p_pid (mem_task k p);
            running = map_lookup_elem (sw_ops env) (sched_switch_map st) pid';
            avg_old = mem_avg_pre68 k (se + off_se_avg k);
            enqueued = (if pre68 k then ucast (ue_enqueued (pre68_util_est avg_old))
                        else ucast (avg_util_est (se_avg (mem_se k se))) :: u64);
            ewma = (if pre68 k then ucast (ue_ewma (pre68_util_est avg_old)) else 0)
        in st\<lparr>task_pelt_rb := reserve_submit (reserve_task_pelt env 0)
               (\<lambda>e. e\<lparr>tp_ts := ktime_boot_ns env 0, tp_cpu := cpu, tp_pid := pid',
                      tp_comm := p_comm (mem_task k p),
                      tp_load_avg := - 1, tp_runnable_avg := - 1, tp_util_avg := - 1,
                      tp_util_est_enqueued := drop_unchanged enqueued,
                      tp_util_est_ewma := ewma,
                      tp_uclamp_min := - 1, tp_uclamp_max := - 1,
                      tp_running := (if running \<noteq> None then 1 else 0)\<rparr>)
               (task_pelt_rb st)\<rparr>
      else st)"

definition handle_pelt_cfs ::
  "('sw, 'si, 'lb) run_env \<Rightarrow> ptr \<Rightarrow> ('sw, 'si, 'lb) bpf_state \<Rightarrow> ('sw, 'si, 'lb) bpf_state" where
  "handle_pelt_cfs env cfs st =
     (let k = env_kernel env in
      if cfs_rq_is_root k cfs then
        let rq = rq_of k cfs;
            cpu = rq_cpu (mem_rq k rq);
            umin = (if field_exists k (RQ_uclamp UCLAMP_MIN)
                    then ucast (rq_uclamp (mem_rq k rq) UCLAMP_MIN) else - 1);
            umax = (if field_exists k (RQ_uclamp UCLAMP_MAX)
                    then ucast (rq_uclamp (mem_rq k rq) UCLAMP_MAX) else - 1)
        in st\<lparr>rq_pelt_rb := reserve_submit (reserve_rq_pelt env 0)
               (\<lambda>e. e\<lparr>rp_ts := ktime_boot_ns env 0, rp_cpu := cpu, rp_type := PELT_TYPE_CFS,
                      rp_load_avg := avg_load_avg (cfs_avg (mem_cfs k cfs)),
                      rp_runnable_avg := avg_runnable_avg (cfs_avg (mem_cfs k cfs)),
                      rp_util_avg := avg_util_avg (cfs_avg (mem_cfs k cfs)),
                      rp_util_est_enqueued := - 1, rp_util_est_ewma := - 1,
                      rp_uclamp_min := umin, rp_uclamp_max := umax\<rparr>)
               (rq_pelt_rb st)\<rparr>
      else st)"

text \<open>This handler assigns every field but \<open>type\<close>.\<close>

definition handle_util_est_cfs ::
  "('sw, 'si, 'lb) run_env \<Rightarrow> ptr \<Rightarrow> ('sw, 'si, 'lb) bpf_state \<Rightarrow> ('sw, 'si, 'lb) bpf_state" where
  "handle_util_est_cfs env cfs st =
     (let k = env_kernel env in
      if cfs_rq_is_root k cfs then
        let rq = rq_of k cfs;
            cpu = rq_cpu (mem_rq k rq);
            avg_old = mem_avg_pre68 k (cfs + off_cfs_avg k);
            enqueued = (if pre68 k then ucast (ue_enqueued (pre68_util_est avg_old))
                        else ucast (avg_util_est (cfs_avg (mem_cfs k cfs))) :: u64);
            ewma = (if pre68 k then ucast (ue_ewma (pre68_util_est avg_old)) else 0)
        in st\<lparr>rq_pelt_rb := reserve_submit (reserve_rq_pelt env 0)
               (\<lambda>e. e\<lparr>rp_ts := ktime_boot_ns env 0, rp_cpu := cpu,
                      rp_load_avg := - 1, rp_runnable_avg := - 1, rp_util_avg := - 1,
                      rp_util_est_enqueued := drop_unchanged enqueued,
                      rp_util_est_ewma := ewma,
                      rp_uclamp_min := - 1, rp_uclamp_max := - 1\<rparr>)
               (rq_pelt_rb st)\<rparr>
      else st)"

definition handle_pelt_rt ::
  "('sw, 'si, 'lb) run_env \<Rightarrow> ptr \<Rightarrow> ('sw, 'si, 'lb) bpf_state \<Rightarrow> ('sw, 'si, 'lb) bpf_state" where
  "handle_pelt_rt env rq st =
     (let k = env_kernel env; cpu = rq_cpu (mem_rq k rq) in
      if \<not> field_exists k RQ_avg_rt then st
      else
        let util_avg = avg_util_avg (rq_avg_rt (mem_rq k rq))
        in st\<lparr>rq_pelt_rb := reserve_submit (reserve_rq_pelt env 0)
               (\<lambda>e. e\<lparr>rp_ts := ktime_boot_ns env 0, rp_cpu := cpu, rp_type := PELT_TYPE_RT,
                      rp_load_avg := - 1, rp_runnable_avg := - 1, rp_util_avg := util_avg,
                      rp_util_est_enqueued := - 1, rp_util_est_ewma := - 1,
                      rp_uclamp_min := - 1, rp_uclamp_max := - 1\<rparr>)
               (rq_pelt_rb st)\<rparr>)"

definition handle_pelt_dl ::
  "('sw, 'si, 'lb) run_env \<Rightarrow> ptr \<Rightarrow> ('sw, 'si, 'lb) bpf_state \<Rightarrow> ('sw, 'si, 'lb) bpf_state" where
  "handle_pelt_dl env rq st =
     (let k = env_kernel env; cpu = rq_cpu (mem_rq k rq) in
      if \<not> field_exists k RQ_avg_dl then st
      else
        let util_avg = avg_util_avg (rq_avg_dl (mem_rq k rq))
        in st\<lparr>rq_pelt_rb := reserve_submit (reserve_rq_pelt env 0)
               (\<lambda>e. e\<lparr>rp_ts := ktime_boot_ns env 0, rp_cpu := cpu, rp_type := PELT_TYPE_DL,
                      rp_load_avg := - 1, rp_runnable_avg := - 1, rp_util_avg := util_avg,
                      rp_util_est_enqueued := - 1, rp_util_est_ewma := - 1,
                      rp_uclamp_min := - 1, rp_uclamp_max := - 1\<rparr>)
               (rq_pelt_rb st)\<rparr>)"

definition handle_pelt_irq ::
  "('sw, 'si, 'lb) run_env \<Rightarrow> ptr \<Rightarrow> ('sw, 'si, 'lb) bpf_state \<Rightarrow> ('sw, 'si, 'lb) bpf_state" where
  "handle_pelt_irq env rq st =
     (let k = env_kernel env; cpu = rq_cpu (mem_rq k rq) in
      if \<not> field_exists k RQ_avg_irq then st
      else
        let util_avg = avg_util_avg (rq_avg_irq (mem_rq k rq))
        in st\<lparr>rq_pelt_rb := reserve_submit (reserve_rq_pelt env 0)
               (\<lambda>e. e\<lparr>rp_ts := ktime_boot_ns env 0, rp_cpu := cpu, rp_type := PELT_TYPE_IRQ,
                      rp_load_avg := - 1, rp_runnable_avg := - 1, rp_util_avg := util_avg,
                      rp_util_est_enqueued := - 1, rp_util_est_ewma := - 1,
                      rp_uclamp_min := - 1, rp_uclamp_max := - 1\<rparr>)
               (rq_pelt_rb st)\<rparr>)"

definition handle_pelt_thermal ::
  "('sw, 'si, 'lb) run_env \<Rightarrow> ptr \<Rightarrow> ('sw, 'si, 'lb) bpf_state \<Rightarrow> ('sw, 'si, 'lb) bpf_state" where
  "handle_pelt_thermal env rq st =
     (let k = env_kernel env; cpu = rq_cpu (mem_rq k rq) in
      if \<not> field_exists k RQ_avg_thermal then st
      else
        let load_avg = avg_load_avg (rq_avg_thermal (mem_rq k rq))
        in st\<lparr>rq_pelt_rb := reserve_submit (reserve_rq_pelt env 0)
               (\<lambda>e. e\<lparr>rp_ts := ktime_boot_ns env 0, rp_cpu := cpu, rp_type := PELT_TYPE_THERMAL,
                      rp_load_avg := load_avg, rp_runnable_avg := - 1, rp_util_avg := - 1,
                      rp_util_est_enqueued := - 1, rp_util_est_ewma := - 1,
                      rp_uclamp_min := - 1, rp_uclamp_max := - 1\<rparr>)
               (rq_pelt_rb st)\<rparr>)"

lemmas [probe_defs] = handle_pelt_se_def handle_util_est_se_def handle_pelt_cfs_def
  handle_util_est_cfs_def handle_pelt_rt_def handle_pelt_dl_def handle_pelt_irq_def
  handle_pelt_thermal_def

end
