(* ===== verification/SA_Sched.thy ===== *)
theory SA_Sched imports SA_Bpf begin

text \<open>
  Component: the probes of \<open>sched-analyzer.bpf.c\<close> on scheduling, frequency and idle, softirqs and
  IPIs. Two of them keep state between runs: \<open>handle_sched_switch\<close> the running tasks, and the
  softirq pair the time each CPU entered a softirq.
\<close>

section \<open>Scheduling\<close>

definition handle_sched_update_nr_running ::
  "('sw, 'si, 'lb) run_env \<Rightarrow> ptr \<Rightarrow> s32 \<Rightarrow> ('sw, 'si, 'lb) bpf_state \<Rightarrow> ('sw, 'si, 'lb) bpf_state" where
  "handle_sched_update_nr_running env rq change st =
     (let k = env_kernel env;
          cpu = rq_cpu (mem_rq k rq);
          nr_running = rq_nr_running (mem_rq k rq)
      in st\<lparr>rq_nr_running_rb := reserve_submit (reserve_rq_nr_running env 0)
             (\<lambda>e. e\<lparr>nr_ts := ktime_boot_ns env 0, nr_cpu := cpu, nr_nr_running := nr_running,
                    nr_change := change\<rparr>)
             (rq_nr_running_rb st)\<rparr>)"

text \<open>
  The second event takes its time from the second call of the clock, or from the first one when the
  first reservation failed.
\<close>

definition handle_sched_switch ::
  "('sw, 'si, 'lb) run_env \<Rightarrow> bool \<Rightarrow> ptr \<Rightarrow> ptr \<Rightarrow>
     ('sw, 'si, 'lb) bpf_state \<Rightarrow> ('sw, 'si, 'lb) bpf_state" where
  "handle_sched_switch env preempt prev nxt st =
     (let k = env_kernel env;
          cpu = task_cpu k prev;
          running = 1;
          pid1 = p_pid (mem_task k prev);
          m1 = snd (map_delete_elem (sw_ops env) (sched_switch_map st) pid1);
          pid2 = p_pid (mem_task k nxt);
          m2 = snd (map_update_elem (sw_ops env) m1 pid2 running);
          rb1 = reserve_submit (reserve_sched_switch env 0)
            (\<lambda>e. e\<lparr>ss_ts := ktime_boot_ns env 0, ss_cpu := cpu, ss_pid := p_pid (mem_task k prev),
                   ss_comm := p_comm (mem_task k prev), ss_running := 0\<rparr>)
            (sched_switch_rb st);
          clock = (if reserve_sched_switch env 0 = None then 0 else 1);
          rb2 = reserve_submit (reserve_sched_switch env 1)
            (\<lambda>e. e\<lparr>ss_ts := ktime_boot_ns env clock, ss_cpu := cpu, ss_pid := p_pid (mem_task k nxt),
                   ss_comm := p_comm (mem_task k nxt), ss_running := 1\<rparr>)
            rb1
      in st\<lparr>sched_switch_map := m2, sched_switch_rb := rb2\<rparr>)"

text \<open>A freed task gets one last PELT event that sets all its signals to zero.\<close>

definition handle_sched_process_free ::
  "('sw, 'si, 'lb) run_env \<Rightarrow> ptr \<Rightarrow> ('sw, 'si, 'lb) bpf_state \<Rightarrow> ('sw, 'si, 'lb) bpf_state" where
  "handle_sched_process_free env p st =
     (let k = env_kernel env;
          cpu = task_cpu k p;
          pid' = p_pid (mem_task k p)
      in st\<lparr>task_pelt_rb := reserve_submit (reserve_task_pelt env 0)
             (\<lambda>e. e\<lparr>tp_ts := ktime_boot_ns env 0, tp_cpu := cpu, tp_pid := pid',
                    tp_comm := p_comm (mem_task k p),
                    tp_load_avg := 0, tp_runnable_avg := 0, tp_util_avg := - 0,
                    tp_util_est_enqueued := 0, tp_util_est_ewma := 0,
                    tp_uclamp_min := 0, tp_uclamp_max := 0, tp_running := 0\<rparr>)
             (task_pelt_rb st)\<rparr>)"

section \<open>Frequency and idle\<close>

definition handle_cpu_frequency ::
  "('sw, 'si, 'lb) run_env \<Rightarrow> u32 \<Rightarrow> u32 \<Rightarrow> ('sw, 'si, 'lb) bpf_state \<Rightarrow> ('sw, 'si, 'lb) bpf_state" where
  "handle_cpu_frequency env frequency cpu st =
     (let idle_state = - 1
      in st\<lparr>freq_idle_rb := reserve_submit (reserve_freq_idle env 0)
             (\<lambda>e. e\<lparr>fi_ts := ktime_boot_ns env 0, fi_cpu := cpu, fi_frequency := frequency,
                    fi_idle_state := idle_state, fi_idle_miss := 0\<rparr>)
             (freq_idle_rb st)\<rparr>)"

definition handle_cpu_idle ::
  "('sw, 'si, 'lb) run_env \<Rightarrow> u32 \<Rightarrow> u32 \<Rightarrow> ('sw, 'si, 'lb) bpf_state \<Rightarrow> ('sw, 'si, 'lb) bpf_state" where
  "handle_cpu_idle env state cpu st =
     (let idle_state = state; frequency = 0
      in st\<lparr>freq_idle_rb := reserve_submit (reserve_freq_idle env 0)
             (\<lambda>e. e\<lparr>fi_ts := ktime_boot_ns env 0, fi_cpu := cpu, fi_frequency := frequency,
                    fi_idle_state := idle_state, fi_idle_miss := 0\<rparr>)
             (freq_idle_rb st)\<rparr>)"

definition handle_cpu_idle_miss ::
  "('sw, 'si, 'lb) run_env \<Rightarrow> u32 \<Rightarrow> u32 \<Rightarrow> bool \<Rightarrow>
     ('sw, 'si, 'lb) bpf_state \<Rightarrow> ('sw, 'si, 'lb) bpf_state" where
  "handle_cpu_idle_miss env cpu state below st =
     (let idle_state = state; frequency = 0
      in st\<lparr>freq_idle_rb := reserve_submit (reserve_freq_idle env 0)
             (\<lambda>e. e\<lparr>fi_ts := ktime_boot_ns env 0, fi_cpu := cpu, fi_frequency := frequency,
                    fi_idle_state := idle_state, fi_idle_miss := (if below then - 1 else 1)\<rparr>)
             (freq_idle_rb st)\<rparr>)"

section \<open>Softirqs and IPIs\<close>

definition handle_softirq_entry ::
  "('sw, 'si, 'lb) run_env \<Rightarrow> u32 \<Rightarrow> ('sw, 'si, 'lb) bpf_state \<Rightarrow> ('sw, 'si, 'lb) bpf_state" where
  "handle_softirq_entry env vec_nr st =
     (let cpu = smp_processor_id env; ts = ktime_boot_ns env 0
      in st\<lparr>softirq_entry_map := snd (map_update_elem (si_ops env) (softirq_entry_map st) cpu ts)\<rparr>)"

definition handle_softirq_exit ::
  "('sw, 'si, 'lb) run_env \<Rightarrow> u32 \<Rightarrow> ('sw, 'si, 'lb) bpf_state \<Rightarrow> ('sw, 'si, 'lb) bpf_state" where
  "handle_softirq_exit env vec_nr st =
     (let cpu = smp_processor_id env; exit_ts = ktime_boot_ns env 0 in
      case map_lookup_elem (si_ops env) (softirq_entry_map st) cpu of
        None \<Rightarrow> st
      | Some ts \<Rightarrow>
          let m = snd (map_delete_elem (si_ops env) (softirq_entry_map st) cpu);
              entry_ts = map_read (si_ops env) m ts
          in st\<lparr>softirq_entry_map := m,
                softirq_rb := reserve_submit (reserve_softirq env 0)
                  (\<lambda>e. e\<lparr>si_ts := entry_ts, si_cpu := cpu,
                         si_softirq := copy_softirq (si_softirq e) vec_nr,
                         si_duration := exit_ts - entry_ts\<rparr>)
                  (softirq_rb st)\<rparr>)"

definition handle_ipi_send_cpu ::
  "('sw, 'si, 'lb) run_env \<Rightarrow> s32 \<Rightarrow> ptr \<Rightarrow> ptr \<Rightarrow>
     ('sw, 'si, 'lb) bpf_state \<Rightarrow> ('sw, 'si, 'lb) bpf_state" where
  "handle_ipi_send_cpu env cpu callsite callback st =
     (let ts = ktime_boot_ns env 0
      in st\<lparr>ipi_rb := reserve_submit (reserve_ipi env 0)
             (\<lambda>e. e\<lparr>ipi_ts := ts, ipi_from_cpu := smp_processor_id env, ipi_target_cpu := cpu,
                    ipi_callsite := callsite, ipi_callback := callback\<rparr>)
             (ipi_rb st)\<rparr>)"

lemmas [probe_defs] = handle_sched_update_nr_running_def handle_sched_switch_def
  handle_sched_process_free_def handle_cpu_frequency_def handle_cpu_idle_def
  handle_cpu_idle_miss_def handle_softirq_entry_def handle_softirq_exit_def handle_ipi_send_cpu_def

end
