(* ===== verification/SA_Lb.thy ===== *)
theory SA_Lb imports SA_Bpf begin

text \<open>
  Component: the load balancer probes of \<open>sched-analyzer.bpf.c\<close>, a kprobe and a kretprobe for each
  phase. An entry probe saves the CPU being balanced in \<open>lb_map\<close>, under a key made of the phase and
  the CPU it runs on; the exit probe, which has no arguments, takes it from there.
\<close>

section \<open>Keys\<close>

text \<open>\<open>phase << 16 | this_cpu\<close>\<close>

definition lb_key :: "lb_phases \<Rightarrow> s32 \<Rightarrow> s32" where
  "lb_key phase this_cpu = (push_bit 16 (lb_code phase) OR this_cpu)"

section \<open>Statistics of the scheduling domains\<close>

text \<open>The \<open>while\<close> loop, with the number of iterations left to \<open>MAX_SD_LEVELS\<close>; the result has the final \<open>i\<close>.\<close>

fun sd_stats_loop ::
  "kernel \<Rightarrow> bool \<Rightarrow> nat \<Rightarrow> nat \<Rightarrow> ptr \<Rightarrow> lb_sd_stats \<Rightarrow> nat \<times> lb_sd_stats" where
  "sd_stats_loop k busy 0 i sd st = (i, st)"
| "sd_stats_loop k busy (Suc n) i sd st =
     (if sd \<noteq> 0 then
        let interval0 = dom_balance_interval (mem_sd k sd);
            interval = (if busy then interval0 * dom_busy_factor (mem_sd k sd) else interval0);
            st1 = set_stat_level i (dom_level (mem_sd k sd)) st;
            st2 = set_stat_balance_interval i interval st1
        in sd_stats_loop k busy n (Suc i) (dom_parent (mem_sd k sd)) st2
      else (i, st))"

definition gen_sched_domain_stats ::
  "kernel \<Rightarrow> ptr \<Rightarrow> cpu_idle_type \<Rightarrow> lb_sd_stats \<Rightarrow> lb_sd_stats" where
  "gen_sched_domain_stats k rq idle sd_stats =
     (let sd = rq_sd (mem_rq k rq);
          cpu = rq_cpu (mem_rq k rq);
          sched_idle0 = (rq_nr_running (mem_rq k rq) = cfs_idle_h_nr_running (mem_cfs k (rq + off_rq_cfs k)));
          sched_idle = (sched_idle0 \<and> rq_nr_running (mem_rq k rq) \<noteq> 0);
          busy = (idle \<noteq> CPU_IDLE \<and> \<not> sched_idle);
          (i, st) = sd_stats_loop k busy MAX_SD_LEVELS 0 sd (sd_stats\<lparr>sd_cpu := cpu\<rparr>)
      in set_stat_balance_interval i 0 (set_stat_level i (- 1) st))"

section \<open>The probes\<close>

definition handle_nohz_idle_balance_entry ::
  "('sw, 'si, 'lb) run_env \<Rightarrow> ptr \<Rightarrow> 
     ('sw, 'si, 'lb) bpf_state \<Rightarrow> ('sw, 'si, 'lb) bpf_state" where
  "handle_nohz_idle_balance_entry env rq st =
     (let k = env_kernel env;
          this_cpu = smp_processor_id env;
          lb_cpu = rq_cpu (mem_rq k rq);
          ts = ktime_boot_ns env 0;
          key = lb_key LB_NOHZ_IDLE_BALANCE this_cpu
      in st\<lparr>lb_map := snd (map_update_elem (lb_ops env) (lb_map st) key lb_cpu),
            lb_rb := reserve_submit (reserve_lb env 0)
              (\<lambda>e. e\<lparr>lb_ts := ts, lb_this_cpu := this_cpu, lb_lb_cpu := lb_cpu,
                     lb_phase := LB_NOHZ_IDLE_BALANCE, lb_entry := True,
                     lb_overloaded := rd_overload (mem_rd k (rq_rd (mem_rq k rq))),
                     lb_overutilized := rd_overutilized (mem_rd k (rq_rd (mem_rq k rq))),
                     lb_misfit_task_load := - 1\<rparr>)
              (lb_rb st)\<rparr>)"

definition handle_nohz_idle_balance_exit ::
  "('sw, 'si, 'lb) run_env \<Rightarrow> ('sw, 'si, 'lb) bpf_state \<Rightarrow> ('sw, 'si, 'lb) bpf_state" where
  "handle_nohz_idle_balance_exit env st =
     (let this_cpu = smp_processor_id env;
          ts = ktime_boot_ns env 0;
          key = lb_key LB_NOHZ_IDLE_BALANCE this_cpu in
      case map_lookup_elem (lb_ops env) (lb_map st) key of
        None \<Rightarrow> st
      | Some lb_cpu \<Rightarrow>
          let m = snd (map_delete_elem (lb_ops env) (lb_map st) key)
          in st\<lparr>lb_map := m,
                lb_rb := reserve_submit (reserve_lb env 0)
                  (\<lambda>e. e\<lparr>lb_ts := ts, lb_this_cpu := this_cpu,
                         lb_lb_cpu := map_read (lb_ops env) m lb_cpu,
                         lb_phase := LB_NOHZ_IDLE_BALANCE, lb_entry := False,
                         lb_overloaded := - 1, lb_overutilized := - 1, lb_misfit_task_load := - 1\<rparr>)
                  (lb_rb st)\<rparr>)"

definition handle_run_rebalance_domains_entry ::
  "('sw, 'si, 'lb) run_env \<Rightarrow> ('sw, 'si, 'lb) bpf_state \<Rightarrow> ('sw, 'si, 'lb) bpf_state" where
  "handle_run_rebalance_domains_entry env st =
     (let this_cpu = smp_processor_id env;
          ts = ktime_boot_ns env 0
      in st\<lparr>lb_rb := reserve_submit (reserve_lb env 0)
             (\<lambda>e. e\<lparr>lb_ts := ts, lb_this_cpu := this_cpu, lb_lb_cpu := this_cpu,
                    lb_phase := LB_RUN_REBALANCE_DOMAINS, lb_entry := True,
                    lb_overloaded := - 1, lb_overutilized := - 1, lb_misfit_task_load := - 1\<rparr>)
             (lb_rb st)\<rparr>)"

definition handle_run_rebalance_domains_exit ::
  "('sw, 'si, 'lb) run_env \<Rightarrow> ('sw, 'si, 'lb) bpf_state \<Rightarrow> ('sw, 'si, 'lb) bpf_state" where
  "handle_run_rebalance_domains_exit env st =
     (let this_cpu = smp_processor_id env;
          ts = ktime_boot_ns env 0
      in st\<lparr>lb_rb := reserve_submit (reserve_lb env 0)
             (\<lambda>e. e\<lparr>lb_ts := ts, lb_this_cpu := this_cpu, lb_lb_cpu := this_cpu,
                    lb_phase := LB_RUN_REBALANCE_DOMAINS, lb_entry := False,
                    lb_overloaded := - 1, lb_overutilized := - 1, lb_misfit_task_load := - 1\<rparr>)
             (lb_rb st)\<rparr>)"

definition handle_rebalance_domains_entry ::
  "('sw, 'si, 'lb) run_env \<Rightarrow> ptr \<Rightarrow> cpu_idle_type \<Rightarrow> 
     ('sw, 'si, 'lb) bpf_state \<Rightarrow> ('sw, 'si, 'lb) bpf_state" where
  "handle_rebalance_domains_entry env rq idle st =
     (let k = env_kernel env;
          this_cpu = smp_processor_id env;
          lb_cpu = rq_cpu (mem_rq k rq);
          ts = ktime_boot_ns env 0;
          key = lb_key LB_REBALANCE_DOMAINS this_cpu
      in st\<lparr>lb_map := snd (map_update_elem (lb_ops env) (lb_map st) key lb_cpu),
            lb_rb := reserve_submit (reserve_lb env 0)
              (\<lambda>e. e\<lparr>lb_ts := ts, lb_this_cpu := this_cpu, lb_lb_cpu := lb_cpu,
                     lb_phase := LB_REBALANCE_DOMAINS, lb_entry := True,
                     lb_overloaded := rd_overload (mem_rd k (rq_rd (mem_rq k rq))),
                     lb_overutilized := rd_overutilized (mem_rd k (rq_rd (mem_rq k rq))),
                     lb_misfit_task_load := rq_misfit_task_load (mem_rq k rq),
                     lb_sd_stats := gen_sched_domain_stats k rq idle (lb_sd_stats e)\<rparr>)
              (lb_rb st)\<rparr>)"

definition handle_rebalance_domains_exit ::
  "('sw, 'si, 'lb) run_env \<Rightarrow> ('sw, 'si, 'lb) bpf_state \<Rightarrow> ('sw, 'si, 'lb) bpf_state" where
  "handle_rebalance_domains_exit env st =
     (let this_cpu = smp_processor_id env;
          ts = ktime_boot_ns env 0;
          key = lb_key LB_REBALANCE_DOMAINS this_cpu in
      case map_lookup_elem (lb_ops env) (lb_map st) key of
        None \<Rightarrow> st
      | Some lb_cpu \<Rightarrow>
          let m = snd (map_delete_elem (lb_ops env) (lb_map st) key)
          in st\<lparr>lb_map := m,
                lb_rb := reserve_submit (reserve_lb env 0)
                  (\<lambda>e. e\<lparr>lb_ts := ts, lb_this_cpu := this_cpu,
                         lb_lb_cpu := map_read (lb_ops env) m lb_cpu,
                         lb_phase := LB_REBALANCE_DOMAINS, lb_entry := False,
                         lb_overloaded := - 1, lb_overutilized := - 1, lb_misfit_task_load := - 1\<rparr>)
                  (lb_rb st)\<rparr>)"

definition handle_balance_fair_entry ::
  "('sw, 'si, 'lb) run_env \<Rightarrow> ptr \<Rightarrow> 
     ('sw, 'si, 'lb) bpf_state \<Rightarrow> ('sw, 'si, 'lb) bpf_state" where
  "handle_balance_fair_entry env rq st =
     (let k = env_kernel env;
          this_cpu = smp_processor_id env;
          lb_cpu = rq_cpu (mem_rq k rq);
          ts = ktime_boot_ns env 0;
          key = lb_key LB_BALANCE_FAIR this_cpu
      in st\<lparr>lb_map := snd (map_update_elem (lb_ops env) (lb_map st) key lb_cpu),
            lb_rb := reserve_submit (reserve_lb env 0)
              (\<lambda>e. e\<lparr>lb_ts := ts, lb_this_cpu := this_cpu, lb_lb_cpu := lb_cpu,
                     lb_phase := LB_BALANCE_FAIR, lb_entry := True,
                     lb_overloaded := rd_overload (mem_rd k (rq_rd (mem_rq k rq))),
                     lb_overutilized := rd_overutilized (mem_rd k (rq_rd (mem_rq k rq))),
                     lb_misfit_task_load := rq_misfit_task_load (mem_rq k rq)\<rparr>)
              (lb_rb st)\<rparr>)"

definition handle_balance_fair_exit ::
  "('sw, 'si, 'lb) run_env \<Rightarrow> ('sw, 'si, 'lb) bpf_state \<Rightarrow> ('sw, 'si, 'lb) bpf_state" where
  "handle_balance_fair_exit env st =
     (let this_cpu = smp_processor_id env;
          ts = ktime_boot_ns env 0;
          key = lb_key LB_BALANCE_FAIR this_cpu in
      case map_lookup_elem (lb_ops env) (lb_map st) key of
        None \<Rightarrow> st
      | Some lb_cpu \<Rightarrow>
          let m = snd (map_delete_elem (lb_ops env) (lb_map st) key)
          in st\<lparr>lb_map := m,
                lb_rb := reserve_submit (reserve_lb env 0)
                  (\<lambda>e. e\<lparr>lb_ts := ts, lb_this_cpu := this_cpu,
                         lb_lb_cpu := map_read (lb_ops env) m lb_cpu,
                         lb_phase := LB_BALANCE_FAIR, lb_entry := False,
                         lb_overloaded := - 1, lb_overutilized := - 1, lb_misfit_task_load := - 1\<rparr>)
                  (lb_rb st)\<rparr>)"

definition handle_pick_next_task_fair_entry ::
  "('sw, 'si, 'lb) run_env \<Rightarrow> ptr \<Rightarrow> 
     ('sw, 'si, 'lb) bpf_state \<Rightarrow> ('sw, 'si, 'lb) bpf_state" where
  "handle_pick_next_task_fair_entry env rq st =
     (let k = env_kernel env;
          this_cpu = smp_processor_id env;
          lb_cpu = rq_cpu (mem_rq k rq);
          ts = ktime_boot_ns env 0;
          key = lb_key LB_PICK_NEXT_TASK_FAIR this_cpu
      in st\<lparr>lb_map := snd (map_update_elem (lb_ops env) (lb_map st) key lb_cpu),
            lb_rb := reserve_submit (reserve_lb env 0)
              (\<lambda>e. e\<lparr>lb_ts := ts, lb_this_cpu := this_cpu, lb_lb_cpu := lb_cpu,
                     lb_phase := LB_PICK_NEXT_TASK_FAIR, lb_entry := True,
                     lb_overloaded := rd_overload (mem_rd k (rq_rd (mem_rq k rq))),
                     lb_overutilized := rd_overutilized (mem_rd k (rq_rd (mem_rq k rq))),
                     lb_misfit_task_load := rq_misfit_task_load (mem_rq k rq)\<rparr>)
              (lb_rb st)\<rparr>)"

definition handle_pick_next_task_fair_exit ::
  "('sw, 'si, 'lb) run_env \<Rightarrow> ('sw, 'si, 'lb) bpf_state \<Rightarrow> ('sw, 'si, 'lb) bpf_state" where
  "handle_pick_next_task_fair_exit env st =
     (let this_cpu = smp_processor_id env;
          ts = ktime_boot_ns env 0;
          key = lb_key LB_PICK_NEXT_TASK_FAIR this_cpu in
      case map_lookup_elem (lb_ops env) (lb_map st) key of
        None \<Rightarrow> st
      | Some lb_cpu \<Rightarrow>
          let m = snd (map_delete_elem (lb_ops env) (lb_map st) key)
          in st\<lparr>lb_map := m,
                lb_rb := reserve_submit (reserve_lb env 0)
                  (\<lambda>e. e\<lparr>lb_ts := ts, lb_this_cpu := this_cpu,
                         lb_lb_cpu := map_read (lb_ops env) m lb_cpu,
                         lb_phase := LB_PICK_NEXT_TASK_FAIR, lb_entry := False,
                         lb_overloaded := - 1, lb_overutilized := - 1, lb_misfit_task_load := - 1\<rparr>)
                  (lb_rb st)\<rparr>)"

definition handle_newidle_balance_entry ::
  "('sw, 'si, 'lb) run_env \<Rightarrow> ptr \<Rightarrow> 
     ('sw, 'si, 'lb) bpf_state \<Rightarrow> ('sw, 'si, 'lb) bpf_state" where
  "handle_newidle_balance_entry env rq st =
     (let k = env_kernel env;
          this_cpu = smp_processor_id env;
          lb_cpu = rq_cpu (mem_rq k rq);
          ts = ktime_boot_ns env 0;
          key = lb_key LB_NEWIDLE_BALANCE this_cpu
      in st\<lparr>lb_map := snd (map_update_elem (lb_ops env) (lb_map st) key lb_cpu),
            lb_rb := reserve_submit (reserve_lb env 0)
              (\<lambda>e. e\<lparr>lb_ts := ts, lb_this_cpu := this_cpu, lb_lb_cpu := lb_cpu,
                     lb_phase := LB_NEWIDLE_BALANCE, lb_entry := True,
                     lb_overloaded := rd_overload (mem_rd k (rq_rd (mem_rq k rq))),
                     lb_overutilized := rd_overutilized (mem_rd k (rq_rd (mem_rq k rq))),
                     lb_misfit_task_load := rq_misfit_task_load (mem_rq k rq)\<rparr>)
              (lb_rb st)\<rparr>)"

definition handle_newidle_balance_exit ::
  "('sw, 'si, 'lb) run_env \<Rightarrow> ('sw, 'si, 'lb) bpf_state \<Rightarrow> ('sw, 'si, 'lb) bpf_state" where
  "handle_newidle_balance_exit env st =
     (let this_cpu = smp_processor_id env;
          ts = ktime_boot_ns env 0;
          key = lb_key LB_NEWIDLE_BALANCE this_cpu in
      case map_lookup_elem (lb_ops env) (lb_map st) key of
        None \<Rightarrow> st
      | Some lb_cpu \<Rightarrow>
          let m = snd (map_delete_elem (lb_ops env) (lb_map st) key)
          in st\<lparr>lb_map := m,
                lb_rb := reserve_submit (reserve_lb env 0)
                  (\<lambda>e. e\<lparr>lb_ts := ts, lb_this_cpu := this_cpu,
                         lb_lb_cpu := map_read (lb_ops env) m lb_cpu,
                         lb_phase := LB_NEWIDLE_BALANCE, lb_entry := False,
                         lb_overloaded := - 1, lb_overutilized := - 1, lb_misfit_task_load := - 1\<rparr>)
                  (lb_rb st)\<rparr>)"

definition handle_load_balance_entry ::
  "('sw, 'si, 'lb) run_env \<Rightarrow> s32 \<Rightarrow> ptr \<Rightarrow> ptr \<Rightarrow> cpu_idle_type \<Rightarrow> 
     ('sw, 'si, 'lb) bpf_state \<Rightarrow> ('sw, 'si, 'lb) bpf_state" where
  "handle_load_balance_entry env lb_cpu lb_rq sd idle st =
     (let k = env_kernel env;
          this_cpu = smp_processor_id env;
          ts = ktime_boot_ns env 0;
          key = lb_key LB_LOAD_BALANCE this_cpu
      in st\<lparr>lb_map := snd (map_update_elem (lb_ops env) (lb_map st) key lb_cpu),
            lb_rb := reserve_submit (reserve_lb env 0)
              (\<lambda>e. e\<lparr>lb_ts := ts, lb_this_cpu := this_cpu, lb_lb_cpu := lb_cpu,
                     lb_phase := LB_LOAD_BALANCE, lb_entry := True,
                     lb_overloaded := rd_overload (mem_rd k (rq_rd (mem_rq k lb_rq))),
                     lb_overutilized := rd_overutilized (mem_rd k (rq_rd (mem_rq k lb_rq))),
                     lb_misfit_task_load := rq_misfit_task_load (mem_rq k lb_rq)\<rparr>)
              (lb_rb st)\<rparr>)"

definition handle_load_balance_exit ::
  "('sw, 'si, 'lb) run_env \<Rightarrow> ('sw, 'si, 'lb) bpf_state \<Rightarrow> ('sw, 'si, 'lb) bpf_state" where
  "handle_load_balance_exit env st =
     (let this_cpu = smp_processor_id env;
          ts = ktime_boot_ns env 0;
          key = lb_key LB_LOAD_BALANCE this_cpu in
      case map_lookup_elem (lb_ops env) (lb_map st) key of
        None \<Rightarrow> st
      | Some lb_cpu \<Rightarrow>
          let m = snd (map_delete_elem (lb_ops env) (lb_map st) key)
          in st\<lparr>lb_map := m,
                lb_rb := reserve_submit (reserve_lb env 0)
                  (\<lambda>e. e\<lparr>lb_ts := ts, lb_this_cpu := this_cpu,
                         lb_lb_cpu := map_read (lb_ops env) m lb_cpu,
                         lb_phase := LB_LOAD_BALANCE, lb_entry := False,
                         lb_overloaded := - 1, lb_overutilized := - 1, lb_misfit_task_load := - 1\<rparr>)
                  (lb_rb st)\<rparr>)"

lemmas lb_entry_defs = handle_nohz_idle_balance_entry_def
  handle_run_rebalance_domains_entry_def
  handle_rebalance_domains_entry_def
  handle_balance_fair_entry_def
  handle_pick_next_task_fair_entry_def
  handle_newidle_balance_entry_def
  handle_load_balance_entry_def

lemmas lb_exit_defs = handle_nohz_idle_balance_exit_def
  handle_run_rebalance_domains_exit_def
  handle_rebalance_domains_exit_def
  handle_balance_fair_exit_def
  handle_pick_next_task_fair_exit_def
  handle_newidle_balance_exit_def
  handle_load_balance_exit_def

lemmas [probe_defs] = lb_entry_defs lb_exit_defs

section \<open>Keys are unique\<close>

lemma push_lb_code:
  "drop_bit 16 (push_bit 16 (lb_code p)) = lb_code p" "take_bit 16 (push_bit 16 (lb_code p)) = 0"
  by (cases p; simp)+

lemma small_word_bits:
  assumes "unat (c :: s32) < 2 ^ 16"
  shows "drop_bit 16 c = 0" "take_bit 16 c = c"
proof -
  show "drop_bit 16 c = 0"
    using assms by (simp only: word_unat_eq_iff unat_drop_bit_eq) (simp add: drop_bit_eq_div)
  show "take_bit 16 c = c"
    using assms by (simp add: word_unat_eq_iff unsigned_take_bit_eq take_bit_nat_eq_self)
qed

lemma lb_code_inj: "lb_code p = lb_code q \<Longrightarrow> p = q"
  by (cases p; cases q) simp_all

lemma lb_key_inj:
  assumes "unat c < 2 ^ 16" "unat d < 2 ^ 16" "lb_key p c = lb_key q d"
  shows "p = q \<and> c = d"
proof -
  have "drop_bit 16 (lb_key p c) = lb_code p" "drop_bit 16 (lb_key q d) = lb_code q"
    using small_word_bits [OF assms(1)] small_word_bits [OF assms(2)]
    by (simp_all add: lb_key_def drop_bit_or push_lb_code)
  moreover have "take_bit 16 (lb_key p c) = c" "take_bit 16 (lb_key q d) = d"
    using small_word_bits [OF assms(1)] small_word_bits [OF assms(2)]
    by (simp_all add: lb_key_def take_bit_or push_lb_code)
  ultimately show ?thesis using assms(3) lb_code_inj by metis
qed

section \<open>The probes of all phases\<close>

text \<open>A traced call, with the arguments its entry probe gets, and the dispatch the kernel does.\<close>

datatype lb_call =
    Nohz_idle_balance ptr
  | Run_rebalance_domains
  | Rebalance_domains ptr cpu_idle_type
  | Balance_fair ptr
  | Pick_next_task_fair ptr
  | Newidle_balance ptr
  | Load_balance s32 ptr ptr cpu_idle_type

fun lb_call_phase :: "lb_call \<Rightarrow> lb_phases" where
  "lb_call_phase (Nohz_idle_balance rq) = LB_NOHZ_IDLE_BALANCE"
| "lb_call_phase Run_rebalance_domains = LB_RUN_REBALANCE_DOMAINS"
| "lb_call_phase (Rebalance_domains rq idle) = LB_REBALANCE_DOMAINS"
| "lb_call_phase (Balance_fair rq) = LB_BALANCE_FAIR"
| "lb_call_phase (Pick_next_task_fair rq) = LB_PICK_NEXT_TASK_FAIR"
| "lb_call_phase (Newidle_balance rq) = LB_NEWIDLE_BALANCE"
| "lb_call_phase (Load_balance lb_cpu lb_rq sd idle) = LB_LOAD_BALANCE"

fun lb_enter ::
  "('sw, 'si, 'lb) run_env \<Rightarrow> lb_call \<Rightarrow> ('sw, 'si, 'lb) bpf_state \<Rightarrow> ('sw, 'si, 'lb) bpf_state" where
  "lb_enter env (Nohz_idle_balance rq) st = handle_nohz_idle_balance_entry env rq st"
| "lb_enter env Run_rebalance_domains st = handle_run_rebalance_domains_entry env st"
| "lb_enter env (Rebalance_domains rq idle) st = handle_rebalance_domains_entry env rq idle st"
| "lb_enter env (Balance_fair rq) st = handle_balance_fair_entry env rq st"
| "lb_enter env (Pick_next_task_fair rq) st = handle_pick_next_task_fair_entry env rq st"
| "lb_enter env (Newidle_balance rq) st = handle_newidle_balance_entry env rq st"
| "lb_enter env (Load_balance lb_cpu lb_rq sd idle) st = handle_load_balance_entry env lb_cpu lb_rq sd idle st"

fun lb_leave ::
  "('sw, 'si, 'lb) run_env \<Rightarrow> lb_phases \<Rightarrow> ('sw, 'si, 'lb) bpf_state \<Rightarrow> ('sw, 'si, 'lb) bpf_state" where
  "lb_leave env LB_NOHZ_IDLE_BALANCE st = handle_nohz_idle_balance_exit env st"
| "lb_leave env LB_RUN_REBALANCE_DOMAINS st = handle_run_rebalance_domains_exit env st"
| "lb_leave env LB_REBALANCE_DOMAINS st = handle_rebalance_domains_exit env st"
| "lb_leave env LB_BALANCE_FAIR st = handle_balance_fair_exit env st"
| "lb_leave env LB_PICK_NEXT_TASK_FAIR st = handle_pick_next_task_fair_exit env st"
| "lb_leave env LB_NEWIDLE_BALANCE st = handle_newidle_balance_exit env st"
| "lb_leave env LB_LOAD_BALANCE st = handle_load_balance_exit env st"

section \<open>What the probes of a phase promise\<close>

text \<open>The run queue of a call, the CPU being balanced, and the events of entry and exit.\<close>

fun lb_call_cpu :: "('sw, 'si, 'lb) run_env \<Rightarrow> lb_call \<Rightarrow> s32" where
  "lb_call_cpu env (Nohz_idle_balance rq) = rq_cpu (mem_rq (env_kernel env) rq)"
| "lb_call_cpu env Run_rebalance_domains = smp_processor_id env"
| "lb_call_cpu env (Rebalance_domains rq idle) = rq_cpu (mem_rq (env_kernel env) rq)"
| "lb_call_cpu env (Balance_fair rq) = rq_cpu (mem_rq (env_kernel env) rq)"
| "lb_call_cpu env (Pick_next_task_fair rq) = rq_cpu (mem_rq (env_kernel env) rq)"
| "lb_call_cpu env (Newidle_balance rq) = rq_cpu (mem_rq (env_kernel env) rq)"
| "lb_call_cpu env (Load_balance lb_cpu lb_rq sd idle) = lb_cpu"

text \<open>The run queue whose root domain and misfit load the entry event shows, if any.\<close>

fun lb_call_rq :: "lb_call \<Rightarrow> ptr option" where
  "lb_call_rq (Nohz_idle_balance rq) = Some rq"
| "lb_call_rq Run_rebalance_domains = None"
| "lb_call_rq (Rebalance_domains rq idle) = Some rq"
| "lb_call_rq (Balance_fair rq) = Some rq"
| "lb_call_rq (Pick_next_task_fair rq) = Some rq"
| "lb_call_rq (Newidle_balance rq) = Some rq"
| "lb_call_rq (Load_balance lb_cpu lb_rq sd idle) = Some lb_rq"

definition lb_entry_event :: "('sw, 'si, 'lb) run_env \<Rightarrow> lb_call \<Rightarrow> lb_event \<Rightarrow> lb_event" where
  "lb_entry_event env c e =
     (let k = env_kernel env;
          rd = (\<lambda>rq. mem_rd k (rq_rd (mem_rq k rq))) in
      e\<lparr>lb_ts := ktime_boot_ns env 0, lb_this_cpu := smp_processor_id env, lb_lb_cpu := lb_call_cpu env c,
        lb_phase := lb_call_phase c, lb_entry := True,
        lb_overloaded := (case lb_call_rq c of None \<Rightarrow> - 1 | Some rq \<Rightarrow> rd_overload (rd rq)),
        lb_overutilized := (case lb_call_rq c of None \<Rightarrow> - 1 | Some rq \<Rightarrow> rd_overutilized (rd rq)),
        lb_misfit_task_load := (case lb_call_rq c of None \<Rightarrow> - 1
          | Some rq \<Rightarrow> if lb_call_phase c = LB_NOHZ_IDLE_BALANCE then - 1 else rq_misfit_task_load (mem_rq k rq)),
        lb_sd_stats := (case c of Rebalance_domains rq idle \<Rightarrow> gen_sched_domain_stats k rq idle (lb_sd_stats e)
          | _ \<Rightarrow> lb_sd_stats e)\<rparr>)"

definition lb_exit_event :: "('sw, 'si, 'lb) run_env \<Rightarrow> lb_phases \<Rightarrow> s32 \<Rightarrow> lb_event \<Rightarrow> lb_event" where
  "lb_exit_event env phase cpu e =
     e\<lparr>lb_ts := ktime_boot_ns env 0, lb_this_cpu := smp_processor_id env, lb_lb_cpu := cpu,
       lb_phase := phase, lb_entry := False,
       lb_overloaded := - 1, lb_overutilized := - 1, lb_misfit_task_load := - 1\<rparr>"

text \<open>
  The contract of a saving phase: the entry probe saves the CPU and reports it, the exit probe
  reports what was saved under its key and forgets it. \<open>call_of\<close> makes the call from the probe's
  arguments.
\<close>

locale lb_pair =
  fixes enter :: "('sw, 'si, 'lb) run_env \<Rightarrow> 'a \<Rightarrow> ('sw, 'si, 'lb) bpf_state \<Rightarrow> ('sw, 'si, 'lb) bpf_state"
    and leave :: "('sw, 'si, 'lb) run_env \<Rightarrow> ('sw, 'si, 'lb) bpf_state \<Rightarrow> ('sw, 'si, 'lb) bpf_state"
    and call_of :: "'a \<Rightarrow> lb_call"
    and phase :: lb_phases
  assumes phase: "lb_call_phase (call_of a) = phase"
    and enter_eq: "enter env a st =
      st\<lparr>lb_map := snd (map_update_elem (lb_ops env) (lb_map st)
            (lb_key phase (smp_processor_id env)) (lb_call_cpu env (call_of a))),
         lb_rb := reserve_submit (reserve_lb env 0) (lb_entry_event env (call_of a)) (lb_rb st)\<rparr>"
    and leave_eq: "leave env st =
      (let key = lb_key phase (smp_processor_id env) in
       case map_lookup_elem (lb_ops env) (lb_map st) key of
         None \<Rightarrow> st
       | Some p \<Rightarrow> let m = snd (map_delete_elem (lb_ops env) (lb_map st) key) in
           st\<lparr>lb_map := m,
              lb_rb := reserve_submit (reserve_lb env 0)
                (lb_exit_event env phase (map_read (lb_ops env) m p)) (lb_rb st)\<rparr>)"
begin

text \<open>The exit probe in terms of the partial function the map stands for.\<close>

lemma leave_value:
  assumes "bpf_hash (lb_ops env) ok n" "ok (lb_map st)"
  shows "leave env st =
    (let key = lb_key phase (smp_processor_id env) in
     case map_value (lb_ops env) (lb_map st) key of
       None \<Rightarrow> st
     | Some cpu \<Rightarrow> st\<lparr>lb_map := snd (map_delete_elem (lb_ops env) (lb_map st) key),
           lb_rb := reserve_submit (reserve_lb env 0) (lb_exit_event env phase cpu) (lb_rb st)\<rparr>)"
proof (cases "map_lookup_elem (lb_ops env) (lb_map st) (lb_key phase (smp_processor_id env))")
  case None
  then show ?thesis by (simp add: leave_eq map_value_def)
next
  case (Some p)
  with bpf_hash.take_value [OF assms this] show ?thesis
    by (simp add: leave_eq Let_def)
qed

text \<open>The CPU an entry saved is the one the next exit of the phase on the same CPU reports.\<close>

lemma enter_leave:
  assumes hash: "bpf_hash (lb_ops env) ok n" and ok: "ok (lb_map st)"
    and room: "card (dom (map_value (lb_ops env) (lb_map st))) < n"
    and env': "lb_ops env' = lb_ops env" "smp_processor_id env' = smp_processor_id env"
  shows "lb_rb (leave env' (enter env a st)) =
    reserve_submit (reserve_lb env' 0) (lb_exit_event env' phase (lb_call_cpu env (call_of a)))
      (reserve_submit (reserve_lb env 0) (lb_entry_event env (call_of a)) (lb_rb st))"
  using hash ok room env' bpf_hash.update_inv [OF hash ok] bpf_hash.update_own [OF hash ok room]
  by (subst leave_value [where ok = ok and n = n]) (simp_all add: enter_eq Let_def)

end

interpretation nohz: lb_pair "handle_nohz_idle_balance_entry" handle_nohz_idle_balance_exit
    "Nohz_idle_balance" LB_NOHZ_IDLE_BALANCE
  by unfold_locales
    (auto simp: handle_nohz_idle_balance_entry_def handle_nohz_idle_balance_exit_def lb_entry_event_def [abs_def]
      lb_exit_event_def [abs_def] Let_def split: option.splits)

interpretation rebalance: lb_pair "\<lambda>env (rq, idle). handle_rebalance_domains_entry env rq idle" handle_rebalance_domains_exit
    "\<lambda>(rq, idle). Rebalance_domains rq idle" LB_REBALANCE_DOMAINS
  by unfold_locales
    (auto simp: handle_rebalance_domains_entry_def handle_rebalance_domains_exit_def lb_entry_event_def [abs_def]
      lb_exit_event_def [abs_def] Let_def split: option.splits)

interpretation fair: lb_pair "handle_balance_fair_entry" handle_balance_fair_exit
    "Balance_fair" LB_BALANCE_FAIR
  by unfold_locales
    (auto simp: handle_balance_fair_entry_def handle_balance_fair_exit_def lb_entry_event_def [abs_def]
      lb_exit_event_def [abs_def] Let_def split: option.splits)

interpretation pick: lb_pair "handle_pick_next_task_fair_entry" handle_pick_next_task_fair_exit
    "Pick_next_task_fair" LB_PICK_NEXT_TASK_FAIR
  by unfold_locales
    (auto simp: handle_pick_next_task_fair_entry_def handle_pick_next_task_fair_exit_def lb_entry_event_def [abs_def]
      lb_exit_event_def [abs_def] Let_def split: option.splits)

interpretation newidle: lb_pair "handle_newidle_balance_entry" handle_newidle_balance_exit
    "Newidle_balance" LB_NEWIDLE_BALANCE
  by unfold_locales
    (auto simp: handle_newidle_balance_entry_def handle_newidle_balance_exit_def lb_entry_event_def [abs_def]
      lb_exit_event_def [abs_def] Let_def split: option.splits)

interpretation load: lb_pair "\<lambda>env (lb_cpu, lb_rq, sd, idle). handle_load_balance_entry env lb_cpu lb_rq sd idle" handle_load_balance_exit
    "\<lambda>(lb_cpu, lb_rq, sd, idle). Load_balance lb_cpu lb_rq sd idle" LB_LOAD_BALANCE
  by unfold_locales
    (auto simp: handle_load_balance_entry_def handle_load_balance_exit_def lb_entry_event_def [abs_def]
      lb_exit_event_def [abs_def] Let_def split: option.splits)

end
