(* ===== verification/SA_Perfetto.thy ===== *)
theory SA_Perfetto imports SA_Events begin

text \<open>
  Component: the tracing side of \<open>perfetto_wrapper.cc\<close>. The Perfetto SDK is not part of the
  repository: a \<open>trace_*\<close> function is modelled by the SDK macro calls it makes, in order, with
  their arguments (\<^emph>\<open>output_call\<close>). Track names go through \<open>snprintf\<close> into a buffer of 32 (64)
  characters, so they are cut where the code cuts them. Messages on stderr are outputs as well.
\<close>

datatype pf_arg = Arg_int int | Arg_str string | Arg_ptr ptr

datatype output_call =
    TRACE_COUNTER string string u64 int        \<comment> \<open>category, track name, time, value\<close>
  | TRACE_EVENT string string int u64 "(string \<times> pf_arg) list"   \<comment> \<open>category, name, track, time, arguments\<close>
  | TRACE_EVENT_BEGIN string string int u64 "(string \<times> pf_arg) list"
  | TRACE_EVENT_END string int u64             \<comment> \<open>category, track, time\<close>
  | STDERR string

section \<open>Track ids\<close>

datatype track_kind = CPU_IDLE_MISS | LOAD_BALANCE | IPI

text \<open>\<open>enum sched_analyzer_track_ids\<close> starts at 1.\<close>

fun SA_TRACK_ID :: "track_kind \<Rightarrow> int" where
  "SA_TRACK_ID CPU_IDLE_MISS = 1"
| "SA_TRACK_ID LOAD_BALANCE = 2"
| "SA_TRACK_ID IPI = 3"

definition TRACK_SPACING :: int where "TRACK_SPACING = 1000"
definition TRACK_ID :: "track_kind \<Rightarrow> int" where "TRACK_ID k = SA_TRACK_ID k * TRACK_SPACING"
definition FAKE_DURATION :: u64 where "FAKE_DURATION = 10000"

section \<open>Counters of a CPU and of a task\<close>

definition cpu_track :: "s32 \<Rightarrow> string \<Rightarrow> string" where
  "cpu_track cpu sfx = snprintf 32 (''CPU'' @ fmt_d cpu @ sfx)"

definition task_track :: "string \<Rightarrow> s32 \<Rightarrow> string \<Rightarrow> string" where
  "task_track name p sfx = snprintf 32 (name @ ''-'' @ fmt_d p @ sfx)"

definition trace_cpu_load_avg :: "u64 \<Rightarrow> s32 \<Rightarrow> s32 \<Rightarrow> output_call list" where
  "trace_cpu_load_avg ts cpu v = [TRACE_COUNTER ''pelt-cpu'' (cpu_track cpu '' load_avg'') ts (sint v)]"

definition trace_cpu_runnable_avg :: "u64 \<Rightarrow> s32 \<Rightarrow> s32 \<Rightarrow> output_call list" where
  "trace_cpu_runnable_avg ts cpu v =
     [TRACE_COUNTER ''pelt-cpu'' (cpu_track cpu '' runnable_avg'') ts (sint v)]"

definition trace_cpu_util_avg :: "u64 \<Rightarrow> s32 \<Rightarrow> s32 \<Rightarrow> output_call list" where
  "trace_cpu_util_avg ts cpu v = [TRACE_COUNTER ''pelt-cpu'' (cpu_track cpu '' util_avg'') ts (sint v)]"

definition trace_cpu_uclamped_avg :: "u64 \<Rightarrow> s32 \<Rightarrow> s32 \<Rightarrow> output_call list" where
  "trace_cpu_uclamped_avg ts cpu v =
     [TRACE_COUNTER ''pelt-cpu'' (cpu_track cpu '' uclamped_avg'') ts (sint v)]"

definition trace_cpu_util_est_enqueued :: "u64 \<Rightarrow> s32 \<Rightarrow> s32 \<Rightarrow> output_call list" where
  "trace_cpu_util_est_enqueued ts cpu v =
     [TRACE_COUNTER ''pelt-cpu'' (cpu_track cpu '' util_est.enqueued'') ts (sint v)]"

definition trace_cpu_util_avg_rt :: "u64 \<Rightarrow> s32 \<Rightarrow> s32 \<Rightarrow> output_call list" where
  "trace_cpu_util_avg_rt ts cpu v =
     [TRACE_COUNTER ''pelt-cpu'' (cpu_track cpu '' util_avg_rt'') ts (sint v)]"

text \<open>The deadline and IRQ functions format the same suffix as the RT one.\<close>

definition trace_cpu_util_avg_dl :: "u64 \<Rightarrow> s32 \<Rightarrow> s32 \<Rightarrow> output_call list" where
  "trace_cpu_util_avg_dl ts cpu v =
     [TRACE_COUNTER ''pelt-cpu'' (cpu_track cpu '' util_avg_rt'') ts (sint v)]"

definition trace_cpu_util_avg_irq :: "u64 \<Rightarrow> s32 \<Rightarrow> s32 \<Rightarrow> output_call list" where
  "trace_cpu_util_avg_irq ts cpu v =
     [TRACE_COUNTER ''pelt-cpu'' (cpu_track cpu '' util_avg_rt'') ts (sint v)]"

definition trace_cpu_load_avg_thermal :: "u64 \<Rightarrow> s32 \<Rightarrow> s32 \<Rightarrow> output_call list" where
  "trace_cpu_load_avg_thermal ts cpu v =
     [TRACE_COUNTER ''pelt-cpu'' (cpu_track cpu '' load_avg_thermal'') ts (sint v)]"

definition trace_task_load_avg :: "u64 \<Rightarrow> string \<Rightarrow> s32 \<Rightarrow> s32 \<Rightarrow> output_call list" where
  "trace_task_load_avg ts name p v =
     [TRACE_COUNTER ''pelt-task'' (task_track name p '' load_avg'') ts (sint v)]"

definition trace_task_runnable_avg :: "u64 \<Rightarrow> string \<Rightarrow> s32 \<Rightarrow> s32 \<Rightarrow> output_call list" where
  "trace_task_runnable_avg ts name p v =
     [TRACE_COUNTER ''pelt-task'' (task_track name p '' runnable_avg'') ts (sint v)]"

definition trace_task_util_avg :: "u64 \<Rightarrow> string \<Rightarrow> s32 \<Rightarrow> s32 \<Rightarrow> output_call list" where
  "trace_task_util_avg ts name p v =
     [TRACE_COUNTER ''pelt-task'' (task_track name p '' util_avg'') ts (sint v)]"

definition trace_task_uclamped_avg :: "u64 \<Rightarrow> string \<Rightarrow> s32 \<Rightarrow> s32 \<Rightarrow> output_call list" where
  "trace_task_uclamped_avg ts name p v =
     [TRACE_COUNTER ''pelt-task'' (task_track name p '' uclamped_avg'') ts (sint v)]"

definition trace_task_util_est_enqueued :: "u64 \<Rightarrow> string \<Rightarrow> s32 \<Rightarrow> s32 \<Rightarrow> output_call list" where
  "trace_task_util_est_enqueued ts name p v =
     [TRACE_COUNTER ''pelt-task'' (task_track name p '' util_est.enqueued'') ts (sint v)]"

definition trace_task_util_est_ewma :: "u64 \<Rightarrow> string \<Rightarrow> s32 \<Rightarrow> s32 \<Rightarrow> output_call list" where
  "trace_task_util_est_ewma ts name p v =
     [TRACE_COUNTER ''pelt-task'' (task_track name p '' util_est.ewma'') ts (sint v)]"

definition trace_cpu_nr_running :: "u64 \<Rightarrow> s32 \<Rightarrow> s32 \<Rightarrow> output_call list" where
  "trace_cpu_nr_running ts cpu v =
     [TRACE_COUNTER ''nr-running-cpu'' (cpu_track cpu '' nr_running'') ts (sint v)]"

definition trace_cpu_idle :: "u64 \<Rightarrow> s32 \<Rightarrow> s32 \<Rightarrow> output_call list" where
  "trace_cpu_idle ts cpu state = [TRACE_COUNTER ''cpu-idle'' (cpu_track cpu '' idle_state'') ts (sint state)]"

section \<open>Slices\<close>

definition trace_cpu_idle_miss :: "u64 \<Rightarrow> s32 \<Rightarrow> s32 \<Rightarrow> s32 \<Rightarrow> output_call list" where
  "trace_cpu_idle_miss ts cpu state miss =
     [TRACE_EVENT ''cpu-idle'' ''cpu_idle_miss'' (TRACK_ID CPU_IDLE_MISS + sint cpu) ts
        [(''CPU'', Arg_int (sint cpu)), (''STATE'', Arg_int (sint state)),
         (''MISS'', Arg_str (if miss <s 0 then ''below'' else ''above''))],
      TRACE_EVENT_END ''cpu-idle'' (TRACK_ID CPU_IDLE_MISS + sint cpu) (ts + FAKE_DURATION)]"

definition trace_lb_entry :: "u64 \<Rightarrow> s32 \<Rightarrow> s32 \<Rightarrow> string \<Rightarrow> output_call list" where
  "trace_lb_entry ts this_cpu lb_cpu phase =
     [TRACE_EVENT_BEGIN ''load-balance'' phase (TRACK_ID LOAD_BALANCE + sint this_cpu) ts
        [(''CPU'', Arg_int (sint lb_cpu))]]"

definition trace_lb_exit :: "u64 \<Rightarrow> s32 \<Rightarrow> s32 \<Rightarrow> output_call list" where
  "trace_lb_exit ts this_cpu lb_cpu =
     [TRACE_EVENT_END ''load-balance'' (TRACK_ID LOAD_BALANCE + sint this_cpu) ts]"

text \<open>The loop of \<open>trace_lb_sd_stats\<close> from index \<open>i\<close>, with \<open>n\<close> iterations left.\<close>

fun trace_sd_levels :: "u64 \<Rightarrow> lb_sd_stats \<Rightarrow> nat \<Rightarrow> nat \<Rightarrow> output_call list" where
  "trace_sd_levels ts st i 0 = []"
| "trace_sd_levels ts st i (Suc n) =
     (if stat_level st i = - 1 \<and> stat_balance_interval st i = 0 then []
      else TRACE_COUNTER ''load-balance''
             (snprintf 64 (''CPU'' @ fmt_d (sd_cpu st) @ ''.level'' @ fmt_d (stat_level st i)
                @ ''.balance_interval''))
             ts (uint (stat_balance_interval st i))
           # trace_sd_levels ts st (Suc i) n)"

definition trace_lb_sd_stats :: "u64 \<Rightarrow> lb_sd_stats \<Rightarrow> output_call list" where
  "trace_lb_sd_stats ts st = trace_sd_levels ts st 0 MAX_SD_LEVELS"

definition trace_lb_overloaded :: "u64 \<Rightarrow> u32 \<Rightarrow> output_call list" where
  "trace_lb_overloaded ts v = [TRACE_COUNTER ''load-balance'' (snprintf 32 ''rd.overloaded'') ts (uint v)]"

definition trace_lb_overutilized :: "u64 \<Rightarrow> u32 \<Rightarrow> output_call list" where
  "trace_lb_overutilized ts v =
     [TRACE_COUNTER ''load-balance'' (snprintf 32 ''rd.overutilized'') ts (uint v)]"

definition trace_lb_misfit :: "u64 \<Rightarrow> s32 \<Rightarrow> u64 \<Rightarrow> output_call list" where
  "trace_lb_misfit ts cpu v =
     [TRACE_COUNTER ''load-balance'' (cpu_track cpu '' misfit_task_load'') ts (uint v)]"

definition trace_ipi_send_cpu ::
  "u64 \<Rightarrow> s32 \<Rightarrow> s32 \<Rightarrow> string option \<Rightarrow> ptr \<Rightarrow> string option \<Rightarrow> ptr \<Rightarrow> output_call list" where
  "trace_ipi_send_cpu ts from_cpu target_cpu callsite callsitep callback callbackp =
     [TRACE_EVENT ''ipi'' ''ipi_send_cpu'' (TRACK_ID IPI + sint from_cpu) ts
        [(''FROM_CPU'', Arg_int (sint from_cpu)),
         (''TARGET_CPU'', Arg_int (sint target_cpu)),
         (case callsite of Some s \<Rightarrow> s | None \<Rightarrow> ''CALLSITE'',
          Arg_ptr (if callsite \<noteq> None then 1 else callsitep)),
         (case callback of Some s \<Rightarrow> s | None \<Rightarrow> ''CALLBACK'',
          Arg_ptr (if callback \<noteq> None then 2 else callbackp))],
      TRACE_EVENT_END ''ipi'' (TRACK_ID IPI + sint from_cpu) (ts + FAKE_DURATION)]"

end
