(* ===== verification/SA_Kallsyms.thy ===== *)
theory SA_Kallsyms imports SA_Libc "HOL-Library.Multiset" begin

text \<open>
  Component: the kernel symbol table (\<open>parse_kallsyms.c\<close>), used to name the functions of an IPI.
  The static array \<open>symbols\<close> is a list of \<open>MAX_NUM_SYMBOLS\<close> entries. The files under \<open>/proc\<close> are
  their contents (\<^const>\<open>None\<close> when they cannot be opened). \<open>qsort\<close> belongs to the C library and is a
  parameter with its contract as a locale. A read outside the array is an error value.
\<close>

section \<open>State\<close>

definition MAX_NUM_SYMBOLS :: nat where "MAX_NUM_SYMBOLS = 500000"
definition LINE_SIZE :: nat where "LINE_SIZE = 256"
definition SYMBOL_LEN :: nat where "SYMBOL_LEN = 128"

record symbol =
  sym_address :: ptr
  sym_symbol :: "char list"

record kallsyms =
  symbols :: "symbol list"
  ready :: bool

definition zero_symbol :: symbol where
  "zero_symbol = \<lparr>sym_address = 0, sym_symbol = replicate SYMBOL_LEN NUL\<rparr>"

definition kallsyms_init :: kallsyms where
  "kallsyms_init = \<lparr>symbols = replicate MAX_NUM_SYMBOLS zero_symbol, ready = False\<rparr>"

section \<open>Comparing symbols\<close>

text \<open>\<open>return i->address - j->address\<close>: a 64 bit difference, returned as an \<open>int\<close>.\<close>

definition cmp :: "symbol \<Rightarrow> symbol \<Rightarrow> s32" where
  "cmp a b = ucast (sym_address a - sym_address b)"

section \<open>Reading the table\<close>

text \<open>\<open>fgets\<close> on the rest of a file: at most \<open>n - 1\<close> characters, up to and with a newline.\<close>

fun fgets_take :: "nat \<Rightarrow> string \<Rightarrow> string \<times> string" where
  "fgets_take 0 s = ([], s)"
| "fgets_take (Suc n) [] = ([], [])"
| "fgets_take (Suc n) (c # cs) =
     (if c = CHR 0x0A then ([c], cs)
      else let (l, r) = fgets_take n cs in (c # l, r))"

definition fgets :: "nat \<Rightarrow> string \<Rightarrow> (string \<times> string) option" where
  "fgets n s = (if s = [] then None else Some (fgets_take (n - 1) s))"

text \<open>\<open>strtok\<close> with a blank as the only delimiter: the token and what the next call works on.\<close>

definition strtok :: "string \<Rightarrow> (string \<times> string) option" where
  "strtok s =
     (let t = dropWhile (\<lambda>c. c = CHR '' '') s in
      if t = [] then None
      else Some (takeWhile (\<lambda>c. c \<noteq> CHR '' '') t, drop 1 (dropWhile (\<lambda>c. c \<noteq> CHR '' '') t)))"

lemma fgets_take_le: "length (snd (fgets_take n s)) \<le> length s"
  by (induction n s rule: fgets_take.induct) (auto split: prod.splits)

lemma fgets_take_shorter: "0 < n \<Longrightarrow> s \<noteq> [] \<Longrightarrow> length (snd (fgets_take n s)) < length s"
  using fgets_take_le [of "n - 1" "tl s"]
  by (cases n; cases s) (auto split: prod.splits)

text \<open>
  The \<open>while\<close> loop of \<open>parse_kallsyms\<close>. The address is stored before it is checked, so a line that
  stops the loop leaves its address in the next entry.
\<close>

function parse_lines :: "symbol list \<Rightarrow> nat \<Rightarrow> string \<Rightarrow> symbol list" where
  "parse_lines syms i inp =
     (case fgets LINE_SIZE inp of
        None \<Rightarrow> syms
      | Some (line, rest) \<Rightarrow>
          if \<not> i < MAX_NUM_SYMBOLS then syms
          else (case strtok (c_str line) of
              None \<Rightarrow> syms
            | Some (tok, r1) \<Rightarrow>
                (let addr = strtoul (takeWhile (\<lambda>c. c = CHR '' '') (c_str line) @ tok) 16;
                     syms1 = syms[i := (syms ! i)\<lparr>sym_address := strto_value addr\<rparr>] in
                 if strto_erange addr then syms1
                 else if strto_no_digits addr then syms1
                 else (case strtok r1 of
                     None \<Rightarrow> syms1
                   | Some (typ, r2) \<Rightarrow>
                       (case strtok r2 of
                          None \<Rightarrow> syms1
                        | Some (name, r3) \<Rightarrow>
                            (let a = strncpy (sym_symbol (syms1 ! i)) name (SYMBOL_LEN - 1) in
                             parse_lines
                               (syms1[i := (syms1 ! i)\<lparr>sym_symbol := a[SYMBOL_LEN - 1 := CHR ''0'']\<rparr>])
                               (Suc i) rest))))))"
  by pat_completeness auto
termination
proof (relation "measure (\<lambda>(syms, i, inp). length inp)", goal_cases)
  case (2 syms i inp x line rest)
  then show ?case
    using fgets_take_shorter [of "LINE_SIZE - 1" inp]
    by (auto simp: fgets_def LINE_SIZE_def split: if_splits)
qed simp

declare parse_lines.simps [simp del]

text \<open>The first half of \<open>parse_kallsyms\<close>: does \<open>kptr_restrict\<close> make it give up?\<close>

definition kptr_restricts :: "string option \<Rightarrow> bool" where
  "kptr_restricts kptr_restrict =
     (case kptr_restrict of
        None \<Rightarrow> False
      | Some inp \<Rightarrow>
          (case fgets LINE_SIZE inp of
             None \<Rightarrow> False
           | Some (line, rest) \<Rightarrow>
               2 \<le> sint (word_of_int (strto_value (strtol (c_str line) 0)) :: s32)))"

definition parse_kallsyms ::
  "((symbol \<Rightarrow> symbol \<Rightarrow> s32) \<Rightarrow> symbol list \<Rightarrow> symbol list) \<Rightarrow>
     string option \<Rightarrow> string option \<Rightarrow> kallsyms \<Rightarrow> kallsyms" where
  "parse_kallsyms qsort kptr_restrict proc_kallsyms ks =
     (if kptr_restricts kptr_restrict then ks
      else (case proc_kallsyms of
          None \<Rightarrow> ks
        | Some inp \<Rightarrow>
            ks\<lparr>symbols := qsort cmp (parse_lines (symbols ks) 0 inp), ready := True\<rparr>))"

section \<open>Looking an address up\<close>

text \<open>Subtraction of \<open>unsigned int\<close>s.\<close>

definition usub32 :: "nat \<Rightarrow> nat \<Rightarrow> nat" where
  "usub32 a b = (a + 2 ^ 32 - b) mod 2 ^ 32"

text \<open>
  Results: \<open>Inl i\<close> for a read of entry \<open>i\<close> outside the array, \<open>Inr None\<close> for NULL, \<open>Inr (Some a)\<close>
  for a pointer to the char array \<open>a\<close>.
\<close>

type_synonym find_result = "nat + char list option"

function find_linear :: "symbol list \<Rightarrow> nat \<Rightarrow> nat \<Rightarrow> ptr \<Rightarrow> find_result" where
  "find_linear syms start stop address =
     (if start \<le> usub32 stop 1 then
        if \<not> start < length syms then Inl start
        else if sym_address (syms ! start) \<le> address then
          if \<not> Suc start < length syms then Inl (Suc start)
          else if address \<le> sym_address (syms ! Suc start) then Inr (Some (sym_symbol (syms ! start)))
          else find_linear syms (Suc start) stop address
        else find_linear syms (Suc start) stop address
      else Inr None)"
  by pat_completeness auto
termination
  by (relation "measure (\<lambda>(syms, start, stop, address). length syms - start)") auto

declare find_linear.simps [simp del]

text \<open>\<open>None\<close> would be a search that never returns.\<close>

partial_function (option) find_binary ::
  "symbol list \<Rightarrow> nat \<Rightarrow> nat \<Rightarrow> nat \<Rightarrow> ptr \<Rightarrow> find_result option" where
  "find_binary syms start pivot stop address =
     (if usub32 stop start \<le> 100 then Some (find_linear syms start stop address)
      else if \<not> pivot < length syms then Some (Inl pivot)
      else if address = sym_address (syms ! pivot) then Some (Inr (Some (sym_symbol (syms ! pivot))))
      else if sym_address (syms ! pivot) < address
        then find_binary syms pivot (pivot + usub32 stop pivot div 2) stop address
      else if address < sym_address (syms ! pivot)
        then find_binary syms start (start + usub32 pivot start div 2) pivot address
      else Some (Inr None))"

definition find_kallsyms :: "kallsyms \<Rightarrow> ptr \<Rightarrow> find_result option" where
  "find_kallsyms ks address =
     (if address = 0 \<or> \<not> ready ks then Some (Inr None)
      else find_binary (symbols ks) 0 (MAX_NUM_SYMBOLS div 2) (MAX_NUM_SYMBOLS - 1) address)"

section \<open>The linear scan\<close>

lemma usub32_eq: "b \<le> a \<Longrightarrow> a < 2 ^ 32 \<Longrightarrow> usub32 a b = a - b"
proof -
  assume "b \<le> a" "a < 2 ^ 32"
  then have "a + 2 ^ 32 - b = (a - b) + 2 ^ 32" "a - b < 2 ^ 32" by simp_all
  then show ?thesis unfolding usub32_def by (metis mod_add_self2 mod_less)
qed

text \<open>Entry \<open>i\<close> and its successor enclose an address.\<close>

definition encloses :: "symbol list \<Rightarrow> nat \<Rightarrow> ptr \<Rightarrow> bool" where
  "encloses syms i x \<longleftrightarrow> sym_address (syms ! i) \<le> x \<and> x \<le> sym_address (syms ! Suc i)"

lemma find_linear_step:
  assumes "0 < stop" "stop < length syms" "length syms \<le> 2 ^ 32"
  shows "find_linear syms i stop x =
    (if i < stop then
       if encloses syms i x then Inr (Some (sym_symbol (syms ! i))) else find_linear syms (Suc i) stop x
     else Inr None)"
proof -
  have "i \<le> usub32 stop 1 \<longleftrightarrow> i < stop"
    using assms by (subst usub32_eq) auto
  then show ?thesis
    using assms by (subst find_linear.simps) (auto simp: encloses_def)
qed

lemma find_linear_spec:
  assumes "0 < stop" "stop < length syms" "length syms \<le> 2 ^ 32"
  shows "(\<exists>j. i \<le> j \<and> j < stop \<and> encloses syms j x
            \<and> find_linear syms i stop x = Inr (Some (sym_symbol (syms ! j))))
    \<or> ((\<forall>j. i \<le> j \<and> j < stop \<longrightarrow> \<not> encloses syms j x) \<and> find_linear syms i stop x = Inr None)"
proof (induction "stop - i" arbitrary: i)
  case 0
  then show ?case using find_linear_step [OF assms, of i x] by auto
next
  case (Suc n)
  then have i: "i < stop" by simp
  show ?case
  proof (cases "encloses syms i x")
    case True
    then show ?thesis using find_linear_step [OF assms, of i x] i by auto
  next
    case False
    then have eq: "find_linear syms i stop x = find_linear syms (Suc i) stop x"
      using find_linear_step [OF assms, of i x] i by simp
    have split: "(\<forall>j. i \<le> j \<and> j < stop \<longrightarrow> \<not> encloses syms j x)
        \<longleftrightarrow> (\<forall>j. Suc i \<le> j \<and> j < stop \<longrightarrow> \<not> encloses syms j x)"
      using False by (metis Suc_le_eq le_neq_implies_less less_imp_le_nat)
    have "n = stop - Suc i" using Suc.hyps(2) by simp
    from Suc.hyps(1) [OF this] show ?thesis
      unfolding eq split by (metis Suc_leD)
  qed
qed

section \<open>The binary search\<close>

text \<open>What the bounds satisfy in every call.\<close>

definition search_bounds :: "symbol list \<Rightarrow> nat \<Rightarrow> nat \<Rightarrow> nat \<Rightarrow> bool" where
  "search_bounds syms start pivot stop \<longleftrightarrow>
     start \<le> stop \<and> 0 < stop \<and> stop < length syms \<and> length syms \<le> 2 ^ 32 \<and>
     (100 < stop - start \<longrightarrow> start < pivot \<and> pivot < stop)"

definition sorted_symbols :: "symbol list \<Rightarrow> bool" where
  "sorted_symbols syms \<longleftrightarrow> sorted (map sym_address syms)"

lemma sorted_symbols_mono:
  "sorted_symbols syms \<Longrightarrow> i \<le> j \<Longrightarrow> j < length syms \<Longrightarrow> sym_address (syms ! i) \<le> sym_address (syms ! j)"
  by (auto simp: sorted_symbols_def sorted_iff_nth_mono)

definition find_ok :: "symbol list \<Rightarrow> nat \<Rightarrow> nat \<Rightarrow> ptr \<Rightarrow> char list option \<Rightarrow> bool" where
  "find_ok syms start stop x r \<longleftrightarrow>
     (case r of
        Some name \<Rightarrow> \<exists>i. start \<le> i \<and> i \<le> stop \<and> name = sym_symbol (syms ! i) \<and>
          (x = sym_address (syms ! i) \<or> i < stop \<and> encloses syms i x)
      | None \<Rightarrow> sorted_symbols syms \<longrightarrow> (\<forall>i. start \<le> i \<and> i < stop \<longrightarrow> \<not> encloses syms i x))"

lemma find_ok_right:
  assumes "find_ok syms pivot stop x r" "start \<le> pivot" "pivot < length syms"
    "sym_address (syms ! pivot) < x"
  shows "find_ok syms start stop x r"
proof (cases r)
  case None
  have "\<not> encloses syms i x" if "sorted_symbols syms" "i < pivot" for i
    using sorted_symbols_mono [OF that(1), of "Suc i" pivot] that(2) assms(3,4)
    by (auto simp: encloses_def)
  then show ?thesis using assms(1) None by (auto simp: find_ok_def) (meson not_le)
next
  case (Some n)
  then show ?thesis using assms(1,2) by (auto simp: find_ok_def intro: le_trans)
qed

lemma find_ok_left:
  assumes "find_ok syms start pivot x r" "pivot \<le> stop" "stop < length syms"
    "x < sym_address (syms ! pivot)"
  shows "find_ok syms start stop x r"
proof (cases r)
  case None
  have "\<not> encloses syms i x" if "sorted_symbols syms" "pivot \<le> i" "i < stop" for i
    using sorted_symbols_mono [OF that(1,2)] that(3) assms(3,4) by (auto simp: encloses_def)
  then show ?thesis using assms(1) None by (auto simp: find_ok_def) (meson not_le)
next
  case (Some n)
  then show ?thesis using assms(1,2) by (fastforce simp: find_ok_def)
qed

lemma find_binary_spec:
  "search_bounds syms start pivot stop \<Longrightarrow>
     \<exists>r. find_binary syms start pivot stop x = Some (Inr r) \<and> find_ok syms start stop x r"
proof (induction "stop - start" arbitrary: start pivot stop rule: less_induct)
  case less
  have b: "start \<le> stop" "0 < stop" "stop < length syms" "length syms \<le> 2 ^ 32"
    using less.prems by (simp_all add: search_bounds_def)
  have u: "usub32 stop start = stop - start" using b by (intro usub32_eq) auto
  show ?case
  proof (cases "stop - start \<le> 100")
    case True
    then have "find_binary syms start pivot stop x = Some (find_linear syms start stop x)"
      by (subst find_binary.simps) (simp add: u)
    then show ?thesis
      using find_linear_spec [OF b(2-4), of start x]
      by (auto simp: find_ok_def) (metis less_imp_le)
  next
    case False
    then have p: "start < pivot" "pivot < stop" using less.prems by (auto simp: search_bounds_def)
    let ?a = "sym_address (syms ! pivot)"
    have step: "find_binary syms start pivot stop x =
        (if x = ?a then Some (Inr (Some (sym_symbol (syms ! pivot))))
         else if ?a < x then find_binary syms pivot (pivot + (stop - pivot) div 2) stop x
         else find_binary syms start (start + (pivot - start) div 2) pivot x)"
      using False p b by (subst find_binary.simps) (auto simp: u usub32_eq)
    consider "x = ?a" | "?a < x" | "x < ?a" by (rule linorder_cases) auto
    then show ?thesis
    proof cases
      case 1
      have "find_ok syms start stop x (Some (sym_symbol (syms ! pivot)))"
        unfolding find_ok_def using 1 p by (auto intro!: exI [of _ pivot])
      then show ?thesis using step 1 by simp
    next
      case 2
      have "search_bounds syms pivot (pivot + (stop - pivot) div 2) stop"
        using b p by (auto simp: search_bounds_def)
      then obtain r where
        "find_binary syms pivot (pivot + (stop - pivot) div 2) stop x = Some (Inr r)"
        "find_ok syms pivot stop x r"
        using less.hyps [of stop pivot] p b by force
      then show ?thesis
        using step 2 p b find_ok_right [of syms pivot stop x r start] by auto
    next
      case 3
      have "search_bounds syms start (start + (pivot - start) div 2) pivot"
        using b p by (auto simp: search_bounds_def)
      then obtain r where
        "find_binary syms start (start + (pivot - start) div 2) pivot x = Some (Inr r)"
        "find_ok syms start pivot x r"
        using less.hyps [of pivot start] p b by force
      then show ?thesis
        using step 3 p b find_ok_left [of syms start pivot x r stop] by auto
    qed
  qed
qed

lemma search_bounds_init:
  "length syms = MAX_NUM_SYMBOLS \<Longrightarrow> search_bounds syms 0 (MAX_NUM_SYMBOLS div 2) (MAX_NUM_SYMBOLS - 1)"
  by (simp add: search_bounds_def MAX_NUM_SYMBOLS_def)

lemma find_kallsyms_spec:
  assumes "length (symbols ks) = MAX_NUM_SYMBOLS" "ready ks" "x \<noteq> 0"
  shows "\<exists>r. find_kallsyms ks x = Some (Inr r)
    \<and> find_ok (symbols ks) 0 (MAX_NUM_SYMBOLS - 1) x r"
  using find_binary_spec [OF search_bounds_init [OF assms(1)], of x] assms(2,3)
  by (simp add: find_kallsyms_def)

lemma enclosed_between:
  assumes "sym_address (syms ! i) \<le> x" "x \<le> sym_address (syms ! j)" "i < j"
  shows "\<exists>k. i \<le> k \<and> k < j \<and> encloses syms k x"
proof -
  have "sym_address (syms ! i) \<le> x \<Longrightarrow> x \<le> sym_address (syms ! (i + Suc d)) \<Longrightarrow>
      \<exists>k. i \<le> k \<and> k < i + Suc d \<and> encloses syms k x" for d
  proof (induction d)
    case 0
    then show ?case by (auto simp: encloses_def)
  next
    case (Suc d)
    show ?case
    proof (cases "x \<le> sym_address (syms ! (i + Suc d))")
      case True
      from Suc.IH [OF Suc.prems(1) this] show ?thesis
        by (metis add_Suc_right less_SucI)
    next
      case False
      then have "encloses syms (i + Suc d) x" using Suc.prems by (simp add: encloses_def)
      then show ?thesis by (intro exI [of _ "i + Suc d"]) simp
    qed
  qed
  from this [of "j - Suc i"] assms show ?thesis by simp
qed

section \<open>Sorting\<close>

text \<open>
  The contract of \<open>qsort\<close>: with a comparison function that is a total preorder on the elements
  the array comes back permuted and in order; nothing is promised otherwise.
\<close>

definition consistent_cmp :: "('a \<Rightarrow> 'a \<Rightarrow> s32) \<Rightarrow> 'a set \<Rightarrow> bool" where
  "consistent_cmp c S \<longleftrightarrow>
     (\<forall>a \<in> S. \<forall>b \<in> S. (c a b \<le>s 0) \<or> (c b a \<le>s 0)) \<and>
     (\<forall>a \<in> S. \<forall>b \<in> S. \<forall>d \<in> S. c a b \<le>s 0 \<longrightarrow> c b d \<le>s 0 \<longrightarrow> c a d \<le>s 0)"

lemma consistent_total:
  "consistent_cmp c S \<Longrightarrow> a \<in> S \<Longrightarrow> b \<in> S \<Longrightarrow> \<not> c a b \<le>s 0 \<Longrightarrow> c b a \<le>s 0"
  unfolding consistent_cmp_def by metis

lemma consistent_trans:
  "consistent_cmp c S \<Longrightarrow> a \<in> S \<Longrightarrow> b \<in> S \<Longrightarrow> d \<in> S \<Longrightarrow> c a b \<le>s 0 \<Longrightarrow> c b d \<le>s 0 \<Longrightarrow> c a d \<le>s 0"
  unfolding consistent_cmp_def by metis

locale c_qsort =
  fixes qsort :: "('a \<Rightarrow> 'a \<Rightarrow> s32) \<Rightarrow> 'a list \<Rightarrow> 'a list"
  assumes qsort_mset: "consistent_cmp c (set xs) \<Longrightarrow> mset (qsort c xs) = mset xs"
    and qsort_ordered: "consistent_cmp c (set xs) \<Longrightarrow> sorted_wrt (\<lambda>a b. c a b \<le>s 0) (qsort c xs)"
begin

lemma qsort_set: "consistent_cmp c (set xs) \<Longrightarrow> set (qsort c xs) = set xs"
  by (metis qsort_mset mset_eq_setD)

lemma qsort_length: "consistent_cmp c (set xs) \<Longrightarrow> length (qsort c xs) = length xs"
  by (metis qsort_mset size_mset)

text \<open>Where the comparison agrees with a key, the result is ordered by that key.\<close>

lemma qsort_by_key:
  fixes key :: "'a \<Rightarrow> 'k :: linorder"
  assumes agree: "\<And>a b. a \<in> set xs \<Longrightarrow> b \<in> set xs \<Longrightarrow> c a b \<le>s 0 \<longleftrightarrow> key a \<le> key b"
  shows "sorted (map key (qsort c xs)) \<and> mset (qsort c xs) = mset xs"
proof -
  have con: "consistent_cmp c (set xs)"
    unfolding consistent_cmp_def using agree linear order_trans by metis
  have "sorted_wrt (\<lambda>a b. key a \<le> key b) (qsort c xs)"
    using qsort_ordered [OF con] qsort_set [OF con] agree
    by (simp add: sorted_wrt_iff_nth_less) (metis nth_mem order.strict_trans)
  then show ?thesis using qsort_mset [OF con] by (simp add: sorted_map)
qed

end

text \<open>Insertion sort meets the contract.\<close>

fun insert_c :: "('a \<Rightarrow> 'a \<Rightarrow> s32) \<Rightarrow> 'a \<Rightarrow> 'a list \<Rightarrow> 'a list" where
  "insert_c c x [] = [x]"
| "insert_c c x (y # ys) = (if c x y \<le>s 0 then x # y # ys else y # insert_c c x ys)"

fun isort_c :: "('a \<Rightarrow> 'a \<Rightarrow> s32) \<Rightarrow> 'a list \<Rightarrow> 'a list" where
  "isort_c c [] = []"
| "isort_c c (x # xs) = insert_c c x (isort_c c xs)"

lemma mset_insert_c: "mset (insert_c c x xs) = add_mset x (mset xs)"
  by (induction xs) auto

lemma mset_isort_c: "mset (isort_c c xs) = mset xs"
  by (induction xs) (auto simp: mset_insert_c)

lemma set_insert_c: "set (insert_c c x xs) = insert x (set xs)"
  by (induction xs) auto

lemma set_isort_c: "set (isort_c c xs) = set xs"
  by (induction xs) (auto simp: set_insert_c)

lemma consistent_cmp_subset: "consistent_cmp c T \<Longrightarrow> S \<subseteq> T \<Longrightarrow> consistent_cmp c S"
  unfolding consistent_cmp_def by blast

lemma sorted_insert_c:
  "consistent_cmp c (insert x (set xs)) \<Longrightarrow> sorted_wrt (\<lambda>a b. c a b \<le>s 0) xs \<Longrightarrow>
     sorted_wrt (\<lambda>a b. c a b \<le>s 0) (insert_c c x xs)"
proof (induction xs)
  case (Cons y ys)
  show ?case
  proof (cases "c x y \<le>s 0")
    case True
    have "c x z \<le>s 0" if "z \<in> set ys" for z
      using consistent_trans [OF Cons.prems(1), of x y z] Cons.prems(2) True that by simp
    with True Cons.prems(2) show ?thesis by simp
  next
    case False
    then have "c y x \<le>s 0" using consistent_total [OF Cons.prems(1), of x y] by simp
    moreover have "consistent_cmp c (insert x (set ys))"
      using Cons.prems(1) by (rule consistent_cmp_subset) auto
    then have "sorted_wrt (\<lambda>a b. c a b \<le>s 0) (insert_c c x ys)"
      using Cons.IH Cons.prems(2) by simp
    ultimately show ?thesis using False Cons.prems(2) by (auto simp: set_insert_c)
  qed
qed simp

interpretation isort: c_qsort isort_c
proof (unfold_locales, goal_cases)
  case (1 c xs)
  show ?case by (rule mset_isort_c)
next
  case (2 c xs)
  then show ?case
  proof (induction xs)
    case (Cons x xs)
    have "consistent_cmp c (set xs)"
      using Cons.prems by (rule consistent_cmp_subset) auto
    then have "sorted_wrt (\<lambda>a b. c a b \<le>s 0) (isort_c c xs)" by (rule Cons.IH)
    moreover have "consistent_cmp c (insert x (set (isort_c c xs)))"
      using Cons.prems by (simp add: set_isort_c)
    ultimately show ?case by (simp add: sorted_insert_c)
  qed simp
qed

section \<open>What the comparison sees\<close>

text \<open>The low half of an address, which is all that survives the conversion to \<open>int\<close>.\<close>

definition low32 :: "ptr \<Rightarrow> nat" where
  "low32 a = unat a mod 2 ^ 32"

definition high32 :: "ptr \<Rightarrow> nat" where
  "high32 a = unat a div 2 ^ 32"

lemma unat_high_low: "unat a = high32 a * 2 ^ 32 + low32 a"
  by (simp add: high32_def low32_def)

lemma low32_less: "low32 a < 2 ^ 32"
  by (simp add: low32_def)

lemma ucast_diff_low32: "(ucast (a - b :: ptr) :: s32) = word_of_int (int (low32 a) - int (low32 b))"
proof -
  have "(ucast (a - b) :: s32) = word_of_int (uint (a - b))"
    by (simp only: ucast_eq)
  also have "uint (a - b) = take_bit 64 (uint a - uint b)"
    by (simp add: uint_word_ariths take_bit_eq_mod)
  also have "(word_of_int (take_bit 64 (uint a - uint b)) :: s32) = word_of_int (uint a - uint b)"
    unfolding word_of_int_eq_iff by (simp only: take_bit_take_bit) simp
  also have "\<dots> = word_of_int (uint a mod 2 ^ 32 - uint b mod 2 ^ 32)"
    unfolding word_of_int_eq_iff by (simp add: take_bit_eq_mod mod_diff_eq)
  also have "uint a mod 2 ^ 32 - uint b mod 2 ^ 32 = int (low32 a) - int (low32 b)"
    by (simp add: low32_def zmod_int)
  finally show ?thesis .
qed

lemma sint_cmp:
  assumes "int (low32 (sym_address a)) - int (low32 (sym_address b)) < 2 ^ 31"
    and "- (2 ^ 31) \<le> int (low32 (sym_address a)) - int (low32 (sym_address b))"
  shows "sint (cmp a b) = int (low32 (sym_address a)) - int (low32 (sym_address b))"
  unfolding cmp_def ucast_diff_low32 using assms by (intro sint_word_of_int_32)

lemma cmp_le_iff:
  assumes "int (low32 (sym_address a)) - int (low32 (sym_address b)) < 2 ^ 31"
    and "- (2 ^ 31) \<le> int (low32 (sym_address a)) - int (low32 (sym_address b))"
  shows "cmp a b \<le>s 0 \<longleftrightarrow> low32 (sym_address a) \<le> low32 (sym_address b)"
  using sint_cmp [OF assms] by (simp add: word_sle_eq)

text \<open>
  Addresses the comparison orders: all in one 4 GiB window, in its lower half, next to the zero
  addresses of unused entries.
\<close>

definition low_window :: "nat \<Rightarrow> symbol set \<Rightarrow> bool" where
  "low_window h S \<longleftrightarrow>
     (\<forall>s \<in> S. sym_address s = 0 \<or>
        (high32 (sym_address s) = h \<and> 0 < low32 (sym_address s) \<and> low32 (sym_address s) < 2 ^ 31))"

text \<open>Addresses in the upper half of their window, as those of the kernel image on x86-64.\<close>

definition high_window :: "nat \<Rightarrow> symbol set \<Rightarrow> bool" where
  "high_window h S \<longleftrightarrow>
     (\<forall>s \<in> S. sym_address s = 0 \<or>
        (high32 (sym_address s) = h \<and> 2 ^ 31 < low32 (sym_address s)))"

lemma low32_zero [simp]: "low32 0 = 0"
  by (simp add: low32_def)

lemma high32_zero [simp]: "high32 0 = 0"
  by (simp add: high32_def)

lemma cmp_agrees_low_window:
  assumes "low_window h S" "a \<in> S" "b \<in> S"
  shows "cmp a b \<le>s 0 \<longleftrightarrow> sym_address a \<le> sym_address b"
proof -
  let ?a = "sym_address a" and ?b = "sym_address b"
  have a: "?a = 0 \<or> high32 ?a = h \<and> 0 < low32 ?a \<and> low32 ?a < 2 ^ 31"
    and b: "?b = 0 \<or> high32 ?b = h \<and> 0 < low32 ?b \<and> low32 ?b < 2 ^ 31"
    using assms by (auto simp: low_window_def)
  then have "int (low32 ?a) < 2 ^ 31" "int (low32 ?b) < 2 ^ 31" by auto
  then have "cmp a b \<le>s 0 \<longleftrightarrow> low32 ?a \<le> low32 ?b"
    by (intro cmp_le_iff) linarith+
  also have "\<dots> \<longleftrightarrow> unat ?a \<le> unat ?b"
    using a b by (auto simp: unat_high_low [of ?a] unat_high_low [of ?b])
  finally show ?thesis by (simp add: word_le_nat_alt)
qed

lemma cmp_agrees_high_window:
  assumes "high_window h S" "a \<in> S" "b \<in> S"
  shows "cmp a b \<le>s 0 \<longleftrightarrow> sym_address a - 1 \<le> sym_address b - 1"
proof -
  let ?a = "sym_address a" and ?b = "sym_address b"
  have a: "?a = 0 \<or> high32 ?a = h \<and> 2 ^ 31 < low32 ?a"
    and b: "?b = 0 \<or> high32 ?b = h \<and> 2 ^ 31 < low32 ?b"
    using assms by (auto simp: high_window_def)
  have pred: "unat (x - 1) = unat x - 1" if "x \<noteq> 0" for x :: ptr
    using that by (simp add: unat_minus_one)
  have max: "unat (0 - 1 :: ptr) = 2 ^ 64 - 1" by (simp add: unat_minus_one_64)
  have lt: "unat x < 2 ^ 64" for x :: ptr
    using unsigned_less [of x, where ?'a = nat] by simp
  show ?thesis
  proof (cases "?a = 0"; cases "?b = 0")
    assume "?a \<noteq> 0" "?b \<noteq> 0"
    have "int (low32 ?a) < 2 ^ 32" "int (low32 ?b) < 2 ^ 32"
      "2 ^ 31 < int (low32 ?a)" "2 ^ 31 < int (low32 ?b)"
      using low32_less [of ?a] low32_less [of ?b] a b \<open>?a \<noteq> 0\<close> \<open>?b \<noteq> 0\<close> by auto
    then have "cmp a b \<le>s 0 \<longleftrightarrow> low32 ?a \<le> low32 ?b"
      by (intro cmp_le_iff) simp_all
    also have "\<dots> \<longleftrightarrow> unat ?a \<le> unat ?b"
      using a b \<open>?a \<noteq> 0\<close> \<open>?b \<noteq> 0\<close> by (auto simp: unat_high_low [of ?a] unat_high_low [of ?b])
    also have "\<dots> \<longleftrightarrow> unat (?a - 1) \<le> unat (?b - 1)"
    proof -
      have "0 < unat ?a" "0 < unat ?b"
        using \<open>?a \<noteq> 0\<close> \<open>?b \<noteq> 0\<close> by (simp_all add: unat_gt_0)
      then show ?thesis
        unfolding pred [OF \<open>?a \<noteq> 0\<close>] pred [OF \<open>?b \<noteq> 0\<close>] by linarith
    qed
    finally show ?thesis by (simp add: word_le_nat_alt)
  next
    assume z: "?a = 0" "?b = 0"
    then show ?thesis by (simp add: cmp_def)
  next
    assume z: "?a = 0" "?b \<noteq> 0"
    have "cmp a b = word_of_int (int (low32 ?a) - int (low32 ?b))"
      by (simp only: cmp_def ucast_diff_low32)
    also have "\<dots> = word_of_int (2 ^ 32 - int (low32 ?b))"
      unfolding word_of_int_eq_iff using z by (simp add: take_bit_eq_mod)
    finally have eq: "cmp a b = word_of_int (2 ^ 32 - int (low32 ?b))" .
    have "sint (cmp a b) = 2 ^ 32 - int (low32 ?b)"
      unfolding eq using b z low32_less [of ?b] by (intro sint_word_of_int_32) auto
    then have "\<not> cmp a b \<le>s 0" using low32_less [of ?b] by (simp add: word_sle_eq)
    moreover have "unat (?a - 1) = 2 ^ 64 - 1" using z(1) max by simp
    moreover have "unat (?b - 1) < 2 ^ 64 - 1"
      unfolding pred [OF z(2)] using lt [of ?b] by simp
    ultimately show ?thesis by (simp add: word_le_nat_alt)
  next
    assume z: "?a \<noteq> 0" "?b = 0"
    have "cmp a b = word_of_int (int (low32 ?a) - int (low32 ?b))"
      by (simp only: cmp_def ucast_diff_low32)
    also have "\<dots> = word_of_int (int (low32 ?a) - 2 ^ 32)"
      unfolding word_of_int_eq_iff using z by (simp add: take_bit_eq_mod)
    finally have eq: "cmp a b = word_of_int (int (low32 ?a) - 2 ^ 32)" .
    have "sint (cmp a b) = int (low32 ?a) - 2 ^ 32"
      unfolding eq using a z low32_less [of ?a] by (intro sint_word_of_int_32) auto
    then have "cmp a b \<le>s 0" using low32_less [of ?a] by (simp add: word_sle_eq)
    moreover have "sym_address a - 1 \<le> sym_address b - 1"
      using z by simp
    ultimately show ?thesis by simp
  qed
qed

section \<open>Parsing well-formed lines\<close>

text \<open>A line of \<open>/proc/kallsyms\<close>: address, type and name, separated by blanks.\<close>

definition kallsyms_line :: "string \<times> string \<times> string \<Rightarrow> string" where
  "kallsyms_line = (\<lambda>(tok, ty, name). tok @ CHR '' '' # ty @ CHR '' '' # name @ [CHR 0x0A])"

definition plain :: "string \<Rightarrow> bool" where
  "plain s \<longleftrightarrow> s \<noteq> [] \<and> (\<forall>c \<in> set s. c \<noteq> CHR '' '' \<and> c \<noteq> CHR 0x0A \<and> c \<noteq> NUL)"

definition line_wf :: "string \<times> string \<times> string \<Rightarrow> bool" where
  "line_wf = (\<lambda>(tok, ty, name). plain tok \<and> plain ty \<and> plain name \<and>
     length (kallsyms_line (tok, ty, name)) < LINE_SIZE \<and>
     \<not> strto_erange (strtoul tok 16) \<and> \<not> strto_no_digits (strtoul tok 16))"

text \<open>What ends up in the 128 characters of an entry: 127 of the token, and a digit zero.\<close>

definition stored_name :: "string \<Rightarrow> char list" where
  "stored_name token =
     take (SYMBOL_LEN - 1) (token @ replicate (SYMBOL_LEN - 1) NUL) @ [CHR ''0'']"

definition line_symbol :: "string \<times> string \<times> string \<Rightarrow> symbol" where
  "line_symbol = (\<lambda>(tok, ty, name).
     \<lparr>sym_address = strto_value (strtoul tok 16), sym_symbol = stored_name (name @ [CHR 0x0A])\<rparr>)"

lemma fgets_take_line:
  "CHR 0x0A \<notin> set l \<Longrightarrow> length l < n \<Longrightarrow> fgets_take n (l @ CHR 0x0A # rest) = (l @ [CHR 0x0A], rest)"
proof (induction l arbitrary: n)
  case Nil
  then show ?case by (cases n) auto
next
  case (Cons c l)
  then show ?case by (cases n) auto
qed

lemma strtok_blank: "plain t \<Longrightarrow> strtok (t @ CHR '' '' # r) = Some (t, r)"
  by (cases t) (auto simp: strtok_def plain_def dropWhile_append takeWhile_append)

lemma strtok_end: "plain t \<Longrightarrow> strtok (t @ [CHR 0x0A]) = Some (t @ [CHR 0x0A], [])"
  by (cases t) (auto simp: strtok_def plain_def dropWhile_append takeWhile_append)

lemma takeWhile_blank_plain: "plain t \<Longrightarrow> takeWhile (\<lambda>c. c = CHR '' '') (t @ r) = []"
  by (cases t) (auto simp: plain_def)

lemma stored_name_eq:
  assumes "length d = SYMBOL_LEN"
  shows "(strncpy d token (SYMBOL_LEN - 1))[SYMBOL_LEN - 1 := CHR ''0''] = stored_name token"
proof -
  let ?s = "take 127 token @ replicate (127 - length token) NUL"
  have "drop 127 d = [d ! 127]"
    using assms by (simp add: SYMBOL_LEN_def Cons_nth_drop_Suc [of 127 d, symmetric])
  then have "strncpy d token (SYMBOL_LEN - 1) = ?s @ [d ! 127]"
    by (simp add: strncpy_eq SYMBOL_LEN_def)
  moreover have "length ?s = 127" by simp
  then have "(?s @ [d ! 127])[127 := CHR ''0''] = ?s @ [CHR ''0'']"
    by (metis list_update_length)
  ultimately show ?thesis by (simp add: stored_name_def SYMBOL_LEN_def)
qed

lemma length_stored_name: "length (stored_name token) = SYMBOL_LEN"
  by (simp add: stored_name_def SYMBOL_LEN_def min_def)

lemma plain_chars: "plain t \<Longrightarrow> CHR 0x0A \<notin> set t" "plain t \<Longrightarrow> NUL \<notin> set t"
  by (metis plain_def)+

lemma line_symbol_eq:
  assumes "length (sym_symbol e) = SYMBOL_LEN"
  shows "e\<lparr>sym_address := strto_value (strtoul tok 16),
      sym_symbol := (strncpy (sym_symbol e) (name @ [CHR 0x0A]) (SYMBOL_LEN - 1))[SYMBOL_LEN - 1 := CHR ''0'']\<rparr>
    = line_symbol (tok, ty, name)"
  by (cases e) (use assms in \<open>simp add: line_symbol_def stored_name_eq del: One_nat_def\<close>)

lemma parse_lines_line:
  assumes "line_wf l" "i < MAX_NUM_SYMBOLS" "i < length syms"
    "length (sym_symbol (syms ! i)) = SYMBOL_LEN"
  shows "parse_lines syms i (kallsyms_line l @ rest) = parse_lines (syms[i := line_symbol l]) (Suc i) rest"
proof -
  obtain tok ty name where l: "l = (tok, ty, name)" by (cases l) auto
  let ?tail = "ty @ CHR '' '' # name @ [CHR 0x0A]"
  have wf: "plain tok" "plain ty" "plain name" "\<not> strto_erange (strtoul tok 16)"
      "\<not> strto_no_digits (strtoul tok 16)"
    and short: "length (kallsyms_line l) < LINE_SIZE"
    using assms(1) by (auto simp: line_wf_def l)
  let ?l = "tok @ CHR '' '' # ty @ CHR '' '' # name"
  have ln: "kallsyms_line l = ?l @ [CHR 0x0A]" by (simp add: kallsyms_line_def l)
  have chars: "CHR 0x0A \<notin> set ?l" "NUL \<notin> set (?l @ [CHR 0x0A])"
    using wf(1-3) by (simp_all add: plain_chars)
  have "length ?l < LINE_SIZE - 1" using short ln by simp
  from fgets_take_line [OF chars(1) this, of rest]
  have "fgets LINE_SIZE (kallsyms_line l @ rest) = Some (kallsyms_line l, rest)"
    unfolding fgets_def ln by simp
  moreover have "c_str (kallsyms_line l) = tok @ CHR '' '' # ?tail"
    unfolding ln using c_str_id [OF chars(2)] by simp
  moreover have "strtok ?tail = Some (ty, name @ [CHR 0x0A])"
    using wf by (simp add: strtok_blank)
  moreover have "strtok (name @ [CHR 0x0A]) = Some (name @ [CHR 0x0A], [])"
    using wf by (simp add: strtok_end)
  moreover have "takeWhile (\<lambda>c. c = CHR '' '') (tok @ CHR '' '' # ?tail) @ tok = tok"
    using wf by (simp add: takeWhile_blank_plain)
  moreover have "strtok (tok @ CHR '' '' # ?tail) = Some (tok, ?tail)"
    using wf by (simp add: strtok_blank)
  ultimately have "parse_lines syms i (kallsyms_line l @ rest) =
      (let syms1 = syms[i := (syms ! i)\<lparr>sym_address := strto_value (strtoul tok 16)\<rparr>];
           a = strncpy (sym_symbol (syms1 ! i)) (name @ [CHR 0x0A]) (SYMBOL_LEN - 1)
       in parse_lines (syms1[i := (syms1 ! i)\<lparr>sym_symbol := a[SYMBOL_LEN - 1 := CHR ''0'']\<rparr>]) (Suc i) rest)"
    using assms(2) wf(4,5) by (simp only: parse_lines.simps [of syms i "kallsyms_line l @ rest"]
        option.case prod.case Let_def if_False not_True_eq_False if_True simp_thms)
  also have "\<dots> = parse_lines (syms[i := line_symbol l]) (Suc i) rest"
    using assms(3) l line_symbol_eq [OF assms(4), where tok = tok and ty = ty and name = name] by (simp del: One_nat_def)
  finally show ?thesis .
qed

lemma parse_lines_rows:
  assumes "\<forall>l \<in> set rows. line_wf l" "i + length rows \<le> MAX_NUM_SYMBOLS"
    "length syms = MAX_NUM_SYMBOLS" "\<forall>s \<in> set syms. length (sym_symbol s) = SYMBOL_LEN"
  shows "parse_lines syms i (concat (map kallsyms_line rows)) =
    take i syms @ map line_symbol rows @ drop (i + length rows) syms"
  using assms
proof (induction rows arbitrary: i syms)
  case Nil
  then show ?case by (subst parse_lines.simps) (simp add: fgets_def)
next
  case (Cons l rows)
  let ?syms = "syms[i := line_symbol l]"
  have i: "i < length syms" using Cons.prems by simp
  have "length (sym_symbol (line_symbol l)) = SYMBOL_LEN"
    by (simp add: line_symbol_def length_stored_name split: prod.splits)
  then have arr: "\<forall>s \<in> set ?syms. length (sym_symbol s) = SYMBOL_LEN"
    using Cons.prems(4) by (auto dest: set_update_subset_insert [THEN subsetD])
  have "parse_lines syms i (concat (map kallsyms_line (l # rows)))
      = parse_lines ?syms (Suc i) (concat (map kallsyms_line rows))"
    using Cons.prems i by (simp add: parse_lines_line)
  also have "\<dots> = take (Suc i) ?syms @ map line_symbol rows @ drop (Suc i + length rows) ?syms"
    using Cons.prems by (intro Cons.IH arr) simp_all
  also have "\<dots> = take i syms @ map line_symbol (l # rows) @ drop (i + length (l # rows)) syms"
    using i by (simp add: take_Suc_conv_app_nth)
  finally show ?case .
qed

lemma c_str_stored_name:
  assumes "NUL \<notin> set token" "length token < SYMBOL_LEN - 1"
  shows "c_str (stored_name token) = token"
proof -
  obtain k where "SYMBOL_LEN - 1 - length token = Suc k"
    using assms(2) by (metis Suc_diff_Suc)
  then show ?thesis using assms
    by (simp add: stored_name_def c_str_terminated del: diff_diff_left)
qed

lemma stored_name_unterminated:
  "NUL \<notin> set token \<Longrightarrow> SYMBOL_LEN - 1 \<le> length token \<Longrightarrow> NUL \<notin> set (stored_name token)"
  by (auto simp: stored_name_def dest: in_set_takeD)

section \<open>The table after \<open>parse_kallsyms\<close>\<close>

definition parsed_table :: "(string \<times> string \<times> string) list \<Rightarrow> symbol list" where
  "parsed_table rows = map line_symbol rows @ replicate (MAX_NUM_SYMBOLS - length rows) zero_symbol"

lemma length_parsed_table: "length rows \<le> MAX_NUM_SYMBOLS \<Longrightarrow> length (parsed_table rows) = MAX_NUM_SYMBOLS"
  by (simp add: parsed_table_def)

lemma set_parsed_table: "set (parsed_table rows) \<subseteq> insert zero_symbol (line_symbol ` set rows)"
  by (auto simp: parsed_table_def)

lemma parse_lines_init:
  assumes "\<forall>l \<in> set rows. line_wf l" "length rows \<le> MAX_NUM_SYMBOLS"
  shows "parse_lines (symbols kallsyms_init) 0 (concat (map kallsyms_line rows)) = parsed_table rows"
  using parse_lines_rows [of rows 0 "symbols kallsyms_init"] assms
  by (simp add: kallsyms_init_def parsed_table_def zero_symbol_def)

lemma find_ok_sorted:
  assumes "sorted_symbols syms" "length syms = MAX_NUM_SYMBOLS"
    "find_ok syms 0 (MAX_NUM_SYMBOLS - 1) x r"
  shows "(r = None \<longleftrightarrow> x < sym_address (syms ! 0) \<or> sym_address (syms ! (MAX_NUM_SYMBOLS - 1)) < x)
    \<and> (\<forall>name. r = Some name \<longrightarrow> (\<exists>i < MAX_NUM_SYMBOLS. name = sym_symbol (syms ! i)
         \<and> sym_address (syms ! i) \<le> x
         \<and> (i < MAX_NUM_SYMBOLS - 1 \<longrightarrow> x \<le> sym_address (syms ! Suc i))
         \<and> (i = MAX_NUM_SYMBOLS - 1 \<longrightarrow> x = sym_address (syms ! i))))"
proof (cases r)
  case None
  then have "\<not> (\<exists>k. 0 \<le> k \<and> k < MAX_NUM_SYMBOLS - 1 \<and> encloses syms k x)"
    using assms by (auto simp: find_ok_def)
  then have "\<not> (sym_address (syms ! 0) \<le> x \<and> x \<le> sym_address (syms ! (MAX_NUM_SYMBOLS - 1)))"
    using enclosed_between [of syms 0 x "MAX_NUM_SYMBOLS - 1"] by (auto simp: MAX_NUM_SYMBOLS_def)
  with None show ?thesis by auto
next
  case (Some name)
  then obtain i where i: "i \<le> MAX_NUM_SYMBOLS - 1" "name = sym_symbol (syms ! i)"
    "x = sym_address (syms ! i) \<or> i < MAX_NUM_SYMBOLS - 1 \<and> encloses syms i x"
    using assms(3) by (auto simp: find_ok_def)
  have mono: "a \<le> b \<Longrightarrow> b < MAX_NUM_SYMBOLS \<Longrightarrow> sym_address (syms ! a) \<le> sym_address (syms ! b)" for a b
    using sorted_symbols_mono [OF assms(1)] assms(2) by simp
  have lt: "i < MAX_NUM_SYMBOLS" using i(1) by (simp add: MAX_NUM_SYMBOLS_def)
  have lo: "sym_address (syms ! i) \<le> x" using i(3) by (auto simp: encloses_def)
  have hi: "i < MAX_NUM_SYMBOLS - 1 \<Longrightarrow> x \<le> sym_address (syms ! Suc i)"
    using i(3) mono [of i "Suc i"] by (auto simp: encloses_def MAX_NUM_SYMBOLS_def)
  have last: "i = MAX_NUM_SYMBOLS - 1 \<Longrightarrow> x = sym_address (syms ! i)" using i(3) by auto
  have "sym_address (syms ! 0) \<le> x" using order_trans [OF mono [of 0 i] lo] lt by simp
  moreover have "x \<le> sym_address (syms ! (MAX_NUM_SYMBOLS - 1))"
  proof (cases "i = MAX_NUM_SYMBOLS - 1")
    case False
    with i(1) have "i < MAX_NUM_SYMBOLS - 1" by simp
    from order_trans [OF hi [OF this] mono [of "Suc i" "MAX_NUM_SYMBOLS - 1"]] this
    show ?thesis by (simp add: MAX_NUM_SYMBOLS_def)
  qed (use last in simp)
  ultimately have "\<not> (x < sym_address (syms ! 0) \<or> sym_address (syms ! (MAX_NUM_SYMBOLS - 1)) < x)"
    by (simp add: not_less)
  moreover have "\<exists>i < MAX_NUM_SYMBOLS. name = sym_symbol (syms ! i)
         \<and> sym_address (syms ! i) \<le> x
         \<and> (i < MAX_NUM_SYMBOLS - 1 \<longrightarrow> x \<le> sym_address (syms ! Suc i))
         \<and> (i = MAX_NUM_SYMBOLS - 1 \<longrightarrow> x = sym_address (syms ! i))"
    using lt i(2) lo hi last by blast
  ultimately show ?thesis using Some by simp
qed

end
