(* ===== verification/SA_Lookup.thy ===== *)
theory SA_Lookup imports SA_Kallsyms begin

text \<open>
  The properties of the symbol table: lookups always return and stay inside the array, what they
  return on an ordered table, and what \<open>parse_kallsyms\<close> followed by \<open>find_kallsyms\<close> gives for a
  kernel whose addresses the comparison function orders, and for one whose addresses it does not.
\<close>

section \<open>Ordering the parsed table\<close>

lemma parse_kallsyms_rows:
  assumes "\<forall>l \<in> set rows. line_wf l" "length rows \<le> MAX_NUM_SYMBOLS" "\<not> kptr_restricts kptr"
  shows "parse_kallsyms qsort kptr (Some (concat (map kallsyms_line rows))) kallsyms_init =
    \<lparr>symbols = qsort cmp (parsed_table rows), ready = True\<rparr>"
  using parse_lines_init [OF assms(1,2)] assms(3)
  by (simp add: parse_kallsyms_def kallsyms_init_def)

lemma low_window_table:
  "low_window h (line_symbol ` set rows) \<Longrightarrow> low_window h (set (parsed_table rows))"
  using set_parsed_table [of rows] by (fastforce simp: low_window_def zero_symbol_def)

lemma high_window_table:
  "high_window h (line_symbol ` set rows) \<Longrightarrow> high_window h (set (parsed_table rows))"
  using set_parsed_table [of rows] by (fastforce simp: high_window_def zero_symbol_def)

lemma sorted_low_window:
  assumes "c_qsort qsort" "low_window h (line_symbol ` set rows)"
  shows "sorted_symbols (qsort cmp (parsed_table rows))
    \<and> mset (qsort cmp (parsed_table rows)) = mset (parsed_table rows)"
  unfolding sorted_symbols_def
  by (rule c_qsort.qsort_by_key [OF assms(1)])
    (rule cmp_agrees_low_window [OF low_window_table [OF assms(2)]])

lemma sorted_high_window:
  assumes "c_qsort qsort" "high_window h (line_symbol ` set rows)"
  shows "sorted (map (\<lambda>s. sym_address s - 1) (qsort cmp (parsed_table rows)))
    \<and> mset (qsort cmp (parsed_table rows)) = mset (parsed_table rows)"
  by (rule c_qsort.qsort_by_key [OF assms(1)])
    (rule cmp_agrees_high_window [OF high_window_table [OF assms(2)]])

section \<open>Zero addresses at the end\<close>

text \<open>Ordered by \<open>address - 1\<close>, the unused entries come last, so few symbols leave the upper half empty.\<close>

lemma upper_half_empty:
  assumes sorted: "sorted (map (\<lambda>s. sym_address s - 1) t)"
    and few: "length (filter (\<lambda>s. sym_address s \<noteq> 0) t) \<le> m"
    and i: "m \<le> i" "i < length t"
  shows "sym_address (t ! i) = 0"
proof (rule ccontr)
  assume nz: "sym_address (t ! i) \<noteq> 0"
  have "sym_address (t ! j) \<noteq> 0" if "j \<le> i" for j
  proof
    assume "sym_address (t ! j) = 0"
    then have "- 1 \<le> sym_address (t ! i) - 1"
      using sorted_nth_mono [OF sorted that] i(2) that by simp
    then have "sym_address (t ! i) - 1 = - 1" by (simp add: word_order.extremum_unique)
    with nz show False by simp
  qed
  then have "filter (\<lambda>s. sym_address s \<noteq> 0) (take (Suc i) t) = take (Suc i) t"
    using i(2) by (auto simp: filter_id_conv in_set_conv_nth)
  then have "Suc i = length (filter (\<lambda>s. sym_address s \<noteq> 0) (take (Suc i) t))"
    using i(2) by simp
  also have "\<dots> \<le> length (filter (\<lambda>s. sym_address s \<noteq> 0) t)"
    by (metis append_take_drop_id filter_append length_append le_add1)
  finally show False using few i(1) by simp
qed

lemma find_upper_half_empty:
  assumes len: "length t = MAX_NUM_SYMBOLS" and x: "x \<noteq> 0"
    and empty: "\<And>i. MAX_NUM_SYMBOLS div 2 \<le> i \<Longrightarrow> i < MAX_NUM_SYMBOLS \<Longrightarrow> sym_address (t ! i) = 0"
  shows "find_binary t 0 (MAX_NUM_SYMBOLS div 2) (MAX_NUM_SYMBOLS - 1) x = Some (Inr None)"
proof -
  let ?m = "MAX_NUM_SYMBOLS div 2" and ?e = "MAX_NUM_SYMBOLS - 1"
  have "0 < x" using x word_gt_0 by blast
  moreover have "sym_address (t ! ?m) = 0" by (rule empty) (simp_all add: MAX_NUM_SYMBOLS_def)
  ultimately have step: "find_binary t 0 ?m ?e x = find_binary t ?m (?m + (?e - ?m) div 2) ?e x"
    using x len by (subst find_binary.simps) (simp add: usub32_eq MAX_NUM_SYMBOLS_def)
  have "search_bounds t ?m (?m + (?e - ?m) div 2) ?e"
    using len by (simp add: search_bounds_def MAX_NUM_SYMBOLS_def)
  from find_binary_spec [OF this, of x] obtain r where
    r: "find_binary t ?m (?m + (?e - ?m) div 2) ?e x = Some (Inr r)" "find_ok t ?m ?e x r" by auto
  have "r = None"
  proof (rule ccontr)
    assume "r \<noteq> None"
    then obtain i where i: "?m \<le> i" "i \<le> ?e"
      "x = sym_address (t ! i) \<or> i < ?e \<and> encloses t i x"
      using r(2) by (auto simp: find_ok_def)
    then have "sym_address (t ! i) = 0" "i < ?e \<Longrightarrow> sym_address (t ! Suc i) = 0"
      by (auto intro!: empty simp: MAX_NUM_SYMBOLS_def)
    with i(3) \<open>0 < x\<close> show False by (auto simp: encloses_def)
  qed
  with r(1) step show ?thesis by simp
qed

section \<open>Properties\<close>

lemma find_kallsyms_some:
  "length (symbols ks) = MAX_NUM_SYMBOLS \<Longrightarrow> \<exists>r. find_kallsyms ks x = Some (Inr r)"
  using find_kallsyms_spec [of ks x] by (cases "x = 0 \<or> \<not> ready ks") (auto simp: find_kallsyms_def)

text \<open>
  Claim C33: whatever the table holds, ordered or not, a lookup returns, and never reads outside the
  array of \<open>MAX_NUM_SYMBOLS\<close> entries.
\<close>

theorem find_kallsyms_total:
  assumes "length (symbols ks) = MAX_NUM_SYMBOLS"
  shows "\<exists>r. find_kallsyms ks x = Some (Inr r)"
  using assms by (rule find_kallsyms_some)

theorem find_kallsyms_total_witness:
  "\<exists>r. find_kallsyms (kallsyms_init\<lparr>ready := True\<rparr>) 0x1000 = Some (Inr r)"
  by (rule find_kallsyms_total) (simp add: kallsyms_init_def)

text \<open>
  Claim C4: on a table ordered by address, a lookup gives NULL exactly for the addresses below the
  first and above the last entry, and otherwise the name of an entry that starts at or below
  the address and whose successor does not start below it.
\<close>

theorem find_kallsyms_correct:
  assumes "length (symbols ks) = MAX_NUM_SYMBOLS" "ready ks" "x \<noteq> 0" "sorted_symbols (symbols ks)"
  shows "\<exists>r. find_kallsyms ks x = Some (Inr r)
    \<and> (r = None \<longleftrightarrow> x < sym_address (symbols ks ! 0)
          \<or> sym_address (symbols ks ! (MAX_NUM_SYMBOLS - 1)) < x)
    \<and> (\<forall>name. r = Some name \<longrightarrow> (\<exists>i < MAX_NUM_SYMBOLS. name = sym_symbol (symbols ks ! i)
         \<and> sym_address (symbols ks ! i) \<le> x
         \<and> (i < MAX_NUM_SYMBOLS - 1 \<longrightarrow> x \<le> sym_address (symbols ks ! Suc i))
         \<and> (i = MAX_NUM_SYMBOLS - 1 \<longrightarrow> x = sym_address (symbols ks ! i))))"
  using find_kallsyms_spec [OF assms(1-3)] find_ok_sorted [OF assms(4,1)] by blast

theorem find_kallsyms_correct_witness:
  "\<exists>r. find_kallsyms (kallsyms_init\<lparr>ready := True\<rparr>) 7 = Some (Inr r) \<and> r = None"
proof -
  have "sorted_symbols (symbols (kallsyms_init\<lparr>ready := True\<rparr>))"
    by (simp add: kallsyms_init_def sorted_symbols_def)
  moreover have "length (symbols (kallsyms_init\<lparr>ready := True\<rparr>)) = MAX_NUM_SYMBOLS"
    by (simp add: kallsyms_init_def)
  moreover have "sym_address (symbols (kallsyms_init\<lparr>ready := True\<rparr>) ! (MAX_NUM_SYMBOLS - 1)) < 7"
    by (simp add: kallsyms_init_def zero_symbol_def MAX_NUM_SYMBOLS_def nth_replicate)
  ultimately show ?thesis
    using find_kallsyms_correct [of "kallsyms_init\<lparr>ready := True\<rparr>" 7] by fastforce
qed

text \<open>
  Claim C34: the linear scan is off by one at the start of a symbol. In a strictly ordered range,
  the exact address of entry \<open>j\<close> gives the name of entry \<open>j - 1\<close>, since the test accepts the
  address of the next entry as still inside the current one.
\<close>

theorem find_linear_exact_start:
  assumes "start < j" "j \<le> stop" "stop < length syms" "length syms \<le> 2 ^ 32"
    and strict: "\<And>a b. start \<le> a \<Longrightarrow> a < b \<Longrightarrow> b \<le> stop \<Longrightarrow> sym_address (syms ! a) < sym_address (syms ! b)"
  shows "find_linear syms start stop (sym_address (syms ! j)) = Inr (Some (sym_symbol (syms ! (j - 1))))"
proof -
  let ?x = "sym_address (syms ! j)"
  have "?x \<le> sym_address (syms ! Suc k) \<longleftrightarrow> j - 1 \<le> k" if "start \<le> k" "k < stop" for k
    using strict [of "Suc k" j] strict [of j "Suc k"] that assms(1,2)
    by (cases "Suc k" j rule: linorder_cases) auto
  moreover have "sym_address (syms ! k) \<le> ?x \<longleftrightarrow> k \<le> j" if "start \<le> k" "k < stop" for k
    using strict [of k j] strict [of j k] that assms(1,2)
    by (cases k j rule: linorder_cases) auto
  ultimately have enc: "encloses syms k ?x \<longleftrightarrow> k = j - 1 \<or> k = j" if "start \<le> k" "k < stop" for k
    using that assms(1) by (auto simp: encloses_def)
  have s: "0 < stop" using assms(1,2) by simp
  have "find_linear syms i stop ?x = Inr (Some (sym_symbol (syms ! (j - 1))))"
    if "start \<le> i" "i \<le> j - 1" for i
    using that
  proof (induction "j - 1 - i" arbitrary: i)
    case 0
    then show ?case
      using find_linear_step [OF s assms(3,4), of i ?x] enc [of i] assms(1,2) by auto
  next
    case (Suc n)
    then show ?case
      using find_linear_step [OF s assms(3,4), of i ?x] enc [of i] assms(1,2) by auto
  qed
  then show ?thesis using assms(1) by simp
qed

theorem find_linear_exact_start_witness:
  "find_linear [\<lparr>sym_address = 16, sym_symbol = ''a''\<rparr>, \<lparr>sym_address = 32, sym_symbol = ''b''\<rparr>,
     \<lparr>sym_address = 48, sym_symbol = ''c''\<rparr>] 0 2 32 = Inr (Some ''a'')"
proof -
  let ?t = "[\<lparr>sym_address = 16, sym_symbol = ''a''\<rparr>, \<lparr>sym_address = 32, sym_symbol = ''b''\<rparr>,
     \<lparr>sym_address = 48, sym_symbol = ''c''\<rparr>]"
  have "sym_address (?t ! a) < sym_address (?t ! b)" if "a < b" "b \<le> 2" for a b :: nat
  proof -
    have "b = 1 \<and> a = 0 \<or> b = 2 \<and> (a = 0 \<or> a = 1)" using that by auto
    then show ?thesis by auto
  qed
  then show ?thesis using find_linear_exact_start [of 0 1 2 ?t] by simp
qed

lemma high_window_find_none:
  assumes "\<forall>l \<in> set rows. line_wf l" "length rows \<le> MAX_NUM_SYMBOLS div 2"
    and "high_window h (line_symbol ` set rows)" "\<not> kptr_restricts kptr" "c_qsort qsort"
  shows "find_kallsyms
    (parse_kallsyms qsort kptr (Some (concat (map kallsyms_line rows))) kallsyms_init) x
    = Some (Inr None)"
proof (cases "x = 0")
  case True
  then show ?thesis by (simp add: find_kallsyms_def)
next
  case False
  have rows: "length rows \<le> MAX_NUM_SYMBOLS" using assms(2) by simp
  let ?t = "qsort cmp (parsed_table rows)"
  have sorted: "sorted (map (\<lambda>s. sym_address s - 1) ?t)" and mset: "mset ?t = mset (parsed_table rows)"
    using sorted_high_window [OF assms(5,3)] by simp_all
  have len: "length ?t = MAX_NUM_SYMBOLS"
    using mset_eq_length [OF mset] length_parsed_table [OF rows] by simp
  have "length (filter (\<lambda>s. sym_address s \<noteq> 0) ?t) = length (filter (\<lambda>s. sym_address s \<noteq> 0) (parsed_table rows))"
    by (metis mset mset_filter size_mset)
  also have "\<dots> = length (filter ((\<lambda>s. sym_address s \<noteq> 0) \<circ> line_symbol) rows)"
    by (simp add: parsed_table_def zero_symbol_def filter_map)
  also have "\<dots> \<le> MAX_NUM_SYMBOLS div 2"
    using assms(2) length_filter_le [of "(\<lambda>s. sym_address s \<noteq> 0) \<circ> line_symbol" rows]
    by (rule le_trans [rotated])
  finally have few: "length (filter (\<lambda>s. sym_address s \<noteq> 0) ?t) \<le> MAX_NUM_SYMBOLS div 2" .
  have "find_binary ?t 0 (MAX_NUM_SYMBOLS div 2) (MAX_NUM_SYMBOLS - 1) x = Some (Inr None)"
    by (rule find_upper_half_empty [OF len False]) (rule upper_half_empty [OF sorted few], simp_all add: len)
  then show ?thesis
    using False parse_kallsyms_rows [OF assms(1) rows assms(4)] by (simp add: find_kallsyms_def)
qed

text \<open>
  Claim C17: when every symbol lies in the upper half of one 4 GiB window, as the kernel image and
  its modules do on x86-64, and there are at most half as many symbols as entries, the conversion to
  \<open>int\<close> in \<open>cmp\<close> makes \<open>qsort\<close> put the unused entries last, and every lookup gives NULL.
\<close>

theorem high_window_lookups_fail:
  assumes "\<forall>l \<in> set rows. line_wf l" "length rows \<le> MAX_NUM_SYMBOLS div 2"
    and "high_window h (line_symbol ` set rows)" "\<not> kptr_restricts kptr" "c_qsort qsort"
  shows "find_kallsyms
    (parse_kallsyms qsort kptr (Some (concat (map kallsyms_line rows))) kallsyms_init) x
    = Some (Inr None)"
  using assms by (rule high_window_find_none)

lemma strtoul_text: "strtoul ''ffffffff81000000'' 16 =
    \<lparr>strto_value = 0xffffffff81000000, strto_no_digits = False, strto_erange = False\<rparr>"
  "strtoul ''1000'' 16 = \<lparr>strto_value = 0x1000, strto_no_digits = False, strto_erange = False\<rparr>"
  "strtoul ''2000'' 16 = \<lparr>strto_value = 0x2000, strto_no_digits = False, strto_erange = False\<rparr>"
  by (simp_all add: strtoul_def strto_scan_def strto_sign_def isspace_def is_digit_def digit_value_def
      ULONG_MAX_def)

lemma line_wf_examples: "line_wf (''ffffffff81000000'', ''T'', ''startup_64'')"
  "line_wf (''1000'', ''T'', ''a'')" "line_wf (''2000'', ''T'', ''b'')"
  by (simp_all add: line_wf_def plain_def kallsyms_line_def LINE_SIZE_def strtoul_text)

theorem high_window_lookups_fail_witness:
  "find_kallsyms (parse_kallsyms isort_c None
     (Some (concat (map kallsyms_line [(''ffffffff81000000'', ''T'', ''startup_64'')]))) kallsyms_init)
     0xffffffff81000000 = Some (Inr None)"
proof (rule high_window_lookups_fail)
  show "high_window 0xffffffff (line_symbol ` set [(''ffffffff81000000'', ''T'', ''startup_64'')])"
    by (simp add: high_window_def line_symbol_def strtoul_text high32_def low32_def)
  show "c_qsort (isort_c :: (symbol \<Rightarrow> symbol \<Rightarrow> s32) \<Rightarrow> symbol list \<Rightarrow> symbol list)"
    by (rule isort.c_qsort_axioms)
qed (simp_all add: line_wf_examples MAX_NUM_SYMBOLS_def kptr_restricts_def)

text \<open>
  Claim C18: where \<open>cmp\<close> does order the addresses (one window, lower half), parsing and looking up
  are inverse: an address strictly inside the symbol of a line, with some symbol after it, gives the
  stored name of that line.
\<close>

theorem kallsyms_roundtrip:
  assumes wf: "\<forall>l \<in> set rows. line_wf l" "length rows \<le> MAX_NUM_SYMBOLS"
    and "low_window h (line_symbol ` set rows)" "\<not> kptr_restricts kptr" "c_qsort qsort"
    and l: "l \<in> set rows" "0 < sym_address (line_symbol l)" "sym_address (line_symbol l) < x"
    and next_above: "\<forall>u \<in> set rows. sym_address (line_symbol l) \<le> sym_address (line_symbol u)
      \<longrightarrow> sym_address (line_symbol u) \<le> x \<longrightarrow> u = l"
    and some_above: "u \<in> set rows" "x \<le> sym_address (line_symbol u)"
  shows "find_kallsyms
    (parse_kallsyms qsort kptr (Some (concat (map kallsyms_line rows))) kallsyms_init) x
    = Some (Inr (Some (sym_symbol (line_symbol l))))"
proof -
  let ?t = "qsort cmp (parsed_table rows)" and ?n = MAX_NUM_SYMBOLS
  have sorted: "sorted_symbols ?t" and mset: "mset ?t = mset (parsed_table rows)"
    using sorted_low_window [OF assms(5,3)] by simp_all
  have len: "length ?t = ?n"
    using mset_eq_length [OF mset] length_parsed_table [OF wf(2)] by simp
  have elems: "set ?t = set (parsed_table rows)" using mset by (metis mset_eq_setD)
  have mem: "line_symbol v \<in> set ?t" if "v \<in> set rows" for v
    unfolding elems using that by (simp add: parsed_table_def)
  obtain j where j: "j < ?n" "?t ! j = line_symbol l" using mem [OF l(1)] len by (metis in_set_conv_nth)
  obtain m where m: "m < ?n" "?t ! m = line_symbol u"
    using mem [OF some_above(1)] len by (metis in_set_conv_nth)
  have mono: "a \<le> b \<Longrightarrow> b < ?n \<Longrightarrow> sym_address (?t ! a) \<le> sym_address (?t ! b)" for a b
    using sorted_symbols_mono [OF sorted] len by simp
  let ?ks = "\<lparr>symbols = ?t, ready = True\<rparr>"
  have "x \<noteq> 0" using l(3) by auto
  obtain r where r: "find_kallsyms ?ks x = Some (Inr r)" "find_ok ?t 0 (?n - 1) x r"
    using find_kallsyms_spec [of ?ks x] len \<open>x \<noteq> 0\<close> by auto
  have "\<not> x < sym_address (?t ! 0)"
    using order_trans [OF mono [of 0 j]] j l(3) by (metis le0 less_le_trans not_less order_less_imp_le)
  moreover have "x \<le> sym_address (?t ! (?n - 1))"
    using order_trans [OF some_above(2) [folded m(2)] mono [of m "?n - 1"]] m(1) by simp
  ultimately have "r \<noteq> None"
    using find_ok_sorted [OF sorted len r(2)] by (simp add: not_less)
  then obtain i where i: "i < ?n" "r = Some (sym_symbol (?t ! i))" "sym_address (?t ! i) \<le> x"
    "i < ?n - 1 \<longrightarrow> x \<le> sym_address (?t ! Suc i)"
    using find_ok_sorted [OF sorted len r(2)] by auto
  have "j \<le> i"
  proof (rule ccontr)
    assume "\<not> j \<le> i"
    then have "Suc i \<le> j" "i < ?n - 1" using j(1) by simp_all
    then have "x \<le> sym_address (line_symbol l)"
      using i(4) mono [of "Suc i" j] j by auto
    with l(3) show False by simp
  qed
  then have ge: "sym_address (line_symbol l) \<le> sym_address (?t ! i)" using mono i(1) j(2) by metis
  then have "?t ! i \<noteq> zero_symbol" using l(2) by (auto simp: zero_symbol_def)
  moreover have "?t ! i \<in> set (parsed_table rows)" using i(1) len elems by (metis nth_mem)
  ultimately obtain v where v: "v \<in> set rows" "?t ! i = line_symbol v"
    using set_parsed_table [of rows] by auto
  then have "v = l" using next_above ge i(3) by auto
  then show ?thesis
    using r(1) i(2) v(2) parse_kallsyms_rows [OF wf assms(4)] by simp
qed

theorem kallsyms_roundtrip_witness:
  "find_kallsyms (parse_kallsyms isort_c None
     (Some (concat (map kallsyms_line [(''2000'', ''T'', ''b''), (''1000'', ''T'', ''a'')]))) kallsyms_init)
     0x1800 = Some (Inr (Some (sym_symbol (line_symbol (''1000'', ''T'', ''a'')))))"
proof (rule kallsyms_roundtrip [where u = "(''2000'', ''T'', ''b'')"])
  show "low_window 0 (line_symbol ` set [(''2000'', ''T'', ''b''), (''1000'', ''T'', ''a'')])"
    by (simp add: low_window_def line_symbol_def strtoul_text high32_def low32_def)
  show "c_qsort (isort_c :: (symbol \<Rightarrow> symbol \<Rightarrow> s32) \<Rightarrow> symbol list \<Rightarrow> symbol list)"
    by (rule isort.c_qsort_axioms)
qed (simp_all add: line_wf_examples MAX_NUM_SYMBOLS_def kptr_restricts_def line_symbol_def strtoul_text)

lemma stored_name_prefix:
  "SYMBOL_LEN - 1 \<le> length token \<Longrightarrow> take (SYMBOL_LEN - 1) (stored_name token) = take (SYMBOL_LEN - 1) token"
  by (simp add: stored_name_def)

text \<open>
  Claim C35: what the parser stores as a name. The entry of the i-th line has 128 characters. A name
  of up to 125 characters is read back with the newline of its line still attached; of a longer one
  the first 127 characters of name and newline are kept, and the last character, which the code sets
  to the digit zero, leaves the array without a terminator.
\<close>

theorem stored_names:
  assumes "\<forall>l \<in> set rows. line_wf l" "length rows \<le> MAX_NUM_SYMBOLS"
    and "i < length rows" "rows ! i = (tok, ty, name)"
  shows "let stored = sym_symbol (parse_lines (symbols kallsyms_init) 0 (concat (map kallsyms_line rows)) ! i) in
    length stored = 128 \<and> stored ! 127 = CHR ''0''
    \<and> (if length name < 126 then c_str stored = name @ [CHR 0x0A]
       else take 127 stored = take 127 (name @ [CHR 0x0A]) \<and> NUL \<notin> set stored)"
proof -
  let ?token = "name @ [CHR 0x0A]"
  have "line_wf (tok, ty, name)" using assms(1,3,4) by (metis nth_mem)
  then have plain: "NUL \<notin> set ?token" by (simp add: line_wf_def plain_chars)
  have "sym_symbol (parse_lines (symbols kallsyms_init) 0 (concat (map kallsyms_line rows)) ! i) = stored_name ?token"
    using assms(3,4) by (simp add: parse_lines_init [OF assms(1,2)] parsed_table_def nth_append line_symbol_def)
  moreover have len: "length (stored_name ?token) = 128" by (simp add: length_stored_name SYMBOL_LEN_def)
  moreover have "stored_name ?token ! 127 = CHR ''0''"
    using last_conv_nth [of "stored_name ?token"] len by (simp add: stored_name_def split: if_splits)
  moreover have "126 \<le> length name \<Longrightarrow> take 127 (stored_name ?token) = take 127 ?token"
    using stored_name_prefix [of ?token] by (simp add: SYMBOL_LEN_def)
  ultimately show ?thesis
    using c_str_stored_name [OF plain] stored_name_unterminated [OF plain]
    by (simp add: Let_def SYMBOL_LEN_def)
qed

text \<open>A short and a long name, of 130 characters.\<close>

definition sample_long_name :: string where
  "sample_long_name = replicate 130 (CHR ''x'')"

lemma sample_long_line: "line_wf (''2000'', ''T'', sample_long_name)"
  by (simp add: line_wf_def plain_def kallsyms_line_def LINE_SIZE_def strtoul_text sample_long_name_def)

theorem stored_names_witness:
  "let table = parse_lines (symbols kallsyms_init) 0
     (concat (map kallsyms_line [(''1000'', ''T'', ''a''), (''2000'', ''T'', sample_long_name)])) in
   c_str (sym_symbol (table ! 0)) = ''a'' @ [CHR 0x0A] \<and> NUL \<notin> set (sym_symbol (table ! 1))"
proof -
  let ?rows = "[(''1000'', ''T'', ''a''), (''2000'', ''T'', sample_long_name)]"
  have wf: "\<forall>l \<in> set ?rows. line_wf l" "length ?rows \<le> MAX_NUM_SYMBOLS"
    by (simp_all add: line_wf_examples sample_long_line MAX_NUM_SYMBOLS_def)
  from stored_names [OF wf, of 0] stored_names [OF wf, of 1] show ?thesis
    by (simp add: Let_def sample_long_name_def)
qed

end
