(* ===== verification/SA_Consumer.thy ===== *)
theory SA_Consumer imports SA_Perfetto SA_Lookup begin

text \<open>
  Component: the event handlers of \<open>sched-analyzer.c\<close>, the callbacks of the ring buffers. A handler
  takes the options, the event, and for IPIs the symbol table, and gives the tracing calls it makes,
  in order. All of them return 0.
\<close>

section \<open>Helpers\<close>

text \<open>The macro \<open>clamp(val, lo, hi)\<close>, on \<open>unsigned long\<close>s.\<close>

definition clamp :: "u64 \<Rightarrow> u64 \<Rightarrow> u64 \<Rightarrow> u64" where
  "clamp val lo hi = (if hi \<le> val then hi else if val \<le> lo then lo else val)"

fun pid_listed :: "s32 list \<Rightarrow> nat \<Rightarrow> nat \<Rightarrow> s32 \<Rightarrow> bool" where
  "pid_listed pids i 0 p = False"
| "pid_listed pids i (Suc n) p = (if pids ! i = p then True else pid_listed pids (Suc i) n p)"

fun comm_listed :: "char list list \<Rightarrow> nat \<Rightarrow> nat \<Rightarrow> string \<Rightarrow> bool" where
  "comm_listed comms i 0 name = False"
| "comm_listed comms i (Suc n) name =
     (if strstr name (c_str (comms ! i)) \<noteq> None then True else comm_listed comms (Suc i) n name)"

definition ignore_pid_comm :: "sa_opts \<Rightarrow> s32 \<Rightarrow> string \<Rightarrow> bool" where
  "ignore_pid_comm opts p name =
     (if num_pids opts = 0 \<and> num_comms opts = 0 then False
      else if pid_listed (pid opts) 0 (unat (num_pids opts)) p then False
      else if comm_listed (comm opts) 0 (unat (num_comms opts)) name then False
      else True)"

section \<open>The handlers\<close>

definition handle_rq_pelt_event :: "sa_opts \<Rightarrow> rq_pelt_event \<Rightarrow> output_call list" where
  "handle_rq_pelt_event opts e =
     (if load_avg_cpu opts \<and> rp_load_avg e \<noteq> - 1
      then trace_cpu_load_avg (rp_ts e) (rp_cpu e) (ucast (rp_load_avg e)) else []) @
     (if runnable_avg_cpu opts \<and> rp_runnable_avg e \<noteq> - 1
      then trace_cpu_runnable_avg (rp_ts e) (rp_cpu e) (ucast (rp_runnable_avg e)) else []) @
     (if pelt_code (rp_type e) = pelt_code PELT_TYPE_THERMAL
      then if load_avg_thermal opts
           then trace_cpu_load_avg_thermal (rp_ts e) (rp_cpu e) (ucast (rp_load_avg e)) else []
      else []) @
     (if rp_util_avg e \<noteq> - 1 then
        if pelt_code (rp_type e) = pelt_code PELT_TYPE_CFS then
          if util_avg_cpu opts then
            trace_cpu_util_avg (rp_ts e) (rp_cpu e) (ucast (rp_util_avg e)) @
            (if rp_uclamp_min e \<noteq> - 1 \<and> rp_uclamp_max e \<noteq> - 1 then
               let uclamped_avg = clamp (rp_util_avg e) (rp_uclamp_min e) (rp_uclamp_max e)
               in trace_cpu_uclamped_avg (rp_ts e) (rp_cpu e) (ucast uclamped_avg)
             else [])
          else []
        else if pelt_code (rp_type e) = pelt_code PELT_TYPE_RT then
          if util_avg_rt opts then trace_cpu_util_avg_rt (rp_ts e) (rp_cpu e) (ucast (rp_util_avg e)) else []
        else if pelt_code (rp_type e) = pelt_code PELT_TYPE_DL then
          if util_avg_dl opts then trace_cpu_util_avg_dl (rp_ts e) (rp_cpu e) (ucast (rp_util_avg e)) else []
        else if pelt_code (rp_type e) = pelt_code PELT_TYPE_IRQ then
          if util_avg_irq opts then trace_cpu_util_avg_irq (rp_ts e) (rp_cpu e) (ucast (rp_util_avg e)) else []
        else [STDERR (''Unexpected PELT type: '' @ fmt_d (pelt_code (rp_type e)))]
      else []) @
     (if util_est_cpu opts \<and> rp_util_est_enqueued e \<noteq> - 1
      then trace_cpu_util_est_enqueued (rp_ts e) (rp_cpu e) (ucast (rp_util_est_enqueued e)) else [])"

definition handle_task_pelt_event :: "sa_opts \<Rightarrow> task_pelt_event \<Rightarrow> output_call list" where
  "handle_task_pelt_event opts e =
     (if ignore_pid_comm opts (tp_pid e) (tp_comm e) then []
      else
        (if load_avg_task opts \<and> tp_load_avg e \<noteq> - 1
         then trace_task_load_avg (tp_ts e) (tp_comm e) (tp_pid e) (ucast (tp_load_avg e)) else []) @
        (if runnable_avg_task opts \<and> tp_runnable_avg e \<noteq> - 1
         then trace_task_runnable_avg (tp_ts e) (tp_comm e) (tp_pid e) (ucast (tp_runnable_avg e)) else []) @
        (if util_avg_task opts \<and> tp_util_avg e \<noteq> - 1
         then trace_task_util_avg (tp_ts e) (tp_comm e) (tp_pid e) (ucast (tp_util_avg e)) @
           (if tp_uclamp_min e \<noteq> - 1 \<and> tp_uclamp_max e \<noteq> - 1 then
              let uclamped_avg = clamp (tp_util_avg e) (tp_uclamp_min e) (tp_uclamp_max e)
              in trace_task_uclamped_avg (tp_ts e) (tp_comm e) (tp_pid e) (ucast uclamped_avg)
            else [])
         else []) @
        (if util_est_task opts \<and> tp_util_est_enqueued e \<noteq> - 1
         then trace_task_util_est_enqueued (tp_ts e) (tp_comm e) (tp_pid e) (ucast (tp_util_est_enqueued e)) @
              trace_task_util_est_ewma (tp_ts e) (tp_comm e) (tp_pid e) (ucast (tp_util_est_ewma e))
         else []))"

definition handle_rq_nr_running_event :: "sa_opts \<Rightarrow> rq_nr_running_event \<Rightarrow> output_call list" where
  "handle_rq_nr_running_event opts e =
     (if cpu_nr_running opts then trace_cpu_nr_running (nr_ts e) (nr_cpu e) (nr_nr_running e) else [])"

text \<open>The reset of \<open>load_avg\<close> is guarded by the option of \<open>util_avg\<close>, as in the source.\<close>

definition handle_sched_switch_event :: "sa_opts \<Rightarrow> sched_switch_event \<Rightarrow> output_call list" where
  "handle_sched_switch_event opts e =
     (if ignore_pid_comm opts (ss_pid e) (ss_comm e) then []
      else
        (if ss_running e = 0 \<and> util_avg_task opts
         then trace_task_load_avg (ss_ts e) (ss_comm e) (ss_pid e) 0 else []) @
        (if ss_running e = 0 \<and> util_avg_task opts
         then trace_task_util_avg (ss_ts e) (ss_comm e) (ss_pid e) 0 @
              trace_task_uclamped_avg (ss_ts e) (ss_comm e) (ss_pid e) 0
         else []) @
        (if ss_running e = 0 \<and> util_est_task opts
         then trace_task_util_est_enqueued (ss_ts e) (ss_comm e) (ss_pid e) 0 @
              trace_task_util_est_ewma (ss_ts e) (ss_comm e) (ss_pid e) 0
         else []))"

definition handle_freq_idle_event :: "sa_opts \<Rightarrow> freq_idle_event \<Rightarrow> output_call list" where
  "handle_freq_idle_event opts e =
     (if cpu_idle opts then
        trace_cpu_idle (fi_ts e) (fi_cpu e) (fi_idle_state e) @
        (if fi_idle_miss e \<noteq> 0
         then trace_cpu_idle_miss (fi_ts e) (fi_cpu e) (fi_idle_state e) (fi_idle_miss e) else [])
      else [])"

definition handle_softirq_event :: "sa_opts \<Rightarrow> softirq_event \<Rightarrow> output_call list" where
  "handle_softirq_event opts e = []"

fun lb_phase_name :: "lb_phases \<Rightarrow> string" where
  "lb_phase_name LB_NOHZ_IDLE_BALANCE = ''_nohz_idle_balance()''"
| "lb_phase_name LB_RUN_REBALANCE_DOMAINS = ''run_rebalance_domains()''"
| "lb_phase_name LB_REBALANCE_DOMAINS = ''rebalance_domains()''"
| "lb_phase_name LB_BALANCE_FAIR = ''balance_fair()''"
| "lb_phase_name LB_PICK_NEXT_TASK_FAIR = ''pick_next_task_fair()''"
| "lb_phase_name LB_NEWIDLE_BALANCE = ''newidle_balance()''"
| "lb_phase_name LB_LOAD_BALANCE = ''load_balance()''"

definition handle_lb_event :: "sa_opts \<Rightarrow> lb_event \<Rightarrow> output_call list" where
  "handle_lb_event opts e =
     (if lb_phase e = LB_REBALANCE_DOMAINS \<and> lb_entry e then trace_lb_sd_stats (lb_ts e) (lb_sd_stats e) else []) @
     (if lb_overloaded e \<noteq> - 1 then trace_lb_overloaded (lb_ts e) (lb_overloaded e) else []) @
     (if lb_overutilized e \<noteq> - 1 then trace_lb_overutilized (lb_ts e) (lb_overutilized e) else []) @
     (if lb_misfit_task_load e \<noteq> - 1 then trace_lb_misfit (lb_ts e) (lb_lb_cpu e) (lb_misfit_task_load e) else []) @
     (if lb_entry e then trace_lb_entry (lb_ts e) (lb_this_cpu e) (lb_lb_cpu e) (lb_phase_name (lb_phase e))
      else trace_lb_exit (lb_ts e) (lb_this_cpu e) (lb_lb_cpu e))"

text \<open>
  The name \<open>find_kallsyms\<close> gives, as the string the tracing call reads: the characters of the entry
  up to its terminator.
\<close>

definition lookup_name :: "kallsyms \<Rightarrow> ptr \<Rightarrow> string option" where
  "lookup_name ks a =
     (case find_kallsyms ks a of Some (Inr r) \<Rightarrow> map_option c_str r | _ \<Rightarrow> None)"

definition handle_ipi_event :: "kallsyms \<Rightarrow> sa_opts \<Rightarrow> ipi_event \<Rightarrow> output_call list" where
  "handle_ipi_event ks opts e =
     trace_ipi_send_cpu (ipi_ts e) (ipi_from_cpu e) (ipi_target_cpu e)
       (lookup_name ks (ipi_callsite e)) (ipi_callsite e)
       (lookup_name ks (ipi_callback e)) (ipi_callback e)"

lemmas [consumer_defs] = handle_rq_pelt_event_def handle_task_pelt_event_def
  handle_rq_nr_running_event_def handle_sched_switch_event_def handle_freq_idle_event_def
  handle_softirq_event_def handle_lb_event_def handle_ipi_event_def

text \<open>
  The reset of \<open>load_avg\<close> at a context switch stands under \<open>util_avg_task\<close>: whether the load is
  collected makes no difference to the handler.
\<close>

lemma sched_switch_ignores_load_option:
  "handle_sched_switch_event (opts\<lparr>load_avg_task := b\<rparr>) e = handle_sched_switch_event opts e"
  by (simp add: handle_sched_switch_event_def ignore_pid_comm_def)

section \<open>The filter\<close>

lemma pid_listed_iff:
  "i + n \<le> length pids \<Longrightarrow> pid_listed pids i n p \<longleftrightarrow> p \<in> set (take n (drop i pids))"
proof (induction n arbitrary: i)
  case (Suc n)
  then have "take (Suc n) (drop i pids) = pids ! i # take n (drop (Suc i) pids)"
    by (simp add: Cons_nth_drop_Suc [symmetric])
  then show ?case using Suc by auto
qed simp

lemma comm_listed_iff:
  "i + n \<le> length comms \<Longrightarrow>
     comm_listed comms i n name \<longleftrightarrow> (\<exists>a \<in> set (take n (drop i comms)). sublist (c_str a) name)"
proof (induction n arbitrary: i)
  case (Suc n)
  then have "take (Suc n) (drop i comms) = comms ! i # take n (drop (Suc i) comms)"
    by (simp add: Cons_nth_drop_Suc [symmetric])
  moreover have "strstr name (c_str (comms ! i)) = None \<longleftrightarrow> \<not> sublist (c_str (comms ! i)) name"
    using strstr_iff by blast
  ultimately show ?case using Suc by (auto simp del: not_None_eq)
qed simp

section \<open>Clamping\<close>

lemma clamp_min_max: "lo \<le> hi \<Longrightarrow> clamp val lo hi = min (max val lo) hi"
  by (auto simp: clamp_def min_def max_def)

lemma clamp_neq_minus_one: "val \<noteq> - 1 \<Longrightarrow> lo \<noteq> - 1 \<Longrightarrow> hi \<noteq> - 1 \<Longrightarrow> clamp val lo hi \<noteq> - 1"
  by (simp add: clamp_def)

text \<open>What the filter means: listed by pid, or by a part of the task's name.\<close>

lemma ignore_pid_comm_iff:
  assumes "opts_wf opts"
  shows "\<not> ignore_pid_comm opts p name \<longleftrightarrow>
    (pid_filter opts = [] \<and> comm_filter opts = []) \<or> p \<in> set (pid_filter opts)
    \<or> (\<exists>s \<in> set (comm_filter opts). sublist s name)"
proof -
  have len: "unat (num_pids opts) \<le> length (pid opts)" "unat (num_comms opts) \<le> length (comm opts)"
    using assms by (simp_all add: opts_wf_def)
  have "pid_filter opts = [] \<longleftrightarrow> num_pids opts = 0" "comm_filter opts = [] \<longleftrightarrow> num_comms opts = 0"
    using len by (auto simp: pid_filter_def comm_filter_def unat_eq_zero MAX_FILTERS_NUM_def)
  moreover have "pid_listed (pid opts) 0 (unat (num_pids opts)) p \<longleftrightarrow> p \<in> set (pid_filter opts)"
    using pid_listed_iff [of 0 "unat (num_pids opts)" "pid opts" p] len by (simp add: pid_filter_def)
  moreover have "comm_listed (comm opts) 0 (unat (num_comms opts)) name
      \<longleftrightarrow> (\<exists>s \<in> set (comm_filter opts). sublist s name)"
    using comm_listed_iff [of 0 "unat (num_comms opts)" "comm opts" name] len
    by (simp add: comm_filter_def)
  ultimately show ?thesis by (simp add: ignore_pid_comm_def)
qed

text \<open>
  Claim C23: the filter of the command line. After parsing a list of options from the defaults, a task
  is traced exactly when no \<open>--pid\<close> or \<open>--comm\<close> was given, or its pid is one of the first 128 given,
  or its name contains the first 15 characters of one of the first 128 names given.
\<close>

theorem task_filter:
  assumes "argp_run sa_opts_init ks = Parsed opts" "\<forall>(k, a) \<in> set ks. NUL \<notin> set a"
  shows "\<not> ignore_pid_comm opts p name \<longleftrightarrow>
    (pid_args ks = [] \<and> comm_args ks = [])
    \<or> p \<in> set (take MAX_FILTERS_NUM (pid_args ks))
    \<or> (\<exists>s \<in> set (take MAX_FILTERS_NUM (comm_args ks)). sublist s name)"
proof -
  have "pid_filter sa_opts_init = []" "comm_filter sa_opts_init = []"
    by (simp_all add: pid_filter_def comm_filter_def sa_opts_init_def)
  then have "pid_filter opts = take MAX_FILTERS_NUM (pid_args ks)"
    "comm_filter opts = take MAX_FILTERS_NUM (comm_args ks)"
    using argp_filters [OF opts_wf_init assms] by simp_all
  moreover have "opts_wf opts" using opts_wf_init assms(1) by (rule argp_wf)
  ultimately show ?thesis
    by (simp add: ignore_pid_comm_iff MAX_FILTERS_NUM_def)
qed

theorem task_filter_witness:
  "\<exists>opts. argp_run sa_opts_init [(OPT_FILTER_COMM, ''render'')] = Parsed opts
    \<and> \<not> ignore_pid_comm opts 7 ''HWrender1'' \<and> ignore_pid_comm opts 7 ''kswapd0''"
proof -
  obtain opts where opts: "argp_run sa_opts_init [(OPT_FILTER_COMM, ''render'')] = Parsed opts"
    by (simp add: Let_def sa_opts_init_def MAX_FILTERS_NUM_def)
  have "\<forall>(k, a) \<in> set [(OPT_FILTER_COMM, ''render'')]. NUL \<notin> set a" by simp
  note f = task_filter [OF opts this, of 7]
  have "sublist ''render'' ''HWrender1''"
    unfolding sublist_def by (intro exI [of _ "''HW''"] exI [of _ "''1''"]) simp
  moreover have "\<not> sublist ''render'' ''kswapd0''" by (auto simp: sublist_code)
  ultimately show ?thesis
    using opts f [of "''HWrender1''"] f [of "''kswapd0''"]
    by (auto simp: pid_args_def comm_args_def TASK_COMM_LEN_def MAX_FILTERS_NUM_def)
qed

end
