(* ===== verification/SA_Main.thy ===== *)
theory SA_Main imports SA_Pelt SA_Sched SA_Lb SA_Consumer begin

text \<open>
  Component: \<open>main\<close> of \<open>sched-analyzer.c\<close>: which BPF programs are loaded for which options, and the
  order in which it sets up and tears down the threads, the skeleton and the trace session. What
  libbpf, pthreads and the signals do is an input, the record \<^emph>\<open>main_env\<close>; what \<open>main\<close> does is the
  list of its actions.
\<close>

section \<open>Programs\<close>

text \<open>The programs of the skeleton, by the names of their handlers.\<close>

datatype prog =
    Prog_pelt_se | Prog_util_est_se | Prog_pelt_cfs | Prog_util_est_cfs
  | Prog_pelt_rt | Prog_pelt_dl | Prog_pelt_irq | Prog_pelt_thermal
  | Prog_sched_update_nr_running | Prog_sched_switch | Prog_sched_process_free
  | Prog_cpu_frequency | Prog_cpu_idle | Prog_cpu_idle_miss
  | Prog_softirq_entry | Prog_softirq_exit
  | Prog_lb_entry lb_phases | Prog_lb_exit lb_phases
  | Prog_ipi_send_cpu

text \<open>All programs are loaded unless \<open>bpf_program__set_autoload(prog, false)\<close> says otherwise.\<close>

definition set_autoload :: "prog \<Rightarrow> bool \<Rightarrow> prog set \<Rightarrow> prog set" where
  "set_autoload p b L = (if b then insert p L else L - {p})"

text \<open>The calls of \<open>set_autoload(prog, false)\<close> in order, each with the condition it stands under.\<close>

definition autoload_calls :: "sa_opts \<Rightarrow> (bool \<times> prog) list" where
  "autoload_calls opts =
    [(\<not> load_avg_cpu opts \<and> \<not> runnable_avg_cpu opts \<and> \<not> util_avg_cpu opts, Prog_pelt_cfs),
     (\<not> load_avg_task opts \<and> \<not> runnable_avg_task opts \<and> \<not> util_avg_task opts, Prog_pelt_se),
     (\<not> util_avg_rt opts, Prog_pelt_rt),
     (\<not> util_avg_dl opts, Prog_pelt_dl),
     (\<not> util_avg_irq opts, Prog_pelt_irq),
     (\<not> load_avg_thermal opts, Prog_pelt_thermal),
     (\<not> util_est_cpu opts, Prog_util_est_cfs),
     (\<not> util_est_task opts, Prog_util_est_se),
     (\<not> cpu_nr_running opts, Prog_sched_update_nr_running),
     (\<not> cpu_idle opts, Prog_cpu_idle),
     (\<not> cpu_idle opts, Prog_cpu_idle_miss),
     (\<not> load_balance opts, Prog_lb_exit LB_RUN_REBALANCE_DOMAINS),
     (\<not> load_balance opts, Prog_lb_entry LB_RUN_REBALANCE_DOMAINS),
     (\<not> load_balance opts, Prog_lb_exit LB_RUN_REBALANCE_DOMAINS),
     (\<not> load_balance opts, Prog_lb_entry LB_REBALANCE_DOMAINS),
     (\<not> load_balance opts, Prog_lb_exit LB_REBALANCE_DOMAINS),
     (\<not> load_balance opts, Prog_lb_entry LB_BALANCE_FAIR),
     (\<not> load_balance opts, Prog_lb_exit LB_BALANCE_FAIR),
     (\<not> load_balance opts, Prog_lb_entry LB_PICK_NEXT_TASK_FAIR),
     (\<not> load_balance opts, Prog_lb_exit LB_PICK_NEXT_TASK_FAIR),
     (\<not> load_balance opts, Prog_lb_entry LB_NEWIDLE_BALANCE),
     (\<not> load_balance opts, Prog_lb_exit LB_NEWIDLE_BALANCE),
     (\<not> load_balance opts, Prog_lb_entry LB_LOAD_BALANCE),
     (\<not> load_balance opts, Prog_lb_exit LB_LOAD_BALANCE),
     (\<not> ipi opts, Prog_ipi_send_cpu),
     (\<not> load_avg_task opts \<and> \<not> runnable_avg_task opts \<and> \<not> util_avg_task opts \<and> \<not> util_est_task opts,
      Prog_sched_process_free),
     (True, Prog_lb_entry LB_NOHZ_IDLE_BALANCE),
     (True, Prog_lb_exit LB_NOHZ_IDLE_BALANCE),
     (True, Prog_cpu_frequency),
     (True, Prog_softirq_entry),
     (True, Prog_softirq_exit),
     (True, Prog_sched_switch)]"

definition autoload :: "sa_opts \<Rightarrow> prog set" where
  "autoload opts = fold (\<lambda>(c, p) L. if c then set_autoload p False L else L) (autoload_calls opts) UNIV"

section \<open>One event of the kernel\<close>

text \<open>What makes the kernel run a program, with the arguments the program gets.\<close>

datatype probe =
    Pelt_se ptr | Util_est_se ptr | Pelt_cfs ptr | Util_est_cfs ptr
  | Pelt_rt ptr | Pelt_dl ptr | Pelt_irq ptr | Pelt_thermal ptr
  | Sched_update_nr_running ptr s32 | Sched_switch bool ptr ptr | Sched_process_free ptr
  | Cpu_frequency u32 u32 | Cpu_idle u32 u32 | Cpu_idle_miss u32 u32 bool
  | Softirq_entry u32 | Softirq_exit u32
  | Lb_call lb_call | Lb_return lb_phases
  | Ipi_send_cpu s32 ptr ptr

fun prog_of :: "probe \<Rightarrow> prog" where
  "prog_of (Pelt_se se) = Prog_pelt_se"
| "prog_of (Util_est_se se) = Prog_util_est_se"
| "prog_of (Pelt_cfs cfs) = Prog_pelt_cfs"
| "prog_of (Util_est_cfs cfs) = Prog_util_est_cfs"
| "prog_of (Pelt_rt rq) = Prog_pelt_rt"
| "prog_of (Pelt_dl rq) = Prog_pelt_dl"
| "prog_of (Pelt_irq rq) = Prog_pelt_irq"
| "prog_of (Pelt_thermal rq) = Prog_pelt_thermal"
| "prog_of (Sched_update_nr_running rq change) = Prog_sched_update_nr_running"
| "prog_of (Sched_switch preempt prev nxt) = Prog_sched_switch"
| "prog_of (Sched_process_free p) = Prog_sched_process_free"
| "prog_of (Cpu_frequency f cpu) = Prog_cpu_frequency"
| "prog_of (Cpu_idle state cpu) = Prog_cpu_idle"
| "prog_of (Cpu_idle_miss cpu state below) = Prog_cpu_idle_miss"
| "prog_of (Softirq_entry v) = Prog_softirq_entry"
| "prog_of (Softirq_exit v) = Prog_softirq_exit"
| "prog_of (Lb_call c) = Prog_lb_entry (lb_call_phase c)"
| "prog_of (Lb_return phase) = Prog_lb_exit phase"
| "prog_of (Ipi_send_cpu cpu callsite callback) = Prog_ipi_send_cpu"

fun run_probe ::
  "('sw, 'si, 'lb) run_env \<Rightarrow> probe \<Rightarrow> ('sw, 'si, 'lb) bpf_state \<Rightarrow> ('sw, 'si, 'lb) bpf_state" where
  "run_probe env (Pelt_se se) st = handle_pelt_se env se st"
| "run_probe env (Util_est_se se) st = handle_util_est_se env se st"
| "run_probe env (Pelt_cfs cfs) st = handle_pelt_cfs env cfs st"
| "run_probe env (Util_est_cfs cfs) st = handle_util_est_cfs env cfs st"
| "run_probe env (Pelt_rt rq) st = handle_pelt_rt env rq st"
| "run_probe env (Pelt_dl rq) st = handle_pelt_dl env rq st"
| "run_probe env (Pelt_irq rq) st = handle_pelt_irq env rq st"
| "run_probe env (Pelt_thermal rq) st = handle_pelt_thermal env rq st"
| "run_probe env (Sched_update_nr_running rq change) st = handle_sched_update_nr_running env rq change st"
| "run_probe env (Sched_switch preempt prev nxt) st = handle_sched_switch env preempt prev nxt st"
| "run_probe env (Sched_process_free p) st = handle_sched_process_free env p st"
| "run_probe env (Cpu_frequency f cpu) st = handle_cpu_frequency env f cpu st"
| "run_probe env (Cpu_idle state cpu) st = handle_cpu_idle env state cpu st"
| "run_probe env (Cpu_idle_miss cpu state below) st = handle_cpu_idle_miss env cpu state below st"
| "run_probe env (Softirq_entry v) st = handle_softirq_entry env v st"
| "run_probe env (Softirq_exit v) st = handle_softirq_exit env v st"
| "run_probe env (Lb_call c) st = lb_enter env c st"
| "run_probe env (Lb_return phase) st = lb_leave env phase st"
| "run_probe env (Ipi_send_cpu cpu callsite callback) st = handle_ipi_send_cpu env cpu callsite callback st"

section \<open>Which programs are loaded\<close>

text \<open>The signals a program is there for; none for those that are never loaded.\<close>

fun wanted_by :: "prog \<Rightarrow> opt_key set" where
  "wanted_by Prog_pelt_se = {OPT_LOAD_AVG_TASK, OPT_RUNNABLE_AVG_TASK, OPT_UTIL_AVG_TASK}"
| "wanted_by Prog_util_est_se = {OPT_UTIL_EST_TASK}"
| "wanted_by Prog_pelt_cfs = {OPT_LOAD_AVG_CPU, OPT_RUNNABLE_AVG_CPU, OPT_UTIL_AVG_CPU}"
| "wanted_by Prog_util_est_cfs = {OPT_UTIL_EST_CPU}"
| "wanted_by Prog_pelt_rt = {OPT_UTIL_AVG_RT}"
| "wanted_by Prog_pelt_dl = {OPT_UTIL_AVG_DL}"
| "wanted_by Prog_pelt_irq = {OPT_UTIL_AVG_IRQ}"
| "wanted_by Prog_pelt_thermal = {OPT_LOAD_AVG_THERMAL}"
| "wanted_by Prog_sched_update_nr_running = {OPT_CPU_NR_RUNNING}"
| "wanted_by Prog_sched_process_free =
     {OPT_LOAD_AVG_TASK, OPT_RUNNABLE_AVG_TASK, OPT_UTIL_AVG_TASK, OPT_UTIL_EST_TASK}"
| "wanted_by Prog_cpu_idle = {OPT_CPU_IDLE}"
| "wanted_by Prog_cpu_idle_miss = {OPT_CPU_IDLE}"
| "wanted_by (Prog_lb_entry phase) = (if phase = LB_NOHZ_IDLE_BALANCE then {} else {OPT_LOAD_BALANCE})"
| "wanted_by (Prog_lb_exit phase) = (if phase = LB_NOHZ_IDLE_BALANCE then {} else {OPT_LOAD_BALANCE})"
| "wanted_by Prog_ipi_send_cpu = {OPT_IPI}"
| "wanted_by Prog_sched_switch = {}"
| "wanted_by Prog_cpu_frequency = {}"
| "wanted_by Prog_softirq_entry = {}"
| "wanted_by Prog_softirq_exit = {}"

lemma mem_autoload_fold:
  "q \<in> fold (\<lambda>(c, p) L. if c then set_autoload p False L else L) cs L \<longleftrightarrow> q \<in> L \<and> (True, q) \<notin> set cs"
proof (induction cs arbitrary: L)
  case (Cons cp cs)
  obtain c p where "cp = (c, p)" by (cases cp)
  then show ?case by (cases c) (auto simp: Cons.IH set_autoload_def)
qed simp

lemma mem_autoload_calls:
  "p \<in> autoload opts \<longleftrightarrow> list_all (\<lambda>(c, q). q = p \<longrightarrow> \<not> c) (autoload_calls opts)"
  by (auto simp: autoload_def mem_autoload_fold list_all_iff)

lemma autoload_iff: "p \<in> autoload opts \<longleftrightarrow> (\<exists>k \<in> wanted_by p. flag opts k)"
proof (cases p)
  case (Prog_lb_entry phase)
  then show ?thesis
    unfolding mem_autoload_calls autoload_calls_def by (cases phase; simp)
next
  case (Prog_lb_exit phase)
  then show ?thesis
    unfolding mem_autoload_calls autoload_calls_def by (cases phase; simp)
qed (unfold mem_autoload_calls autoload_calls_def, simp_all)

text \<open>
  Claim C6: the programs that are loaded are exactly those some option of the command line needs: a
  program is loaded iff one of its signals is selected, directly or by a group option. Task clean-up comes
  with every task signal; the nohz, frequency, softirq and context switch programs never run.
\<close>

theorem programs_loaded:
  assumes "argp_run sa_opts_init ks = Parsed opts"
  shows "autoload opts = {p. wanted_by p \<inter> (\<Union>(k, a) \<in> set ks. selects k) \<noteq> {}}"
proof -
  have "flags opts = (\<Union>(k, a) \<in> set ks. selects k)" using argp_flags [OF assms] flags_init by simp
  then have "(\<exists>k \<in> W. flag opts k) \<longleftrightarrow> W \<inter> (\<Union>(k, a) \<in> set ks. selects k) \<noteq> {}" for W
    unfolding mem_flags [symmetric] by blast
  then show ?thesis by (simp add: set_eq_iff autoload_iff)
qed

theorem programs_loaded_witness:
  "\<exists>opts. argp_run sa_opts_init [(OPT_UTIL_EST, [])] = Parsed opts
    \<and> Prog_util_est_se \<in> autoload opts \<and> Prog_sched_process_free \<in> autoload opts
    \<and> Prog_pelt_se \<notin> autoload opts"
proof -
  obtain opts where opts: "argp_run sa_opts_init [(OPT_UTIL_EST, [])] = Parsed opts" by simp
  show ?thesis using opts programs_loaded [OF opts] by auto
qed

text \<open>One program is disabled twice in a row; the pair of the other end is not missing, only repeated.\<close>

lemma autoload_repeated:
  "map snd (filter (\<lambda>(c, p). p = Prog_lb_exit LB_RUN_REBALANCE_DOMAINS) (autoload_calls opts))
     = [Prog_lb_exit LB_RUN_REBALANCE_DOMAINS, Prog_lb_exit LB_RUN_REBALANCE_DOMAINS]"
  by (simp add: autoload_calls_def)

section \<open>Setting up and tearing down\<close>

datatype event_kind = Rq_pelt | Task_pelt | Rq_nr_running | Sched_switches | Freq_idle | Softirqs | Lb | Ipi

text \<open>The order of the \<open>CREATE_EVENT_THREAD\<close> and of the \<open>DESTROY_EVENT_THREAD\<close> lines.\<close>

definition event_threads :: "event_kind list" where
  "event_threads = [Rq_pelt, Task_pelt, Rq_nr_running, Sched_switches, Freq_idle, Softirqs, Lb, Ipi]"

datatype main_action =
    Parse_kallsyms | Init_perfetto | Open_skeleton | Load_programs "prog set" | Attach_programs
  | Create_thread event_kind | Start_perfetto_trace | Wait_for_signal | Stop_perfetto_trace
  | Join_thread event_kind | Destroy_skeleton

text \<open>
  What the libraries return: the skeleton or NULL, the errors of load and attach, and of
  \<open>pthread_create\<close> and \<open>pthread_join\<close> for each thread.
\<close>

record main_env =
  skel_opens :: bool
  load_err :: s32
  attach_err :: s32
  create_err :: "event_kind \<Rightarrow> s32"
  join_err :: "event_kind \<Rightarrow> s32"

text \<open>
  The \<open>event##_err\<close> variables start at -1. Creation stops at the first failure (\<open>goto cleanup\<close>); the
  result is the actions, the variables, and whether all threads were created.
\<close>

fun create_threads :: "main_env \<Rightarrow> event_kind list \<Rightarrow> (event_kind \<Rightarrow> s32) \<Rightarrow>
    main_action list \<times> (event_kind \<Rightarrow> s32) \<times> bool" where
  "create_threads w [] errs = ([], errs, True)"
| "create_threads w (k # ks) errs =
     (let errs1 = errs(k := create_err w k) in
      if create_err w k \<noteq> 0 then ([Create_thread k], errs1, False)
      else let (acts, errs2, ok) = create_threads w ks errs1 in (Create_thread k # acts, errs2, ok))"

text \<open>\<open>err = event##_err ? 0 : pthread_join(...)\<close>, for each thread in turn; the last one stays.\<close>

fun destroy_threads :: "main_env \<Rightarrow> event_kind list \<Rightarrow> (event_kind \<Rightarrow> s32) \<Rightarrow> s32 \<Rightarrow> main_action list \<times> s32" where
  "destroy_threads w [] errs err = ([], err)"
| "destroy_threads w (k # ks) errs err =
     (if errs k \<noteq> 0 then destroy_threads w ks errs 0
      else let (acts, err') = destroy_threads w ks errs (join_err w k) in (Join_thread k # acts, err'))"

definition main_cleanup :: "main_env \<Rightarrow> (event_kind \<Rightarrow> s32) \<Rightarrow> s32 \<Rightarrow> main_action list \<times> s32" where
  "main_cleanup w errs err =
     (let (acts, err') = destroy_threads w event_threads errs err
      in (acts @ [Destroy_skeleton], if err' <s 0 then - err' else 0))"

definition main_parsed :: "main_env \<Rightarrow> sa_opts \<Rightarrow> main_action list \<times> s32" where
  "main_parsed w opts =
     (let pre = (if ipi opts then [Parse_kallsyms] else []) @ [Init_perfetto, Open_skeleton];
          errs0 = (\<lambda>k. - 1) in
      if \<not> skel_opens w then (pre, 1)
      else
        let loaded = pre @ [Load_programs (autoload opts)] in
        if load_err w \<noteq> 0 then
          let (acts, rc) = main_cleanup w errs0 (load_err w) in (loaded @ acts, rc)
        else if attach_err w \<noteq> 0 then
          let (acts, rc) = main_cleanup w errs0 (attach_err w) in (loaded @ [Attach_programs] @ acts, rc)
        else
          let (created, errs, ok) = create_threads w event_threads errs0;
              up = loaded @ [Attach_programs] @ created;
              (acts, rc) = main_cleanup w errs (attach_err w) in
          if ok then (up @ [Start_perfetto_trace, Wait_for_signal, Stop_perfetto_trace] @ acts, rc)
          else (up @ acts, rc))"

text \<open>\<open>argp_parse\<close> returns its error code, or exits from the usage message.\<close>

definition EX_USAGE :: s32 where "EX_USAGE = 64"

definition sa_main :: "main_env \<Rightarrow> (opt_key \<times> string) list \<Rightarrow> (main_action list \<times> s32) option" where
  "sa_main w ks =
     (case argp_run sa_opts_init ks of
        Parsed opts \<Rightarrow> Some (main_parsed w opts)
      | Failed err opts \<Rightarrow> Some ([], word_of_int err)
      | Usage opts \<Rightarrow> Some ([], EX_USAGE)
      | Bad_store a \<Rightarrow> None)"

section \<open>Threads are joined as they were created\<close>

text \<open>The threads that come up: those before the first failure.\<close>

definition created :: "main_env \<Rightarrow> event_kind list \<Rightarrow> event_kind list" where
  "created w ks = takeWhile (\<lambda>k. create_err w k = 0) ks"

lemma create_threads_spec:
  "distinct ks \<Longrightarrow> \<exists>acts errs'. create_threads w ks errs = (acts, errs', created w ks = ks)
    \<and> filter (\<lambda>a. \<exists>k. a = Join_thread k) acts = [] \<and> Start_perfetto_trace \<notin> set acts
    \<and> Stop_perfetto_trace \<notin> set acts
    \<and> (\<forall>k. errs' k = 0 \<longleftrightarrow> (if k \<in> set ks then k \<in> set (created w ks) \<or>
          k \<notin> set (take (Suc (length (created w ks))) ks) \<and> errs k = 0 else errs k = 0))"
proof (induction ks arbitrary: errs)
  case Nil
  then show ?case by (simp add: created_def)
next
  case (Cons k ks)
  show ?case
  proof (cases "create_err w k = 0")
    case False
    then show ?thesis using Cons.prems by (auto simp: created_def)
  next
    case True
    from Cons.prems have d: "distinct ks" "k \<notin> set ks" by simp_all
    obtain acts errs' where IH: "create_threads w ks (errs(k := create_err w k)) = (acts, errs', created w ks = ks)"
      "filter (\<lambda>a. \<exists>k. a = Join_thread k) acts = []" "Start_perfetto_trace \<notin> set acts"
      "Stop_perfetto_trace \<notin> set acts"
      "\<forall>j. errs' j = 0 \<longleftrightarrow> (if j \<in> set ks then j \<in> set (created w ks) \<or>
          j \<notin> set (take (Suc (length (created w ks))) ks) \<and> (errs(k := create_err w k)) j = 0
        else (errs(k := create_err w k)) j = 0)"
      using Cons.IH [OF d(1), of "errs(k := create_err w k)"] by blast
    have c: "created w (k # ks) = k # created w ks" using True by (simp add: created_def)
    show ?thesis
      using IH True d unfolding c by (auto simp: Let_def)
  qed
qed

lemma destroy_threads_joins:
  "fst (destroy_threads w ks errs err) = map Join_thread (filter (\<lambda>k. errs k = 0) ks)"
  by (induction ks arbitrary: err) (auto simp: split_beta)

lemma destroy_threads_last:
  "ks \<noteq> [] \<Longrightarrow> snd (destroy_threads w ks errs err) = (if errs (last ks) = 0 then join_err w (last ks) else 0)"
  by (induction ks arbitrary: err) (auto simp: split_beta)

lemma filter_takeWhile_self: "distinct xs \<Longrightarrow> filter (\<lambda>x. x \<in> set (takeWhile P xs)) xs = takeWhile P xs"
proof (induction xs)
  case (Cons x xs)
  then have "filter (\<lambda>y. y = x \<or> y \<in> set (takeWhile P xs)) xs = filter (\<lambda>y. y \<in> set (takeWhile P xs)) xs"
    by (intro filter_cong) auto
  with Cons show ?case by simp
qed simp

lemma distinct_event_threads: "distinct event_threads"
  by (simp add: event_threads_def)

lemma main_cleanup_eq:
  "main_cleanup w errs err =
    (map Join_thread (filter (\<lambda>k. errs k = 0) event_threads) @ [Destroy_skeleton],
     if errs Ipi = 0 \<and> join_err w Ipi <s 0 then - join_err w Ipi else 0)"
proof -
  have "event_threads \<noteq> []" "last event_threads = Ipi" by (simp_all add: event_threads_def)
  then show ?thesis
    using destroy_threads_joins [of w event_threads errs err]
      destroy_threads_last [of event_threads w errs err]
    by (simp add: main_cleanup_def split_beta)
qed

lemma create_threads_started:
  "\<exists>acts errs. create_threads w event_threads (\<lambda>k. - 1) = (acts, errs, created w event_threads = event_threads)
    \<and> filter (\<lambda>a. \<exists>k. a = Join_thread k) acts = [] \<and> Start_perfetto_trace \<notin> set acts
    \<and> Stop_perfetto_trace \<notin> set acts
    \<and> filter (\<lambda>k. errs k = 0) event_threads = created w event_threads"
proof -
  obtain acts errs where c: "create_threads w event_threads (\<lambda>k. - 1)
      = (acts, errs, created w event_threads = event_threads)"
    "filter (\<lambda>a. \<exists>k. a = Join_thread k) acts = []" "Start_perfetto_trace \<notin> set acts"
    "Stop_perfetto_trace \<notin> set acts"
    and errs: "\<forall>k. errs k = 0 \<longleftrightarrow> k \<in> set event_threads \<and> k \<in> set (created w event_threads)"
    using create_threads_spec [OF distinct_event_threads, of w "\<lambda>k. - 1"] by auto
  have "filter (\<lambda>k. errs k = 0) event_threads = filter (\<lambda>k. k \<in> set (created w event_threads)) event_threads"
    by (rule filter_cong) (simp_all add: errs)
  also have "\<dots> = created w event_threads"
    unfolding created_def by (rule filter_takeWhile_self [OF distinct_event_threads])
  finally show ?thesis using c by blast
qed

text \<open>How far \<open>main\<close> gets: the threads it creates, and whether the trace session is started.\<close>

definition threads_up :: "main_env \<Rightarrow> event_kind list" where
  "threads_up w = (if load_err w \<noteq> 0 \<or> attach_err w \<noteq> 0 then [] else created w event_threads)"

lemma filter_joins: "filter (\<lambda>a. \<exists>k. a = Join_thread k) (map Join_thread ks) = map Join_thread ks"
  by (induction ks) auto

lemma main_parsed_joins:
  assumes "skel_opens w"
  shows "filter (\<lambda>a. \<exists>k. a = Join_thread k) (fst (main_parsed w opts)) = map Join_thread (threads_up w)
    \<and> last (fst (main_parsed w opts)) = Destroy_skeleton
    \<and> (Start_perfetto_trace \<in> set (fst (main_parsed w opts)) \<longleftrightarrow> threads_up w = event_threads)
    \<and> (Stop_perfetto_trace \<in> set (fst (main_parsed w opts)) \<longleftrightarrow> threads_up w = event_threads)
    \<and> snd (main_parsed w opts) =
        (if threads_up w = event_threads \<and> join_err w Ipi <s 0 then - join_err w Ipi else 0)"
proof -
  have ne: "[] \<noteq> event_threads" "Ipi \<in> set event_threads" by (simp_all add: event_threads_def)
  have none: "filter (\<lambda>k. (- 1 :: s32) = 0) event_threads = []" by simp
  obtain acts errs where c: "create_threads w event_threads (\<lambda>k. - 1)
      = (acts, errs, created w event_threads = event_threads)"
    "filter (\<lambda>a. \<exists>k. a = Join_thread k) acts = []" "Start_perfetto_trace \<notin> set acts"
    "Stop_perfetto_trace \<notin> set acts"
    "filter (\<lambda>k. errs k = 0) event_threads = created w event_threads"
    using create_threads_started by blast
  have ipi: "errs Ipi = 0 \<longleftrightarrow> created w event_threads = event_threads"
    using c(5) ne(2) by (cases "errs Ipi = 0") (auto simp: event_threads_def created_def split: if_splits)
  show ?thesis
    using assms c ne ipi
    by (auto simp: main_parsed_def threads_up_def main_cleanup_eq Let_def filter_joins split_beta)
qed

text \<open>
  When a later thread cannot be created, \<open>main\<close> joins the earlier ones without having waited for
  the signal that makes them leave their loops: it blocks until one arrives.
\<close>

lemma create_threads_no_wait: "Wait_for_signal \<notin> set (fst (create_threads w ks errs))"
  by (induction ks arbitrary: errs) (auto simp: Let_def split_beta)

lemma join_without_signal:
  assumes "skel_opens w" "load_err w = 0" "attach_err w = 0"
    and "create_err w Rq_pelt = 0" "created w event_threads \<noteq> event_threads"
  shows "Join_thread Rq_pelt \<in> set (fst (main_parsed w opts))
    \<and> Wait_for_signal \<notin> set (fst (main_parsed w opts))"
proof -
  have "Rq_pelt \<in> set (threads_up w)"
    using assms by (simp add: threads_up_def created_def event_threads_def)
  moreover have "set (filter (\<lambda>a. \<exists>k. a = Join_thread k) (fst (main_parsed w opts))) = Join_thread ` set (threads_up w)"
    using main_parsed_joins [OF assms(1), of opts] by simp
  ultimately have "Join_thread Rq_pelt \<in> set (fst (main_parsed w opts))" by fastforce
  moreover obtain acts errs where "create_threads w event_threads (\<lambda>k. - 1) = (acts, errs, False)"
    "Wait_for_signal \<notin> set acts"
    using create_threads_started [of w] create_threads_no_wait [of w event_threads "\<lambda>k. - 1"] assms(5)
    by fastforce
  then have "Wait_for_signal \<notin> set (fst (main_parsed w opts))"
    using assms by (auto simp: main_parsed_def main_cleanup_eq Let_def split_beta)
  ultimately show ?thesis ..
qed

text \<open>
  Claim C28: once the skeleton is open, the exit status is 0 whatever happens: errors of loading,
  attaching and creating threads reach the clean-up in \<open>err\<close>, which the clean-up of the last thread
  overwrites (\<open>pthread_join\<close> returns 0 or a positive error number).
\<close>

theorem main_exit_status:
  assumes "argp_run sa_opts_init ks = Parsed opts" "skel_opens w" "\<forall>k. \<not> join_err w k <s 0"
  shows "\<exists>acts. sa_main w ks = Some (acts, 0)"
  using assms main_parsed_joins [OF assms(2), of opts]
  by (cases "main_parsed w opts") (auto simp: sa_main_def)

definition sample_main :: main_env where
  "sample_main = \<lparr>skel_opens = True, load_err = - 22, attach_err = 0, create_err = (\<lambda>k. 0), join_err = (\<lambda>k. 0)\<rparr>"

theorem main_exit_status_witness:
  "load_err sample_main = - 22 \<and> (\<exists>acts. sa_main sample_main [(OPT_IPI, [])] = Some (acts, 0))"
  using main_exit_status [of "[(OPT_IPI, [])]" _ sample_main] by (simp add: sample_main_def)

text \<open>
  Claim C27: the life of \<open>main\<close>: it joins exactly the threads it created, in the order it created them, also
  when a later creation, loading or attaching fails; it destroys the skeleton last; and it starts
  and stops the trace session exactly when all eight threads are up.
\<close>

theorem main_lifecycle:
  assumes "argp_run sa_opts_init ks = Parsed opts" "skel_opens w"
  shows "\<exists>acts rc. sa_main w ks = Some (acts, rc)
    \<and> filter (\<lambda>a. \<exists>k. a = Join_thread k) acts = map Join_thread (threads_up w)
    \<and> last acts = Destroy_skeleton
    \<and> (Start_perfetto_trace \<in> set acts \<longleftrightarrow> threads_up w = event_threads)
    \<and> (Stop_perfetto_trace \<in> set acts \<longleftrightarrow> threads_up w = event_threads)"
  using assms(1) main_parsed_joins [OF assms(2), of opts]
  by (cases "main_parsed w opts") (simp add: sa_main_def)

theorem main_lifecycle_witness:
  "\<exists>acts rc. sa_main (sample_main\<lparr>load_err := 0, create_err := (\<lambda>k. if k = Softirqs then 11 else 0)\<rparr>) [(OPT_IPI, [])]
      = Some (acts, rc)
    \<and> filter (\<lambda>a. \<exists>k. a = Join_thread k) acts =
        map Join_thread [Rq_pelt, Task_pelt, Rq_nr_running, Sched_switches, Freq_idle]
    \<and> Start_perfetto_trace \<notin> set acts"
proof -
  let ?w = "sample_main\<lparr>load_err := 0, create_err := (\<lambda>k. if k = Softirqs then 11 else 0)\<rparr>"
  have w: "skel_opens ?w" by (simp add: sample_main_def)
  have up: "threads_up ?w = [Rq_pelt, Task_pelt, Rq_nr_running, Sched_switches, Freq_idle]"
    by (simp add: threads_up_def created_def event_threads_def sample_main_def)
  obtain opts where opts: "argp_run sa_opts_init [(OPT_IPI, [])] = Parsed opts" by simp
  have ne: "[Rq_pelt, Task_pelt, Rq_nr_running, Sched_switches, Freq_idle] \<noteq> event_threads"
    by (simp add: event_threads_def)
  show ?thesis using main_lifecycle [OF opts w] ne unfolding up by blast
qed

end
