(* ===== verification/SA_Samples.thy ===== *)
theory SA_Samples imports SA_Bpf begin

text \<open>
  A concrete kernel, environment and state, on which the properties with hypotheses are applied.
  The kernel has every optional field, two run queues' worth of plausible values at every address,
  and scheduling domains linked by increasing address up to \<^emph>\<open>sample_top\<close>.
\<close>

type_synonym sample_map = "(s32, s32) htab"
type_synonym sample_times = "(s32, u64) htab"
type_synonym sample_env = "(sample_map, sample_times, sample_map) run_env"
type_synonym sample_state = "(sample_map, sample_times, sample_map) bpf_state"

definition sample_avg :: sched_avg where
  "sample_avg = \<lparr>avg_last_update_time = 0, avg_load_sum = 0, avg_runnable_sum = 0, avg_util_sum = 0,
     avg_period_contrib = 0, avg_load_avg = 300, avg_runnable_avg = 200, avg_util_avg = 100,
     avg_util_est = 0x80000064\<rparr>"

definition sample_avg_pre68 :: sched_avg__pre68 where
  "sample_avg_pre68 = \<lparr>pre68_last_update_time = 0, pre68_load_sum = 0, pre68_runnable_sum = 0,
     pre68_util_sum = 0, pre68_period_contrib = 0, pre68_load_avg = 300, pre68_runnable_avg = 200,
     pre68_util_avg = 100, pre68_util_est = \<lparr>ue_enqueued = 0x80000064, ue_ewma = 90\<rparr>\<rparr>"

definition sample_uclamp :: "11 word \<Rightarrow> uclamp_se" where
  "sample_uclamp v = \<lparr>uc_value = v, uc_bucket_id = 0, uc_active = True, uc_user_defined = False\<rparr>"

definition sample_kernel :: "s32 \<Rightarrow> ptr \<Rightarrow> kernel" where
  "sample_kernel version sample_top = \<lparr>
     LINUX_KERNEL_VERSION = version, field_exists = (\<lambda>f. True),
     off_task_se = 128, off_rq_cfs = 64, off_se_avg = 192, off_cfs_avg = 256,
     mem_task = (\<lambda>p. \<lparr>p_pid = ucast p, p_comm = ''task'', p_wake_cpu = 3,
        p_uclamp_req = (\<lambda>c. sample_uclamp 7), p_uclamp = (\<lambda>c. sample_uclamp 1024)\<rparr>),
     mem_task_old = (\<lambda>p. \<lparr>old_cpu = 5\<rparr>),
     mem_se = (\<lambda>p. \<lparr>se_my_q = 0, se_avg = sample_avg\<rparr>),
     mem_cfs = (\<lambda>p. \<lparr>cfs_idle_h_nr_running = 0, cfs_avg = sample_avg, cfs_rq_rq = p - 64\<rparr>),
     mem_rq = (\<lambda>p. \<lparr>rq_nr_running = 2, rq_uclamp = (\<lambda>c. 512), rq_rd = 0x9000, rq_sd = 0x100,
        rq_misfit_task_load = 17, rq_cpu = 2, rq_avg_rt = sample_avg, rq_avg_dl = sample_avg,
        rq_avg_irq = sample_avg, rq_avg_thermal = sample_avg\<rparr>),
     mem_rd = (\<lambda>p. \<lparr>rd_overload = 1, rd_overutilized = 0\<rparr>),
     mem_sd = (\<lambda>p. \<lparr>dom_parent = (if p < sample_top then p + 1 else 0), dom_busy_factor = 16,
        dom_level = ucast (p - 0x100), dom_balance_interval = 8\<rparr>),
     mem_avg_pre68 = (\<lambda>p. sample_avg_pre68)\<rparr>"

text \<open>Fresh ring memory: what it held before.\<close>

definition sample_rq_pelt :: "pelt_type \<Rightarrow> rq_pelt_event" where
  "sample_rq_pelt t = \<lparr>rp_ts = 0, rp_cpu = 0, rp_type = t, rp_load_avg = 0, rp_runnable_avg = 0,
     rp_util_avg = 0, rp_util_est_enqueued = 0, rp_util_est_ewma = 0, rp_uclamp_min = 0, rp_uclamp_max = 0\<rparr>"

definition sample_sd_stats :: lb_sd_stats where
  "sample_sd_stats = \<lparr>sd_cpu = 0, sd_words = replicate (2 * MAX_SD_LEVELS + 1) 0\<rparr>"

definition sample_env :: "kernel \<Rightarrow> s32 \<Rightarrow> u64 \<Rightarrow> sample_env" where
  "sample_env k cpu now = \<lparr>
     sw_ops = htab_ops, si_ops = htab_ops, lb_ops = htab_ops, env_kernel = k, smp_processor_id = cpu,
     ktime_boot_ns = (\<lambda>n. now + of_nat n),
     reserve_rq_pelt = (\<lambda>n. Some (sample_rq_pelt PELT_TYPE_THERMAL)),
     reserve_task_pelt = (\<lambda>n. Some \<lparr>tp_ts = 0, tp_cpu = 0, tp_pid = 0, tp_comm = [], tp_load_avg = 0,
        tp_runnable_avg = 0, tp_util_avg = 0, tp_util_est_enqueued = 0, tp_util_est_ewma = 0,
        tp_uclamp_min = 0, tp_uclamp_max = 0, tp_running = 0\<rparr>),
     reserve_rq_nr_running = (\<lambda>n. Some \<lparr>nr_ts = 0, nr_cpu = 0, nr_nr_running = 0, nr_change = 0\<rparr>),
     reserve_sched_switch = (\<lambda>n. Some \<lparr>ss_ts = 0, ss_cpu = 0, ss_pid = 0, ss_comm = [], ss_running = 0\<rparr>),
     reserve_freq_idle = (\<lambda>n. Some \<lparr>fi_ts = 0, fi_cpu = 0, fi_frequency = 0, fi_idle_state = 0, fi_idle_miss = 0\<rparr>),
     reserve_softirq = (\<lambda>n. Some \<lparr>si_ts = 0, si_cpu = 0, si_softirq = replicate TASK_COMM_LEN NUL, si_duration = 0\<rparr>),
     reserve_lb = (\<lambda>n. Some \<lparr>lb_ts = 0, lb_this_cpu = 0, lb_lb_cpu = 0, lb_phase = LB_NOHZ_IDLE_BALANCE,
        lb_entry = False, lb_overloaded = 0, lb_overutilized = 0, lb_misfit_task_load = 0,
        lb_sd_stats = sample_sd_stats\<rparr>),
     reserve_ipi = (\<lambda>n. Some \<lparr>ipi_ts = 0, ipi_from_cpu = 0, ipi_target_cpu = 0, ipi_callsite = 0, ipi_callback = 0\<rparr>)\<rparr>"

definition sample_state :: sample_state where
  "sample_state = \<lparr>sched_switch_map = htab_empty MAX_ENTRIES 0, softirq_entry_map = htab_empty MAX_ENTRIES 0,
     lb_map = htab_empty MAX_ENTRIES 0, rq_pelt_rb = [], task_pelt_rb = [], rq_nr_running_rb = [],
     sched_switch_rb = [], freq_idle_rb = [], softirq_rb = [], lb_rb = [], ipi_rb = []\<rparr>"

lemma sample_map_inv [simp]: "htab_inv MAX_ENTRIES (htab_empty MAX_ENTRIES v)"
  by (rule htab_inv_empty) (simp add: MAX_ENTRIES_def)

lemma sample_map_value [simp]: "map_value htab_ops (htab_empty n v) = Map.empty"
  by (rule ext) (simp add: map_value_def htab_lookup_def htab_empty_def)

lemma sample_env_sel [simp]:
  "sw_ops (sample_env k cpu now) = htab_ops" "si_ops (sample_env k cpu now) = htab_ops"
  "lb_ops (sample_env k cpu now) = htab_ops" "env_kernel (sample_env k cpu now) = k"
  "smp_processor_id (sample_env k cpu now) = cpu" "ktime_boot_ns (sample_env k cpu now) n = now + of_nat n"
  by (simp_all add: sample_env_def)

lemma sample_state_sel [simp]:
  "sched_switch_map sample_state = htab_empty MAX_ENTRIES 0"
  "softirq_entry_map sample_state = htab_empty MAX_ENTRIES 0"
  "lb_map sample_state = htab_empty MAX_ENTRIES 0" "lb_rb sample_state = []"
  by (simp_all add: sample_state_def)

end
