(* ===== verification/SA_Lb_Spec.thy ===== *)
theory SA_Lb_Spec imports SA_Lb SA_Perfetto SA_Samples begin

text \<open>
  What the load balancer probes promise: the abstract machine that keeps one open call per phase and
  CPU, the proof that the probes with their hash map refine it, and the statistics of the
  scheduling domains, from the kernel's list of domains to the counters of the trace.
\<close>

section \<open>All phases at once\<close>

lemma lb_enter_eq:
  "lb_enter env c st =
    (let rb = reserve_submit (reserve_lb env 0) (lb_entry_event env c) (lb_rb st) in
     if lb_call_phase c = LB_RUN_REBALANCE_DOMAINS then st\<lparr>lb_rb := rb\<rparr>
     else st\<lparr>lb_map := snd (map_update_elem (lb_ops env) (lb_map st)
              (lb_key (lb_call_phase c) (smp_processor_id env)) (lb_call_cpu env c)),
             lb_rb := rb\<rparr>)"
proof (cases c)
  case (Nohz_idle_balance rq)
  then show ?thesis using nohz.enter_eq [of env rq st] by simp
next
  case Run_rebalance_domains
  then show ?thesis
    by (simp add: handle_run_rebalance_domains_entry_def lb_entry_event_def [abs_def] Let_def)
next
  case (Rebalance_domains rq idle)
  then show ?thesis using rebalance.enter_eq [of env "(rq, idle)" st] by simp
next
  case (Balance_fair rq)
  then show ?thesis using fair.enter_eq [of env rq st] by simp
next
  case (Pick_next_task_fair rq)
  then show ?thesis using pick.enter_eq [of env rq st] by simp
next
  case (Newidle_balance rq)
  then show ?thesis using newidle.enter_eq [of env rq st] by simp
next
  case (Load_balance lb_cpu lb_rq sd idle)
  then show ?thesis using load.enter_eq [of env "(lb_cpu, lb_rq, sd, idle)" st] by simp
qed

lemma lb_leave_eq:
  assumes "bpf_hash (lb_ops env) ok n" "ok (lb_map st)"
  shows "lb_leave env phase st =
    (if phase = LB_RUN_REBALANCE_DOMAINS
     then st\<lparr>lb_rb := reserve_submit (reserve_lb env 0)
            (lb_exit_event env phase (smp_processor_id env)) (lb_rb st)\<rparr>
     else (let key = lb_key phase (smp_processor_id env) in
       case map_value (lb_ops env) (lb_map st) key of
         None \<Rightarrow> st
       | Some cpu \<Rightarrow> st\<lparr>lb_map := snd (map_delete_elem (lb_ops env) (lb_map st) key),
             lb_rb := reserve_submit (reserve_lb env 0) (lb_exit_event env phase cpu) (lb_rb st)\<rparr>))"
  using nohz.leave_value [OF assms] rebalance.leave_value [OF assms] fair.leave_value [OF assms]
    pick.leave_value [OF assms] newidle.leave_value [OF assms] load.leave_value [OF assms]
  by (cases phase) (simp_all add: handle_run_rebalance_domains_exit_def lb_exit_event_def [abs_def] Let_def
      cong: option.case_cong)

section \<open>The abstract machine\<close>

datatype ('sw, 'si, 'lb) lb_probe =
    Enter (probe_env: "('sw, 'si, 'lb) run_env") lb_call
  | Leave (probe_env: "('sw, 'si, 'lb) run_env") lb_phases

fun lb_exec :: "('sw, 'si, 'lb) lb_probe \<Rightarrow> ('sw, 'si, 'lb) bpf_state \<Rightarrow> ('sw, 'si, 'lb) bpf_state" where
  "lb_exec (Enter env c) st = lb_enter env c st"
| "lb_exec (Leave env phase) st = lb_leave env phase st"

text \<open>The calls that are open, by phase and CPU, with the CPU they balance; and the events so far.\<close>

type_synonym lb_open = "lb_phases \<times> s32 \<Rightarrow> s32 option"

fun lb_spec :: "('sw, 'si, 'lb) lb_probe \<Rightarrow> lb_open \<times> lb_event list \<Rightarrow> lb_open \<times> lb_event list" where
  "lb_spec (Enter env c) (opened, rb) =
     (if lb_call_phase c = LB_RUN_REBALANCE_DOMAINS then opened
      else opened((lb_call_phase c, smp_processor_id env) \<mapsto> lb_call_cpu env c),
      reserve_submit (reserve_lb env 0) (lb_entry_event env c) rb)"
| "lb_spec (Leave env phase) (opened, rb) =
     (if phase = LB_RUN_REBALANCE_DOMAINS
      then (opened, reserve_submit (reserve_lb env 0) (lb_exit_event env phase (smp_processor_id env)) rb)
      else (case opened (phase, smp_processor_id env) of
          None \<Rightarrow> (opened, rb)
        | Some cpu \<Rightarrow> (opened((phase, smp_processor_id env) := None),
            reserve_submit (reserve_lb env 0) (lb_exit_event env phase cpu) rb)))"

section \<open>Refinement\<close>

text \<open>The keys of \<open>n\<close> CPUs, and what a state of the object stands for.\<close>

definition lb_keys :: "nat \<Rightarrow> s32 set" where
  "lb_keys n = {lb_key p c |p c. p \<noteq> LB_RUN_REBALANCE_DOMAINS \<and> unat c < n}"

definition lb_abs ::
  "(s32, s32, 'lb) bpf_map \<Rightarrow> nat \<Rightarrow> ('sw, 'si, 'lb) bpf_state \<Rightarrow> lb_open \<times> lb_event list" where
  "lb_abs M n st =
     ((\<lambda>(p, c). if p \<noteq> LB_RUN_REBALANCE_DOMAINS \<and> unat c < n
                then map_value M (lb_map st) (lb_key p c) else None), lb_rb st)"

definition lb_ok ::
  "(s32, s32, 'lb) bpf_map \<Rightarrow> ('lb \<Rightarrow> bool) \<Rightarrow> nat \<Rightarrow> ('sw, 'si, 'lb) bpf_state \<Rightarrow> bool" where
  "lb_ok M ok n st \<longleftrightarrow> ok (lb_map st) \<and> dom (map_value M (lb_map st)) \<subseteq> lb_keys n"

definition lb_probe_ok :: "(s32, s32, 'lb) bpf_map \<Rightarrow> nat \<Rightarrow> ('sw, 'si, 'lb) lb_probe \<Rightarrow> bool" where
  "lb_probe_ok M n p \<longleftrightarrow> lb_ops (probe_env p) = M \<and> unat (smp_processor_id (probe_env p)) < n"

lemma lb_phases_UNIV: "(UNIV :: lb_phases set) = {LB_NOHZ_IDLE_BALANCE, LB_RUN_REBALANCE_DOMAINS,
    LB_REBALANCE_DOMAINS, LB_BALANCE_FAIR, LB_PICK_NEXT_TASK_FAIR, LB_NEWIDLE_BALANCE, LB_LOAD_BALANCE}"
  using lb_phases.exhaust by blast

lemma card_small_words: "card {c :: s32. unat c < n} \<le> n" "finite {c :: s32. unat c < n}"
proof -
  have sub: "{c :: s32. unat c < n} \<subseteq> of_nat ` {..<n}"
  proof
    fix c :: s32
    assume "c \<in> {c. unat c < n}"
    then show "c \<in> of_nat ` {..<n}" by (intro image_eqI [of _ _ "unat c"]) simp_all
  qed
  have "card {c :: s32. unat c < n} \<le> card ((of_nat :: nat \<Rightarrow> s32) ` {..<n})"
    by (rule card_mono [OF _ sub]) simp
  also have "\<dots> \<le> n" using card_image_le [of "{..<n}" "of_nat :: nat \<Rightarrow> s32"] by simp
  finally show "card {c :: s32. unat c < n} \<le> n" .
  show "finite {c :: s32. unat c < n}" by (rule finite_subset [OF sub]) simp
qed

lemma card_lb_keys:
  assumes "n \<le> 2 ^ 16"
  shows "card (lb_keys n) \<le> 6 * n" "finite (lb_keys n)"
proof -
  let ?P = "UNIV - {LB_RUN_REBALANCE_DOMAINS}" and ?C = "{c :: s32. unat c < n}"
  have k: "lb_keys n = (\<lambda>(p, c). lb_key p c) ` (?P \<times> ?C)" by (auto simp: lb_keys_def)
  have P: "card ?P = 6" "finite ?P" unfolding lb_phases_UNIV by simp_all
  have C: "card ?C \<le> n" "finite ?C" by (rule card_small_words)+
  have "card (lb_keys n) \<le> card (?P \<times> ?C)"
    unfolding k using P(2) C(2) by (intro card_image_le) simp
  also have "\<dots> = 6 * card ?C" using P by (simp add: card_cartesian_product)
  finally show "card (lb_keys n) \<le> 6 * n" using C(1) by simp
  show "finite (lb_keys n)" unfolding k using P(2) C(2) by simp
qed

lemma lb_room:
  assumes hash: "bpf_hash M ok MAX_ENTRIES" and st: "lb_ok M ok n st"
    and n: "6 * n \<le> MAX_ENTRIES" and k: "k \<in> lb_keys n"
  shows "fst (map_update_elem M (lb_map st) k v) = 0"
proof (rule bpf_hash.update_succeeds [OF hash])
  show "ok (lb_map st)" using st by (simp add: lb_ok_def)
  have n16: "n \<le> 2 ^ 16" using n by (simp add: MAX_ENTRIES_def)
  have sub: "dom (map_value M (lb_map st)) \<subseteq> lb_keys n" using st by (simp add: lb_ok_def)
  show "k \<in> dom (map_value M (lb_map st)) \<or> card (dom (map_value M (lb_map st))) < MAX_ENTRIES"
  proof (rule disjCI)
    assume "\<not> card (dom (map_value M (lb_map st))) < MAX_ENTRIES"
    then have "card (lb_keys n) \<le> card (dom (map_value M (lb_map st)))"
      using card_lb_keys(1) [OF n16] n by simp
    then have "dom (map_value M (lb_map st)) = lb_keys n"
      by (rule card_seteq [OF card_lb_keys(2) [OF n16] sub])
    then show "k \<in> dom (map_value M (lb_map st))" using k by simp
  qed
qed

lemma lb_keys_intro: "p \<noteq> LB_RUN_REBALANCE_DOMAINS \<Longrightarrow> unat c < n \<Longrightarrow> lb_key p c \<in> lb_keys n"
  by (auto simp: lb_keys_def)

lemma lb_key_eq_iff:
  "n \<le> 2 ^ 16 \<Longrightarrow> unat c < n \<Longrightarrow> unat d < n \<Longrightarrow> lb_key p c = lb_key q d \<longleftrightarrow> p = q \<and> c = d"
  using lb_key_inj [of c d p q] by auto

text \<open>One probe: the invariant is kept, and the abstract machine takes the same step.\<close>

lemma lb_exec_enter:
  assumes hash: "bpf_hash M ok MAX_ENTRIES" and st: "lb_ok M ok n st"
    and n: "6 * n \<le> MAX_ENTRIES" and p: "lb_probe_ok M n (Enter env c)"
  shows "lb_ok M ok n (lb_exec (Enter env c) st)
    \<and> lb_abs M n (lb_exec (Enter env c) st) = lb_spec (Enter env c) (lb_abs M n st)"
proof (cases "lb_call_phase c = LB_RUN_REBALANCE_DOMAINS")
  case True
  then show ?thesis using st by (simp add: lb_enter_eq lb_ok_def lb_abs_def Let_def fun_eq_iff)
next
  case False
  have env: "lb_ops env = M" "unat (smp_processor_id env) < n"
    using p by (simp_all add: lb_probe_ok_def)
  let ?k = "lb_key (lb_call_phase c) (smp_processor_id env)"
  have k: "?k \<in> lb_keys n" using False env(2) by (rule lb_keys_intro)
  have okm: "ok (lb_map st)" using st by (simp add: lb_ok_def)
  have upd: "map_value M (snd (map_update_elem M (lb_map st) ?k v)) = (map_value M (lb_map st))(?k \<mapsto> v)" for v
    using bpf_hash.update_value [OF hash okm lb_room [OF hash st n k]] .
  have inj: "lb_key q d = ?k \<longleftrightarrow> q = lb_call_phase c \<and> d = smp_processor_id env"
    if "unat d < n" for q d
    using lb_key_eq_iff [of n d "smp_processor_id env"] that env(2) n by (simp add: MAX_ENTRIES_def)
  have "lb_ok M ok n (lb_exec (Enter env c) st)"
    using st False env upd k bpf_hash.update_inv [OF hash okm]
    by (auto simp: lb_ok_def lb_enter_eq Let_def split: if_splits)
  moreover have "lb_abs M n (lb_exec (Enter env c) st) = lb_spec (Enter env c) (lb_abs M n st)"
    using False env inj by (auto simp: lb_abs_def lb_enter_eq Let_def upd fun_eq_iff)
  ultimately show ?thesis ..
qed

lemma lb_exec_leave:
  assumes hash: "bpf_hash M ok MAX_ENTRIES" and st: "lb_ok M ok n st"
    and n: "6 * n \<le> MAX_ENTRIES" and p: "lb_probe_ok M n (Leave env phase)"
  shows "lb_ok M ok n (lb_exec (Leave env phase) st)
    \<and> lb_abs M n (lb_exec (Leave env phase) st) = lb_spec (Leave env phase) (lb_abs M n st)"
proof -
  have env: "lb_ops env = M" "unat (smp_processor_id env) < n"
    using p by (simp_all add: lb_probe_ok_def)
  let ?k = "lb_key phase (smp_processor_id env)"
  have okm: "ok (lb_map st)" using st by (simp add: lb_ok_def)
  have del: "map_value M (snd (map_delete_elem M (lb_map st) ?k)) = (map_value M (lb_map st))(?k := None)"
    using bpf_hash.delete_value [OF hash okm] .
  have inj: "lb_key q d = ?k \<longleftrightarrow> q = phase \<and> d = smp_processor_id env" if "unat d < n" for q d
    using lb_key_eq_iff [of n d "smp_processor_id env"] that env(2) n by (simp add: MAX_ENTRIES_def)
  have eq: "lb_exec (Leave env phase) st = (if phase = LB_RUN_REBALANCE_DOMAINS
     then st\<lparr>lb_rb := reserve_submit (reserve_lb env 0)
            (lb_exit_event env phase (smp_processor_id env)) (lb_rb st)\<rparr>
     else case map_value M (lb_map st) ?k of
         None \<Rightarrow> st
       | Some cpu \<Rightarrow> st\<lparr>lb_map := snd (map_delete_elem M (lb_map st) ?k),
             lb_rb := reserve_submit (reserve_lb env 0) (lb_exit_event env phase cpu) (lb_rb st)\<rparr>)"
    using lb_leave_eq [of env ok MAX_ENTRIES st phase] hash okm env(1) by (simp add: Let_def cong: option.case_cong)
  have "lb_ok M ok n (lb_exec (Leave env phase) st)"
    unfolding eq using st del bpf_hash.delete_inv [OF hash okm]
    by (auto simp: lb_ok_def split: option.splits)
  moreover have "lb_abs M n (lb_exec (Leave env phase) st) = lb_spec (Leave env phase) (lb_abs M n st)"
    unfolding eq using env(2) inj
    by (auto simp: lb_abs_def del fun_eq_iff split: option.splits)
  ultimately show ?thesis ..
qed

lemma lb_exec_step:
  assumes "bpf_hash M ok MAX_ENTRIES" "lb_ok M ok n st" "6 * n \<le> MAX_ENTRIES" "lb_probe_ok M n p"
  shows "lb_ok M ok n (lb_exec p st) \<and> lb_abs M n (lb_exec p st) = lb_spec p (lb_abs M n st)"
  using lb_exec_enter [OF assms(1-3)] lb_exec_leave [OF assms(1-3)] assms(4) by (cases p) blast+

lemma lb_exec_fold:
  assumes "bpf_hash M ok MAX_ENTRIES" "6 * n \<le> MAX_ENTRIES"
  shows "lb_ok M ok n st \<Longrightarrow> \<forall>p \<in> set ps. lb_probe_ok M n p \<Longrightarrow>
    lb_ok M ok n (fold lb_exec ps st) \<and> lb_abs M n (fold lb_exec ps st) = fold lb_spec ps (lb_abs M n st)"
proof (induction ps arbitrary: st)
  case (Cons p ps)
  then show ?case using lb_exec_step [OF assms(1) Cons.prems(1) assms(2), of p] by simp
qed simp

section \<open>Domain statistics\<close>

text \<open>The first \<open>n\<close> domains from \<open>sd\<close> up, as the kernel links them.\<close>

fun sd_chain :: "kernel \<Rightarrow> nat \<Rightarrow> ptr \<Rightarrow> ptr list" where
  "sd_chain k 0 sd = []"
| "sd_chain k (Suc n) sd = (if sd \<noteq> 0 then sd # sd_chain k n (dom_parent (mem_sd k sd)) else [])"

text \<open>What the kernel would use as the interval: multiplied on a busy CPU.\<close>

definition sd_interval :: "kernel \<Rightarrow> bool \<Rightarrow> ptr \<Rightarrow> u32" where
  "sd_interval k busy sd =
     (if busy then dom_balance_interval (mem_sd k sd) * dom_busy_factor (mem_sd k sd)
      else dom_balance_interval (mem_sd k sd))"

definition rq_busy :: "kernel \<Rightarrow> ptr \<Rightarrow> cpu_idle_type \<Rightarrow> bool" where
  "rq_busy k rq idle \<longleftrightarrow> idle \<noteq> CPU_IDLE \<and>
     (rq_nr_running (mem_rq k rq) = 0 \<or>
      rq_nr_running (mem_rq k rq) \<noteq> cfs_idle_h_nr_running (mem_cfs k (rq + off_rq_cfs k)))"

definition chain_words :: "kernel \<Rightarrow> bool \<Rightarrow> nat \<Rightarrow> ptr list \<Rightarrow> u32 list \<Rightarrow> nat \<Rightarrow> u32" where
  "chain_words k busy i c w j =
     (if i \<le> j \<and> j < i + length c then dom_level (mem_sd k (c ! (j - i)))
      else if MAX_SD_LEVELS + i \<le> j \<and> j < MAX_SD_LEVELS + i + length c
        then sd_interval k busy (c ! (j - (MAX_SD_LEVELS + i)))
      else w ! j)"

lemma sd_chain_length: "length (sd_chain k n sd) \<le> n"
  by (induction k n sd rule: sd_chain.induct) auto

lemma chain_words_Cons:
  assumes "i < MAX_SD_LEVELS" "length w = 2 * MAX_SD_LEVELS + 1" "i + Suc (length c) \<le> MAX_SD_LEVELS"
    "j < length w"
  shows "chain_words k busy (Suc i) c
      (w[i := dom_level (mem_sd k sd), MAX_SD_LEVELS + i := sd_interval k busy sd]) j
    = chain_words k busy i (sd # c) w j"
proof -
  consider "j = i" | "j = MAX_SD_LEVELS + i" | "i < j \<and> j < Suc (i + length c)"
    | "MAX_SD_LEVELS + i < j \<and> j < Suc (MAX_SD_LEVELS + i + length c)"
    | "j \<noteq> i" "j \<noteq> MAX_SD_LEVELS + i" "\<not> (i < j \<and> j < Suc (i + length c))"
      "\<not> (MAX_SD_LEVELS + i < j \<and> j < Suc (MAX_SD_LEVELS + i + length c))" by blast
  then show ?thesis
    by cases (use assms in \<open>auto simp: chain_words_def nth_list_update nth_Cons' MAX_SD_LEVELS_def\<close>)
qed

lemma sd_stats_loop_spec:
  assumes "i + n \<le> MAX_SD_LEVELS" "sd_stats_wf st"
  shows "\<exists>st'. sd_stats_loop k busy n i sd st = (i + length (sd_chain k n sd), st')
    \<and> sd_cpu st' = sd_cpu st \<and> sd_stats_wf st'
    \<and> (\<forall>j < 2 * MAX_SD_LEVELS + 1. sd_words st' ! j = chain_words k busy i (sd_chain k n sd) (sd_words st) j)"
  using assms
proof (induction k busy n i sd st rule: sd_stats_loop.induct)
  case (1 k busy i sd st)
  then show ?case by (auto simp: chain_words_def)
next
  case (2 k busy n i sd st)
  show ?case
  proof (cases "sd = 0")
    case True
    with 2(3) show ?thesis by (auto simp: chain_words_def)
  next
    case False
    let ?st = "set_stat_balance_interval i (sd_interval k busy sd) (set_stat_level i (dom_level (mem_sd k sd)) st)"
    let ?c = "sd_chain k n (dom_parent (mem_sd k sd))"
    have wf: "sd_stats_wf ?st"
      using 2(3) by (simp add: sd_stats_wf_def set_stat_balance_interval_def set_stat_level_def)
    have words: "sd_words ?st = (sd_words st)[i := dom_level (mem_sd k sd), MAX_SD_LEVELS + i := sd_interval k busy sd]"
      and cpu: "sd_cpu ?st = sd_cpu st"
      by (simp_all add: set_stat_balance_interval_def set_stat_level_def)
    have step: "sd_stats_loop k busy (Suc n) i sd st = sd_stats_loop k busy n (Suc i) (dom_parent (mem_sd k sd)) ?st"
      using False by (simp add: sd_interval_def Let_def)
    obtain st' where st': "sd_stats_loop k busy n (Suc i) (dom_parent (mem_sd k sd)) ?st = (Suc i + length ?c, st')"
      "sd_cpu st' = sd_cpu ?st" "sd_stats_wf st'"
      "\<forall>j < 2 * MAX_SD_LEVELS + 1. sd_words st' ! j = chain_words k busy (Suc i) ?c (sd_words ?st) j"
      using 2(1) [OF False refl refl refl refl] 2(2) wf
      unfolding sd_interval_def [symmetric] by auto
    have "sd_words st' ! j = chain_words k busy i (sd # ?c) (sd_words st) j"
      if "j < 2 * MAX_SD_LEVELS + 1" for j
      using st'(4) that 2(2,3) sd_chain_length [of k n "dom_parent (mem_sd k sd)"]
      unfolding words by (simp add: chain_words_Cons sd_stats_wf_def)
    with False step st'(1-3) cpu show ?thesis by simp
  qed
qed

text \<open>The whole function: the chain, then the terminator in the two words after it.\<close>

lemma rq_busy_eq:
  "(let sched_idle0 = (rq_nr_running (mem_rq k rq) = cfs_idle_h_nr_running (mem_cfs k (rq + off_rq_cfs k)));
        sched_idle = (sched_idle0 \<and> rq_nr_running (mem_rq k rq) \<noteq> 0)
    in idle \<noteq> CPU_IDLE \<and> \<not> sched_idle) = rq_busy k rq idle"
  by (auto simp: rq_busy_def Let_def)

lemma gen_sched_domain_stats_spec:
  assumes "sd_stats_wf st"
  shows "\<exists>st'. gen_sched_domain_stats k rq idle st =
        (let d = length (sd_chain k MAX_SD_LEVELS (rq_sd (mem_rq k rq)))
         in set_stat_balance_interval d 0 (set_stat_level d (- 1) st'))
    \<and> sd_cpu st' = rq_cpu (mem_rq k rq) \<and> sd_stats_wf st'
    \<and> (\<forall>j < 2 * MAX_SD_LEVELS + 1. sd_words st' ! j =
         chain_words k (rq_busy k rq idle) 0 (sd_chain k MAX_SD_LEVELS (rq_sd (mem_rq k rq))) (sd_words st) j)"
proof -
  have "sd_stats_wf (st\<lparr>sd_cpu := rq_cpu (mem_rq k rq)\<rparr>)" using assms by (simp add: sd_stats_wf_def)
  from sd_stats_loop_spec [OF _ this, of 0 MAX_SD_LEVELS k "rq_busy k rq idle" "rq_sd (mem_rq k rq)"]
  obtain st' where st': "sd_stats_loop k (rq_busy k rq idle) MAX_SD_LEVELS 0 (rq_sd (mem_rq k rq))
        (st\<lparr>sd_cpu := rq_cpu (mem_rq k rq)\<rparr>)
      = (length (sd_chain k MAX_SD_LEVELS (rq_sd (mem_rq k rq))), st')"
    "sd_cpu st' = rq_cpu (mem_rq k rq)" "sd_stats_wf st'"
    "\<forall>j < 2 * MAX_SD_LEVELS + 1. sd_words st' ! j =
         chain_words k (rq_busy k rq idle) 0 (sd_chain k MAX_SD_LEVELS (rq_sd (mem_rq k rq))) (sd_words st) j"
    by auto
  have "gen_sched_domain_stats k rq idle st =
        (let d = length (sd_chain k MAX_SD_LEVELS (rq_sd (mem_rq k rq)))
         in set_stat_balance_interval d 0 (set_stat_level d (- 1) st'))"
    unfolding gen_sched_domain_stats_def Let_def
    using st'(1) rq_busy_eq [of k rq idle, unfolded Let_def] by simp
  with st'(2-4) show ?thesis by blast
qed

text \<open>The statistics a chain of fewer than \<open>MAX_SD_LEVELS\<close> domains leaves.\<close>

lemma gen_stats_short:
  fixes k rq idle
  defines "c \<equiv> sd_chain k MAX_SD_LEVELS (rq_sd (mem_rq k rq))"
  assumes "sd_stats_wf st" "length c < MAX_SD_LEVELS"
  shows "sd_cpu (gen_sched_domain_stats k rq idle st) = rq_cpu (mem_rq k rq)"
    "\<And>j. j < length c \<Longrightarrow> stat_level (gen_sched_domain_stats k rq idle st) j = dom_level (mem_sd k (c ! j))"
    "\<And>j. j < length c \<Longrightarrow> stat_balance_interval (gen_sched_domain_stats k rq idle st) j
        = sd_interval k (rq_busy k rq idle) (c ! j)"
    "stat_level (gen_sched_domain_stats k rq idle st) (length c) = - 1"
    "stat_balance_interval (gen_sched_domain_stats k rq idle st) (length c) = 0"
proof -
  obtain st' where st': "gen_sched_domain_stats k rq idle st =
      set_stat_balance_interval (length c) 0 (set_stat_level (length c) (- 1) st')"
    "sd_cpu st' = rq_cpu (mem_rq k rq)" "length (sd_words st') = 2 * MAX_SD_LEVELS + 1"
    "\<forall>j < 2 * MAX_SD_LEVELS + 1. sd_words st' ! j = chain_words k (rq_busy k rq idle) 0 c (sd_words st) j"
    using gen_sched_domain_stats_spec [OF assms(2), of k rq idle]
    unfolding c_def [symmetric] Let_def sd_stats_wf_def by blast
  note defs = st'(1) set_stat_balance_interval_def set_stat_level_def stat_level_def stat_balance_interval_def
  show "sd_cpu (gen_sched_domain_stats k rq idle st) = rq_cpu (mem_rq k rq)"
    using st'(2) by (simp add: defs)
  show "stat_level (gen_sched_domain_stats k rq idle st) (length c) = - 1"
    using st'(3) assms(3) by (simp add: defs nth_list_update MAX_SD_LEVELS_def)
  show "stat_balance_interval (gen_sched_domain_stats k rq idle st) (length c) = 0"
    using st'(3) assms(3) by (simp add: defs MAX_SD_LEVELS_def)
  fix j
  assume j: "j < length c"
  show "stat_level (gen_sched_domain_stats k rq idle st) j = dom_level (mem_sd k (c ! j))"
    using st'(3,4) assms(3) j by (simp add: defs nth_list_update chain_words_def MAX_SD_LEVELS_def)
  show "stat_balance_interval (gen_sched_domain_stats k rq idle st) j
        = sd_interval k (rq_busy k rq idle) (c ! j)"
    using st'(3,4) assms(3) j by (simp add: defs nth_list_update chain_words_def MAX_SD_LEVELS_def)
qed

text \<open>One counter of the trace per entry, up to the terminator.\<close>

definition sd_counter :: "u64 \<Rightarrow> s32 \<Rightarrow> s32 \<Rightarrow> u32 \<Rightarrow> output_call" where
  "sd_counter ts cpu level interval = TRACE_COUNTER ''load-balance''
     (snprintf 64 (''CPU'' @ fmt_d cpu @ ''.level'' @ fmt_d level @ ''.balance_interval'')) ts (uint interval)"

lemma trace_sd_levels_prefix:
  assumes "i + m < MAX_SD_LEVELS" "i + n = MAX_SD_LEVELS"
    and "\<And>j. j < m \<Longrightarrow> \<not> (stat_level st (i + j) = - 1 \<and> stat_balance_interval st (i + j) = 0)"
    and "stat_level st (i + m) = - 1" "stat_balance_interval st (i + m) = 0"
  shows "trace_sd_levels ts st i n =
    map (\<lambda>j. sd_counter ts (sd_cpu st) (stat_level st j) (stat_balance_interval st j)) [i..<i + m]"
  using assms
proof (induction m arbitrary: i n)
  case 0
  then show ?case by (cases n) auto
next
  case (Suc m)
  then obtain n' where n: "n = Suc n'" by (cases n) auto
  have "\<not> (stat_level st (Suc i + j) = - 1 \<and> stat_balance_interval st (Suc i + j) = 0)" if "j < m" for j
    using Suc.prems(3) [of "Suc j"] that by simp
  then have "trace_sd_levels ts st (Suc i) n' =
    map (\<lambda>j. sd_counter ts (sd_cpu st) (stat_level st j) (stat_balance_interval st j)) [Suc i..<Suc i + m]"
    using Suc.prems n by (intro Suc.IH) simp_all
  moreover have "[i..<i + Suc m] = i # [Suc i..<Suc i + m]" by (simp add: upt_rec)
  ultimately show ?case
    using Suc.prems(3) [of 0] n by (simp add: sd_counter_def)
qed

section \<open>Properties\<close>

text \<open>
  Claim C3: the load balancer probes refine the abstract machine. With \<open>lb_map\<close> any hash map of
  8192 entries and at most 1365 CPUs (six saving phases each), any sequence of entry and exit
  probes leaves exactly the open calls and the event sequence of the machine: every exit event names
  the CPU its own entry balanced, and an exit without an open entry is silent.
\<close>

theorem lb_refines:
  assumes "bpf_hash M ok MAX_ENTRIES" "6 * n \<le> MAX_ENTRIES"
    and "ok (lb_map st)" "map_value M (lb_map st) = Map.empty"
    and "\<forall>p \<in> set ps. lb_ops (probe_env p) = M \<and> unat (smp_processor_id (probe_env p)) < n"
  shows "lb_abs M n (fold lb_exec ps st) = fold lb_spec ps (Map.empty, lb_rb st)"
proof -
  have "lb_ok M ok n st" using assms(3,4) by (simp add: lb_ok_def)
  moreover have "\<forall>p \<in> set ps. lb_probe_ok M n p" using assms(5) by (simp add: lb_probe_ok_def)
  moreover have "lb_abs M n st = (Map.empty, lb_rb st)"
    using assms(4) by (auto simp: lb_abs_def fun_eq_iff)
  ultimately show ?thesis using lb_exec_fold [OF assms(1,2), of st ps] by simp
qed

theorem lb_refines_witness:
  "map lb_lb_cpu (snd (lb_abs htab_ops 4 (fold lb_exec
     [Enter (sample_env (sample_kernel 0 0) 1 100) (Newidle_balance 0x4000),
      Enter (sample_env (sample_kernel 0 0) 1 110) (Load_balance 3 0x4000 0x100 CPU_NEWLY_IDLE),
      Leave (sample_env (sample_kernel 0 0) 1 120) LB_LOAD_BALANCE,
      Leave (sample_env (sample_kernel 0 0) 1 130) LB_LOAD_BALANCE,
      Leave (sample_env (sample_kernel 0 0) 1 140) LB_NEWIDLE_BALANCE] sample_state)))
   = [2, 3, 3, 2]"
  by (subst lb_refines [where ok = "htab_inv MAX_ENTRIES"])
    (simp_all add: htab.bpf_hash_axioms, simp_all add: MAX_ENTRIES_def sample_env_def
      lb_entry_event_def lb_exit_event_def sample_kernel_def Let_def)

text \<open>
  Claim C19: for a CPU with fewer than \<open>MAX_SD_LEVELS\<close> domains, the counters that user space traces
  from the statistics are exactly one per domain, bottom up, with the domain's level and the
  interval the kernel uses (multiplied by the busy factor on a busy CPU).
\<close>

theorem sd_stats_roundtrip:
  assumes "sd_stats_wf st" "length (sd_chain k MAX_SD_LEVELS (rq_sd (mem_rq k rq))) < MAX_SD_LEVELS"
    and "\<forall>sd \<in> set (sd_chain k MAX_SD_LEVELS (rq_sd (mem_rq k rq))).
      dom_level (mem_sd k sd) \<noteq> - 1 \<or> sd_interval k (rq_busy k rq idle) sd \<noteq> 0"
  shows "trace_lb_sd_stats ts (gen_sched_domain_stats k rq idle st) =
    map (\<lambda>sd. sd_counter ts (rq_cpu (mem_rq k rq)) (dom_level (mem_sd k sd))
        (sd_interval k (rq_busy k rq idle) sd))
      (sd_chain k MAX_SD_LEVELS (rq_sd (mem_rq k rq)))"
proof -
  let ?c = "sd_chain k MAX_SD_LEVELS (rq_sd (mem_rq k rq))" and ?s = "gen_sched_domain_stats k rq idle st"
  note s = gen_stats_short [OF assms(1,2)]
  have "trace_lb_sd_stats ts ?s =
    map (\<lambda>j. sd_counter ts (sd_cpu ?s) (stat_level ?s j) (stat_balance_interval ?s j)) [0..<length ?c]"
    unfolding trace_lb_sd_stats_def
    using trace_sd_levels_prefix [of 0 "length ?c" MAX_SD_LEVELS ?s ts] s assms(2,3) by simp
  also have "\<dots> = map (\<lambda>j. sd_counter ts (rq_cpu (mem_rq k rq)) (dom_level (mem_sd k (?c ! j)))
      (sd_interval k (rq_busy k rq idle) (?c ! j))) [0..<length ?c]"
    using s by simp
  also have "\<dots> = map (\<lambda>sd. sd_counter ts (rq_cpu (mem_rq k rq)) (dom_level (mem_sd k sd))
        (sd_interval k (rq_busy k rq idle) sd)) ?c"
    by (rule nth_equalityI) simp_all
  finally show ?thesis .
qed

lemma MAX_SD_LEVELS_Suc: "MAX_SD_LEVELS = Suc (Suc (Suc (Suc (Suc (Suc (Suc (Suc (Suc (Suc 0)))))))))"
  by (simp add: MAX_SD_LEVELS_def)

lemma sample_chain: "sd_chain (sample_kernel v 0x101) MAX_SD_LEVELS (rq_sd (mem_rq (sample_kernel v 0x101) p)) = [0x100, 0x101]"
  by (simp add: sample_kernel_def MAX_SD_LEVELS_Suc)

theorem sd_stats_roundtrip_witness:
  "trace_lb_sd_stats 9 (gen_sched_domain_stats (sample_kernel 0 0x101) 0x4000 CPU_NOT_IDLE sample_sd_stats)
   = [sd_counter 9 2 0 128, sd_counter 9 2 1 128]"
proof -
  have "sd_stats_wf sample_sd_stats" by (simp add: sd_stats_wf_def sample_sd_stats_def)
  from sd_stats_roundtrip [OF this, where k = "sample_kernel 0 0x101" and rq = "0x4000" and idle = CPU_NOT_IDLE and ts = 9]
  show ?thesis unfolding sample_chain
    by (simp add: sample_kernel_def sd_interval_def rq_busy_def MAX_SD_LEVELS_def)
qed

text \<open>
  Claim C20: a chain of \<open>MAX_SD_LEVELS\<close> domains or more makes the terminator overflow its array: the
  store to \<open>level[10]\<close> replaces the interval of the first domain by \<open>0xffffffff\<close>, and the store to
  \<open>balance_interval[10]\<close> goes past the end of the structure.
\<close>

theorem sd_stats_overflow:
  assumes "sd_stats_wf st" "length (sd_chain k MAX_SD_LEVELS (rq_sd (mem_rq k rq))) = MAX_SD_LEVELS"
  shows "stat_balance_interval (gen_sched_domain_stats k rq idle st) 0 = 0xffffffff
    \<and> sd_words (gen_sched_domain_stats k rq idle st) ! (2 * MAX_SD_LEVELS) = 0"
proof -
  obtain st' where "gen_sched_domain_stats k rq idle st =
      set_stat_balance_interval MAX_SD_LEVELS 0 (set_stat_level MAX_SD_LEVELS (- 1) st')"
    "length (sd_words st') = 2 * MAX_SD_LEVELS + 1"
    using gen_sched_domain_stats_spec [OF assms(1), of k rq idle] assms(2)
    unfolding Let_def sd_stats_wf_def by force
  then show ?thesis
    by (simp add: set_stat_balance_interval_def set_stat_level_def stat_balance_interval_def
        MAX_SD_LEVELS_def nth_list_update)
qed

lemma sample_chain_deep:
  "sd_chain (sample_kernel v 0x10a) MAX_SD_LEVELS (rq_sd (mem_rq (sample_kernel v 0x10a) p))
    = [0x100, 0x101, 0x102, 0x103, 0x104, 0x105, 0x106, 0x107, 0x108, 0x109]"
  by (simp add: sample_kernel_def MAX_SD_LEVELS_Suc)

theorem sd_stats_overflow_witness:
  "stat_balance_interval (gen_sched_domain_stats (sample_kernel 0 0x10a) 0x4000 CPU_IDLE sample_sd_stats) 0
    = 0xffffffff"
proof -
  have "sd_stats_wf sample_sd_stats" by (simp add: sd_stats_wf_def sample_sd_stats_def)
  moreover have "length (sd_chain (sample_kernel 0 0x10a) MAX_SD_LEVELS
      (rq_sd (mem_rq (sample_kernel 0 0x10a) 0x4000))) = MAX_SD_LEVELS"
    unfolding sample_chain_deep by (simp add: MAX_SD_LEVELS_def)
  ultimately show ?thesis using sd_stats_overflow by blast
qed

end
