(* ===== verification/SA_Pipeline.thy ===== *)
theory SA_Pipeline imports SA_Main SA_Lb_Spec begin

text \<open>
  The running program: the kernel runs the loaded BPF programs, which submit records to the rings,
  and one thread per ring (the macro \<open>EVENT_THREAD_FN\<close>) polls it and calls the handler, until the
  signal handler has set \<open>exiting\<close>. The steps of all parties interleave freely.
\<close>

section \<open>Events of all kinds\<close>

datatype event =
    Rq_pelt_ev rq_pelt_event | Task_pelt_ev task_pelt_event | Rq_nr_running_ev rq_nr_running_event
  | Sched_switch_ev sched_switch_event | Freq_idle_ev freq_idle_event | Softirq_ev softirq_event
  | Lb_ev lb_event | Ipi_ev ipi_event

fun ring_of :: "event_kind \<Rightarrow> ('sw, 'si, 'lb) bpf_state \<Rightarrow> event list" where
  "ring_of Rq_pelt st = map Rq_pelt_ev (rq_pelt_rb st)"
| "ring_of Task_pelt st = map Task_pelt_ev (task_pelt_rb st)"
| "ring_of Rq_nr_running st = map Rq_nr_running_ev (rq_nr_running_rb st)"
| "ring_of Sched_switches st = map Sched_switch_ev (sched_switch_rb st)"
| "ring_of Freq_idle st = map Freq_idle_ev (freq_idle_rb st)"
| "ring_of Softirqs st = map Softirq_ev (softirq_rb st)"
| "ring_of Lb st = map Lb_ev (lb_rb st)"
| "ring_of Ipi st = map Ipi_ev (ipi_rb st)"

fun handle_event :: "kallsyms \<Rightarrow> sa_opts \<Rightarrow> event \<Rightarrow> output_call list" where
  "handle_event ks opts (Rq_pelt_ev e) = handle_rq_pelt_event opts e"
| "handle_event ks opts (Task_pelt_ev e) = handle_task_pelt_event opts e"
| "handle_event ks opts (Rq_nr_running_ev e) = handle_rq_nr_running_event opts e"
| "handle_event ks opts (Sched_switch_ev e) = handle_sched_switch_event opts e"
| "handle_event ks opts (Freq_idle_ev e) = handle_freq_idle_event opts e"
| "handle_event ks opts (Softirq_ev e) = handle_softirq_event opts e"
| "handle_event ks opts (Lb_ev e) = handle_lb_event opts e"
| "handle_event ks opts (Ipi_ev e) = handle_ipi_event ks opts e"

section \<open>Probes and rings\<close>

text \<open>The ring a program submits to, and how many records one run submits at most.\<close>

fun probe_ring :: "probe \<Rightarrow> event_kind option" where
  "probe_ring (Pelt_se se) = Some Task_pelt"
| "probe_ring (Util_est_se se) = Some Task_pelt"
| "probe_ring (Pelt_cfs cfs) = Some Rq_pelt"
| "probe_ring (Util_est_cfs cfs) = Some Rq_pelt"
| "probe_ring (Pelt_rt rq) = Some Rq_pelt"
| "probe_ring (Pelt_dl rq) = Some Rq_pelt"
| "probe_ring (Pelt_irq rq) = Some Rq_pelt"
| "probe_ring (Pelt_thermal rq) = Some Rq_pelt"
| "probe_ring (Sched_update_nr_running rq change) = Some Rq_nr_running"
| "probe_ring (Sched_switch preempt prev nxt) = Some Sched_switches"
| "probe_ring (Sched_process_free p) = Some Task_pelt"
| "probe_ring (Cpu_frequency f cpu) = Some Freq_idle"
| "probe_ring (Cpu_idle state cpu) = Some Freq_idle"
| "probe_ring (Cpu_idle_miss cpu state below) = Some Freq_idle"
| "probe_ring (Softirq_entry v) = None"
| "probe_ring (Softirq_exit v) = Some Softirqs"
| "probe_ring (Lb_call c) = Some Lb"
| "probe_ring (Lb_return phase) = Some Lb"
| "probe_ring (Ipi_send_cpu cpu callsite callback) = Some Ipi"

definition max_records :: "probe \<Rightarrow> nat" where
  "max_records p = (case p of Sched_switch preempt prev nxt \<Rightarrow> 2 | _ \<Rightarrow> 1)"

text \<open>\<open>grows n xs ys\<close>: \<open>ys\<close> is \<open>xs\<close> with at most \<open>n\<close> new elements at the end.\<close>

definition grows :: "nat \<Rightarrow> 'a list \<Rightarrow> 'a list \<Rightarrow> bool" where
  "grows n xs ys \<longleftrightarrow> (\<exists>new. ys = xs @ new \<and> length new \<le> n)"

lemma grows_refl [simp]: "grows n xs xs"
  by (simp add: grows_def)

lemma grows_reserve [simp]: "grows (Suc n) xs (reserve_submit r f xs)"
  by (cases r) (simp_all add: grows_def)

lemma grows_reserve_twice: "grows 2 xs (reserve_submit r f (reserve_submit q g xs))"
  by (cases r; cases q) (simp_all add: grows_def)

lemma grows_map: "grows n xs ys \<Longrightarrow> grows n (map f xs) (map f ys)"
  by (auto simp: grows_def)

lemma grows_0: "grows 0 xs ys \<longleftrightarrow> ys = xs"
  by (auto simp: grows_def)

text \<open>The load balancer probes write nothing but their map and their ring, and add one record.\<close>

lemma lb_leave_frame:
  "\<exists>m rb. lb_leave env phase st = st\<lparr>lb_map := m, lb_rb := rb\<rparr> \<and> grows 1 (lb_rb st) rb"
proof -
  have "\<exists>m rb. st = st\<lparr>lb_map := m, lb_rb := rb\<rparr> \<and> grows 1 (lb_rb st) rb"
    by (rule exI [of _ "lb_map st"], rule exI [of _ "lb_rb st"]) simp
  moreover have "\<exists>m rb. st\<lparr>lb_map := a, lb_rb := reserve_submit r f (lb_rb st)\<rparr> = st\<lparr>lb_map := m, lb_rb := rb\<rparr>
      \<and> grows 1 (lb_rb st) rb" for a r f
    by (rule exI [of _ a], rule exI [of _ "reserve_submit r f (lb_rb st)"]) simp
  moreover have "\<exists>m rb. st\<lparr>lb_rb := reserve_submit r f (lb_rb st)\<rparr> = st\<lparr>lb_map := m, lb_rb := rb\<rparr>
      \<and> grows 1 (lb_rb st) rb" for r f
    by (rule exI [of _ "lb_map st"], rule exI [of _ "reserve_submit r f (lb_rb st)"]) simp
  ultimately show ?thesis
    by (cases phase) (auto simp: lb_exit_defs Let_def split: option.splits)
qed

lemma lb_enter_frame:
  "\<exists>m rb. lb_enter env c st = st\<lparr>lb_map := m, lb_rb := rb\<rparr> \<and> grows 1 (lb_rb st) rb"
proof (cases "lb_call_phase c = LB_RUN_REBALANCE_DOMAINS")
  case True
  then show ?thesis
    by (intro exI [of _ "lb_map st"]
        exI [of _ "reserve_submit (reserve_lb env 0) (lb_entry_event env c) (lb_rb st)"])
      (simp add: lb_enter_eq Let_def)
next
  case False
  then show ?thesis
    by (intro exI [of _ "snd (map_update_elem (lb_ops env) (lb_map st)
          (lb_key (lb_call_phase c) (smp_processor_id env)) (lb_call_cpu env c))"]
        exI [of _ "reserve_submit (reserve_lb env 0) (lb_entry_event env c) (lb_rb st)"])
      (simp add: lb_enter_eq Let_def)
qed

text \<open>
  A run of a program appends to the ring of its event, at most one record (two for a context
  switch), and leaves every record already submitted, and all other rings, as they are.
\<close>

lemma probe_grows:
  "grows (if probe_ring p = Some k then max_records p else 0) (ring_of k st) (ring_of k (run_probe env p st))"
proof (cases p)
  case (Lb_call c)
  then show ?thesis using lb_enter_frame [of env c st]
    by (cases k) (auto simp: max_records_def intro: grows_map)
next
  case (Lb_return phase)
  then show ?thesis using lb_leave_frame [of env phase st]
    by (cases k) (auto simp: max_records_def intro: grows_map)
next
  case (Softirq_exit v)
  then show ?thesis
    by (cases k) (auto simp: max_records_def handle_softirq_exit_def Let_def grows_map split: option.splits)
next
  case (Sched_switch preempt prev nxt)
  then show ?thesis
    by (cases k) (simp_all add: max_records_def handle_sched_switch_def Let_def grows_map grows_reserve_twice)
qed (cases k; simp add: max_records_def probe_defs Let_def grows_map)+

section \<open>What loaded programs submit\<close>

fun ev_ok :: "sa_opts \<Rightarrow> event \<Rightarrow> bool" where
  "ev_ok opts (Rq_pelt_ev e) \<longleftrightarrow>
     rp_util_avg e = - 1 \<or> rp_type e \<in> {PELT_TYPE_CFS, PELT_TYPE_RT, PELT_TYPE_DL, PELT_TYPE_IRQ}"
| "ev_ok opts (Task_pelt_ev e) \<longleftrightarrow> True"
| "ev_ok opts (Rq_nr_running_ev e) \<longleftrightarrow> True"
| "ev_ok opts (Sched_switch_ev e) \<longleftrightarrow> False"
| "ev_ok opts (Freq_idle_ev e) \<longleftrightarrow> True"
| "ev_ok opts (Softirq_ev e) \<longleftrightarrow> False"
| "ev_ok opts (Lb_ev e) \<longleftrightarrow> load_balance opts"
| "ev_ok opts (Ipi_ev e) \<longleftrightarrow> ipi opts"

definition rings_ok :: "sa_opts \<Rightarrow> ('sw, 'si, 'lb) bpf_state \<Rightarrow> bool" where
  "rings_ok opts st \<longleftrightarrow> (\<forall>k. \<forall>e \<in> set (ring_of k st). ev_ok opts e)"

lemma other_ring_unchanged: "probe_ring p \<noteq> Some k \<Longrightarrow> ring_of k (run_probe env p st) = ring_of k st"
  using probe_grows [of p k st env] by (simp add: grows_0)

lemma ring_ev_ok:
  assumes "\<forall>e \<in> set (ring_of k st). ev_ok opts e" "prog_of p \<in> autoload opts" "probe_ring p = Some k"
  shows "\<forall>e \<in> set (ring_of k (run_probe env p st)). ev_ok opts e"
proof (cases p)
  case (Pelt_cfs cfs)
  with assms(1,3) show ?thesis
    by (cases "reserve_rq_pelt env 0") (auto simp: handle_pelt_cfs_def Let_def)
next
  case (Util_est_cfs cfs)
  with assms(1,3) show ?thesis
    by (cases "reserve_rq_pelt env 0") (auto simp: handle_util_est_cfs_def Let_def)
next
  case (Pelt_rt rq)
  with assms(1,3) show ?thesis
    by (cases "reserve_rq_pelt env 0") (auto simp: handle_pelt_rt_def Let_def)
next
  case (Pelt_dl rq)
  with assms(1,3) show ?thesis
    by (cases "reserve_rq_pelt env 0") (auto simp: handle_pelt_dl_def Let_def)
next
  case (Pelt_irq rq)
  with assms(1,3) show ?thesis
    by (cases "reserve_rq_pelt env 0") (auto simp: handle_pelt_irq_def Let_def)
next
  case (Pelt_thermal rq)
  with assms(1,3) show ?thesis
    by (cases "reserve_rq_pelt env 0") (auto simp: handle_pelt_thermal_def Let_def)
qed (use assms in \<open>auto simp: autoload_iff split: if_splits\<close>)

lemma rings_ok_probe:
  "rings_ok opts st \<Longrightarrow> prog_of p \<in> autoload opts \<Longrightarrow> rings_ok opts (run_probe env p st)"
  unfolding rings_ok_def by (metis other_ring_unchanged ring_ev_ok)

section \<open>The event threads\<close>

text \<open>
  Where a thread is in \<open>EVENT_THREAD_FN\<close>: before \<open>CREATE_EVENT_RB\<close>, at the test of \<open>while (!exiting)\<close>,
  inside \<open>ring_buffer__poll\<close>, or done.
\<close>

datatype thread_pc = At_create | At_test | In_poll | At_end

record ('sw, 'si, 'lb) pipeline =
  bpf :: "('sw, 'si, 'lb) bpf_state"
  consumed :: "event_kind \<Rightarrow> nat"
  traced :: "(event_kind \<times> output_call) list"
  thread :: "event_kind \<Rightarrow> thread_pc"
  exiting :: bool

text \<open>
  The steps, for the options and the symbol table in force and a set of environments the kernel may
  run programs in: a loaded program runs; a thread gets its
  ring buffer or fails to and ends; it tests \<open>exiting\<close>; inside the poll the callback handles the
  oldest record not consumed yet; the poll returns, with a count, a timeout or an error alike (the
  \<open>break\<close> on an error leaves the macro's \<open>do\<close> block, not the loop); a signal sets \<open>exiting\<close>.
\<close>

inductive pipeline_step ::
  "('sw, 'si, 'lb) run_env set \<Rightarrow> kallsyms \<Rightarrow> sa_opts \<Rightarrow>
     ('sw, 'si, 'lb) pipeline \<Rightarrow> ('sw, 'si, 'lb) pipeline \<Rightarrow> bool"
  for envs ks opts where
  run_program: "env \<in> envs \<Longrightarrow> prog_of p \<in> autoload opts \<Longrightarrow>
    pipeline_step envs ks opts s (s\<lparr>bpf := run_probe env p (bpf s)\<rparr>)"
| rb_created: "thread s k = At_create \<Longrightarrow>
    pipeline_step envs ks opts s (s\<lparr>thread := (thread s)(k := At_test)\<rparr>)"
| rb_failed: "thread s k = At_create \<Longrightarrow>
    pipeline_step envs ks opts s (s\<lparr>thread := (thread s)(k := At_end)\<rparr>)"
| enter_poll: "thread s k = At_test \<Longrightarrow> \<not> exiting s \<Longrightarrow>
    pipeline_step envs ks opts s (s\<lparr>thread := (thread s)(k := In_poll)\<rparr>)"
| leave_loop: "thread s k = At_test \<Longrightarrow> exiting s \<Longrightarrow>
    pipeline_step envs ks opts s (s\<lparr>thread := (thread s)(k := At_end)\<rparr>)"
| consume: "thread s k = In_poll \<Longrightarrow> consumed s k < length (ring_of k (bpf s)) \<Longrightarrow>
    pipeline_step envs ks opts s (s\<lparr>consumed := (consumed s)(k := Suc (consumed s k)),
      traced := traced s @ map (Pair k) (handle_event ks opts (ring_of k (bpf s) ! consumed s k))\<rparr>)"
| poll_returns: "thread s k = In_poll \<Longrightarrow>
    pipeline_step envs ks opts s (s\<lparr>thread := (thread s)(k := At_test)\<rparr>)"
| signal: "pipeline_step envs ks opts s (s\<lparr>exiting := True\<rparr>)"

inductive_cases pipeline_stepE: "pipeline_step envs ks opts s s'"

definition pipeline_init :: "('sw, 'si, 'lb) bpf_state \<Rightarrow> ('sw, 'si, 'lb) pipeline" where
  "pipeline_init st = \<lparr>bpf = st, consumed = (\<lambda>k. 0), traced = [], thread = (\<lambda>k. At_create), exiting = False\<rparr>"

definition rings_empty :: "('sw, 'si, 'lb) bpf_state \<Rightarrow> bool" where
  "rings_empty st \<longleftrightarrow> (\<forall>k. ring_of k st = [])"

text \<open>What a thread has put in the trace.\<close>

definition output_of :: "event_kind \<Rightarrow> (event_kind \<times> output_call) list \<Rightarrow> output_call list" where
  "output_of k tr = map snd (filter (\<lambda>(j, c). j = k) tr)"

lemma output_of_append [simp]: "output_of k (xs @ ys) = output_of k xs @ output_of k ys"
  by (simp add: output_of_def)

lemma output_of_Pair [simp]: "output_of k (map (Pair j) cs) = (if j = k then cs else [])"
  by (induction cs) (auto simp: output_of_def)

section \<open>Every record once, in order\<close>

definition fifo :: "kallsyms \<Rightarrow> sa_opts \<Rightarrow> ('sw, 'si, 'lb) pipeline \<Rightarrow> bool" where
  "fifo ks opts s \<longleftrightarrow> (\<forall>k. consumed s k \<le> length (ring_of k (bpf s)) \<and>
     output_of k (traced s) = concat (map (handle_event ks opts) (take (consumed s k) (ring_of k (bpf s)))))"

lemma ring_take_stable:
  "n \<le> length (ring_of k st) \<Longrightarrow> take n (ring_of k (run_probe env p st)) = take n (ring_of k st)
    \<and> n \<le> length (ring_of k (run_probe env p st))"
  using probe_grows [of p k st env] by (auto simp: grows_def)

lemma fifo_step: "pipeline_step envs ks opts s s' \<Longrightarrow> fifo ks opts s \<Longrightarrow> fifo ks opts s'"
proof (induction rule: pipeline_step.induct)
  case (run_program env p s)
  then show ?case
    unfolding fifo_def by (auto simp: ring_take_stable)
next
  case (consume s k)
  then show ?case by (auto simp: fifo_def take_Suc_conv_app_nth)
qed (simp_all add: fifo_def)

lemma fifo_reachable:
  assumes "(pipeline_step envs ks opts)\<^sup>*\<^sup>* (pipeline_init st) s" "rings_empty st"
  shows "fifo ks opts s"
  using assms
proof (induction rule: rtranclp_induct)
  case base
  then show ?case by (simp add: fifo_def pipeline_init_def rings_empty_def output_of_def)
qed (rule fifo_step)

text \<open>The threads never consume anything again once they are done.\<close>

lemma ended_step:
  "pipeline_step envs ks opts s s' \<Longrightarrow> thread s k = At_end \<Longrightarrow>
     thread s' k = At_end \<and> consumed s' k = consumed s k \<and> output_of k (traced s') = output_of k (traced s)"
  by (induction rule: pipeline_step.induct) auto

lemma ended_stays:
  assumes "(pipeline_step envs ks opts)\<^sup>*\<^sup>* s s'" "thread s k = At_end"
  shows "thread s' k = At_end \<and> consumed s' k = consumed s k \<and> output_of k (traced s') = output_of k (traced s)"
  using assms
proof (induction rule: rtranclp_induct)
  case (step y z)
  then show ?case using ended_step by metis
qed simp

text \<open>
  Nor do they once \<open>exiting\<close> is set and they are out of the poll. Their ring still grows, and keeps
  what is waiting.
\<close>

lemma exiting_stays: "pipeline_step envs ks opts s s' \<Longrightarrow> exiting s \<Longrightarrow> exiting s'"
  by (induction rule: pipeline_step.induct) auto

lemma past_poll_step:
  "pipeline_step envs ks opts s s' \<Longrightarrow> exiting s \<Longrightarrow> thread s k \<in> {At_test, At_end} \<Longrightarrow>
     thread s' k \<in> {At_test, At_end} \<and> consumed s' k = consumed s k \<and> output_of k (traced s') = output_of k (traced s)"
  by (induction rule: pipeline_step.induct) auto

lemma past_poll_stays:
  assumes "(pipeline_step envs ks opts)\<^sup>*\<^sup>* s s'" "exiting s" "thread s k \<in> {At_test, At_end}"
  shows "exiting s' \<and> thread s' k \<in> {At_test, At_end} \<and> consumed s' k = consumed s k
    \<and> output_of k (traced s') = output_of k (traced s)"
  using assms
proof (induction rule: rtranclp_induct)
  case (step y z)
  then show ?case using past_poll_step [OF step.hyps(2)] exiting_stays [OF step.hyps(2)] by metis
qed simp

lemma ring_keeps: "\<exists>new. ring_of k (run_probe env p st) = ring_of k st @ new"
  using probe_grows [of p k st env] by (auto simp: grows_def)

lemma ring_grows_step: "pipeline_step envs ks opts s s' \<Longrightarrow> \<exists>new. ring_of k (bpf s') = ring_of k (bpf s) @ new"
  by (induction rule: pipeline_step.induct) (auto simp: ring_keeps)

lemma waiting_stays:
  assumes "(pipeline_step envs ks opts)\<^sup>*\<^sup>* s s'"
  shows "\<exists>new. ring_of k (bpf s') = ring_of k (bpf s) @ new"
  using assms
proof (induction rule: rtranclp_induct)
  case (step y z)
  from step.IH ring_grows_step [OF step.hyps(2), of k] show ?case by auto
qed simp

section \<open>Only what was asked for\<close>

text \<open>The category of a tracing call, and the signals that are traced under it.\<close>

fun output_category :: "output_call \<Rightarrow> string option" where
  "output_category (TRACE_COUNTER c name ts v) = Some c"
| "output_category (TRACE_EVENT c name track ts args) = Some c"
| "output_category (TRACE_EVENT_BEGIN c name track ts args) = Some c"
| "output_category (TRACE_EVENT_END c track ts) = Some c"
| "output_category (STDERR msg) = None"

definition category_signals :: "(string \<times> opt_key set) list" where
  "category_signals =
    [(''pelt-cpu'', {OPT_LOAD_AVG_CPU, OPT_RUNNABLE_AVG_CPU, OPT_UTIL_AVG_CPU, OPT_UTIL_AVG_RT,
        OPT_UTIL_AVG_DL, OPT_UTIL_AVG_IRQ, OPT_LOAD_AVG_THERMAL, OPT_UTIL_EST_CPU}),
     (''pelt-task'', {OPT_LOAD_AVG_TASK, OPT_RUNNABLE_AVG_TASK, OPT_UTIL_AVG_TASK, OPT_UTIL_EST_TASK}),
     (''nr-running-cpu'', {OPT_CPU_NR_RUNNING}), (''cpu-idle'', {OPT_CPU_IDLE}),
     (''load-balance'', {OPT_LOAD_BALANCE}), (''ipi'', {OPT_IPI})]"

definition selected :: "sa_opts \<Rightarrow> output_call \<Rightarrow> bool" where
  "selected opts c \<longleftrightarrow> (\<exists>cat S. output_category c = Some cat \<and> map_of category_signals cat = Some S \<and>
     (\<exists>k \<in> S. flag opts k))"

lemma selected_simps [simp]:
  "selected opts (TRACE_COUNTER ''pelt-cpu'' nm ts v) \<longleftrightarrow> load_avg_cpu opts \<or> runnable_avg_cpu opts \<or>
     util_avg_cpu opts \<or> util_avg_rt opts \<or> util_avg_dl opts \<or> util_avg_irq opts \<or> load_avg_thermal opts \<or>
     util_est_cpu opts"
  "selected opts (TRACE_COUNTER ''pelt-task'' nm ts v) \<longleftrightarrow> load_avg_task opts \<or> runnable_avg_task opts \<or>
     util_avg_task opts \<or> util_est_task opts"
  "selected opts (TRACE_COUNTER ''nr-running-cpu'' nm ts v) \<longleftrightarrow> cpu_nr_running opts"
  "selected opts (TRACE_COUNTER ''cpu-idle'' nm ts v) \<longleftrightarrow> cpu_idle opts"
  "selected opts (TRACE_EVENT ''cpu-idle'' nm track ts args) \<longleftrightarrow> cpu_idle opts"
  "selected opts (TRACE_EVENT_END ''cpu-idle'' track ts) \<longleftrightarrow> cpu_idle opts"
  "selected opts (TRACE_COUNTER ''load-balance'' nm ts v) \<longleftrightarrow> load_balance opts"
  "selected opts (TRACE_EVENT_BEGIN ''load-balance'' nm track ts args) \<longleftrightarrow> load_balance opts"
  "selected opts (TRACE_EVENT_END ''load-balance'' track ts) \<longleftrightarrow> load_balance opts"
  "selected opts (TRACE_EVENT ''ipi'' nm track ts args) \<longleftrightarrow> ipi opts"
  "selected opts (TRACE_EVENT_END ''ipi'' track ts) \<longleftrightarrow> ipi opts"
  by (simp_all add: selected_def category_signals_def)

lemma sd_levels_selected: "load_balance opts \<Longrightarrow> \<forall>c \<in> set (trace_sd_levels ts st i n). selected opts c"
  by (induction ts st i n rule: trace_sd_levels.induct) auto

lemma handled_selected:
  assumes "ev_ok opts e"
  shows "\<forall>c \<in> set (handle_event ks opts e). selected opts c"
proof (cases e)
  case (Rq_pelt_ev r)
  then show ?thesis using assms
    by (auto simp: handle_rq_pelt_event_def Let_def trace_cpu_load_avg_def trace_cpu_runnable_avg_def
        trace_cpu_load_avg_thermal_def trace_cpu_util_avg_def trace_cpu_uclamped_avg_def
        trace_cpu_util_avg_rt_def trace_cpu_util_avg_dl_def trace_cpu_util_avg_irq_def
        trace_cpu_util_est_enqueued_def)
next
  case (Task_pelt_ev r)
  then show ?thesis
    by (auto simp: handle_task_pelt_event_def Let_def trace_task_load_avg_def trace_task_runnable_avg_def
        trace_task_util_avg_def trace_task_uclamped_avg_def trace_task_util_est_enqueued_def
        trace_task_util_est_ewma_def)
next
  case (Rq_nr_running_ev r)
  then show ?thesis by (simp add: handle_rq_nr_running_event_def trace_cpu_nr_running_def)
next
  case (Freq_idle_ev r)
  then show ?thesis by (auto simp: handle_freq_idle_event_def trace_cpu_idle_def trace_cpu_idle_miss_def)
next
  case (Lb_ev r)
  then show ?thesis using assms sd_levels_selected [of opts]
    by (auto simp: handle_lb_event_def trace_lb_sd_stats_def trace_lb_overloaded_def
        trace_lb_overutilized_def trace_lb_misfit_def trace_lb_entry_def trace_lb_exit_def)
next
  case (Ipi_ev r)
  then show ?thesis using assms by (simp add: handle_ipi_event_def trace_ipi_send_cpu_def)
qed (use assms in simp_all)

definition trace_ok :: "sa_opts \<Rightarrow> ('sw, 'si, 'lb) pipeline \<Rightarrow> bool" where
  "trace_ok opts s \<longleftrightarrow> rings_ok opts (bpf s) \<and> (\<forall>(k, c) \<in> set (traced s). selected opts c)"

lemma trace_ok_step: "pipeline_step envs ks opts s s' \<Longrightarrow> trace_ok opts s \<Longrightarrow> trace_ok opts s'"
proof (induction rule: pipeline_step.induct)
  case (run_program env p s)
  then show ?case by (simp add: trace_ok_def rings_ok_probe)
next
  case (consume s k)
  then have "ev_ok opts (ring_of k (bpf s) ! consumed s k)"
    using nth_mem [of "consumed s k" "ring_of k (bpf s)"] unfolding trace_ok_def rings_ok_def by blast
  from handled_selected [OF this, of ks] consume show ?case by (auto simp: trace_ok_def)
qed (simp_all add: trace_ok_def)

lemma trace_ok_reachable:
  assumes "(pipeline_step envs ks opts)\<^sup>*\<^sup>* (pipeline_init st) s" "rings_empty st"
  shows "trace_ok opts s"
  using assms
proof (induction rule: rtranclp_induct)
  case base
  then show ?case by (simp add: trace_ok_def rings_ok_def pipeline_init_def rings_empty_def)
qed (rule trace_ok_step)

section \<open>The threads as one interface\<close>

text \<open>
  What each instance of \<open>EVENT_THREAD_FN(event)\<close> relies on: a ring of records of one type and the
  handler for that type. The properties of the running program carry over to each of them.
\<close>

locale event_thread =
  fixes kind :: event_kind
    and ring :: "('sw, 'si, 'lb) bpf_state \<Rightarrow> 'e list"
    and wrap :: "'e \<Rightarrow> event"
    and handler :: "kallsyms \<Rightarrow> sa_opts \<Rightarrow> 'e \<Rightarrow> output_call list"
  assumes ring_kind: "ring_of kind st = map wrap (ring st)"
    and handle_wrap: "handle_event ks opts (wrap e) = handler ks opts e"
begin

lemma thread_output:
  assumes "fifo ks opts s"
  shows "output_of kind (traced s) = concat (map (handler ks opts) (take (consumed s kind) (ring (bpf s))))"
  using assms by (simp add: fifo_def ring_kind take_map comp_def handle_wrap)

lemma drained_output:
  "fifo ks opts s \<Longrightarrow> consumed s kind = length (ring (bpf s)) \<Longrightarrow>
     output_of kind (traced s) = concat (map (handler ks opts) (ring (bpf s)))"
  by (simp add: thread_output)

end

interpretation rq_pelt: event_thread Rq_pelt rq_pelt_rb Rq_pelt_ev "\<lambda>ks. handle_rq_pelt_event"
  by unfold_locales simp_all

interpretation task_pelt: event_thread Task_pelt task_pelt_rb Task_pelt_ev "\<lambda>ks. handle_task_pelt_event"
  by unfold_locales simp_all

interpretation rq_nr_running: event_thread Rq_nr_running rq_nr_running_rb Rq_nr_running_ev
    "\<lambda>ks. handle_rq_nr_running_event"
  by unfold_locales simp_all

interpretation sched_switches: event_thread Sched_switches sched_switch_rb Sched_switch_ev
    "\<lambda>ks. handle_sched_switch_event"
  by unfold_locales simp_all

interpretation freq_idle: event_thread Freq_idle freq_idle_rb Freq_idle_ev "\<lambda>ks. handle_freq_idle_event"
  by unfold_locales simp_all

interpretation softirqs: event_thread Softirqs softirq_rb Softirq_ev "\<lambda>ks. handle_softirq_event"
  by unfold_locales simp_all

interpretation lbs: event_thread Lb lb_rb Lb_ev "\<lambda>ks. handle_lb_event"
  by unfold_locales simp_all

interpretation ipis: event_thread Ipi ipi_rb Ipi_ev handle_ipi_event
  by unfold_locales simp_all

section \<open>Properties of the running program\<close>

text \<open>
  Claim C1: each event thread traces exactly what its handler makes of the records of its ring, oldest
  first, each record once, up to the one it has reached; and it never runs ahead of the ring. This
  holds for all eight threads at every moment, however the threads, the probes and the signal
  interleave.
\<close>

theorem traced_exactly_once:
  assumes "(pipeline_step envs ks opts)\<^sup>*\<^sup>* (pipeline_init st) s" "rings_empty st"
  shows "(\<forall>k. consumed s k \<le> length (ring_of k (bpf s)))
    \<and> output_of Rq_pelt (traced s) =
        concat (map (handle_rq_pelt_event opts) (take (consumed s Rq_pelt) (rq_pelt_rb (bpf s))))
    \<and> output_of Task_pelt (traced s) =
        concat (map (handle_task_pelt_event opts) (take (consumed s Task_pelt) (task_pelt_rb (bpf s))))
    \<and> output_of Rq_nr_running (traced s) =
        concat (map (handle_rq_nr_running_event opts) (take (consumed s Rq_nr_running) (rq_nr_running_rb (bpf s))))
    \<and> output_of Sched_switches (traced s) =
        concat (map (handle_sched_switch_event opts) (take (consumed s Sched_switches) (sched_switch_rb (bpf s))))
    \<and> output_of Freq_idle (traced s) =
        concat (map (handle_freq_idle_event opts) (take (consumed s Freq_idle) (freq_idle_rb (bpf s))))
    \<and> output_of Softirqs (traced s) =
        concat (map (handle_softirq_event opts) (take (consumed s Softirqs) (softirq_rb (bpf s))))
    \<and> output_of Lb (traced s) =
        concat (map (handle_lb_event opts) (take (consumed s Lb) (lb_rb (bpf s))))
    \<and> output_of Ipi (traced s) =
        concat (map (handle_ipi_event ks opts) (take (consumed s Ipi) (ipi_rb (bpf s))))"
proof -
  have f: "fifo ks opts s" using assms by (rule fifo_reachable)
  show ?thesis
    using f rq_pelt.thread_output [OF f] task_pelt.thread_output [OF f] rq_nr_running.thread_output [OF f]
      sched_switches.thread_output [OF f] freq_idle.thread_output [OF f] softirqs.thread_output [OF f]
      lbs.thread_output [OF f] ipis.thread_output [OF f]
    by (simp add: fifo_def)
qed

text \<open>A run of the sample program: an idle record is submitted, and its thread consumes it.\<close>

definition sample_cpu_idle_opts :: sa_opts where
  "sample_cpu_idle_opts = sa_opts_init\<lparr>cpu_idle := True\<rparr>"

definition sample_step1 :: "(sample_map, sample_times, sample_map) pipeline" where
  "sample_step1 = (pipeline_init sample_state)
     \<lparr>bpf := run_probe (sample_env (sample_kernel 0 0) 1 100) (Cpu_idle 2 3) sample_state,
      thread := ((\<lambda>k. At_create)(Freq_idle := At_test))(Freq_idle := In_poll)\<rparr>"

lemma sample_rings_empty: "rings_empty sample_state"
  unfolding rings_empty_def
proof
  fix k
  show "ring_of k sample_state = []" by (cases k) (simp_all add: sample_state_def)
qed

lemma sample_reach:
  "(pipeline_step UNIV kallsyms_init sample_cpu_idle_opts)\<^sup>*\<^sup>* (pipeline_init sample_state) sample_step1"
proof -
  let ?S = "pipeline_step UNIV kallsyms_init sample_cpu_idle_opts"
  let ?s0 = "pipeline_init sample_state"
  let ?b = "run_probe (sample_env (sample_kernel 0 0) 1 100) (Cpu_idle 2 3) sample_state"
  let ?s1 = "?s0\<lparr>bpf := ?b\<rparr>"
  let ?s2 = "?s1\<lparr>thread := (thread ?s1)(Freq_idle := At_test)\<rparr>"
  let ?s3 = "?s2\<lparr>thread := (thread ?s2)(Freq_idle := In_poll)\<rparr>"
  have "?S ?s0 (?s0\<lparr>bpf := run_probe (sample_env (sample_kernel 0 0) 1 100) (Cpu_idle 2 3) (bpf ?s0)\<rparr>)"
    by (rule run_program) (simp_all add: autoload_iff sample_cpu_idle_opts_def)
  then have "?S ?s0 ?s1" by (simp add: pipeline_init_def)
  moreover have "?S ?s1 ?s2" by (rule rb_created) (simp add: pipeline_init_def)
  moreover have "?S ?s2 ?s3" by (rule enter_poll) (simp_all add: pipeline_init_def)
  moreover have "?s3 = sample_step1" by (simp add: sample_step1_def pipeline_init_def)
  ultimately show ?thesis by (metis (no_types, lifting) converse_rtranclp_into_rtranclp rtranclp.rtrancl_refl)
qed

theorem traced_exactly_once_witness:
  "consumed sample_step1 Freq_idle \<le> length (freq_idle_rb (bpf sample_step1))
    \<and> length (freq_idle_rb (bpf sample_step1)) = 1"
proof -
  have "length (freq_idle_rb (bpf sample_step1)) = 1"
    by (simp add: sample_step1_def handle_cpu_idle_def sample_env_def sample_state_def)
  moreover have "consumed sample_step1 Freq_idle \<le> length (ring_of Freq_idle (bpf sample_step1))"
    using traced_exactly_once [OF sample_reach sample_rings_empty] by blast
  ultimately show ?thesis by simp
qed

text \<open>
  Claim C5: from the command line to the trace: every tracing call of a running program belongs to a
  category some option of its command line selects, and the message about an unexpected PELT type
  is never printed.
\<close>

theorem trace_only_selected:
  assumes "argp_run sa_opts_init args = Parsed opts"
    and "(pipeline_step envs ks opts)\<^sup>*\<^sup>* (pipeline_init st) s" "rings_empty st"
    and "(k, c) \<in> set (traced s)"
  shows "\<exists>cat S. output_category c = Some cat \<and> map_of category_signals cat = Some S
    \<and> S \<inter> (\<Union>(k, a) \<in> set args. selects k) \<noteq> {}"
proof -
  have "trace_ok opts s" using assms(2,3) by (rule trace_ok_reachable)
  then have "selected opts c" using assms(4) by (auto simp: trace_ok_def)
  then obtain cat S i where c: "output_category c = Some cat" "map_of category_signals cat = Some S"
    and i: "i \<in> S" "i \<in> flags opts"
    unfolding selected_def mem_flags by blast
  have "flags opts = (\<Union>(k, a) \<in> set args. selects k)"
    using argp_flags [OF assms(1)] flags_init by simp
  then have "i \<in> S \<inter> (\<Union>(k, a) \<in> set args. selects k)" using i by (simp only: Int_iff)
  then have "S \<inter> (\<Union>(k, a) \<in> set args. selects k) \<noteq> {}" by (metis empty_iff)
  with c show ?thesis by (intro exI conjI)
qed

definition sample_step2 :: "(sample_map, sample_times, sample_map) pipeline" where
  "sample_step2 = sample_step1\<lparr>consumed := (\<lambda>k. 0)(Freq_idle := 1),
     traced := map (Pair Freq_idle) (handle_event kallsyms_init sample_cpu_idle_opts
       (ring_of Freq_idle (bpf sample_step1) ! 0))\<rparr>"

lemma sample_ring: "freq_idle_rb (bpf sample_step1) =
    [\<lparr>fi_ts = 100, fi_cpu = 3, fi_frequency = 0, fi_idle_state = 2, fi_idle_miss = 0\<rparr>]"
  by (simp add: sample_step1_def handle_cpu_idle_def sample_env_def sample_state_def)

lemma sample_reach2:
  "(pipeline_step UNIV kallsyms_init sample_cpu_idle_opts)\<^sup>*\<^sup>* (pipeline_init sample_state) sample_step2"
proof -
  have "pipeline_step UNIV kallsyms_init sample_cpu_idle_opts sample_step1
     (sample_step1\<lparr>consumed := (consumed sample_step1)(Freq_idle := Suc (consumed sample_step1 Freq_idle)),
      traced := traced sample_step1 @ map (Pair Freq_idle) (handle_event kallsyms_init sample_cpu_idle_opts
        (ring_of Freq_idle (bpf sample_step1) ! consumed sample_step1 Freq_idle))\<rparr>)"
    by (rule consume) (simp_all add: sample_ring, simp_all add: sample_step1_def pipeline_init_def)
  moreover have "consumed sample_step1 = (\<lambda>k. 0)" "traced sample_step1 = []"
    by (simp_all add: sample_step1_def pipeline_init_def)
  ultimately have "pipeline_step UNIV kallsyms_init sample_cpu_idle_opts sample_step1 sample_step2"
    by (simp add: sample_step2_def)
  with sample_reach show ?thesis by (rule rtranclp.rtrancl_into_rtrancl)
qed

theorem trace_only_selected_witness:
  "(Freq_idle, TRACE_COUNTER ''cpu-idle'' (cpu_track 3 '' idle_state'') 100 2) \<in> set (traced sample_step2)
    \<and> (\<exists>S. map_of category_signals ''cpu-idle'' = Some S
        \<and> S \<inter> (\<Union>(k, a) \<in> set [(OPT_CPU_IDLE, [])]. selects k) \<noteq> {})"
proof -
  have opts: "argp_run sa_opts_init [(OPT_CPU_IDLE, [])] = Parsed sample_cpu_idle_opts"
    by (simp add: sample_cpu_idle_opts_def)
  have mem: "(Freq_idle, TRACE_COUNTER ''cpu-idle'' (cpu_track 3 '' idle_state'') 100 2) \<in> set (traced sample_step2)"
    by (simp add: sample_step2_def sample_ring handle_freq_idle_event_def trace_cpu_idle_def
        sample_cpu_idle_opts_def)
  from trace_only_selected [OF opts sample_reach2 sample_rings_empty mem] mem show ?thesis by simp
qed

text \<open>
  No record is stuck. While a thread is in its poll it can trace everything its ring holds,
  whatever state the rest of the program is in.
\<close>

lemma polling_drains:
  assumes "thread s k = In_poll" "fifo ks opts s"
  shows "\<exists>s'. (pipeline_step envs ks opts)\<^sup>*\<^sup>* s s' \<and> bpf s' = bpf s
    \<and> output_of k (traced s') = concat (map (handle_event ks opts) (ring_of k (bpf s)))"
  using assms
proof (induction "length (ring_of k (bpf s)) - consumed s k" arbitrary: s)
  case 0
  then have "consumed s k = length (ring_of k (bpf s))" by (simp add: fifo_def le_antisym)
  then have "output_of k (traced s) = concat (map (handle_event ks opts) (ring_of k (bpf s)))"
    using 0(3) by (simp add: fifo_def)
  then show ?case by blast
next
  case (Suc n)
  let ?t = "s\<lparr>consumed := (consumed s)(k := Suc (consumed s k)),
      traced := traced s @ map (Pair k) (handle_event ks opts (ring_of k (bpf s) ! consumed s k))\<rparr>"
  have step: "pipeline_step envs ks opts s ?t"
    using Suc by (intro consume) simp_all
  have "fifo ks opts ?t" using fifo_step [OF step] Suc.prems(2) .
  then have "\<exists>s'. (pipeline_step envs ks opts)\<^sup>*\<^sup>* ?t s' \<and> bpf s' = bpf ?t
    \<and> output_of k (traced s') = concat (map (handle_event ks opts) (ring_of k (bpf ?t)))"
    using Suc by (intro Suc.hyps(1)) simp_all
  then show ?case using step by (auto intro: converse_rtranclp_into_rtranclp)
qed

lemma polling_drains_instance:
  "\<exists>s'. (pipeline_step UNIV kallsyms_init sample_cpu_idle_opts)\<^sup>*\<^sup>* sample_step1 s'
    \<and> output_of Freq_idle (traced s') = [TRACE_COUNTER ''cpu-idle'' (cpu_track 3 '' idle_state'') 100 2]"
proof -
  have "thread sample_step1 Freq_idle = In_poll" by (simp add: sample_step1_def)
  from polling_drains [OF this fifo_reachable [OF sample_reach sample_rings_empty]]
  show ?thesis
    by (auto simp: sample_ring handle_freq_idle_event_def trace_cpu_idle_def sample_cpu_idle_opts_def)
qed

text \<open>
  Claim C36: shutting down loses records. A thread that finds \<open>exiting\<close> set at the head of its loop never
  polls again, whatever happens next: in every later state it is at the head or has ended, it has
  consumed and traced nothing more, and all that waited in its ring still waits there, with what has
  been submitted since behind it. Leaving is the one step it has left.
\<close>

theorem shutdown_loses_records:
  assumes "thread s k = At_test" "exiting s" "(pipeline_step envs ks opts)\<^sup>*\<^sup>* s s2"
  shows "pipeline_step envs ks opts s (s\<lparr>thread := (thread s)(k := At_end)\<rparr>)
    \<and> thread s2 k \<in> {At_test, At_end} \<and> consumed s2 k = consumed s k
    \<and> output_of k (traced s2) = output_of k (traced s)
    \<and> (\<exists>new. drop (consumed s2 k) (ring_of k (bpf s2)) = drop (consumed s k) (ring_of k (bpf s)) @ new)"
  using leave_loop [OF assms(1,2)] past_poll_stays [OF assms(3,2), of k] waiting_stays [OF assms(3), of k]
  by (auto simp: assms(1))

text \<open>The sample program is interrupted: the poll returns before it has seen the idle record.\<close>

definition sample_interrupted :: "(sample_map, sample_times, sample_map) pipeline" where
  "sample_interrupted = sample_step1\<lparr>thread := (thread sample_step1)(Freq_idle := At_test), exiting := True\<rparr>"

lemma sample_interrupted:
  "(pipeline_step UNIV kallsyms_init sample_cpu_idle_opts)\<^sup>*\<^sup>* (pipeline_init sample_state) sample_interrupted"
proof -
  let ?t = "sample_step1\<lparr>thread := (thread sample_step1)(Freq_idle := At_test)\<rparr>"
  have "pipeline_step UNIV kallsyms_init sample_cpu_idle_opts sample_step1 ?t"
    by (rule poll_returns) (simp add: sample_step1_def)
  moreover have "pipeline_step UNIV kallsyms_init sample_cpu_idle_opts ?t (?t\<lparr>exiting := True\<rparr>)" by (rule signal)
  ultimately show ?thesis using sample_reach by (simp add: sample_interrupted_def)
qed

theorem shutdown_loses_records_witness:
  "let s = sample_interrupted;
       s2 = s\<lparr>bpf := run_probe (sample_env (sample_kernel 0 0) 1 200) (Cpu_idle 0 3) (bpf s)\<rparr> in
   length (freq_idle_rb (bpf s2)) = 2 \<and> consumed s2 Freq_idle = 0 \<and> output_of Freq_idle (traced s2) = []
   \<and> (\<exists>new. ring_of Freq_idle (bpf s2) = ring_of Freq_idle (bpf s) @ new)"
proof -
  let ?t = "sample_interrupted\<lparr>bpf := run_probe (sample_env (sample_kernel 0 0) 1 200) (Cpu_idle 0 3) (bpf sample_interrupted)\<rparr>"
  have t: "thread sample_interrupted Freq_idle = At_test" "exiting sample_interrupted"
    and c: "consumed sample_interrupted Freq_idle = 0" "output_of Freq_idle (traced sample_interrupted) = []"
    and rb: "freq_idle_rb (bpf sample_interrupted) =
      [\<lparr>fi_ts = 100, fi_cpu = 3, fi_frequency = 0, fi_idle_state = 2, fi_idle_miss = 0\<rparr>]"
    by (simp_all add: sample_interrupted_def sample_ring)
      (simp_all add: sample_step1_def pipeline_init_def output_of_def)
  have "(pipeline_step UNIV kallsyms_init sample_cpu_idle_opts)\<^sup>*\<^sup>* sample_interrupted ?t"
    by (intro r_into_rtranclp run_program) (simp_all add: autoload_iff sample_cpu_idle_opts_def)
  from shutdown_loses_records [OF t this] c have "consumed ?t Freq_idle = 0" "output_of Freq_idle (traced ?t) = []"
    "\<exists>new. ring_of Freq_idle (bpf ?t) = ring_of Freq_idle (bpf sample_interrupted) @ new" by simp_all
  moreover have "length (freq_idle_rb (bpf ?t)) = 2"
    by (simp add: handle_cpu_idle_def sample_env_def) (simp add: rb)
  ultimately show ?thesis unfolding Let_def by blast
qed

end
