(* ===== verification/SA_Session.thy ===== *)
theory SA_Session imports SA_Options begin

text \<open>
  Component: the trace session of \<open>perfetto_wrapper.cc\<close> (\<open>init_perfetto\<close>, \<open>start_perfetto_trace\<close>,
  \<open>stop_perfetto_trace\<close>). The SDK and the file system are outside the repository: the functions give
  the operations they ask for, with the trace configuration as data; whether paths exist and what
  \<open>open\<close> returns are inputs.
\<close>

section \<open>The configuration\<close>

record ftrace_config =
  ftrace_events :: "string option list"
  atrace_categories :: "string option list"
  symbolize_ksyms :: bool
  ksyms_retain :: bool
  enable_function_graph :: bool
  function_graph_roots :: "string option list"
  function_filters :: "string option list"
  drain_period_ms :: nat

datatype data_source =
    Track_event "string list"                    \<comment> \<open>enabled categories\<close>
  | Frametimeline
  | Linux_ftrace ftrace_config
  | Process_stats nat bool                       \<comment> \<open>poll period, thread names\<close>

record trace_config =
  buffers_kb :: "nat list"                       \<comment> \<open>all with the fill policy \<open>RING_BUFFER\<close>\<close>
  duration_ms :: nat
  max_file_size_bytes :: s64
  unique_session_name :: string
  write_into_file :: bool
  file_write_period_ms :: nat
  flush_period_ms :: nat
  enable_extra_guardrails :: bool
  notify_traceur :: bool
  clear_period_ms :: nat
  data_sources :: "data_source list"

text \<open>A loop \<open>for (i = 0; i < num; i++) add(array[i])\<close>, with \<open>n\<close> iterations left.\<close>

fun add_from :: "nat \<Rightarrow> nat \<Rightarrow> string option list \<Rightarrow> string option list \<Rightarrow> string option list" where
  "add_from i 0 arr acc = acc"
| "add_from i (Suc n) arr acc = add_from (Suc i) n arr (acc @ [arr ! i])"

definition default_ftrace_events :: "string list" where
  "default_ftrace_events =
    [''sched/sched_switch'', ''sched/sched_wakeup_new'', ''sched/sched_waking'',
     ''sched/sched_process_exit'', ''sched/sched_process_free'', ''power/suspend_resume'',
     ''power/cpu_frequency'', ''power/cpu_idle'', ''task/task_newtask'', ''task/task_rename'',
     ''ftrace/print'']"

definition make_ftrace_config :: "sa_opts \<Rightarrow> ftrace_config" where
  "make_ftrace_config opts =
    (let graph = (num_function_graph opts \<noteq> 0 \<or> num_function_filter opts \<noteq> 0) in
     \<lparr>ftrace_events = add_from 0 (unat (num_ftrace_event opts)) (ftrace_event opts)
        (map Some default_ftrace_events),
      atrace_categories = add_from 0 (unat (num_atrace_cat opts)) (atrace_cat opts)
        (if irq opts then [Some ''irq''] else []),
      symbolize_ksyms = graph, ksyms_retain = graph, enable_function_graph = graph,
      function_graph_roots =
        (if graph then add_from 0 (unat (num_function_graph opts)) (function_graph opts) [] else []),
      function_filters =
        (if graph then add_from 0 (unat (num_function_filter opts)) (function_filter opts) [] else []),
      drain_period_ms = 1000\<rparr>)"

definition make_trace_config :: "sa_opts \<Rightarrow> trace_config" where
  "make_trace_config opts =
    \<lparr>buffers_kb = [1024 * 100, 1024 * 100], duration_ms = 3600000, max_file_size_bytes = max_size opts,
     unique_session_name = ''sched-analyzer'', write_into_file = True, file_write_period_ms = 1000,
     flush_period_ms = 30000, enable_extra_guardrails = False, notify_traceur = True,
     clear_period_ms = 15000,
     data_sources = [Track_event [''sched-analyzer''], Frametimeline, Linux_ftrace (make_ftrace_config opts),
       Process_stats 10000 True]\<rparr>"

section \<open>The session\<close>

datatype backend = InProcessBackend | SystemBackend

datatype session_op =
    Setenv string string
  | Initialize "backend list" nat                \<comment> \<open>backends, shared memory in KiB\<close>
  | Register
  | Setup trace_config int
  | StartBlocking
  | StopBlocking
  | Close int
  | Perror string

definition init_perfetto :: "(string \<Rightarrow> bool) \<Rightarrow> sa_opts \<Rightarrow> session_op list" where
  "init_perfetto path_exists opts =
    (if path_exists ''/dev/socket/traced_producer''
     then [Setenv ''PERFETTO_PRODUCER_SOCK_NAME'' ''/dev/socket/traced_producer''] else []) @
    (if path_exists ''/dev/socket/traced_consumer''
     then [Setenv ''PERFETTO_CONSUMER_SOCK_NAME'' ''/dev/socket/traced_consumer''] else []) @
    [Initialize ((if app opts then [InProcessBackend] else []) @ (if system opts then [SystemBackend] else []))
       (1024 * 100), Register]"

text \<open>The statics \<open>fd\<close> and \<open>tracing_session\<close> (is there one?).\<close>

record session =
  fd :: int
  tracing_session :: bool

definition session_init :: session where
  "session_init = \<lparr>fd = 0, tracing_session = False\<rparr>"

definition android_traces_path :: string where
  "android_traces_path = ''/data/misc/perfetto-traces''"

text \<open>\<open>path_exists\<close> stands for \<open>opendir\<close>, \<open>open_file\<close> for \<open>open\<close>; the options come back as the function leaves them.\<close>

definition start_perfetto_trace ::
  "(string \<Rightarrow> bool) \<Rightarrow> (string \<Rightarrow> int) \<Rightarrow> sa_opts \<Rightarrow> session \<Rightarrow> session_op list \<times> sa_opts \<times> session" where
  "start_perfetto_trace path_exists open_file opts ss =
    (let cfg = make_trace_config opts;
         dir = path_exists android_traces_path;
         opts1 = (if output_path opts = None
                  then opts\<lparr>output_path := Some (if dir then android_traces_path else ''.'')\<rparr> else opts);
         path = the (output_path opts1) @ ''/'' @ output_name opts1;
         buffer = snprintf 256 path;
         fd1 = open_file buffer in
     if fd1 < 0 then ([Perror (snprintf 256 (''Failed to create '' @ path))], opts1, ss\<lparr>fd := fd1\<rparr>)
     else ([Setup cfg fd1, StartBlocking], opts1, \<lparr>fd = fd1, tracing_session = True\<rparr>))"

definition stop_perfetto_trace :: "session \<Rightarrow> session_op list" where
  "stop_perfetto_trace ss = (if fd ss < 0 then [] else [StopBlocking, Close (fd ss)])"

section \<open>The arrays of strings on the command line\<close>

lemma add_from_eq: "i + n \<le> length arr \<Longrightarrow> add_from i n arr acc = acc @ take n (drop i arr)"
proof (induction n arbitrary: i acc)
  case (Suc n)
  then have "drop i arr = arr ! i # drop (Suc i) arr" by (simp add: Cons_nth_drop_Suc)
  then show ?case using Suc by simp
qed simp

text \<open>The four arrays with their counters, by the option that fills them.\<close>

fun str_entries :: "opt_key \<Rightarrow> sa_opts \<Rightarrow> string option list" where
  "str_entries OPT_FTRACE_EVENT s = take (unat (num_ftrace_event s)) (ftrace_event s)"
| "str_entries OPT_ATRACE_CAT s = take (unat (num_atrace_cat s)) (atrace_cat s)"
| "str_entries OPT_FUNCTION_GRAPH s = take (unat (num_function_graph s)) (function_graph s)"
| "str_entries OPT_FUNCTION_FILTER s = take (unat (num_function_filter s)) (function_filter s)"
| "str_entries _ s = []"

definition str_args :: "opt_key \<Rightarrow> (opt_key \<times> string) list \<Rightarrow> string option list" where
  "str_args key ks = map (\<lambda>(k, a). Some a) (filter (\<lambda>(k, a). k = key) ks)"

definition str_options :: "opt_key set" where
  "str_options = {OPT_FTRACE_EVENT, OPT_ATRACE_CAT, OPT_FUNCTION_GRAPH, OPT_FUNCTION_FILTER}"

lemma parse_arg_str_entries:
  assumes "opts_wf s" "parse_arg s k a = Parsed s'" "key \<in> str_options"
  shows "str_entries key s' = str_entries key s @ str_args key [(k, a)]"
proof (cases "k \<in> str_options")
  case True
  then show ?thesis using assms unfolding str_options_def
    by (elim insertE emptyE)
      (auto simp: opts_wf_def str_args_def unat_filter_succ take_store split: if_splits)
next
  case False
  then have "str_entries key s' = str_entries key s"
    using assms(2,3) unfolding str_options_def
    by (cases k) (auto simp: Let_def split: if_splits)
  then show ?thesis using False assms(3) by (auto simp: str_args_def)
qed

lemma argp_str_entries:
  "opts_wf s \<Longrightarrow> argp_run s ks = Parsed s' \<Longrightarrow> key \<in> str_options \<Longrightarrow>
     str_entries key s' = str_entries key s @ str_args key ks"
proof (induction s ks rule: argp_run.induct)
  case (1 s)
  then show ?case by (simp add: str_args_def)
next
  case (2 s k a ks)
  from "2.prems" obtain t where t: "parse_arg s k a = Parsed t" "argp_run t ks = Parsed s'"
    by (auto split: parse_outcome.splits)
  have "str_entries key s' = str_entries key t @ str_args key ks"
    using "2.IH" [OF t(1) parse_arg_wf [OF "2.prems"(1) t(1)] t(2) "2.prems"(3)] .
  also have "str_entries key t = str_entries key s @ str_args key [(k, a)]"
    using parse_arg_str_entries [OF "2.prems"(1) t(1) "2.prems"(3)] .
  finally show ?case by (simp add: str_args_def)
qed

lemma selects_irq: "OPT_IRQ \<in> selects k \<longleftrightarrow> k = OPT_IRQ"
  by (cases k) simp_all

lemma num_zero_iff:
  "length arr = MAX_FILTERS_NUM \<Longrightarrow> (num :: u32) = 0 \<longleftrightarrow> take (unat num) arr = []"
  by (auto simp: unat_eq_zero MAX_FILTERS_NUM_def)

section \<open>Properties\<close>

text \<open>
  Claim C26: the ftrace data source is configured from the command line alone: the fixed scheduler
  and power events followed by every \<open>--ftrace_event\<close>, the \<open>irq\<close> category if and only if \<open>--irq\<close> is given
  followed by every \<open>--atrace_cat\<close>, and function graph tracing with every \<open>--function_graph\<close> and
  \<open>--function_filter\<close> exactly when one of these is given; nothing is lost, added or reordered.
\<close>

theorem ftrace_config_from_args:
  assumes "argp_run sa_opts_init ks = Parsed opts"
  shows "let c = make_ftrace_config opts in
    ftrace_events c = map Some default_ftrace_events @ str_args OPT_FTRACE_EVENT ks
    \<and> atrace_categories c =
        (if \<exists>a. (OPT_IRQ, a) \<in> set ks then [Some ''irq''] else []) @ str_args OPT_ATRACE_CAT ks
    \<and> function_graph_roots c = str_args OPT_FUNCTION_GRAPH ks
    \<and> function_filters c = str_args OPT_FUNCTION_FILTER ks
    \<and> (enable_function_graph c \<longleftrightarrow>
        str_args OPT_FUNCTION_GRAPH ks \<noteq> [] \<or> str_args OPT_FUNCTION_FILTER ks \<noteq> [])"
proof -
  have wf: "opts_wf opts" using opts_wf_init assms by (rule argp_wf)
  have init: "str_entries key sa_opts_init = []" for key
    by (cases key) (simp_all add: sa_opts_init_def)
  have e: "key \<in> str_options \<Longrightarrow> str_entries key opts = str_args key ks" for key
    using argp_str_entries [OF opts_wf_init assms, of key] init by simp
  note entries = e [of OPT_FTRACE_EVENT] e [of OPT_ATRACE_CAT] e [of OPT_FUNCTION_GRAPH] e [of OPT_FUNCTION_FILTER]
  have irq: "irq opts \<longleftrightarrow> (\<exists>a. (OPT_IRQ, a) \<in> set ks)"
  proof -
    have "irq opts \<longleftrightarrow> OPT_IRQ \<in> flags opts" by simp
    also have "flags opts = (\<Union>(k, a) \<in> set ks. selects k)" using argp_flags [OF assms] flags_init by simp
    also have "OPT_IRQ \<in> (\<Union>(k, a) \<in> set ks. selects k) \<longleftrightarrow> (\<exists>(k, a) \<in> set ks. k = OPT_IRQ)"
      by (simp add: split_beta selects_irq)
    finally show ?thesis by auto
  qed
  have zero: "num_function_graph opts = 0 \<longleftrightarrow> str_args OPT_FUNCTION_GRAPH ks = []"
    "num_function_filter opts = 0 \<longleftrightarrow> str_args OPT_FUNCTION_FILTER ks = []"
    using entries(3,4) wf num_zero_iff [of "function_graph opts" "num_function_graph opts"]
      num_zero_iff [of "function_filter opts" "num_function_filter opts"]
    by (simp_all add: str_options_def opts_wf_def)
  have add: "add_from 0 (unat (num_ftrace_event opts)) (ftrace_event opts) acc = acc @ str_args OPT_FTRACE_EVENT ks"
    "add_from 0 (unat (num_atrace_cat opts)) (atrace_cat opts) acc = acc @ str_args OPT_ATRACE_CAT ks"
    "add_from 0 (unat (num_function_graph opts)) (function_graph opts) acc = acc @ str_args OPT_FUNCTION_GRAPH ks"
    "add_from 0 (unat (num_function_filter opts)) (function_filter opts) acc = acc @ str_args OPT_FUNCTION_FILTER ks"
    for acc
    using entries wf by (simp_all add: add_from_eq opts_wf_def str_options_def)
  show ?thesis
    by (simp add: make_ftrace_config_def Let_def add zero irq)
qed

theorem ftrace_config_from_args_witness:
  "\<exists>opts. argp_run sa_opts_init [(OPT_FTRACE_EVENT, ''sched/sched_stat_runtime''), (OPT_IRQ, [])] = Parsed opts
    \<and> last (ftrace_events (make_ftrace_config opts)) = Some ''sched/sched_stat_runtime''
    \<and> atrace_categories (make_ftrace_config opts) = [Some ''irq'']
    \<and> \<not> enable_function_graph (make_ftrace_config opts)"
proof -
  obtain opts where opts:
    "argp_run sa_opts_init [(OPT_FTRACE_EVENT, ''sched/sched_stat_runtime''), (OPT_IRQ, [])] = Parsed opts"
    by (simp add: sa_opts_init_def MAX_FILTERS_NUM_def)
  from ftrace_config_from_args [OF this] opts show ?thesis by (simp add: Let_def str_args_def)
qed

text \<open>
  Claim C37: the session of a command line: it runs on exactly one backend; the trace goes to the named file under the
  path given, or under the Android trace directory where it exists, or else the current directory;
  starting sets the session up on the descriptor that \<open>open\<close> returned and stopping ends it and closes
  that descriptor; and when \<open>open\<close> fails, nothing is started and stopping does nothing.
\<close>

theorem session_lifecycle:
  assumes "argp_run sa_opts_init ks = Parsed opts"
    and "start_perfetto_trace path_exists open_file opts session_init = (ops, opts', ss)"
  shows "let dir = (case output_path opts of Some p \<Rightarrow> p
             | None \<Rightarrow> if path_exists android_traces_path then android_traces_path else ''.'');
             f = open_file (take 255 (dir @ ''/'' @ output_name opts)) in
    (\<exists>b. Initialize [b] 102400 \<in> set (init_perfetto path_exists opts))
    \<and> output_path opts' = Some dir
    \<and> (if 0 \<le> f then ops = [Setup (make_trace_config opts) f, StartBlocking]
          \<and> stop_perfetto_trace ss = [StopBlocking, Close f]
       else (\<exists>msg. ops = [Perror msg]) \<and> stop_perfetto_trace ss = [])"
proof -
  have "system opts \<noteq> app opts" using argp_wf [OF opts_wf_init assms(1)] by (simp add: opts_wf_def)
  then have "\<exists>b. Initialize [b] 102400 \<in> set (init_perfetto path_exists opts)"
    by (cases "app opts") (simp_all add: init_perfetto_def)
  then show ?thesis
    using assms(2)
    by (cases "output_path opts")
      (auto simp: start_perfetto_trace_def stop_perfetto_trace_def session_init_def Let_def snprintf_def
        split: if_splits)
qed

theorem session_lifecycle_witness:
  "\<exists>ops opts ss. start_perfetto_trace (\<lambda>p. False) (\<lambda>f. if f = ''./t'' then 5 else - 1)
      (sa_opts_init\<lparr>output_name := ''t''\<rparr>) session_init = (ops, opts, ss)
    \<and> stop_perfetto_trace ss = [StopBlocking, Close 5]"
proof -
  obtain ops opts ss where s: "start_perfetto_trace (\<lambda>p. False) (\<lambda>f. if f = ''./t'' then 5 else - 1)
      (sa_opts_init\<lparr>output_name := ''t''\<rparr>) session_init = (ops, opts, ss)"
    by (metis prod_cases3)
  have "argp_run sa_opts_init [(OPT_OUTPUT, ''t'')] = Parsed (sa_opts_init\<lparr>output_name := ''t''\<rparr>)" by simp
  from session_lifecycle [OF this s] s show ?thesis
    by (simp add: Let_def sa_opts_init_def)
qed

end
