(* ===== verification/SA_Process.thy ===== *)
theory SA_Process imports SA_Pipeline SA_Session begin

text \<open>
  The whole process: \<open>main\<close> next to the event threads it creates, the BPF programs it attaches and the
  trace session it starts. \<open>main\<close> is the list of its actions (\<open>SA_Main\<close>), executed one after the other;
  waiting for the signal and joining a thread block. Everything else is the running program of
  \<open>SA_Pipeline\<close>, restricted to the threads that exist and to programs that are attached, so each of
  its properties carries over. What a tracing call adds to the trace file depends on whether the
  session is on; the limits the SDK itself puts on a session (an hour, the file size) are not modelled.
\<close>

section \<open>State and steps\<close>

text \<open>The file system as \<open>start_perfetto_trace\<close> sees it.\<close>

record file_system =
  fs_dir :: "string \<Rightarrow> bool"
  fs_open :: "string \<Rightarrow> int"

record ('sw, 'si, 'lb) process =
  pipe :: "('sw, 'si, 'lb) pipeline"
  todo :: "main_action list"
  started :: "event_kind set"
  attached :: bool
  destroyed :: bool      \<comment> \<open>the skeleton, with its maps\<close>
  sess :: session
  recording :: bool
  trace_file :: "(event_kind \<times> output_call) list"

text \<open>\<open>while (!exiting) sleep(1)\<close> and \<open>pthread_join\<close> block; nothing else does.\<close>

fun may_act :: "main_action \<Rightarrow> ('sw, 'si, 'lb) process \<Rightarrow> bool" where
  "may_act Wait_for_signal s \<longleftrightarrow> exiting (pipe s)"
| "may_act (Join_thread k) s \<longleftrightarrow> thread (pipe s) k = At_end"
| "may_act _ s \<longleftrightarrow> True"

fun perform :: "main_env \<Rightarrow> file_system \<Rightarrow> sa_opts \<Rightarrow> main_action \<Rightarrow>
    ('sw, 'si, 'lb) process \<Rightarrow> ('sw, 'si, 'lb) process" where
  "perform w fs opts (Create_thread k) s =
     (if create_err w k = 0 then s\<lparr>started := insert k (started s)\<rparr> else s)"
| "perform w fs opts Attach_programs s = s\<lparr>attached := True\<rparr>"
| "perform w fs opts Start_perfetto_trace s =
     (let (ops, opts', ss) = start_perfetto_trace (fs_dir fs) (fs_open fs) opts (sess s)
      in s\<lparr>sess := ss, recording := recording s \<or> StartBlocking \<in> set ops\<rparr>)"
| "perform w fs opts Stop_perfetto_trace s =
     s\<lparr>recording := recording s \<and> StopBlocking \<notin> set (stop_perfetto_trace (sess s))\<rparr>"
| "perform w fs opts Destroy_skeleton s = s\<lparr>attached := False, destroyed := True\<rparr>"
| "perform w fs opts _ s = s"

text \<open>What the rest of the program may do: no thread moves before it exists, no program runs detached.\<close>

definition admits :: "('sw, 'si, 'lb) process \<Rightarrow> ('sw, 'si, 'lb) pipeline \<Rightarrow> bool" where
  "admits s q \<longleftrightarrow>
     (\<forall>k. k \<notin> started s \<longrightarrow> thread q k = thread (pipe s) k \<and> consumed q k = consumed (pipe s) k) \<and>
     (attached s \<or> bpf q = bpf (pipe s))"

definition new_calls :: "('sw, 'si, 'lb) pipeline \<Rightarrow> ('sw, 'si, 'lb) pipeline \<Rightarrow> (event_kind \<times> output_call) list" where
  "new_calls p q = drop (length (traced p)) (traced q)"

text \<open>The process is over when \<open>main\<close> has nothing left to do: returning from it ends all threads.\<close>

inductive process_step ::
  "main_env \<Rightarrow> file_system \<Rightarrow> ('sw, 'si, 'lb) run_env set \<Rightarrow> kallsyms \<Rightarrow> sa_opts \<Rightarrow>
     ('sw, 'si, 'lb) process \<Rightarrow> ('sw, 'si, 'lb) process \<Rightarrow> bool"
  for w fs envs ks opts where
  main_acts: "todo s = a # as \<Longrightarrow> may_act a s \<Longrightarrow>
    process_step w fs envs ks opts s (perform w fs opts a (s\<lparr>todo := as\<rparr>))"
| others_act: "todo s \<noteq> [] \<Longrightarrow> pipeline_step envs ks opts (pipe s) q \<Longrightarrow> admits s q \<Longrightarrow>
    process_step w fs envs ks opts s
      (s\<lparr>pipe := q, trace_file := trace_file s @ (if recording s then new_calls (pipe s) q else [])\<rparr>)"

inductive_cases process_stepE: "process_step w fs envs ks opts s s'"

definition process_init :: "main_env \<Rightarrow> sa_opts \<Rightarrow> ('sw, 'si, 'lb) bpf_state \<Rightarrow> ('sw, 'si, 'lb) process" where
  "process_init w opts st =
     \<lparr>pipe = pipeline_init st, todo = fst (main_parsed w opts), started = {}, attached = False,
      destroyed = False, sess = session_init, recording = False, trace_file = []\<rparr>"

lemma perform_frame [simp]:
  "pipe (perform w fs opts a s) = pipe s" "todo (perform w fs opts a s) = todo s"
  "trace_file (perform w fs opts a s) = trace_file s"
  by (cases "(w, fs, opts, a, s)" rule: perform.cases; simp add: split_beta Let_def)+

section \<open>The process runs the pipeline\<close>

text \<open>A machine that does in each step what another can do in some steps.\<close>

locale simulation =
  fixes cstep :: "'c \<Rightarrow> 'c \<Rightarrow> bool" and astep :: "'a \<Rightarrow> 'a \<Rightarrow> bool" and view :: "'c \<Rightarrow> 'a"
  assumes sim: "cstep s s' \<Longrightarrow> astep\<^sup>*\<^sup>* (view s) (view s')"
begin

lemma reach_view: "cstep\<^sup>*\<^sup>* s s' \<Longrightarrow> astep\<^sup>*\<^sup>* (view s) (view s')"
  by (induction rule: rtranclp_induct) (auto intro: rtranclp_trans sim)

lemma invariant_view:
  assumes "cstep\<^sup>*\<^sup>* s s'" "P (view s)" "\<And>a b. astep a b \<Longrightarrow> P a \<Longrightarrow> P b"
  shows "P (view s')"
  using reach_view [OF assms(1)] assms(2) by (induction rule: rtranclp_induct) (auto intro: assms(3))

end

interpretation process: simulation "process_step w fs envs ks opts" "pipeline_step envs ks opts" pipe
  for w fs envs ks opts
  by unfold_locales (auto elim!: process_stepE)

lemma process_pipeline:
  "(process_step w fs envs ks opts)\<^sup>*\<^sup>* (process_init w opts st) s \<Longrightarrow>
     (pipeline_step envs ks opts)\<^sup>*\<^sup>* (pipeline_init st) (pipe s)"
  using process.reach_view [of w fs envs ks opts "process_init w opts st" s] by (simp add: process_init_def)

section \<open>The actions of main in order\<close>

text \<open>
  The threads \<open>main\<close> tries to create: those that come up and, if that is not all, the one that fails.
\<close>

definition attempted :: "main_env \<Rightarrow> event_kind list" where
  "attempted w = (if load_err w \<noteq> 0 \<or> attach_err w \<noteq> 0 then []
                  else take (Suc (length (created w event_threads))) event_threads)"

lemma create_threads_acts:
  "fst (create_threads w ks errs) = map Create_thread (take (Suc (length (created w ks))) ks)"
proof (induction ks arbitrary: errs)
  case (Cons k ks)
  show ?case
  proof (cases "create_err w k = 0")
    case True
    then have "created w (k # ks) = k # created w ks" by (simp add: created_def)
    with True show ?thesis by (simp add: Cons.IH Let_def split_beta)
  qed (simp add: created_def)
qed simp

definition setup_acts :: "main_env \<Rightarrow> sa_opts \<Rightarrow> main_action list" where
  "setup_acts w opts =
     (if ipi opts then [Parse_kallsyms] else []) @ [Init_perfetto, Open_skeleton, Load_programs (autoload opts)] @
     (if load_err w \<noteq> 0 then [] else [Attach_programs])"

definition session_acts :: "main_env \<Rightarrow> main_action list" where
  "session_acts w =
     (if threads_up w = event_threads then [Start_perfetto_trace, Wait_for_signal, Stop_perfetto_trace] else [])"

lemma main_acts_eq:
  assumes "skel_opens w"
  shows "fst (main_parsed w opts) =
    setup_acts w opts @ map Create_thread (attempted w) @ session_acts w @
    map Join_thread (threads_up w) @ [Destroy_skeleton]"
proof -
  have ne: "event_threads \<noteq> []" by (simp add: event_threads_def)
  have none: "filter (\<lambda>k. (- 1 :: s32) = 0) event_threads = []" by simp
  obtain acts errs where c: "create_threads w event_threads (\<lambda>k. - 1)
      = (acts, errs, created w event_threads = event_threads)"
    "filter (\<lambda>k. errs k = 0) event_threads = created w event_threads"
    using create_threads_started by blast
  have acts: "acts = map Create_thread (take (Suc (length (created w event_threads))) event_threads)"
    using create_threads_acts [of w event_threads "\<lambda>k. - 1"] c(1) by simp
  show ?thesis
    using assms c(2) ne
    by (simp add: main_parsed_def main_cleanup_eq Let_def split_beta c(1) acts setup_acts_def attempted_def
        session_acts_def threads_up_def)
qed

lemma threads_up_attempted: "set (threads_up w) = {k \<in> set (attempted w). create_err w k = 0}"
proof -
  have "set (takeWhile P ks) = {k \<in> set (take (Suc (length (takeWhile P ks))) ks). P k}" for P and ks :: "event_kind list"
    by (induction ks) auto
  then show ?thesis by (auto simp: threads_up_def attempted_def created_def)
qed

lemma nothing_after: "past @ rest = A @ [x] \<Longrightarrow> x \<in> set past \<Longrightarrow> x \<notin> set A \<Longrightarrow> rest = []"
  by (cases rest rule: rev_cases) auto

section \<open>Where main is\<close>

definition main_inv :: "main_env \<Rightarrow> sa_opts \<Rightarrow> ('sw, 'si, 'lb) process \<Rightarrow> bool" where
  "main_inv w opts s \<longleftrightarrow> (\<exists>past. fst (main_parsed w opts) = past @ todo s \<and>
     started s = {k. Create_thread k \<in> set past \<and> create_err w k = 0} \<and>
     (\<forall>k. Join_thread k \<in> set past \<longrightarrow> thread (pipe s) k = At_end) \<and>
     (Wait_for_signal \<in> set past \<longrightarrow> exiting (pipe s)) \<and>
     (destroyed s \<longleftrightarrow> Destroy_skeleton \<in> set past))"

lemma main_inv_init: "main_inv w opts (process_init w opts st)"
  by (simp add: main_inv_def process_init_def)

lemma perform_started:
  "started (perform w fs opts a s) =
     started s \<union> {k. a = Create_thread k \<and> create_err w k = 0}"
  by (cases "(w, fs, opts, a, s)" rule: perform.cases) (auto simp: split_beta Let_def)

lemma perform_destroyed: "destroyed (perform w fs opts a s) \<longleftrightarrow> destroyed s \<or> a = Destroy_skeleton"
  by (cases "(w, fs, opts, a, s)" rule: perform.cases) (auto simp: split_beta Let_def)

lemma main_inv_step:
  assumes "process_step w fs envs ks opts s s'" "main_inv w opts s"
  shows "main_inv w opts s'"
proof -
  from assms(2) obtain past where past: "fst (main_parsed w opts) = past @ todo s"
    "started s = {k. Create_thread k \<in> set past \<and> create_err w k = 0}"
    "\<forall>k. Join_thread k \<in> set past \<longrightarrow> thread (pipe s) k = At_end"
    "Wait_for_signal \<in> set past \<longrightarrow> exiting (pipe s)" "destroyed s \<longleftrightarrow> Destroy_skeleton \<in> set past"
    unfolding main_inv_def by blast
  from assms(1) show ?thesis
  proof (cases rule: process_step.cases)
    case (main_acts a as)
    then show ?thesis using past unfolding main_inv_def
      by (intro exI [of _ "past @ [a]"])
        (auto simp: perform_started perform_destroyed)
  next
    case (others_act q)
    then show ?thesis using past ended_step [of envs ks opts "pipe s" q] exiting_stays [of envs ks opts "pipe s" q]
      unfolding main_inv_def by (intro exI [of _ past]) auto
  qed
qed

lemma main_inv_reachable:
  "(process_step w fs envs ks opts)\<^sup>*\<^sup>* (process_init w opts st) s \<Longrightarrow> main_inv w opts s"
  by (induction rule: rtranclp_induct) (auto intro: main_inv_init main_inv_step)

text \<open>What the position of \<open>main\<close> says about the threads.\<close>

lemma main_inv_threads:
  assumes "main_inv w opts s" "skel_opens w"
  shows "started s \<subseteq> set (threads_up w)"
    and "Join_thread k \<in> set (todo s) \<Longrightarrow> Create_thread k \<notin> set (todo s) \<Longrightarrow> k \<in> started s"
    and "k \<in> started s \<Longrightarrow> thread (pipe s) k \<noteq> At_end \<Longrightarrow> Join_thread k \<in> set (todo s)"
    and "destroyed s \<Longrightarrow> todo s = []"
proof -
  from assms(1) obtain past where past: "fst (main_parsed w opts) = past @ todo s"
    "started s = {k. Create_thread k \<in> set past \<and> create_err w k = 0}"
    "\<forall>k. Join_thread k \<in> set past \<longrightarrow> thread (pipe s) k = At_end"
    "destroyed s \<longleftrightarrow> Destroy_skeleton \<in> set past"
    unfolding main_inv_def by blast
  have acts: "set past \<union> set (todo s) = set (setup_acts w opts) \<union> Create_thread ` set (attempted w) \<union>
      set (session_acts w) \<union> Join_thread ` set (threads_up w) \<union> {Destroy_skeleton}"
    using arg_cong [OF past(1), of set] main_acts_eq [OF assms(2), of opts] by auto
  have kinds: "Create_thread k \<notin> set (setup_acts w opts)" "Create_thread k \<notin> set (session_acts w)"
    "Join_thread k \<notin> set (setup_acts w opts)" "Join_thread k \<notin> set (session_acts w)"
    "Destroy_skeleton \<notin> set (setup_acts w opts)" "Destroy_skeleton \<notin> set (session_acts w)" for k
    by (auto simp: setup_acts_def session_acts_def)
  show up: "started s \<subseteq> set (threads_up w)"
  proof
    fix k
    assume "k \<in> started s"
    then have "Create_thread k \<in> set past" "create_err w k = 0" using past(2) by auto
    then show "k \<in> set (threads_up w)" using acts kinds(1,2) [of k] by (auto simp: threads_up_attempted)
  qed
  show "k \<in> started s" if j: "Join_thread k \<in> set (todo s)" "Create_thread k \<notin> set (todo s)"
  proof -
    have "k \<in> set (threads_up w)" using j(1) acts kinds(3,4) [of k] by auto
    then have "create_err w k = 0" "Create_thread k \<in> set past \<union> set (todo s)"
      unfolding acts by (auto simp: threads_up_attempted)
    then show ?thesis using j(2) past(2) by blast
  qed
  show "Join_thread k \<in> set (todo s)" if k: "k \<in> started s" "thread (pipe s) k \<noteq> At_end"
  proof -
    have "Join_thread k \<in> set past \<union> set (todo s)" using k(1) up unfolding acts by auto
    then show ?thesis using k(2) past(3) by blast
  qed
  show "todo s = []" if "destroyed s"
  proof -
    let ?A = "setup_acts w opts @ map Create_thread (attempted w) @ session_acts w @ map Join_thread (threads_up w)"
    have "past @ todo s = ?A @ [Destroy_skeleton]" using past(1) main_acts_eq [OF assms(2), of opts] by simp
    moreover have "Destroy_skeleton \<in> set past" using that past(4) by blast
    moreover have "Destroy_skeleton \<notin> set ?A" using kinds by auto
    ultimately show ?thesis by (rule nothing_after)
  qed
qed

section \<open>The trace file\<close>

text \<open>What one step of the running program traces, thread by thread.\<close>

lemma step_traces:
  assumes "pipeline_step envs ks opts p q" "fifo ks opts p"
  shows "\<exists>new. traced q = traced p @ new \<and> (\<forall>k. consumed p k \<le> consumed q k \<and>
     take (consumed p k) (ring_of k (bpf q)) = take (consumed p k) (ring_of k (bpf p)) \<and>
     output_of k new =
       concat (map (handle_event ks opts) (drop (consumed p k) (take (consumed q k) (ring_of k (bpf q))))))"
  using assms
proof (induction rule: pipeline_step.induct)
  case (run_program env a s)
  then show ?case by (intro exI [of _ "[]"]) (simp add: fifo_def ring_take_stable output_of_def)
next
  case (consume s k)
  then show ?case
    by (intro exI [of _ "map (Pair k) (handle_event ks opts (ring_of k (bpf s) ! consumed s k))"])
      (auto simp: take_Suc_conv_app_nth fifo_def)
qed (intro exI [of _ "[]"]; simp add: output_of_def)+

lemma drop_take_append:
  assumes "a \<le> b" "b \<le> c"
  shows "drop a (take b xs) @ drop b (take c xs) = drop a (take c xs)"
proof -
  have "drop a (take b ys) @ drop b ys = drop a ys" for ys :: "'a list"
    using assms(1) drop_append [of a "take b ys" "drop b ys"]
    by (cases "b \<le> length ys") simp_all
  from this [of "take c xs"] show ?thesis using assms(2) by (simp add: min_absorb1)
qed

definition window :: "kallsyms \<Rightarrow> sa_opts \<Rightarrow> (event_kind \<Rightarrow> nat) \<Rightarrow> (event_kind \<Rightarrow> nat) \<Rightarrow>
    ('sw, 'si, 'lb) process \<Rightarrow> bool" where
  "window ks opts a b s \<longleftrightarrow> (\<forall>k. a k \<le> b k \<and> b k \<le> consumed (pipe s) k \<and>
     (recording s \<longrightarrow> b k = consumed (pipe s) k) \<and>
     output_of k (trace_file s) =
       concat (map (handle_event ks opts) (drop (a k) (take (b k) (ring_of k (bpf (pipe s)))))))"

definition file_inv :: "kallsyms \<Rightarrow> sa_opts \<Rightarrow> ('sw, 'si, 'lb) process \<Rightarrow> bool" where
  "file_inv ks opts s \<longleftrightarrow> count_list (todo s) Start_perfetto_trace \<le> 1 \<and>
     (Start_perfetto_trace \<in> set (todo s) \<longrightarrow> trace_file s = [] \<and> \<not> recording s) \<and>
     (\<exists>pre post. traced (pipe s) = pre @ trace_file s @ post \<and> (recording s \<longrightarrow> post = [])) \<and>
     (\<exists>a b. window ks opts a b s)"

lemma window_grows:
  assumes "window ks opts a b s" "pipeline_step envs ks opts (pipe s) q" "fifo ks opts (pipe s)"
  shows "window ks opts a (if recording s then consumed q else b)
    (s\<lparr>pipe := q, trace_file := trace_file s @ (if recording s then new_calls (pipe s) q else [])\<rparr>)"
  unfolding window_def
proof
  fix k
  obtain new where new: "traced q = traced (pipe s) @ new" "consumed (pipe s) k \<le> consumed q k"
    "take (consumed (pipe s) k) (ring_of k (bpf q)) = take (consumed (pipe s) k) (ring_of k (bpf (pipe s)))"
    "output_of k new = concat (map (handle_event ks opts)
       (drop (consumed (pipe s) k) (take (consumed q k) (ring_of k (bpf q)))))"
    using step_traces [OF assms(2,3)] by blast
  have calls: "new_calls (pipe s) q = new" using new(1) by (simp add: new_calls_def)
  note w = assms(1) [unfolded window_def, rule_format, of k]
  have ring: "take (b k) (ring_of k (bpf q)) = take (b k) (ring_of k (bpf (pipe s)))"
    using w arg_cong [OF new(3), of "take (b k)"] by (simp add: min_absorb1)
  let ?s = "s\<lparr>pipe := q, trace_file := trace_file s @ (if recording s then new_calls (pipe s) q else [])\<rparr>"
  let ?b = "if recording s then consumed q else b"
  show "a k \<le> ?b k \<and> ?b k \<le> consumed (pipe ?s) k \<and> (recording ?s \<longrightarrow> ?b k = consumed (pipe ?s) k) \<and>
    output_of k (trace_file ?s) =
      concat (map (handle_event ks opts) (drop (a k) (take (?b k) (ring_of k (bpf (pipe ?s))))))"
  proof (cases "recording s")
    case True
    have "concat (map (handle_event ks opts) (drop (a k) (take (b k) (ring_of k (bpf q))))) @
        concat (map (handle_event ks opts) (drop (b k) (take (consumed q k) (ring_of k (bpf q))))) =
      concat (map (handle_event ks opts) (drop (a k) (take (consumed q k) (ring_of k (bpf q)))))"
      using w new(2) True by (simp flip: concat_append map_append add: drop_take_append)
    then show ?thesis using True w new(2,4) calls ring by simp
  next
    case False
    then show ?thesis using w new(2) ring by (auto intro: le_trans)
  qed
qed

lemma file_inv_step:
  assumes "process_step w fs envs ks opts s s'" "file_inv ks opts s" "fifo ks opts (pipe s)"
  shows "file_inv ks opts s'"
  using assms(1)
proof (cases rule: process_step.cases)
  case (main_acts a as)
  note inv = assms(2) [unfolded file_inv_def]
  have keeps: "pipe s' = pipe s" "trace_file s' = trace_file s" "todo s' = as"
    using main_acts(1) by simp_all
  show ?thesis
  proof (cases "a = Start_perfetto_trace")
    case True
    then have start: "trace_file s = []" "Start_perfetto_trace \<notin> set as"
      using inv main_acts(2) by (auto simp: count_list_0_iff)
    then have "window ks opts (consumed (pipe s)) (consumed (pipe s)) s'"
      by (simp add: keeps window_def output_of_def)
    moreover have "\<exists>pre post. traced (pipe s) = pre @ [] @ post \<and> (recording s' \<longrightarrow> post = [])"
      by (rule exI [of _ "traced (pipe s)"]) simp
    ultimately show ?thesis using start by (auto simp: file_inv_def keeps)
  next
    case False
    have rec: "recording s' \<Longrightarrow> recording s"
      using main_acts(1) False
      by (cases "(w, fs, opts, a, s\<lparr>todo := as\<rparr>)" rule: perform.cases) (auto split: if_splits)
    from inv obtain b c where "window ks opts b c s" by blast
    then have "window ks opts b c s'" using keeps rec by (auto simp: window_def)
    then show ?thesis using inv keeps rec main_acts(2) False by (auto simp: file_inv_def)
  qed
next
  case (others_act q)
  note inv = assms(2) [unfolded file_inv_def]
  from inv obtain a b where "window ks opts a b s" by blast
  from window_grows [OF this others_act(3) assms(3)] have w: "\<exists>a b. window ks opts a b s'"
    using others_act(1) by blast
  obtain new where new: "traced q = traced (pipe s) @ new"
    using step_traces [OF others_act(3) assms(3)] by blast
  then have calls: "new_calls (pipe s) q = new" by (simp add: new_calls_def)
  from inv obtain pre post where cut: "traced (pipe s) = pre @ trace_file s @ post" "recording s \<longrightarrow> post = []"
    by blast
  let ?post = "if recording s then [] else post @ new"
  have "traced (pipe s') = pre @ trace_file s' @ ?post \<and> (recording s' \<longrightarrow> ?post = [])"
    using others_act(1) cut new calls by simp
  then have "\<exists>pre post. traced (pipe s') = pre @ trace_file s' @ post \<and> (recording s' \<longrightarrow> post = [])" by blast
  then show ?thesis using inv w others_act(1) by (simp add: file_inv_def)
qed

lemma main_acts_closed:
  "\<not> skel_opens w \<Longrightarrow> fst (main_parsed w opts) = (if ipi opts then [Parse_kallsyms] else []) @ [Init_perfetto, Open_skeleton]"
  by (simp add: main_parsed_def)

lemma main_starts_once: "count_list (fst (main_parsed w opts)) Start_perfetto_trace \<le> 1"
proof (cases "skel_opens w")
  case True
  have none: "Start_perfetto_trace \<notin> set (setup_acts w opts)"
    "count_list (session_acts w) Start_perfetto_trace \<le> 1"
    "count_list (map Create_thread js) Start_perfetto_trace = 0"
    "count_list (map Join_thread js) Start_perfetto_trace = 0" for js
    by (auto simp: setup_acts_def session_acts_def count_list_0_iff)
  then have "count_list (setup_acts w opts) Start_perfetto_trace = 0" by (simp add: count_list_0_iff)
  then show ?thesis using none by (simp add: main_acts_eq [OF True])
qed (simp add: main_acts_closed)

lemma file_inv_reachable:
  assumes "(process_step w fs envs ks opts)\<^sup>*\<^sup>* (process_init w opts st) s" "rings_empty st"
  shows "file_inv ks opts s \<and> fifo ks opts (pipe s)"
proof
  show "fifo ks opts (pipe s)" using process_pipeline [OF assms(1)] assms(2) by (rule fifo_reachable)
  show "file_inv ks opts s" using assms(1)
  proof (induction rule: rtranclp_induct)
    case base
    show ?case
      using main_starts_once [of w opts]
      by (auto simp: file_inv_def process_init_def pipeline_init_def window_def output_of_def
          intro!: exI [of _ "\<lambda>k. 0"])
  next
    case (step y z)
    from fifo_reachable [OF process_pipeline [OF step.hyps(1)] assms(2)] step
    show ?case by (blast intro: file_inv_step)
  qed
qed

lemma file_inv_windows:
  assumes "file_inv ks opts s" "fifo ks opts (pipe s)"
  shows "\<forall>k. \<exists>a b. a \<le> b \<and> b \<le> length (ring_of k (bpf (pipe s))) \<and>
    output_of k (trace_file s) =
      concat (map (handle_event ks opts) (drop a (take b (ring_of k (bpf (pipe s))))))"
proof -
  from assms(1) obtain a b where w: "window ks opts a b s" by (auto simp: file_inv_def)
  have "a k \<le> b k \<and> b k \<le> length (ring_of k (bpf (pipe s))) \<and>
       output_of k (trace_file s) =
         concat (map (handle_event ks opts) (drop (a k) (take (b k) (ring_of k (bpf (pipe s))))))" for k
    using w assms(2) by (auto simp: window_def fifo_def intro: le_trans)
  then show ?thesis by blast
qed

section \<open>While the session is on\<close>

text \<open>
  \<open>main\<close> starts the session at most once, and stops it after that and once, or does neither. So the
  actions it has left say whether the session is on: it is between the two, if the file could be
  created.
\<close>

lemma traced_grows_step: "pipeline_step envs ks opts p q \<Longrightarrow> \<exists>new. traced q = traced p @ new"
  by (induction rule: pipeline_step.induct) auto

lemma traced_grows:
  assumes "(pipeline_step envs ks opts)\<^sup>*\<^sup>* p q"
  shows "\<exists>new. traced q = traced p @ new"
  using assms by (induction rule: rtranclp_induct) (auto dest: traced_grows_step)

lemma new_calls_same [simp]: "traced q = traced p \<Longrightarrow> new_calls p q = []"
  by (simp add: new_calls_def)

lemma new_calls_trans:
  assumes "(pipeline_step envs ks opts)\<^sup>*\<^sup>* p q" "(pipeline_step envs ks opts)\<^sup>*\<^sup>* q r"
  shows "new_calls p q @ new_calls q r = new_calls p r"
proof -
  obtain xs where "traced q = traced p @ xs" using traced_grows [OF assms(1)] by blast
  moreover obtain ys where "traced r = traced q @ ys" using traced_grows [OF assms(2)] by blast
  ultimately show ?thesis by (simp add: new_calls_def)
qed

lemma session_order:
  "sorted_wrt (\<lambda>a b. (a = Start_perfetto_trace \<longrightarrow> b \<noteq> Start_perfetto_trace) \<and>
     (a = Stop_perfetto_trace \<longrightarrow> b \<noteq> Start_perfetto_trace \<and> b \<noteq> Stop_perfetto_trace)) (fst (main_parsed w opts))"
proof (cases "skel_opens w")
  case True
  then show ?thesis
    by (auto simp: main_acts_eq sorted_wrt_append sorted_wrt_map sorted_wrt_true setup_acts_def session_acts_def)
qed (simp add: main_acts_closed)

lemma started_iff_stopped:
  "Start_perfetto_trace \<in> set (fst (main_parsed w opts)) \<longleftrightarrow> Stop_perfetto_trace \<in> set (fst (main_parsed w opts))"
  by (cases "skel_opens w") (auto simp: main_acts_eq main_acts_closed setup_acts_def session_acts_def)

text \<open>Where \<open>main\<close> is between the two, from the list of its actions.\<close>

lemma session_acts_left:
  assumes "main_inv w opts s" "todo s = a # as"
  shows "a = Start_perfetto_trace \<Longrightarrow> Start_perfetto_trace \<notin> set as \<and> Stop_perfetto_trace \<in> set as"
    and "a = Stop_perfetto_trace \<Longrightarrow> Start_perfetto_trace \<notin> set as \<and> Stop_perfetto_trace \<notin> set as"
proof -
  obtain past where past: "fst (main_parsed w opts) = past @ a # as"
    using assms unfolding main_inv_def by auto
  note sorted = session_order [of w opts, unfolded past]
  show "Start_perfetto_trace \<notin> set as \<and> Stop_perfetto_trace \<in> set as" if "a = Start_perfetto_trace"
    using sorted started_iff_stopped [of w opts] unfolding past that by (auto simp: sorted_wrt_append)
  show "Start_perfetto_trace \<notin> set as \<and> Stop_perfetto_trace \<notin> set as" if "a = Stop_perfetto_trace"
    using sorted unfolding that by (auto simp: sorted_wrt_append)
qed

text \<open>The session \<open>main\<close> starts, and whether its file could be created.\<close>

definition session_started :: "file_system \<Rightarrow> sa_opts \<Rightarrow> session" where
  "session_started fs opts = snd (snd (start_perfetto_trace (fs_dir fs) (fs_open fs) opts session_init))"

lemma session_blocks:
  "StartBlocking \<in> set (fst (start_perfetto_trace (fs_dir fs) (fs_open fs) opts session_init)) \<longleftrightarrow>
     0 \<le> fd (session_started fs opts)"
  "StopBlocking \<in> set (stop_perfetto_trace ss) \<longleftrightarrow> 0 \<le> fd ss"
  by (simp_all add: session_started_def start_perfetto_trace_def stop_perfetto_trace_def Let_def)

lemma session_started_fd:
  "fd (session_started fs opts) =
    (let dir = (case output_path opts of Some p \<Rightarrow> p
       | None \<Rightarrow> if fs_dir fs android_traces_path then android_traces_path else ''.'')
     in fs_open fs (take 255 (dir @ ''/'' @ output_name opts)))"
  by (cases "output_path opts")
    (simp_all add: session_started_def start_perfetto_trace_def Let_def snprintf_def)

definition sess_inv :: "file_system \<Rightarrow> sa_opts \<Rightarrow> ('sw, 'si, 'lb) process \<Rightarrow> bool" where
  "sess_inv fs opts s \<longleftrightarrow>
     (recording s \<longleftrightarrow> 0 \<le> fd (session_started fs opts) \<and>
        Start_perfetto_trace \<notin> set (todo s) \<and> Stop_perfetto_trace \<in> set (todo s)) \<and>
     (Start_perfetto_trace \<in> set (todo s) \<longrightarrow> sess s = session_init) \<and>
     (Start_perfetto_trace \<notin> set (todo s) \<and> Stop_perfetto_trace \<in> set (todo s) \<longrightarrow> sess s = session_started fs opts)"

lemma perform_session_frame:
  "a \<noteq> Start_perfetto_trace \<Longrightarrow> a \<noteq> Stop_perfetto_trace \<Longrightarrow>
     sess (perform w fs opts a s) = sess s \<and> recording (perform w fs opts a s) = recording s"
  by (cases "(w, fs, opts, a, s)" rule: perform.cases) simp_all

lemma perform_start:
  assumes "sess s = session_init"
  shows "recording (perform w fs opts Start_perfetto_trace s) \<longleftrightarrow> recording s \<or> 0 \<le> fd (session_started fs opts)"
    "sess (perform w fs opts Start_perfetto_trace s) = session_started fs opts"
  using session_blocks(1) [of fs opts]
  by (simp_all add: assms session_started_def split_beta Let_def)

lemma sess_inv_step:
  assumes "process_step w fs envs ks opts s s'" "main_inv w opts s" "sess_inv fs opts s"
  shows "sess_inv fs opts s'"
  using assms(1)
proof (cases rule: process_step.cases)
  case (main_acts a as)
  note left = session_acts_left [OF assms(2) main_acts(2)]
  note inv = assms(3) [unfolded sess_inv_def main_acts(2)]
  consider "a = Start_perfetto_trace" | "a = Stop_perfetto_trace"
    | "a \<noteq> Start_perfetto_trace" "a \<noteq> Stop_perfetto_trace" by blast
  then show ?thesis
  proof cases
    case 1
    then show ?thesis using inv left(1) main_acts(1)
      by (simp add: sess_inv_def perform_start del: perform.simps)
  next
    case 2
    then show ?thesis using inv left(2) main_acts(1)
      by (auto simp: sess_inv_def session_blocks(2))
  next
    case 3
    then show ?thesis using inv main_acts(1) perform_session_frame [OF 3, of w fs opts "s\<lparr>todo := as\<rparr>"]
      by (simp add: sess_inv_def)
  qed
qed (use assms(3) in \<open>simp add: sess_inv_def\<close>)

lemma sess_inv_reachable:
  "(process_step w fs envs ks opts)\<^sup>*\<^sup>* (process_init w opts st) s \<Longrightarrow> sess_inv fs opts s"
proof (induction rule: rtranclp_induct)
  case base
  show ?case using started_iff_stopped [of w opts] by (auto simp: sess_inv_def process_init_def)
next
  case (step y z)
  from sess_inv_step [OF step.hyps(2) main_inv_reachable [OF step.hyps(1)] step.IH] show ?case .
qed

text \<open>One step adds what is traced to the file exactly when the session is on.\<close>

lemma file_step:
  assumes "process_step w fs envs ks opts s s'"
  shows "trace_file s' = trace_file s @ (if recording s then new_calls (pipe s) (pipe s') else [])"
    and "set (todo s') \<subseteq> set (todo s)"
  using assms by (cases rule: process_step.cases; auto)+

lemma todo_shrinks: "(process_step w fs envs ks opts)\<^sup>*\<^sup>* s s' \<Longrightarrow> set (todo s') \<subseteq> set (todo s)"
  by (induction rule: rtranclp_induct) (use file_step(2) in blast)+

lemma file_while_on:
  assumes "(process_step w fs envs ks opts)\<^sup>*\<^sup>* (process_init w opts st) s" "(process_step w fs envs ks opts)\<^sup>*\<^sup>* s s'"
    and "Start_perfetto_trace \<notin> set (todo s)" "Stop_perfetto_trace \<in> set (todo s')"
  shows "trace_file s' = trace_file s @
    (if 0 \<le> fd (session_started fs opts) then new_calls (pipe s) (pipe s') else [])"
  using assms(2,4)
proof (induction rule: rtranclp_induct)
  case (step y z)
  have left: "Stop_perfetto_trace \<in> set (todo y)" "Start_perfetto_trace \<notin> set (todo y)"
    using step.prems file_step(2) [OF step.hyps(2)] todo_shrinks [OF step.hyps(1)] assms(3) by blast+
  have "sess_inv fs opts y" using assms(1) step.hyps(1) by (meson sess_inv_reachable rtranclp_trans)
  then have "recording y \<longleftrightarrow> 0 \<le> fd (session_started fs opts)" using left by (simp add: sess_inv_def)
  moreover have "new_calls (pipe s) (pipe y) @ new_calls (pipe y) (pipe z) = new_calls (pipe s) (pipe z)"
    using process.reach_view [OF step.hyps(1)] process.sim [OF step.hyps(2)] by (rule new_calls_trans)
  ultimately show ?case using step.IH left(1) file_step(1) [OF step.hyps(2)] by auto
qed simp

lemma file_when_off:
  assumes "(process_step w fs envs ks opts)\<^sup>*\<^sup>* (process_init w opts st) s" "(process_step w fs envs ks opts)\<^sup>*\<^sup>* s s'"
    and "Stop_perfetto_trace \<notin> set (todo s)"
  shows "trace_file s' = trace_file s"
  using assms(2)
proof (induction rule: rtranclp_induct)
  case (step y z)
  have "Stop_perfetto_trace \<notin> set (todo y)" using todo_shrinks [OF step.hyps(1)] assms(3) by blast
  moreover have "sess_inv fs opts y" using assms(1) step.hyps(1) by (meson sess_inv_reachable rtranclp_trans)
  ultimately have "\<not> recording y" by (simp add: sess_inv_def)
  then show ?case using step.IH file_step(1) [OF step.hyps(2)] by simp
qed simp

section \<open>Running to the end\<close>

text \<open>After a signal each thread has a way out of its loop, and \<open>main\<close> a way to its end.\<close>

lemma thread_moves:
  assumes "pipeline_step envs ks opts (pipe s) ((pipe s)\<lparr>thread := (thread (pipe s))(k := pc)\<rparr>)"
    and "k \<in> started s" "todo s \<noteq> []"
  shows "process_step w fs envs ks opts s (s\<lparr>pipe := (pipe s)\<lparr>thread := (thread (pipe s))(k := pc)\<rparr>\<rparr>)"
proof -
  let ?q = "(pipe s)\<lparr>thread := (thread (pipe s))(k := pc)\<rparr>"
  have "admits s ?q" using assms(2) by (auto simp: admits_def)
  note step = others_act [OF assms(3,1) this, of w fs]
  have "new_calls (pipe s) ?q = []" by (simp add: new_calls_def)
  then have "s\<lparr>pipe := ?q, trace_file := trace_file s @ (if recording s then new_calls (pipe s) ?q else [])\<rparr>
      = s\<lparr>pipe := ?q\<rparr>" by (cases s) simp
  with step show ?thesis by (simp only:)
qed

definition end_thread :: "event_kind \<Rightarrow> ('sw, 'si, 'lb) process \<Rightarrow> ('sw, 'si, 'lb) process" where
  "end_thread k s = s\<lparr>pipe := (pipe s)\<lparr>thread := (thread (pipe s))(k := At_end)\<rparr>\<rparr>"

lemma thread_can_end:
  assumes "k \<in> started s" "exiting (pipe s)" "todo s \<noteq> []"
  shows "(process_step w fs envs ks opts)\<^sup>*\<^sup>* s (end_thread k s)"
proof -
  let ?S = "process_step w fs envs ks opts"
  have leave: "?S t (end_thread k t)"
    if "thread (pipe t) k = At_test" "k \<in> started t" "exiting (pipe t)" "todo t \<noteq> []" for t :: "('a, 'b, 'c) process"
    unfolding end_thread_def using that by (intro thread_moves leave_loop)
  let ?t = "s\<lparr>pipe := (pipe s)\<lparr>thread := (thread (pipe s))(k := At_test)\<rparr>\<rparr>"
  have via: "?S\<^sup>*\<^sup>* s (end_thread k s)" if "?S s ?t"
  proof -
    have "?S ?t (end_thread k ?t)" using assms by (intro leave) simp_all
    moreover have "end_thread k ?t = end_thread k s" by (simp add: end_thread_def)
    ultimately show ?thesis using that by (metis converse_rtranclp_into_rtranclp r_into_rtranclp)
  qed
  show ?thesis
  proof (cases "thread (pipe s) k")
    case At_create
    then show ?thesis using assms by (intro via thread_moves rb_created)
  next
    case At_test
    then show ?thesis using leave assms by blast
  next
    case In_poll
    then show ?thesis using assms by (intro via thread_moves poll_returns)
  next
    case At_end
    then have "end_thread k s = s" by (simp add: end_thread_def fun_upd_idem)
    then show ?thesis by simp
  qed
qed

lemma main_joins_last:
  "sorted_wrt (\<lambda>a b. \<forall>k j. a = Join_thread k \<longrightarrow> b \<noteq> Create_thread j) (fst (main_parsed w opts))"
proof (cases "skel_opens w")
  case True
  then show ?thesis
    by (auto simp: main_acts_eq sorted_wrt_append sorted_wrt_map sorted_wrt_true setup_acts_def session_acts_def)
qed (simp add: main_acts_closed)

lemma join_ready:
  assumes "main_inv w opts s" "todo s = Join_thread k # as"
  shows "k \<in> started s"
proof -
  from assms obtain past where past: "fst (main_parsed w opts) = past @ Join_thread k # as"
    unfolding main_inv_def by auto
  have "skel_opens w"
    using past main_acts_closed [of w opts] by (cases "skel_opens w") (auto simp: append_eq_Cons_conv append_eq_append_conv2 Cons_eq_append_conv split: if_splits)
  moreover have "Create_thread k \<notin> set (todo s)"
    using main_joins_last [of w opts] unfolding past assms(2) by (auto simp: sorted_wrt_append)
  ultimately show ?thesis using main_inv_threads(2) [OF assms(1)] assms(2) by simp
qed

lemma finishes:
  assumes "main_inv w opts s" "exiting (pipe s)"
  shows "\<exists>s'. (process_step w fs envs ks opts)\<^sup>*\<^sup>* s s' \<and> todo s' = [] \<and> bpf (pipe s') = bpf (pipe s)"
  using assms
proof (induction "todo s" arbitrary: s)
  case Nil
  then show ?case by (intro exI [of _ s]) simp
next
  case (Cons a as)
  have "\<exists>t. (process_step w fs envs ks opts)\<^sup>*\<^sup>* s t \<and> todo t = todo s \<and> exiting (pipe t) \<and> may_act a t \<and>
      bpf (pipe t) = bpf (pipe s)"
  proof (cases "\<exists>k. a = Join_thread k")
    case True
    then obtain k where k: "a = Join_thread k" ..
    have "k \<in> started s" using join_ready [OF Cons.prems(1)] Cons.hyps(2) k by metis
    moreover have "todo s \<noteq> []" using Cons.hyps(2) by (metis list.discI)
    ultimately have "(process_step w fs envs ks opts)\<^sup>*\<^sup>* s (end_thread k s)"
      using Cons.prems(2) by (intro thread_can_end)
    then show ?thesis by (intro exI [of _ "end_thread k s"]) (simp add: k end_thread_def Cons.prems(2))
  next
    case False
    then show ?thesis using Cons.prems(2) by (intro exI [of _ s]) (cases a; simp)
  qed
  then obtain t where t: "(process_step w fs envs ks opts)\<^sup>*\<^sup>* s t" "todo t = a # as" "exiting (pipe t)"
    "may_act a t" "bpf (pipe t) = bpf (pipe s)" using Cons.hyps(2) by metis
  let ?u = "perform w fs opts a (t\<lparr>todo := as\<rparr>)"
  have step: "process_step w fs envs ks opts t ?u" using t(2,4) by (rule main_acts)
  have "main_inv w opts t"
    using t(1) Cons.prems(1) by (induction rule: rtranclp_induct) (auto intro: main_inv_step)
  then have "main_inv w opts ?u" using main_inv_step [OF step] by blast
  then obtain s' where "(process_step w fs envs ks opts)\<^sup>*\<^sup>* ?u s'" "todo s' = []" "bpf (pipe s') = bpf (pipe ?u)"
    using Cons.hyps(1) [of ?u] t(3) by auto
  then show ?case using t(1,5) step by (intro exI [of _ s']) auto
qed

text \<open>Without a signal a thread in its loop stays there.\<close>

lemma looping_step:
  "pipeline_step envs ks opts p q \<Longrightarrow> thread p k \<in> {At_test, In_poll} \<Longrightarrow> \<not> exiting q \<Longrightarrow>
     thread q k \<in> {At_test, In_poll}"
  by (induction rule: pipeline_step.induct) auto

lemma looping_stays:
  assumes "(pipeline_step envs ks opts)\<^sup>*\<^sup>* p q" "thread p k \<in> {At_test, In_poll}" "\<not> exiting q"
  shows "thread q k \<in> {At_test, In_poll}"
  using assms
proof (induction rule: rtranclp_induct)
  case (step y z)
  then have "\<not> exiting y" using exiting_stays by blast
  with step looping_step show ?case by blast
qed

lemma started_grows:
  assumes "(process_step w fs envs ks opts)\<^sup>*\<^sup>* s s'"
  shows "started s \<subseteq> started s'"
  using assms
proof (induction rule: rtranclp_induct)
  case (step y z)
  from step.hyps(2) have "started y \<subseteq> started z"
    by (cases rule: process_step.cases) (auto simp: perform_started)
  with step.IH show ?case by blast
qed simp

lemma running_thread_joined:
  assumes "main_inv w opts s" "k \<in> started s" "thread (pipe s) k \<noteq> At_end"
  shows "\<not> destroyed s \<and> Join_thread k \<in> set (todo s)"
proof (cases "skel_opens w")
  case True
  from main_inv_threads(3,4) [OF assms(1) True] assms(2,3) show ?thesis by force
next
  case False
  then have "Create_thread k \<notin> set (fst (main_parsed w opts))" by (simp add: main_acts_closed)
  then show ?thesis using assms(1,2) unfolding main_inv_def by auto
qed

text \<open>
  Conversely, while all threads exist and the programs are attached, the process can do whatever the
  pipeline can, and what it traces goes to the file when the session is on.
\<close>

lemma free_runs:
  assumes "(pipeline_step envs ks opts)\<^sup>*\<^sup>* (pipe s) q"
    and "started s = UNIV" "attached s" "todo s \<noteq> []"
  shows "(process_step w fs envs ks opts)\<^sup>*\<^sup>* s
    (s\<lparr>pipe := q, trace_file := trace_file s @ (if recording s then new_calls (pipe s) q else [])\<rparr>)"
  using assms(1)
proof (induction rule: rtranclp_induct)
  case base
  have "s\<lparr>pipe := pipe s, trace_file := trace_file s @ (if recording s then new_calls (pipe s) (pipe s) else [])\<rparr> = s"
    by (cases s) simp
  then show ?case by (simp only: rtranclp.rtrancl_refl)
next
  case (step q r)
  let ?file = "\<lambda>q. trace_file s @ (if recording s then new_calls (pipe s) q else [])"
  let ?s = "s\<lparr>pipe := q, trace_file := ?file q\<rparr>"
  have "(pipeline_step envs ks opts)\<^sup>*\<^sup>* q r" using step.hyps(2) by simp
  from new_calls_trans [OF step.hyps(1) this]
  have kept: "?file q @ (if recording s then new_calls q r else []) = ?file r" by simp
  have "process_step w fs envs ks opts ?s
      (?s\<lparr>pipe := r, trace_file := trace_file ?s @ (if recording ?s then new_calls (pipe ?s) r else [])\<rparr>)"
    using step.hyps(2) assms(2,3,4) by (intro others_act) (simp_all add: admits_def)
  then have "process_step w fs envs ks opts ?s (s\<lparr>pipe := r, trace_file := ?file r\<rparr>)"
    using kept by (cases "recording s") simp_all
  with step.IH show ?case by (rule rtranclp.rtrancl_into_rtrancl)
qed

section \<open>Sample runs\<close>

text \<open>\<open>main\<close> runs on its own through actions that do not block.\<close>

definition advance :: "main_env \<Rightarrow> file_system \<Rightarrow> sa_opts \<Rightarrow> nat \<Rightarrow>
    ('sw, 'si, 'lb) process \<Rightarrow> ('sw, 'si, 'lb) process" where
  "advance w fs opts n = ((\<lambda>s. perform w fs opts (hd (todo s)) (s\<lparr>todo := tl (todo s)\<rparr>)) ^^ n)"

lemma advance_reaches:
  assumes "n \<le> length (todo s)" "\<forall>a \<in> set (take n (todo s)). a \<noteq> Wait_for_signal \<and> (\<forall>k. a \<noteq> Join_thread k)"
  shows "(process_step w fs envs ks opts)\<^sup>*\<^sup>* s (advance w fs opts n s)
    \<and> todo (advance w fs opts n s) = drop n (todo s) \<and> pipe (advance w fs opts n s) = pipe s"
  using assms
proof (induction n)
  case (Suc n)
  let ?t = "advance w fs opts n s"
  have t: "(process_step w fs envs ks opts)\<^sup>*\<^sup>* s ?t" "todo ?t = drop n (todo s)" "pipe ?t = pipe s"
    using Suc by (auto dest: in_set_takeD simp: take_Suc_conv_app_nth)
  have d: "drop n (todo s) = todo s ! n # drop (Suc n) (todo s)" using Suc.prems(1) by (simp add: Cons_nth_drop_Suc)
  have "todo s ! n \<in> set (take (Suc n) (todo s))" using Suc.prems(1) by (simp add: take_Suc_conv_app_nth)
  then have "todo s ! n \<noteq> Wait_for_signal \<and> (\<forall>k. todo s ! n \<noteq> Join_thread k)" using Suc.prems(2) by blast
  then have "may_act (todo s ! n) ?t" by (cases "todo s ! n") simp_all
  then have "process_step w fs envs ks opts ?t (perform w fs opts (todo s ! n) (?t\<lparr>todo := drop (Suc n) (todo s)\<rparr>))"
    using t(2) d by (intro main_acts) simp_all
  moreover have "advance w fs opts (Suc n) s = perform w fs opts (todo s ! n) (?t\<lparr>todo := drop (Suc n) (todo s)\<rparr>)"
    using t(2) d by (simp add: advance_def)
  ultimately show ?case using t by (simp add: rtranclp.rtrancl_into_rtrancl)
qed (simp add: advance_def)

lemma perform_todo: "perform w fs opts a (s\<lparr>todo := x\<rparr>) = (perform w fs opts a s)\<lparr>todo := x\<rparr>"
  by (cases "(w, fs, opts, a, s)" rule: perform.cases) (auto simp: split_beta Let_def)

lemma advance_fold:
  "n \<le> length (todo s) \<Longrightarrow>
     advance w fs opts n s = (fold (perform w fs opts) (take n (todo s)) s)\<lparr>todo := drop n (todo s)\<rparr>"
proof (induction n)
  case (Suc n)
  then show ?case
    by (simp add: advance_def take_Suc_conv_app_nth perform_todo hd_drop_conv_nth tl_drop flip: drop_Suc)
qed (simp add: advance_def)

text \<open>
  A run in which the sixth thread cannot be created: the first five exist, \<open>main\<close> is at its first
  join, and the thread it joins has entered its loop.
\<close>

definition sample_fs :: file_system where
  "sample_fs = \<lparr>fs_dir = (\<lambda>p. False), fs_open = (\<lambda>p. 5)\<rparr>"

definition sample_env_fails :: main_env where
  "sample_env_fails = sample_main\<lparr>load_err := 0, create_err := (\<lambda>k. if k = Softirqs then 11 else 0)\<rparr>"

abbreviation sample_process_init :: "(sample_map, sample_times, sample_map) process" where
  "sample_process_init \<equiv> process_init sample_env_fails sample_cpu_idle_opts sample_state"

abbreviation sample_process_step where
  "sample_process_step \<equiv> process_step sample_env_fails sample_fs
     (UNIV :: (sample_map, sample_times, sample_map) run_env set) kallsyms_init sample_cpu_idle_opts"

lemma sample_threads_up:
  "threads_up sample_env_fails = [Rq_pelt, Task_pelt, Rq_nr_running, Sched_switches, Freq_idle]"
  "attempted sample_env_fails = [Rq_pelt, Task_pelt, Rq_nr_running, Sched_switches, Freq_idle, Softirqs]"
  "skel_opens sample_env_fails" "load_err sample_env_fails = 0"
  by (simp_all add: sample_env_fails_def sample_main_def threads_up_def attempted_def created_def event_threads_def)

lemma sample_todo:
  "todo sample_process_init =
    [Init_perfetto, Open_skeleton, Load_programs (autoload sample_cpu_idle_opts), Attach_programs,
     Create_thread Rq_pelt, Create_thread Task_pelt, Create_thread Rq_nr_running, Create_thread Sched_switches,
     Create_thread Freq_idle, Create_thread Softirqs, Join_thread Rq_pelt, Join_thread Task_pelt,
     Join_thread Rq_nr_running, Join_thread Sched_switches, Join_thread Freq_idle, Destroy_skeleton]"
  by (simp add: process_init_def main_acts_eq sample_threads_up setup_acts_def session_acts_def
      event_threads_def sample_cpu_idle_opts_def sa_opts_init_def)

definition sample_at_join :: "(sample_map, sample_times, sample_map) process" where
  "sample_at_join = advance sample_env_fails sample_fs sample_cpu_idle_opts 10 sample_process_init"

lemma sample_at_join:
  "sample_process_step\<^sup>*\<^sup>* sample_process_init sample_at_join"
  "todo sample_at_join = [Join_thread Rq_pelt, Join_thread Task_pelt, Join_thread Rq_nr_running,
     Join_thread Sched_switches, Join_thread Freq_idle, Destroy_skeleton]"
  "pipe sample_at_join = pipeline_init sample_state"
  using advance_reaches [of 10 sample_process_init sample_env_fails sample_fs UNIV kallsyms_init sample_cpu_idle_opts]
  unfolding sample_at_join_def sample_todo by (simp_all add: process_init_def)

lemma sample_at_join_started: "Rq_pelt \<in> started sample_at_join"
  using join_ready [OF main_inv_reachable [OF sample_at_join(1)] sample_at_join(2)] .

definition sample_in_loop :: "(sample_map, sample_times, sample_map) process" where
  "sample_in_loop = sample_at_join\<lparr>pipe := (pipe sample_at_join)
     \<lparr>thread := (thread (pipe sample_at_join))(Rq_pelt := At_test)\<rparr>\<rparr>"

lemma sample_in_loop:
  "sample_process_step\<^sup>*\<^sup>* sample_process_init sample_in_loop" "Rq_pelt \<in> started sample_in_loop"
  "thread (pipe sample_in_loop) Rq_pelt = At_test" "\<not> exiting (pipe sample_in_loop)"
  "todo sample_in_loop = todo sample_at_join"
proof -
  have "sample_process_step sample_at_join sample_in_loop" unfolding sample_in_loop_def
    by (intro thread_moves rb_created) (simp_all add: sample_at_join sample_at_join_started pipeline_init_def)
  with sample_at_join(1) show "sample_process_step\<^sup>*\<^sup>* sample_process_init sample_in_loop" by simp
qed (simp_all add: sample_in_loop_def sample_at_join sample_at_join_started pipeline_init_def)

text \<open>The signal arrives.\<close>

definition sample_signalled :: "(sample_map, sample_times, sample_map) process" where
  "sample_signalled = sample_in_loop\<lparr>pipe := (pipe sample_in_loop)\<lparr>exiting := True\<rparr>\<rparr>"

lemma sample_signalled:
  "sample_process_step\<^sup>*\<^sup>* sample_process_init sample_signalled" "exiting (pipe sample_signalled)"
  "todo sample_signalled = todo sample_at_join"
proof -
  let ?q = "(pipe sample_in_loop)\<lparr>exiting := True\<rparr>"
  have "sample_process_step sample_in_loop (sample_in_loop\<lparr>pipe := ?q, trace_file := trace_file sample_in_loop @
      (if recording sample_in_loop then new_calls (pipe sample_in_loop) ?q else [])\<rparr>)"
    by (rule others_act) (simp_all add: sample_in_loop(5) sample_at_join signal admits_def)
  moreover have "sample_in_loop\<lparr>pipe := ?q, trace_file := trace_file sample_in_loop @
      (if recording sample_in_loop then new_calls (pipe sample_in_loop) ?q else [])\<rparr> = sample_signalled"
    unfolding sample_signalled_def by (cases sample_in_loop) (simp add: new_calls_def)
  ultimately show "sample_process_step\<^sup>*\<^sup>* sample_process_init sample_signalled"
    using sample_in_loop(1) by simp
qed (simp_all add: sample_signalled_def sample_in_loop)

text \<open>
  A run in which everything works: the session is on, an idle record is submitted and traced.
\<close>

definition sample_env_works :: main_env where
  "sample_env_works = sample_main\<lparr>load_err := 0\<rparr>"

abbreviation sample_works_init :: "(sample_map, sample_times, sample_map) process" where
  "sample_works_init \<equiv> process_init sample_env_works sample_cpu_idle_opts sample_state"

abbreviation sample_works_step where
  "sample_works_step \<equiv> process_step sample_env_works sample_fs
     (UNIV :: (sample_map, sample_times, sample_map) run_env set) kallsyms_init sample_cpu_idle_opts"

definition sample_recording :: "(sample_map, sample_times, sample_map) process" where
  "sample_recording = advance sample_env_works sample_fs sample_cpu_idle_opts 13 sample_works_init"

lemma sample_works_todo:
  "todo sample_works_init =
    [Init_perfetto, Open_skeleton, Load_programs (autoload sample_cpu_idle_opts), Attach_programs,
     Create_thread Rq_pelt, Create_thread Task_pelt, Create_thread Rq_nr_running, Create_thread Sched_switches,
     Create_thread Freq_idle, Create_thread Softirqs, Create_thread Lb, Create_thread Ipi,
     Start_perfetto_trace, Wait_for_signal, Stop_perfetto_trace] @ map Join_thread event_threads @ [Destroy_skeleton]"
proof -
  have "skel_opens sample_env_works" "load_err sample_env_works = 0" "threads_up sample_env_works = event_threads"
    "attempted sample_env_works = event_threads"
    by (simp_all add: sample_env_works_def sample_main_def threads_up_def attempted_def created_def event_threads_def)
  then show ?thesis
    by (simp add: process_init_def main_acts_eq setup_acts_def session_acts_def sample_cpu_idle_opts_def
        sa_opts_init_def event_threads_def)
qed

lemma all_kinds: "UNIV = set event_threads"
proof (intro set_eqI iffI UNIV_I)
  fix k show "k \<in> set event_threads" by (cases k) (simp_all add: event_threads_def)
qed

lemma sample_recording:
  "sample_works_step\<^sup>*\<^sup>* sample_works_init sample_recording" "pipe sample_recording = pipeline_init sample_state"
  "todo sample_recording \<noteq> []" "started sample_recording = UNIV" "attached sample_recording"
  "recording sample_recording" "trace_file sample_recording = []"
proof -
  have "\<forall>a \<in> set (take 13 (todo sample_works_init)). a \<noteq> Wait_for_signal \<and> (\<forall>k. a \<noteq> Join_thread k)"
    unfolding sample_works_todo by simp
  from advance_reaches [OF _ this, of sample_env_works sample_fs UNIV kallsyms_init sample_cpu_idle_opts]
  show "sample_works_step\<^sup>*\<^sup>* sample_works_init sample_recording" "pipe sample_recording = pipeline_init sample_state"
    "todo sample_recording \<noteq> []"
    unfolding sample_recording_def sample_works_todo by (simp_all add: process_init_def event_threads_def)
  have start: "\<exists>ops opts'. start_perfetto_trace (\<lambda>p. False) (\<lambda>p. 5) sample_cpu_idle_opts session_init =
      (ops, opts', \<lparr>fd = 5, tracing_session = True\<rparr>) \<and> StartBlocking \<in> set ops"
    by (simp add: start_perfetto_trace_def Let_def)
  then obtain ops opts' where start: "start_perfetto_trace (\<lambda>p. False) (\<lambda>p. 5) sample_cpu_idle_opts session_init =
      (ops, opts', \<lparr>fd = 5, tracing_session = True\<rparr>)" "StartBlocking \<in> set ops" by blast
  have ok: "create_err sample_env_works k = 0" for k by (simp add: sample_env_works_def sample_main_def)
  have init: "sess sample_works_init = session_init" "started sample_works_init = {}"
    "trace_file sample_works_init = []" "recording sample_works_init = False"
    by (simp_all add: process_init_def)
  show "started sample_recording = UNIV" "attached sample_recording"
    "recording sample_recording" "trace_file sample_recording = []"
    unfolding sample_recording_def all_kinds event_threads_def
    by (auto simp: advance_fold sample_works_todo ok start sample_fs_def init)
qed

lemma sample_recording_acts:
  "todo sample_recording =
     Wait_for_signal # Stop_perfetto_trace # map Join_thread event_threads @ [Destroy_skeleton]"
  "sess sample_recording = \<lparr>fd = 5, tracing_session = True\<rparr>"
proof -
  have "\<forall>a \<in> set (take 13 (todo sample_works_init)). a \<noteq> Wait_for_signal \<and> (\<forall>k. a \<noteq> Join_thread k)"
    unfolding sample_works_todo by simp
  from advance_reaches [OF _ this, of sample_env_works sample_fs UNIV kallsyms_init sample_cpu_idle_opts]
  show acts: "todo sample_recording =
      Wait_for_signal # Stop_perfetto_trace # map Join_thread event_threads @ [Destroy_skeleton]"
    unfolding sample_recording_def sample_works_todo by simp
  have "sess sample_recording = session_started sample_fs sample_cpu_idle_opts"
    using sess_inv_reachable [OF sample_recording(1)] by (simp add: sess_inv_def acts event_threads_def)
  then show "sess sample_recording = \<lparr>fd = 5, tracing_session = True\<rparr>"
    by (simp add: session_started_def start_perfetto_trace_def sample_fs_def Let_def)
qed

definition sample_traced :: "(sample_map, sample_times, sample_map) process" where
  "sample_traced = sample_recording\<lparr>pipe := sample_step2,
     trace_file := trace_file sample_recording @ new_calls (pipe sample_recording) sample_step2\<rparr>"

lemma sample_traced:
  "sample_works_step\<^sup>*\<^sup>* sample_recording sample_traced" "sample_works_step\<^sup>*\<^sup>* sample_works_init sample_traced"
proof -
  have "(pipeline_step UNIV kallsyms_init sample_cpu_idle_opts)\<^sup>*\<^sup>* (pipe sample_recording) sample_step2"
    using sample_reach2 by (simp add: sample_recording(2))
  from free_runs [OF this sample_recording(4,5,3)]
  show run: "sample_works_step\<^sup>*\<^sup>* sample_recording sample_traced"
    unfolding sample_traced_def by (simp only: sample_recording(6) if_True)
  show "sample_works_step\<^sup>*\<^sup>* sample_works_init sample_traced" using sample_recording(1) run by (rule rtranclp_trans)
qed

lemma sample_traced_file:
  "trace_file sample_traced = [(Freq_idle, TRACE_COUNTER ''cpu-idle'' (cpu_track 3 '' idle_state'') 100 2)]"
  by (simp add: sample_traced_def sample_recording new_calls_def pipeline_init_def sample_step2_def
      sample_ring handle_freq_idle_event_def trace_cpu_idle_def sample_cpu_idle_opts_def)

text \<open>
  The signal arrives, \<open>main\<close> stops the session, and a second idle record comes in and is traced before
  the thread sees \<open>exiting\<close>.
\<close>

definition sample_stopped :: "(sample_map, sample_times, sample_map) process" where
  "sample_stopped = sample_traced\<lparr>pipe := (pipe sample_traced)\<lparr>exiting := True\<rparr>,
     todo := map Join_thread event_threads @ [Destroy_skeleton], recording := False\<rparr>"

lemma sample_stopped: "sample_works_step\<^sup>*\<^sup>* sample_works_init sample_stopped"
proof -
  let ?rest = "map Join_thread event_threads @ [Destroy_skeleton]"
  let ?q = "(pipe sample_traced)\<lparr>exiting := True\<rparr>"
  let ?t = "sample_traced\<lparr>pipe := ?q\<rparr>"
  let ?u = "?t\<lparr>todo := Stop_perfetto_trace # ?rest\<rparr>"
  have frame: "started sample_traced = UNIV" "attached sample_traced" "recording sample_traced"
    "todo sample_traced = Wait_for_signal # Stop_perfetto_trace # ?rest" "sess sample_traced = \<lparr>fd = 5, tracing_session = True\<rparr>"
    by (simp_all add: sample_traced_def sample_recording sample_recording_acts)
  have "(pipeline_step UNIV kallsyms_init sample_cpu_idle_opts)\<^sup>*\<^sup>* (pipe sample_traced) ?q"
    by (intro r_into_rtranclp signal)
  from free_runs [OF this frame(1,2)] have "sample_works_step\<^sup>*\<^sup>* sample_traced ?t" by (simp add: frame)
  moreover have "sample_works_step ?t (perform sample_env_works sample_fs sample_cpu_idle_opts Wait_for_signal
      (?t\<lparr>todo := Stop_perfetto_trace # ?rest\<rparr>))"
    by (rule main_acts) (simp_all add: frame)
  then have "sample_works_step ?t ?u" by simp
  moreover have "sample_works_step ?u (perform sample_env_works sample_fs sample_cpu_idle_opts Stop_perfetto_trace
      (?u\<lparr>todo := ?rest\<rparr>))"
    by (rule main_acts) simp_all
  then have "sample_works_step ?u sample_stopped" by (simp add: sample_stopped_def frame stop_perfetto_trace_def)
  ultimately show ?thesis using sample_traced(2) by (meson rtranclp.rtrancl_into_rtrancl rtranclp_trans)
qed

abbreviation sample_late_bpf :: "(sample_map, sample_times, sample_map) bpf_state" where
  "sample_late_bpf \<equiv> run_probe (sample_env (sample_kernel 0 0) 1 200) (Cpu_idle 1 3) (bpf sample_step2)"

definition sample_late :: "(sample_map, sample_times, sample_map) process" where
  "sample_late = sample_stopped\<lparr>pipe := (pipe sample_stopped)\<lparr>bpf := sample_late_bpf, consumed := (\<lambda>k. 0)(Freq_idle := 2),
     traced := traced sample_step2 @ [(Freq_idle, TRACE_COUNTER ''cpu-idle'' (cpu_track 3 '' idle_state'') 200 1)]\<rparr>\<rparr>"

lemma sample_late: "sample_works_step\<^sup>*\<^sup>* sample_stopped sample_late"
proof -
  let ?S = "pipeline_step UNIV kallsyms_init sample_cpu_idle_opts"
  let ?p = "pipe sample_stopped"
  let ?q = "?p\<lparr>bpf := sample_late_bpf\<rparr>"
  have p: "bpf ?p = bpf sample_step2" "consumed ?p = (\<lambda>k. 0)(Freq_idle := 1)" "traced ?p = traced sample_step2"
    "thread ?p Freq_idle = In_poll"
    by (simp_all add: sample_stopped_def sample_traced_def sample_step2_def sample_step1_def)
  have "?S ?p (?p\<lparr>bpf := run_probe (sample_env (sample_kernel 0 0) 1 200) (Cpu_idle 1 3) (bpf ?p)\<rparr>)"
    by (rule run_program) (simp_all add: autoload_iff sample_cpu_idle_opts_def)
  then have 1: "?S ?p ?q" by (simp add: p)
  have rb: "freq_idle_rb sample_late_bpf =
      [\<lparr>fi_ts = 100, fi_cpu = 3, fi_frequency = 0, fi_idle_state = 2, fi_idle_miss = 0\<rparr>,
       \<lparr>fi_ts = 200, fi_cpu = 3, fi_frequency = 0, fi_idle_state = 1, fi_idle_miss = 0\<rparr>]"
    by (simp add: handle_cpu_idle_def sample_env_def) (simp add: sample_step2_def sample_ring)
  have "?S ?q (?q\<lparr>consumed := (consumed ?q)(Freq_idle := Suc (consumed ?q Freq_idle)),
      traced := traced ?q @ map (Pair Freq_idle) (handle_event kallsyms_init sample_cpu_idle_opts
        (ring_of Freq_idle (bpf ?q) ! consumed ?q Freq_idle))\<rparr>)"
    by (rule consume) (simp_all add: p rb del: run_probe.simps)
  moreover have "handle_event kallsyms_init sample_cpu_idle_opts (ring_of Freq_idle (bpf ?q) ! 1) =
      [TRACE_COUNTER ''cpu-idle'' (cpu_track 3 '' idle_state'') 200 1]"
    by (simp add: rb handle_freq_idle_event_def trace_cpu_idle_def sample_cpu_idle_opts_def del: run_probe.simps)
  ultimately have 2: "?S ?q (pipe sample_late)"
    by (simp add: p sample_late_def numeral_2_eq_2 del: run_probe.simps)
  have "?S\<^sup>*\<^sup>* ?p (pipe sample_late)" using 1 2 by (meson r_into_rtranclp rtranclp.rtrancl_into_rtrancl)
  moreover have "started sample_stopped = UNIV" "attached sample_stopped" "todo sample_stopped \<noteq> []" "\<not> recording sample_stopped"
    by (simp_all add: sample_stopped_def sample_traced_def sample_recording)
  ultimately have "sample_works_step\<^sup>*\<^sup>* sample_stopped (sample_stopped\<lparr>pipe := pipe sample_late\<rparr>)"
    using free_runs [of UNIV kallsyms_init sample_cpu_idle_opts sample_stopped "pipe sample_late" sample_env_works sample_fs]
    by simp
  then show ?thesis by (simp add: sample_late_def)
qed

section \<open>Properties of the process\<close>

text \<open>
  Claim C2: what ends up in the trace file, between any two moments of a run. Before \<open>main\<close> has started the
  session the file is empty. From then until \<open>main\<close> stops it the file gets every call the threads make,
  in order, provided the file could be created at the path of the options; once stopped (or when a
  failure keeps \<open>main\<close> from starting it) the file does not change any more. So it is a contiguous part
  of what the threads trace, and for each ring it consists of whole records, oldest first and each
  once: what its handler makes of a contiguous run of the records submitted.
\<close>

theorem trace_file_window:
  assumes "(process_step w fs envs ks opts)\<^sup>*\<^sup>* (process_init w opts st) s" "rings_empty st"
    and "(process_step w fs envs ks opts)\<^sup>*\<^sup>* s s'"
  shows "let dir = (case output_path opts of Some p \<Rightarrow> p
             | None \<Rightarrow> if fs_dir fs android_traces_path then android_traces_path else ''.'');
             created = (0 \<le> fs_open fs (take 255 (dir @ ''/'' @ output_name opts))) in
    (Start_perfetto_trace \<in> set (todo s') \<longrightarrow> trace_file s' = [])
    \<and> (Start_perfetto_trace \<notin> set (todo s) \<and> Stop_perfetto_trace \<in> set (todo s') \<longrightarrow>
         trace_file s' = trace_file s @ (if created then new_calls (pipe s) (pipe s') else []))
    \<and> (Stop_perfetto_trace \<notin> set (todo s) \<longrightarrow> trace_file s' = trace_file s)
    \<and> (\<exists>pre post. traced (pipe s') = pre @ trace_file s' @ post)
    \<and> (\<forall>k. \<exists>a b. a \<le> b \<and> b \<le> length (ring_of k (bpf (pipe s'))) \<and>
         output_of k (trace_file s') =
           concat (map (handle_event ks opts) (drop a (take b (ring_of k (bpf (pipe s')))))))"
proof -
  have "(process_step w fs envs ks opts)\<^sup>*\<^sup>* (process_init w opts st) s'" using assms(1,3) by (rule rtranclp_trans)
  then have inv: "file_inv ks opts s'" "fifo ks opts (pipe s')" using file_inv_reachable assms(2) by blast+
  have "Start_perfetto_trace \<in> set (todo s') \<longrightarrow> trace_file s' = []"
    "\<exists>pre post. traced (pipe s') = pre @ trace_file s' @ post"
    using inv(1) by (auto simp: file_inv_def)
  then show ?thesis
    unfolding Let_def session_started_fd [of fs opts, unfolded Let_def, symmetric]
    using file_while_on [OF assms(1,3)] file_when_off [OF assms(1,3)] file_inv_windows [OF inv] by blast
qed

text \<open>
  The sample run with everything working: the first call is made while the session is on, the second
  one after it was stopped.
\<close>

theorem trace_file_window_witness:
  "length (traced (pipe sample_late)) = 2 \<and> trace_file sample_late = trace_file sample_stopped
    \<and> trace_file sample_traced = trace_file sample_recording @ new_calls (pipe sample_recording) (pipe sample_traced)
    \<and> trace_file sample_late = [(Freq_idle, TRACE_COUNTER ''cpu-idle'' (cpu_track 3 '' idle_state'') 100 2)]"
proof -
  have "trace_file sample_late = trace_file sample_stopped"
    using trace_file_window [OF sample_stopped sample_rings_empty sample_late] unfolding Let_def
    by (simp add: sample_stopped_def event_threads_def)
  moreover have "trace_file sample_traced = trace_file sample_recording @ new_calls (pipe sample_recording) (pipe sample_traced)"
    using trace_file_window [OF sample_recording(1) sample_rings_empty sample_traced(1)] unfolding Let_def
    by (simp add: sample_recording_acts sample_traced_def sample_fs_def)
  moreover have "trace_file sample_stopped = trace_file sample_traced" by (simp add: sample_stopped_def)
  moreover have "length (traced (pipe sample_late)) = 2"
    by (simp add: sample_late_def sample_step2_def sample_ring handle_freq_idle_event_def trace_cpu_idle_def
        sample_cpu_idle_opts_def)
  ultimately show ?thesis using sample_traced_file by simp
qed

text \<open>
  Claim C8: the skeleton outlives the threads: as long as an event thread exists that has not left
  its function, \<open>main\<close> has not destroyed the skeleton, whose maps the thread uses, and has not returned;
  it still has to join the thread. This also holds on every error path.
\<close>

theorem skeleton_outlives_threads:
  assumes "(process_step w fs envs ks opts)\<^sup>*\<^sup>* (process_init w opts st) s"
    and "k \<in> started s" "thread (pipe s) k \<noteq> At_end"
  shows "\<not> destroyed s \<and> todo s \<noteq> [] \<and> Join_thread k \<in> set (todo s)"
  using running_thread_joined [OF main_inv_reachable [OF assms(1)] assms(2,3)] by force

theorem skeleton_outlives_threads_witness:
  "Rq_pelt \<in> started sample_in_loop \<and> \<not> destroyed sample_in_loop"
proof -
  have "thread (pipe sample_in_loop) Rq_pelt \<noteq> At_end" by (simp add: sample_in_loop(3))
  from skeleton_outlives_threads [OF sample_in_loop(1,2) this] sample_in_loop(2) show ?thesis by blast
qed

text \<open>
  Claim C7: no deadlock on the way out. From every state the process can be in once a signal has
  arrived, it can come to the end of \<open>main\<close>, whatever \<open>main\<close> and the threads were doing, and without
  any program having to run.
\<close>

theorem process_can_finish:
  assumes "(process_step w fs envs ks opts)\<^sup>*\<^sup>* (process_init w opts st) s" "exiting (pipe s)"
  shows "\<exists>s'. (process_step w fs envs ks opts)\<^sup>*\<^sup>* s s' \<and> todo s' = [] \<and> bpf (pipe s') = bpf (pipe s)"
  using main_inv_reachable [OF assms(1)] assms(2) by (rule finishes)

theorem process_can_finish_witness:
  "todo sample_signalled = [Join_thread Rq_pelt, Join_thread Task_pelt, Join_thread Rq_nr_running,
     Join_thread Sched_switches, Join_thread Freq_idle, Destroy_skeleton]
   \<and> (\<exists>s'. sample_process_step\<^sup>*\<^sup>* sample_signalled s' \<and> todo s' = [])"
  using process_can_finish [OF sample_signalled(1,2)] by (auto simp: sample_signalled(3) sample_at_join(2))

text \<open>
  Claim C40: without a signal \<open>main\<close> never returns once a thread is in its loop: it still has to join
  that thread. This includes the error path: when a later thread could not be created, \<open>main\<close> does
  not wait for the signal any more and goes straight to the joins, where it blocks.
\<close>

theorem unsignalled_main_waits:
  assumes "(process_step w fs envs ks opts)\<^sup>*\<^sup>* (process_init w opts st) s"
    and "k \<in> started s" "thread (pipe s) k \<in> {At_test, In_poll}"
    and "(process_step w fs envs ks opts)\<^sup>*\<^sup>* s s'" "\<not> exiting (pipe s')"
  shows "todo s' \<noteq> [] \<and> Join_thread k \<in> set (todo s') \<and> \<not> may_act (Join_thread k) s'
    \<and> (threads_up w \<noteq> event_threads \<longrightarrow> Wait_for_signal \<notin> set (todo s'))"
proof -
  have loop: "thread (pipe s') k \<in> {At_test, In_poll}"
    using looping_stays [OF process.reach_view [OF assms(4)] assms(3,5)] .
  then have running: "thread (pipe s') k \<noteq> At_end" by auto
  have inv: "main_inv w opts s'" using assms(1,4) by (meson main_inv_reachable rtranclp_trans)
  have k: "k \<in> started s'" using assms(2) started_grows [OF assms(4)] by blast
  have join: "Join_thread k \<in> set (todo s')" using running_thread_joined [OF inv k running] by blast
  have "Wait_for_signal \<notin> set (todo s')" if "threads_up w \<noteq> event_threads"
  proof -
    obtain past where past: "fst (main_parsed w opts) = past @ todo s'" using inv unfolding main_inv_def by blast
    have "Wait_for_signal \<notin> set (fst (main_parsed w opts))"
      using that by (cases "skel_opens w")
        (auto simp: main_acts_eq main_acts_closed setup_acts_def session_acts_def)
    then show ?thesis using past by simp
  qed
  then show ?thesis using join running by auto
qed

theorem unsignalled_main_waits_witness:
  "hd (todo sample_in_loop) = Join_thread Rq_pelt \<and> \<not> may_act (Join_thread Rq_pelt) sample_in_loop
    \<and> Wait_for_signal \<notin> set (todo sample_in_loop)"
proof -
  have "thread (pipe sample_in_loop) Rq_pelt \<in> {At_test, In_poll}" by (simp add: sample_in_loop(3))
  from unsignalled_main_waits [OF sample_in_loop(1,2) this rtranclp.rtrancl_refl sample_in_loop(4)]
  show ?thesis by (simp add: sample_in_loop(5) sample_at_join(2) sample_threads_up event_threads_def)
qed

end
