(* ===== verification/SA_Signals.thy ===== *)
theory SA_Signals imports SA_Pelt SA_Sched SA_Samples SA_Consumer begin

text \<open>
  PELT signals end to end: what a run of a probe and the consumption of the record it submitted put
  in the trace, stated on the kernel's data. Values below \<open>2 ^ 31\<close> survive the conversion to the
  \<open>int\<close> parameter of the tracing functions; the probes' "not collected" marks never reach it.
\<close>

section \<open>Counters\<close>

definition task_counter :: "kernel \<Rightarrow> ptr \<Rightarrow> u64 \<Rightarrow> string \<Rightarrow> int \<Rightarrow> output_call" where
  "task_counter k p ts sfx v =
     TRACE_COUNTER ''pelt-task'' (task_track (p_comm (mem_task k p)) (p_pid (mem_task k p)) sfx) ts v"

definition cpu_counter :: "s32 \<Rightarrow> u64 \<Rightarrow> string \<Rightarrow> int \<Rightarrow> output_call" where
  "cpu_counter cpu ts sfx v = TRACE_COUNTER ''pelt-cpu'' (cpu_track cpu sfx) ts v"

text \<open>The values a trace counter can carry.\<close>

definition fits :: "u64 \<Rightarrow> bool" where
  "fits v \<longleftrightarrow> unat v < 2 ^ 31"

lemma fits_sint: "fits v \<Longrightarrow> sint (ucast v :: s32) = uint v"
  using sint_ucast_64_32 [of v] by (simp add: fits_def)

lemma fits_neq_minus_one: "fits v \<Longrightarrow> v \<noteq> - 1"
  by (rule small_neq_minus_one) (simp add: fits_def)

lemma fits_11: "fits (ucast (v :: 11 word))"
proof -
  have "unat v < 2 ^ 11" using unsigned_less [of v, where ?'a = nat] by simp
  then show ?thesis by (simp add: fits_def)
qed

lemma fits_clamp: "fits val \<Longrightarrow> fits lo \<Longrightarrow> fits hi \<Longrightarrow> fits (clamp val lo hi)"
  by (simp add: clamp_def)

lemma clamp_unat: "lo \<le> hi \<Longrightarrow> unat (clamp val lo hi) = min (max (unat val) (unat lo)) (unat hi)"
  by (auto simp: clamp_def min_def max_def word_le_nat_alt)

section \<open>Tasks\<close>

text \<open>
  The clamp in force on a task: the effective value where the kernel maintains one, else the one
  requested, none on a kernel without uclamp.
\<close>

definition task_uclamp :: "kernel \<Rightarrow> ptr \<Rightarrow> uclamp_id \<Rightarrow> u64 option" where
  "task_uclamp k p c =
     (if field_exists k (P_uclamp c) \<and> uc_active (p_uclamp (mem_task k p) c)
      then Some (ucast (uc_value (p_uclamp (mem_task k p) c)))
      else if field_exists k (P_uclamp_req c) then Some (ucast (uc_value (p_uclamp_req (mem_task k p) c)))
      else None)"

definition task_traced :: "sa_opts \<Rightarrow> kernel \<Rightarrow> ptr \<Rightarrow> bool" where
  "task_traced opts k p \<longleftrightarrow> \<not> ignore_pid_comm opts (p_pid (mem_task k p)) (p_comm (mem_task k p))"

lemma task_uclamp_fits: "task_uclamp k p c = Some v \<Longrightarrow> fits v"
  by (auto simp: task_uclamp_def fits_11 split: if_splits)

lemma task_uclamp_not_minus_one: "task_uclamp k p c \<noteq> Some (- 1)"
  by (simp add: task_uclamp_def)

lemma task_clamp_sint:
  "fits val \<Longrightarrow> task_uclamp k p c = Some lo \<Longrightarrow> task_uclamp k p d = Some hi \<Longrightarrow>
     sint (ucast (clamp val lo hi) :: s32) = uint (clamp val lo hi)"
  by (intro fits_sint fits_clamp) (auto dest: task_uclamp_fits)

lemma task_uclamp_field:
  "(if field_exists k (P_uclamp c) \<and> uc_active (p_uclamp (mem_task k p) c)
    then ucast (uc_value (p_uclamp (mem_task k p) c))
    else if field_exists k (P_uclamp_req c) then ucast (uc_value (p_uclamp_req (mem_task k p) c)) else - 1)
   = (case task_uclamp k p c of Some v \<Rightarrow> v | None \<Rightarrow> (- 1 :: u64))"
  by (simp add: task_uclamp_def)

text \<open>The record the probe submits.\<close>

lemma handle_pelt_se_record:
  assumes "entity_is_task (env_kernel env) se" "reserve_task_pelt env 0 = Some m"
  shows "handle_pelt_se env se st = st\<lparr>task_pelt_rb := task_pelt_rb st @
    [let k = env_kernel env; p = task_of k se; a = se_avg (mem_se k se) in
     m\<lparr>tp_ts := ktime_boot_ns env 0, tp_cpu := task_cpu k p, tp_pid := p_pid (mem_task k p),
       tp_comm := p_comm (mem_task k p), tp_load_avg := avg_load_avg a,
       tp_runnable_avg := avg_runnable_avg a, tp_util_avg := avg_util_avg a,
       tp_util_est_enqueued := - 1, tp_util_est_ewma := - 1,
       tp_uclamp_min := (case task_uclamp k p UCLAMP_MIN of Some v \<Rightarrow> v | None \<Rightarrow> - 1),
       tp_uclamp_max := (case task_uclamp k p UCLAMP_MAX of Some v \<Rightarrow> v | None \<Rightarrow> - 1),
       tp_running := (if map_lookup_elem (sw_ops env) (sched_switch_map st) (p_pid (mem_task k p)) \<noteq> None
                      then 1 else 0)\<rparr>]\<rparr>"
  using assms by (simp add: handle_pelt_se_def Let_def task_uclamp_field)

definition task_signals :: "sa_opts \<Rightarrow> kernel \<Rightarrow> ptr \<Rightarrow> u64 \<Rightarrow> output_call list" where
  "task_signals opts k se ts =
     (let p = task_of k se; a = se_avg (mem_se k se) in
      (if load_avg_task opts then [task_counter k p ts '' load_avg'' (uint (avg_load_avg a))] else []) @
      (if runnable_avg_task opts
       then [task_counter k p ts '' runnable_avg'' (uint (avg_runnable_avg a))] else []) @
      (if util_avg_task opts then
         task_counter k p ts '' util_avg'' (uint (avg_util_avg a)) #
         (case (task_uclamp k p UCLAMP_MIN, task_uclamp k p UCLAMP_MAX) of
            (Some lo, Some hi) \<Rightarrow>
              [task_counter k p ts '' uclamped_avg'' (uint (clamp (avg_util_avg a) lo hi))]
          | _ \<Rightarrow> [])
       else []))"

text \<open>
  A PELT update of a task shows up in the trace as exactly the counters the options ask
  for, with the kernel's values: load, runnable and utilisation averages, and the utilisation
  clamped by the clamps in force when the kernel has them. No estimate counter appears.
\<close>

lemma task_pelt_traced:
  assumes "k = env_kernel env" "entity_is_task k se" "reserve_task_pelt env 0 = Some m"
    and "task_traced opts k (task_of k se)"
    and "fits (avg_load_avg (se_avg (mem_se k se)))" "fits (avg_runnable_avg (se_avg (mem_se k se)))"
      "fits (avg_util_avg (se_avg (mem_se k se)))"
  shows "\<exists>e. task_pelt_rb (handle_pelt_se env se st) = task_pelt_rb st @ [e]
    \<and> handle_task_pelt_event opts e = task_signals opts k se (ktime_boot_ns env 0)"
proof -
  note rec = handle_pelt_se_record [OF assms(2) [unfolded assms(1)] assms(3), of st]
  show ?thesis
    using assms(4-7) unfolding rec assms(1)
    by (auto simp: handle_task_pelt_event_def task_traced_def task_signals_def Let_def task_counter_def
        trace_task_load_avg_def trace_task_runnable_avg_def trace_task_util_avg_def
        trace_task_uclamped_avg_def fits_sint fits_neq_minus_one
        task_clamp_sint task_uclamp_not_minus_one split: option.splits)
qed

lemma no_filter_traced: "num_pids opts = 0 \<Longrightarrow> num_comms opts = 0 \<Longrightarrow> task_traced opts k p"
  by (simp add: task_traced_def ignore_pid_comm_def)

definition sample_opts :: sa_opts where
  "sample_opts = sa_opts_init\<lparr>load_avg_task := True, util_avg_task := True, util_est_task := True,
     load_avg_cpu := True, util_avg_cpu := True, util_avg_rt := True, util_avg_dl := True,
     util_avg_irq := True, load_avg_thermal := True, util_est_cpu := True, cpu_idle := True\<rparr>"

lemma sample_opts_traced: "task_traced sample_opts k p"
  by (rule no_filter_traced) (simp_all add: sample_opts_def sa_opts_init_def)

lemma sample_state_rings [simp]: "rq_pelt_rb sample_state = []" "task_pelt_rb sample_state = []"
  by (simp_all add: sample_state_def)

lemma sample_reserved:
  "\<exists>m. reserve_task_pelt (sample_env k cpu now) n = Some m"
  "reserve_rq_pelt (sample_env k cpu now) n = Some (sample_rq_pelt PELT_TYPE_THERMAL)"
  by (simp_all add: sample_env_def)

lemma task_pelt_traced_instance:
  "\<exists>e. task_pelt_rb (handle_pelt_se (sample_env (sample_kernel 0 0) 1 50) 0x1080 sample_state) = [e]
    \<and> handle_task_pelt_event sample_opts e =
      [TRACE_COUNTER ''pelt-task'' (task_track ''task'' 0x1000 '' load_avg'') 50 300,
       TRACE_COUNTER ''pelt-task'' (task_track ''task'' 0x1000 '' util_avg'') 50 100,
       TRACE_COUNTER ''pelt-task'' (task_track ''task'' 0x1000 '' uclamped_avg'') 50 1024]"
proof -
  let ?k = "sample_kernel 0 0"
  obtain m where m: "reserve_task_pelt (sample_env ?k 1 50) 0 = Some m" using sample_reserved by blast
  have t: "entity_is_task ?k 0x1080" by (simp add: entity_is_task_def sample_kernel_def)
  have v: "fits (avg_load_avg (se_avg (mem_se ?k 0x1080)))" "fits (avg_runnable_avg (se_avg (mem_se ?k 0x1080)))"
    "fits (avg_util_avg (se_avg (mem_se ?k 0x1080)))"
    by (simp_all add: sample_kernel_def sample_avg_def fits_def)
  have "task_signals sample_opts ?k 0x1080 50 =
      [TRACE_COUNTER ''pelt-task'' (task_track ''task'' 0x1000 '' load_avg'') 50 300,
       TRACE_COUNTER ''pelt-task'' (task_track ''task'' 0x1000 '' util_avg'') 50 100,
       TRACE_COUNTER ''pelt-task'' (task_track ''task'' 0x1000 '' uclamped_avg'') 50 1024]"
    by (simp add: task_signals_def sample_opts_def sa_opts_init_def task_of_def task_counter_def
        sample_kernel_def task_uclamp_def sample_uclamp_def sample_avg_def clamp_def)
  then show ?thesis
    using task_pelt_traced [of ?k "sample_env ?k 1 50" "0x1080", OF _ t m sample_opts_traced v, of sample_state]
    by simp
qed

section \<open>Utilisation estimates of tasks\<close>

text \<open>
  Since Linux 6.8 there is one estimate, whose top bit is a flag; before, there were two values.
\<close>

definition est_enqueued :: "kernel \<Rightarrow> sched_avg \<Rightarrow> sched_avg__pre68 \<Rightarrow> u32" where
  "est_enqueued k a old = (if pre68 k then ue_enqueued (pre68_util_est old) else avg_util_est a)"

definition est_ewma :: "kernel \<Rightarrow> sched_avg__pre68 \<Rightarrow> u32" where
  "est_ewma k old = (if pre68 k then ue_ewma (pre68_util_est old) else 0)"

lemma est_fields:
  "drop_unchanged (if pre68 k then ucast (ue_enqueued (pre68_util_est old)) else ucast (avg_util_est a))
    = drop_unchanged (ucast (est_enqueued k a old))"
  "(if pre68 k then ucast (ue_ewma (pre68_util_est old)) else 0) = (ucast (est_ewma k old) :: u64)"
  by (simp_all add: est_enqueued_def est_ewma_def)

lemma fits_masked: "fits (drop_unchanged v)"
  using drop_unchanged_less [of v] by (simp add: fits_def)

lemma uint_masked: "uint (drop_unchanged (ucast (v :: u32))) = uint v mod 2 ^ 31"
proof -
  have "uint (drop_unchanged (ucast v)) = uint (ucast v :: u64) mod 2 ^ 31"
    unfolding drop_unchanged_mask unsigned_take_bit_eq by (simp only: take_bit_eq_mod)
  also have "uint (ucast v :: u64) = uint v"
    by (metis unat_ucast_32_64 uint_nat)
  finally show ?thesis .
qed

text \<open>
  An update of a task's utilisation estimate is traced as the two estimate counters and
  nothing else: the enqueued value without the kernel's flag bit (so never negative), and the moving
  average, which kernels from 6.8 on no longer keep and which is traced as 0 there.
\<close>

lemma task_util_est_traced:
  assumes "k = env_kernel env" "entity_is_task k se" "reserve_task_pelt env 0 = Some m"
    and "task_traced opts k (task_of k se)"
    and "old = mem_avg_pre68 k (se + off_se_avg k)" "pre68 k \<longrightarrow> unat (ue_ewma (pre68_util_est old)) < 2 ^ 31"
  shows "\<exists>e. task_pelt_rb (handle_util_est_se env se st) = task_pelt_rb st @ [e]
    \<and> handle_task_pelt_event opts e =
       (if util_est_task opts then
          [task_counter k (task_of k se) (ktime_boot_ns env 0) '' util_est.enqueued''
             (uint (est_enqueued k (se_avg (mem_se k se)) old) mod 2 ^ 31),
           task_counter k (task_of k se) (ktime_boot_ns env 0) '' util_est.ewma'' (uint (est_ewma k old))]
        else [])"
proof -
  have ew: "unat (est_ewma k old) < 2 ^ 31" using assms(6) by (simp add: est_ewma_def)
  have s1: "sint (ucast (ucast (est_ewma k old) :: u64) :: s32) = uint (est_ewma k old)"
    using fits_sint [of "ucast (est_ewma k old)"] ew
    by (simp add: fits_def) (metis unat_ucast_32_64 uint_nat)
  have s2: "sint (ucast (drop_unchanged (ucast (est_enqueued k (se_avg (mem_se k se)) old))) :: s32)
      = uint (est_enqueued k (se_avg (mem_se k se)) old) mod 2 ^ 31"
    by (simp only: fits_sint [OF fits_masked] uint_masked)
  show ?thesis
    using assms(2-4) s1 s2 unfolding assms(1,5)
    by (simp add: handle_util_est_se_def Let_def est_fields handle_task_pelt_event_def task_traced_def
        trace_task_util_est_enqueued_def trace_task_util_est_ewma_def task_counter_def)
qed

lemma task_util_est_traced_instance:
  "\<exists>e. task_pelt_rb (handle_util_est_se (sample_env (sample_kernel (KERNEL_VERSION 6 8 0) 0) 1 50) 0x1080 sample_state) = [e]
    \<and> handle_task_pelt_event sample_opts e =
      [TRACE_COUNTER ''pelt-task'' (task_track ''task'' 0x1000 '' util_est.enqueued'') 50 100,
       TRACE_COUNTER ''pelt-task'' (task_track ''task'' 0x1000 '' util_est.ewma'') 50 0]"
proof -
  let ?k = "sample_kernel (KERNEL_VERSION 6 8 0) 0"
  obtain m where m: "reserve_task_pelt (sample_env ?k 1 50) 0 = Some m" using sample_reserved by blast
  have t: "entity_is_task ?k 0x1080" by (simp add: entity_is_task_def sample_kernel_def)
  have p: "\<not> pre68 ?k" by (simp add: pre68_def sample_kernel_def)
  show ?thesis
    using task_util_est_traced [of ?k "sample_env ?k 1 50" "0x1080", OF _ t m sample_opts_traced refl, of sample_state] p
    by (simp add: est_enqueued_def est_ewma_def task_counter_def sample_opts_def
        sa_opts_init_def) (simp add: sample_kernel_def task_of_def sample_avg_def)
qed

section \<open>Freed tasks\<close>

text \<open>
  When a task is freed, every PELT and estimate signal the options collect for it goes to
  zero in the trace, at the time of the event and on the tracks of that task.
\<close>

lemma freed_task_zeroed:
  assumes "k = env_kernel env" "reserve_task_pelt env 0 = Some m" "task_traced opts k p"
  shows "\<exists>e. task_pelt_rb (handle_sched_process_free env p st) = task_pelt_rb st @ [e]
    \<and> handle_task_pelt_event opts e =
      map (\<lambda>(sel, sfx). task_counter k p (ktime_boot_ns env 0) sfx 0)
        (filter (\<lambda>(sel, sfx). sel opts)
          [(load_avg_task, '' load_avg''), (runnable_avg_task, '' runnable_avg''),
           (util_avg_task, '' util_avg''), (util_avg_task, '' uclamped_avg''),
           (util_est_task, '' util_est.enqueued''), (util_est_task, '' util_est.ewma'')])"
  using assms(2,3) unfolding assms(1)
  by (simp add: handle_sched_process_free_def handle_task_pelt_event_def task_traced_def Let_def
      trace_task_load_avg_def trace_task_runnable_avg_def trace_task_util_avg_def clamp_def
      trace_task_uclamped_avg_def trace_task_util_est_enqueued_def trace_task_util_est_ewma_def
      task_counter_def)

lemma freed_task_zeroed_instance:
  "\<exists>e. task_pelt_rb (handle_sched_process_free (sample_env (sample_kernel 0 0) 1 50) 0x1000 sample_state) = [e]
    \<and> length (handle_task_pelt_event sample_opts e) = 5"
proof -
  obtain m where m: "reserve_task_pelt (sample_env (sample_kernel 0 0) 1 50) 0 = Some m"
    using sample_reserved by blast
  show ?thesis
    using freed_task_zeroed [OF refl m, of sample_opts "0x1000" sample_state] sample_opts_traced [of _ "0x1000"]
    by (fastforce simp: sample_opts_def sa_opts_init_def)
qed

end
