(* ===== verification/SA_Sched_Spec.thy ===== *)
theory SA_Sched_Spec imports SA_Signals SA_Lb_Spec begin

text \<open>
  The properties of the scheduling, idle, softirq and IPI probes: the time of a softirq across
  interleaved runs on other CPUs, the set of running tasks, idle events, the names of IPIs; and
  the nesting of load balancer slices.
\<close>

lemma MAX_ENTRIES_pos: "0 < MAX_ENTRIES"
  by (simp add: MAX_ENTRIES_def)

section \<open>Softirqs\<close>

datatype ('sw, 'si, 'lb) softirq_probe =
    Softirq_enter (softirq_env: "('sw, 'si, 'lb) run_env") u32
  | Softirq_leave (softirq_env: "('sw, 'si, 'lb) run_env") u32

fun softirq_exec :: "('sw, 'si, 'lb) softirq_probe \<Rightarrow> ('sw, 'si, 'lb) bpf_state \<Rightarrow> ('sw, 'si, 'lb) bpf_state" where
  "softirq_exec (Softirq_enter env v) st = handle_softirq_entry env v st"
| "softirq_exec (Softirq_leave env v) st = handle_softirq_exit env v st"

lemma softirq_exec_other:
  assumes "bpf_hash M ok n" "ok (softirq_entry_map st)" "si_ops (softirq_env p) = M"
    and "smp_processor_id (softirq_env p) \<noteq> cpu"
  shows "ok (softirq_entry_map (softirq_exec p st))
    \<and> map_value M (softirq_entry_map (softirq_exec p st)) cpu = map_value M (softirq_entry_map st) cpu"
proof (cases p)
  case (Softirq_enter env v)
  then show ?thesis using assms bpf_hash.update_inv [OF assms(1,2)] bpf_hash.update_other [OF assms(1,2)]
    by (simp add: handle_softirq_entry_def Let_def)
next
  case (Softirq_leave env v)
  then show ?thesis using assms bpf_hash.delete_inv [OF assms(1,2)] bpf_hash.delete_value [OF assms(1,2)]
    by (auto simp: handle_softirq_exit_def Let_def split: option.splits)
qed

lemma softirq_fold_other:
  assumes "bpf_hash M ok n"
  shows "ok (softirq_entry_map st) \<Longrightarrow>
    \<forall>p \<in> set ps. si_ops (softirq_env p) = M \<and> smp_processor_id (softirq_env p) \<noteq> cpu \<Longrightarrow>
    ok (softirq_entry_map (fold softirq_exec ps st))
    \<and> map_value M (softirq_entry_map (fold softirq_exec ps st)) cpu = map_value M (softirq_entry_map st) cpu"
proof (induction ps arbitrary: st)
  case (Cons p ps)
  then show ?case using softirq_exec_other [OF assms Cons.prems(1), of p cpu] by simp
qed simp

text \<open>
  Claim C22: a softirq is reported once, at its exit, with the time its own CPU entered it, the time
  that passed and the name of its vector, whatever the softirq probes of other CPUs do in between.
\<close>

theorem softirq_duration:
  assumes "bpf_hash M ok MAX_ENTRIES" "ok (softirq_entry_map st)"
    and "card (dom (map_value M (softirq_entry_map st))) < MAX_ENTRIES"
    and "si_ops env1 = M" "si_ops env2 = M" "smp_processor_id env2 = smp_processor_id env1"
    and "\<forall>p \<in> set ps. si_ops (softirq_env p) = M \<and> smp_processor_id (softirq_env p) \<noteq> smp_processor_id env1"
    and "reserve_softirq env2 0 = Some m" "length (si_softirq m) = TASK_COMM_LEN"
  shows "let st1 = fold softirq_exec ps (handle_softirq_entry env1 v1 st);
             st2 = handle_softirq_exit env2 v st1 in
    softirq_rb st2 = softirq_rb st1 @ [m\<lparr>si_ts := ktime_boot_ns env1 0, si_cpu := smp_processor_id env1,
        si_softirq := softirq_array (softirq_name (unat v)),
        si_duration := ktime_boot_ns env2 0 - ktime_boot_ns env1 0\<rparr>]
    \<and> map_value M (softirq_entry_map st2) (smp_processor_id env1) = None"
proof -
  let ?c = "smp_processor_id env1" and ?st0 = "handle_softirq_entry env1 v1 st"
  let ?st1 = "fold softirq_exec ps ?st0"
  have upd: "ok (softirq_entry_map ?st0)" "map_value M (softirq_entry_map ?st0) ?c = Some (ktime_boot_ns env1 0)"
    using bpf_hash.update_inv [OF assms(1,2)] bpf_hash.update_own [OF assms(1-3)] assms(4)
    by (simp_all add: handle_softirq_entry_def Let_def)
  have st1: "ok (softirq_entry_map ?st1)" "map_value M (softirq_entry_map ?st1) ?c = Some (ktime_boot_ns env1 0)"
    using softirq_fold_other [OF assms(1) upd(1) assms(7)] upd(2) by simp_all
  then obtain p where p: "map_lookup_elem M (softirq_entry_map ?st1) ?c = Some p"
    by (auto simp: map_value_def)
  have "map_read M (snd (map_delete_elem M (softirq_entry_map ?st1) ?c)) p = ktime_boot_ns env1 0"
    using bpf_hash.take_value [OF assms(1) st1(1) p] st1(2) by simp
  then show ?thesis
    using p assms(5,6,8,9) bpf_hash.delete_value [OF assms(1) st1(1)]
    by (simp add: handle_softirq_exit_def Let_def copy_softirq_array)
qed

theorem softirq_duration_witness:
  "let env = sample_env (sample_kernel 0 0);
       st1 = fold softirq_exec [Softirq_enter (env 2 110) 3] (handle_softirq_entry (env 1 100) 7 sample_state) in
   map si_duration (softirq_rb (handle_softirq_exit (env 1 130) 7 st1)) = [30]"
proof -
  let ?e = "sample_env (sample_kernel 0 0)"
  obtain m where m: "reserve_softirq (?e 1 130) 0 = Some m" "length (si_softirq m) = TASK_COMM_LEN"
    by (simp add: sample_env_def)
  have "softirq_rb (fold softirq_exec [Softirq_enter (?e 2 110) 3] (handle_softirq_entry (?e 1 100) 7 sample_state)) = []"
    by (simp add: handle_softirq_entry_def sample_state_def Let_def)
  then show ?thesis
    using softirq_duration [OF htab.bpf_hash_axioms, where st = sample_state
        and ?env1.0 = "?e 1 100" and ?env2.0 = "?e 1 130" and ps = "[Softirq_enter (?e 2 110) 3]"
        and m = m and v = 7 and ?v1.0 = 7] m
    by (simp add: Let_def MAX_ENTRIES_pos)
qed

section \<open>Running tasks\<close>

lemma sched_switch_map_eq:
  "sched_switch_map (handle_sched_switch env preempt prev nxt st) =
    snd (map_update_elem (sw_ops env)
      (snd (map_delete_elem (sw_ops env) (sched_switch_map st) (p_pid (mem_task (env_kernel env) prev))))
      (p_pid (mem_task (env_kernel env) nxt)) 1)"
  by (simp add: handle_sched_switch_def Let_def)

text \<open>
  Claim C32: a context switch replaces the pid of the task that leaves by the pid of the task that
  comes in the set of running tasks, and touches no other; estimates of the incoming task are then
  marked as running, and those of the outgoing one are not, unless both have the same pid.
\<close>

theorem sched_switch_running:
  assumes "bpf_hash (sw_ops env) ok MAX_ENTRIES" "ok (sched_switch_map st)"
    and "card (dom (map_value (sw_ops env) (sched_switch_map st))) < MAX_ENTRIES"
    and "k = env_kernel env" "entity_is_task k se" "reserve_task_pelt env 0 = Some m"
  shows "let running = (\<lambda>s. dom (map_value (sw_ops env) (sched_switch_map s)));
             st' = handle_sched_switch env preempt prev nxt st in
    running st' = insert (p_pid (mem_task k nxt)) (running st - {p_pid (mem_task k prev)})
    \<and> map tp_running (task_pelt_rb (handle_util_est_se env se st')) =
      map tp_running (task_pelt_rb st) @ [if p_pid (mem_task k (task_of k se)) \<in> running st' then 1 else 0]"
proof -
  let ?M = "sw_ops env" and ?p = "p_pid (mem_task k prev)" and ?n = "p_pid (mem_task k nxt)"
  let ?m1 = "snd (map_delete_elem ?M (sched_switch_map st) ?p)"
  have m1: "ok ?m1" "map_value ?M ?m1 = (map_value ?M (sched_switch_map st))(?p := None)"
    using bpf_hash.delete_inv [OF assms(1,2)] bpf_hash.delete_value [OF assms(1,2)] by simp_all
  have fin: "finite (dom (map_value ?M (sched_switch_map st)))"
    using bpf_hash.finite_value [OF assms(1,2)] .
  have "card (dom (map_value ?M ?m1)) \<le> card (dom (map_value ?M (sched_switch_map st)))"
    unfolding m1(2) by (rule card_mono [OF fin]) auto
  then have room: "card (dom (map_value ?M ?m1)) < MAX_ENTRIES" using assms(3) by simp
  have new: "map_value ?M (sched_switch_map (handle_sched_switch env preempt prev nxt st))
      = (map_value ?M (sched_switch_map st))(?p := None, ?n \<mapsto> 1)"
    unfolding sched_switch_map_eq assms(4) [symmetric]
    using bpf_hash.update_own [OF assms(1) m1(1) room] m1(2) by simp
  have rb: "task_pelt_rb (handle_sched_switch env preempt prev nxt st) = task_pelt_rb st"
    by (simp add: handle_sched_switch_def Let_def)
  have flag: "map_lookup_elem ?M s p \<noteq> None \<longleftrightarrow> p \<in> dom (map_value ?M s)" for s p
    by (simp add: map_value_def dom_def)
  show ?thesis
    using assms(5,6) unfolding Let_def assms(4)
    by (simp add: new [unfolded assms(4)] handle_util_est_se_def Let_def flag rb del: not_None_eq)
qed

theorem sched_switch_running_witness:
  "let env = sample_env (sample_kernel 0 0) 1 100; st' = handle_sched_switch env False 0x10 0x20 sample_state in
   dom (map_value htab_ops (sched_switch_map st')) = {0x20}
   \<and> map tp_running (task_pelt_rb (handle_util_est_se env 0xa0 st')) = [1]"
proof -
  let ?k = "sample_kernel 0 0"
  let ?e = "sample_env ?k 1 100"
  obtain m where m: "reserve_task_pelt ?e 0 = Some m" using sample_reserved by blast
  have t: "entity_is_task ?k 0xa0" by (simp add: entity_is_task_def sample_kernel_def)
  have pids: "p_pid (mem_task ?k 0x10) = 0x10" "p_pid (mem_task ?k 0x20) = 0x20"
    "p_pid (mem_task ?k (task_of ?k 0xa0)) = 0x20"
    by (simp_all add: sample_kernel_def task_of_def)
  show ?thesis
    using sched_switch_running [where env = ?e and k = ?k and st = sample_state and ok = "htab_inv MAX_ENTRIES"
        and m = m and se = "0xa0" and prev = "0x10" and nxt = "0x20" and preempt = False] t m
    by (simp add: Let_def htab.bpf_hash_axioms pids MAX_ENTRIES_pos)
qed

section \<open>Idle states\<close>

definition idle_counter :: "s32 \<Rightarrow> u64 \<Rightarrow> s32 \<Rightarrow> output_call" where
  "idle_counter cpu ts state = TRACE_COUNTER ''cpu-idle'' (cpu_track cpu '' idle_state'') ts (sint state)"

text \<open>
  With \<open>--cpu_idle\<close>, entering an idle state is traced as the state, leaving one (the state
  \<open>PWR_EVENT_EXIT\<close>, all bits set) as -1, and a miss as the state and a slice of 10 microseconds on the CPU's
  own track that says on which side of the chosen state the time fell.
\<close>

lemma idle_traced:
  assumes "reserve_freq_idle env 0 = Some m" "cpu_idle opts"
  shows "concat (map (handle_freq_idle_event opts) (freq_idle_rb
      (handle_cpu_idle_miss env cpu state below (handle_cpu_idle env (- 1) cpu (handle_cpu_idle env state cpu
         (st\<lparr>freq_idle_rb := []\<rparr>))))))
    = [idle_counter cpu (ktime_boot_ns env 0) state,
       TRACE_COUNTER ''cpu-idle'' (cpu_track cpu '' idle_state'') (ktime_boot_ns env 0) (- 1),
       idle_counter cpu (ktime_boot_ns env 0) state,
       TRACE_EVENT ''cpu-idle'' ''cpu_idle_miss'' (1000 + sint cpu) (ktime_boot_ns env 0)
         [(''CPU'', Arg_int (sint cpu)), (''STATE'', Arg_int (sint state)),
          (''MISS'', Arg_str (if below then ''below'' else ''above''))],
       TRACE_EVENT_END ''cpu-idle'' (1000 + sint cpu) (ktime_boot_ns env 0 + 10000)]"
  using assms
  by (simp add: handle_cpu_idle_def handle_cpu_idle_miss_def handle_freq_idle_event_def Let_def
      trace_cpu_idle_def trace_cpu_idle_miss_def idle_counter_def TRACK_ID_def TRACK_SPACING_def
      FAKE_DURATION_def word_sless_alt)

lemma idle_traced_instance:
  "concat (map (handle_freq_idle_event sample_opts) (freq_idle_rb
     (let env = sample_env (sample_kernel 0 0) 1 100 in handle_cpu_idle_miss env 3 2 True
       (handle_cpu_idle env (- 1) 3 (handle_cpu_idle env 2 3 (sample_state\<lparr>freq_idle_rb := []\<rparr>))))))
    = [idle_counter 3 100 2, TRACE_COUNTER ''cpu-idle'' (cpu_track 3 '' idle_state'') 100 (- 1),
       idle_counter 3 100 2,
       TRACE_EVENT ''cpu-idle'' ''cpu_idle_miss'' 1003 100
         [(''CPU'', Arg_int 3), (''STATE'', Arg_int 2), (''MISS'', Arg_str ''below'')],
       TRACE_EVENT_END ''cpu-idle'' 1003 10100]"
proof -
  obtain m where m: "reserve_freq_idle (sample_env (sample_kernel 0 0) 1 100) 0 = Some m"
    by (simp add: sample_env_def)
  have "cpu_idle sample_opts" by (simp add: sample_opts_def)
  from idle_traced [OF m this] show ?thesis by (simp add: Let_def)
qed

section \<open>Load balancer slices\<close>

text \<open>How many slices of a phase and CPU begin, and end, in a list of events.\<close>

definition begins :: "lb_phases \<Rightarrow> s32 \<Rightarrow> lb_event list \<Rightarrow> nat" where
  "begins p c es = length (filter (\<lambda>e. lb_phase e = p \<and> lb_this_cpu e = c \<and> lb_entry e) es)"

definition ends :: "lb_phases \<Rightarrow> s32 \<Rightarrow> lb_event list \<Rightarrow> nat" where
  "ends p c es = length (filter (\<lambda>e. lb_phase e = p \<and> lb_this_cpu e = c \<and> \<not> lb_entry e) es)"

lemma begins_append [simp]: "begins p c (xs @ ys) = begins p c xs + begins p c ys"
  by (simp add: begins_def)

lemma ends_append [simp]: "ends p c (xs @ ys) = ends p c xs + ends p c ys"
  by (simp add: ends_def)

text \<open>Kept by every probe whose reservation succeeds: no prefix ends more slices than it begins.\<close>

definition slices_ok :: "lb_phases \<Rightarrow> s32 \<Rightarrow> lb_open \<times> lb_event list \<Rightarrow> bool" where
  "slices_ok p c = (\<lambda>(opened, rb).
     (\<forall>n. ends p c (take n rb) \<le> begins p c (take n rb)) \<and>
     ends p c rb + (if opened (p, c) = None then 0 else 1) \<le> begins p c rb)"

lemma slices_ok_snoc:
  assumes "slices_ok p c (opened, rb)"
    and "ends p c (rb @ [e]) + (if opened' (p, c) = None then 0 else 1) \<le> begins p c (rb @ [e])"
  shows "slices_ok p c (opened', rb @ [e])"
proof -
  have "ends p c (take n (rb @ [e])) \<le> begins p c (take n (rb @ [e]))" for n
  proof (cases "n \<le> length rb")
    case True
    then show ?thesis using assms(1) by (simp add: slices_ok_def)
  next
    case False
    then have "take n (rb @ [e]) = rb @ [e]" by simp
    then show ?thesis using assms(2) by simp
  qed
  then show ?thesis using assms(2) by (simp add: slices_ok_def)
qed

lemma begins_ends_single:
  "begins p c [lb_entry_event env call m] =
     (if lb_call_phase call = p \<and> smp_processor_id env = c then 1 else 0)"
  "ends p c [lb_entry_event env call m] = 0"
  "begins p c [lb_exit_event env phase cpu m] = 0"
  "ends p c [lb_exit_event env phase cpu m] = (if phase = p \<and> smp_processor_id env = c then 1 else 0)"
  by (simp_all add: begins_def ends_def lb_entry_event_def lb_exit_event_def Let_def)

lemma slices_ok_step:
  assumes p: "p \<noteq> LB_RUN_REBALANCE_DOMAINS" and ok: "slices_ok p c (opened, rb)"
    and r: "reserve_lb (probe_env q) 0 \<noteq> None"
  shows "slices_ok p c (lb_spec q (opened, rb))"
proof -
  have last: "ends p c rb + (if opened (p, c) = None then 0 else 1) \<le> begins p c rb"
    using ok by (simp add: slices_ok_def)
  show ?thesis
  proof (cases q)
    case (Enter env call)
    then obtain m where m: "reserve_lb env 0 = Some m" using r by auto
    show ?thesis
      unfolding Enter lb_spec.simps m reserve_submit_simps
      using last p by (intro slices_ok_snoc [OF ok]) (auto simp: begins_ends_single)
  next
    case (Leave env phase)
    then obtain m where m: "reserve_lb env 0 = Some m" using r by auto
    have snoc: "slices_ok p c (opened', rb @ [lb_exit_event env phase' cpu m])"
      if "(if phase' = p \<and> smp_processor_id env = c then 1 else 0) + (if opened' (p, c) = None then 0 else 1)
          \<le> (if opened (p, c) = None then 0 else 1 :: nat)" for opened' cpu phase'
      using last that by (intro slices_ok_snoc [OF ok]) (auto simp: begins_ends_single split: if_splits)
    show ?thesis
      unfolding Leave lb_spec.simps m reserve_submit_simps
      using p ok by (cases "opened (phase, smp_processor_id env)") (auto intro!: snoc)
  qed
qed

lemma slices_ok_fold:
  "p \<noteq> LB_RUN_REBALANCE_DOMAINS \<Longrightarrow> slices_ok p c a \<Longrightarrow>
     \<forall>q \<in> set qs. reserve_lb (probe_env q) 0 \<noteq> None \<Longrightarrow> slices_ok p c (fold lb_spec qs a)"
proof (induction qs arbitrary: a)
  case (Cons q qs)
  then show ?case using slices_ok_step [of p c "fst a" "snd a" q] by simp
qed simp

text \<open>
  The phase \<open>LB_RUN_REBALANCE_DOMAINS\<close> saves no CPU: its exit probe ends a slice whether or not one was
  begun, for instance for a call that was under way when the programs were attached.
\<close>

lemma run_rebalance_end_alone:
  assumes "reserve_lb env 0 = Some m" "lb_rb st = []"
  shows "ends LB_RUN_REBALANCE_DOMAINS (smp_processor_id env)
      (lb_rb (lb_exec (Leave env LB_RUN_REBALANCE_DOMAINS) st)) = 1
    \<and> begins LB_RUN_REBALANCE_DOMAINS (smp_processor_id env)
      (lb_rb (lb_exec (Leave env LB_RUN_REBALANCE_DOMAINS) st)) = 0"
  using assms by (simp add: handle_run_rebalance_domains_exit_def Let_def begins_def ends_def)

text \<open>
  Claim C21: the slices of the six phases that save a CPU in the map, which are all but
  \<open>LB_RUN_REBALANCE_DOMAINS\<close>, are balanced on every CPU: starting from an empty map and an empty ring, on
  at most 1365 CPUs (six keys each in a map of 8192) and as long as no reservation on the ring fails,
  no prefix of the events has more ends than beginnings, however the probes are interleaved. For
  \<open>LB_RUN_REBALANCE_DOMAINS\<close> this does not hold (\<open>run_rebalance_end_alone\<close>).
\<close>

theorem lb_slices_balanced:
  assumes "bpf_hash M ok MAX_ENTRIES" "6 * n \<le> MAX_ENTRIES"
    and "ok (lb_map st)" "map_value M (lb_map st) = Map.empty" "lb_rb st = []"
    and "\<forall>q \<in> set qs. lb_ops (probe_env q) = M \<and> unat (smp_processor_id (probe_env q)) < n
      \<and> reserve_lb (probe_env q) 0 \<noteq> None"
    and "p \<noteq> LB_RUN_REBALANCE_DOMAINS"
  shows "\<forall>j. ends p c (take j (lb_rb (fold lb_exec qs st))) \<le> begins p c (take j (lb_rb (fold lb_exec qs st)))"
proof -
  have "lb_ok M ok n st" using assms(3,4) by (simp add: lb_ok_def)
  moreover have "\<forall>q \<in> set qs. lb_probe_ok M n q" using assms(6) by (simp add: lb_probe_ok_def)
  moreover have "lb_abs M n st = (Map.empty, [])"
    using assms(4,5) by (auto simp: lb_abs_def fun_eq_iff)
  ultimately have "lb_abs M n (fold lb_exec qs st) = fold lb_spec qs (Map.empty, [])"
    using lb_exec_fold [OF assms(1,2), of st qs] by simp
  moreover have "slices_ok p c (fold lb_spec qs (Map.empty, []))"
    using assms(6,7) by (intro slices_ok_fold) (simp_all add: slices_ok_def begins_def ends_def)
  ultimately have "slices_ok p c (lb_abs M n (fold lb_exec qs st))" by simp
  then show ?thesis by (simp add: slices_ok_def lb_abs_def)
qed

theorem lb_slices_balanced_witness:
  "\<forall>j. ends LB_LOAD_BALANCE 1 (take j (lb_rb (fold lb_exec
     [Enter (sample_env (sample_kernel 0 0) 1 110) (Load_balance 3 0x4000 0x100 CPU_NEWLY_IDLE),
      Leave (sample_env (sample_kernel 0 0) 1 120) LB_LOAD_BALANCE,
      Leave (sample_env (sample_kernel 0 0) 1 130) LB_LOAD_BALANCE] sample_state)))
   \<le> begins LB_LOAD_BALANCE 1 (take j (lb_rb (fold lb_exec
     [Enter (sample_env (sample_kernel 0 0) 1 110) (Load_balance 3 0x4000 0x100 CPU_NEWLY_IDLE),
      Leave (sample_env (sample_kernel 0 0) 1 120) LB_LOAD_BALANCE,
      Leave (sample_env (sample_kernel 0 0) 1 130) LB_LOAD_BALANCE] sample_state)))"
proof (rule lb_slices_balanced [OF htab.bpf_hash_axioms, of 4])
  show "6 * 4 \<le> MAX_ENTRIES" by (simp add: MAX_ENTRIES_def)
qed (simp_all, simp add: sample_env_def)

section \<open>IPIs\<close>

text \<open>
  With \<open>--ipi\<close> on a kernel whose symbols all lie in the upper half of a 4 GiB window (x86-64) and
  fill at most half of the table, every IPI is traced with the raw addresses of its call site and
  callback instead of their names, at its time, on the track of the sending CPU, and with both CPUs.
\<close>

lemma ipi_traced_raw:
  assumes "\<forall>l \<in> set rows. line_wf l" "length rows \<le> MAX_NUM_SYMBOLS div 2"
    and "high_window h (line_symbol ` set rows)" "\<not> kptr_restricts kptr" "c_qsort qsort"
    and "ks = parse_kallsyms qsort kptr (Some (concat (map kallsyms_line rows))) kallsyms_init"
    and "reserve_ipi env 0 = Some m"
  shows "\<exists>e. ipi_rb (handle_ipi_send_cpu env cpu callsite callback st) = ipi_rb st @ [e]
    \<and> handle_ipi_event ks opts e =
      [TRACE_EVENT ''ipi'' ''ipi_send_cpu'' (3000 + sint (smp_processor_id env)) (ktime_boot_ns env 0)
         [(''FROM_CPU'', Arg_int (sint (smp_processor_id env))), (''TARGET_CPU'', Arg_int (sint cpu)),
          (''CALLSITE'', Arg_ptr callsite), (''CALLBACK'', Arg_ptr callback)],
       TRACE_EVENT_END ''ipi'' (3000 + sint (smp_processor_id env)) (ktime_boot_ns env 0 + 10000)]"
proof -
  have "lookup_name ks a = None" for a
    unfolding lookup_name_def assms(6) high_window_find_none [OF assms(1-5)] by simp
  then show ?thesis using assms(7)
    by (simp add: handle_ipi_send_cpu_def handle_ipi_event_def trace_ipi_send_cpu_def Let_def
        TRACK_ID_def TRACK_SPACING_def FAKE_DURATION_def)
qed

lemma ipi_traced_raw_instance:
  "\<exists>e. ipi_rb (handle_ipi_send_cpu (sample_env (sample_kernel 0 0) 1 100) 2 0xffffffff81000010 0 sample_state)
      = ipi_rb sample_state @ [e]
    \<and> handle_ipi_event (parse_kallsyms isort_c None
        (Some (concat (map kallsyms_line [(''ffffffff81000000'', ''T'', ''startup_64'')]))) kallsyms_init) sample_opts e =
      [TRACE_EVENT ''ipi'' ''ipi_send_cpu'' 3001 100
         [(''FROM_CPU'', Arg_int 1), (''TARGET_CPU'', Arg_int 2),
          (''CALLSITE'', Arg_ptr 0xffffffff81000010), (''CALLBACK'', Arg_ptr 0)],
       TRACE_EVENT_END ''ipi'' 3001 10100]"
proof -
  let ?rows = "[(''ffffffff81000000'', ''T'', ''startup_64'')]"
  obtain m where m: "reserve_ipi (sample_env (sample_kernel 0 0) 1 100) 0 = Some m"
    by (simp add: sample_env_def)
  have "\<forall>l \<in> set ?rows. line_wf l" "length ?rows \<le> MAX_NUM_SYMBOLS div 2"
    "high_window 0xffffffff (line_symbol ` set ?rows)" "\<not> kptr_restricts None"
    by (simp_all add: line_wf_examples MAX_NUM_SYMBOLS_def kptr_restricts_def high_window_def
        line_symbol_def strtoul_text high32_def low32_def)
  from ipi_traced_raw [where cpu = 2 and callsite = "0xffffffff81000010" and callback = 0 and
      st = sample_state and opts = sample_opts, OF this isort.c_qsort_axioms refl m]
  show ?thesis by simp
qed

end
