(* ===== verification/SA_Ctypes.thy ===== *)
theory SA_Ctypes imports SA_Prelude begin

text \<open>
  C object types as \<open>vmlinux.h\<close> uses them, and their layout under the LP64 little-endian ABI the
  kernel and the BPF target share: sizes, alignments, the place of every member, and what an access
  path such as \<open>se->avg.load_avg\<close> or \<open>p->uclamp[UCLAMP_MIN].value\<close> denotes. Positions are counted
  in bits, so that bit-fields are members like the others. \<^emph>\<open>core_read\<close> reads a member from a
  memory of bytes. The general facts: members follow each other without overlap, an access
  stays inside the object, and a read depends on the bytes of the object only.
\<close>

section \<open>Types\<close>

datatype prim = C_bool | C_char | C_uchar | C_short | C_ushort | C_int | C_uint | C_long | C_ulong
  | C_llong | C_ullong | C_uint128

text \<open>
  A pointer keeps the spelling of what it points to, an enumeration its constants. A member is a
  field, an unnamed struct or union, a bit-field, or unnamed padding bits (\<open>long: 64;\<close>).
\<close>

datatype ctype = Prim prim | Enum "(string \<times> int) list" | Ptr string | Arr ctype nat
  | Struct "member list" | Union "member list"
and member = Fld ctype string | Anon ctype | Bits prim nat string | Pad prim nat

text \<open>The built-in types.\<close>

abbreviation c_bool :: ctype where "c_bool \<equiv> Prim C_bool"
abbreviation c_char :: ctype where "c_char \<equiv> Prim C_char"
abbreviation c_uchar :: ctype where "c_uchar \<equiv> Prim C_uchar"
abbreviation c_short :: ctype where "c_short \<equiv> Prim C_short"
abbreviation c_ushort :: ctype where "c_ushort \<equiv> Prim C_ushort"
abbreviation c_int :: ctype where "c_int \<equiv> Prim C_int"
abbreviation c_uint :: ctype where "c_uint \<equiv> Prim C_uint"
abbreviation c_long :: ctype where "c_long \<equiv> Prim C_long"
abbreviation c_ulong :: ctype where "c_ulong \<equiv> Prim C_ulong"
abbreviation c_llong :: ctype where "c_llong \<equiv> Prim C_llong"
abbreviation c_ullong :: ctype where "c_ullong \<equiv> Prim C_ullong"
abbreviation c_uint128 :: ctype where "c_uint128 \<equiv> Prim C_uint128"

section \<open>Layout\<close>

fun prim_size :: "prim \<Rightarrow> nat" where
  "prim_size C_bool = 1" | "prim_size C_char = 1" | "prim_size C_uchar = 1"
| "prim_size C_short = 2" | "prim_size C_ushort = 2" | "prim_size C_int = 4" | "prim_size C_uint = 4"
| "prim_size C_long = 8" | "prim_size C_ulong = 8" | "prim_size C_llong = 8" | "prim_size C_ullong = 8"
| "prim_size C_uint128 = 16"

definition roundup :: "nat \<Rightarrow> nat \<Rightarrow> nat" where
  "roundup b a = (b + a - 1) div a * a"

text \<open>Unnamed bits do not raise the alignment of what contains them.\<close>

fun align_of :: "ctype \<Rightarrow> nat" and member_align :: "member \<Rightarrow> nat" and aligns :: "member list \<Rightarrow> nat" where
  "align_of (Prim p) = prim_size p"
| "align_of (Enum es) = 4"
| "align_of (Ptr s) = 8"
| "align_of (Arr t n) = align_of t"
| "align_of (Struct ms) = aligns ms"
| "align_of (Union ms) = aligns ms"
| "member_align (Fld t n) = align_of t"
| "member_align (Anon t) = align_of t"
| "member_align (Bits p w n) = prim_size p"
| "member_align (Pad p w) = 1"
| "aligns [] = 1"
| "aligns (m # ms) = max (member_align m) (aligns ms)"

text \<open>
  The first bit of a member when \<open>b\<close> bits of the structure are taken: a field starts at its
  alignment, a bit-field at once unless it would straddle a unit of its type.
\<close>

definition place_bits :: "prim \<Rightarrow> nat \<Rightarrow> nat \<Rightarrow> nat" where
  "place_bits p w b = (let unit = 8 * prim_size p in if b mod unit + w \<le> unit then b else roundup b unit)"

fun place :: "member \<Rightarrow> nat \<Rightarrow> nat" where
  "place (Fld t n) b = roundup b (8 * align_of t)"
| "place (Anon t) b = roundup b (8 * align_of t)"
| "place (Bits p w n) b = place_bits p w b"
| "place (Pad p w) b = place_bits p w b"

fun size_of :: "ctype \<Rightarrow> nat" and room :: "member \<Rightarrow> nat"
  and struct_end :: "member list \<Rightarrow> nat \<Rightarrow> nat" and union_end :: "member list \<Rightarrow> nat" where
  "size_of (Prim p) = prim_size p"
| "size_of (Enum es) = 4"
| "size_of (Ptr s) = 8"
| "size_of (Arr t n) = n * size_of t"
| "size_of (Struct ms) = roundup ((struct_end ms 0 + 7) div 8) (aligns ms)"
| "size_of (Union ms) = roundup ((union_end ms + 7) div 8) (aligns ms)"
| "room (Fld t n) = 8 * size_of t"
| "room (Anon t) = 8 * size_of t"
| "room (Bits p w n) = w"
| "room (Pad p w) = w"
| "struct_end [] b = b"
| "struct_end (m # ms) b = struct_end ms (place m b + room m)"
| "union_end [] = 0"
| "union_end (m # ms) = max (room m) (union_end ms)"

lemmas layout = roundup_def place_bits_def Let_def numeral_2_eq_2 [symmetric]

section \<open>Access paths\<close>

text \<open>Where a member is: its first bit, its type and, for a bit-field, its width.\<close>

type_synonym slot = "nat \<times> ctype \<times> nat option"

fun find_in :: "ctype \<Rightarrow> nat \<Rightarrow> string \<Rightarrow> slot option"
  and find_member :: "member \<Rightarrow> nat \<Rightarrow> string \<Rightarrow> slot option"
  and find_struct :: "member list \<Rightarrow> nat \<Rightarrow> nat \<Rightarrow> string \<Rightarrow> slot option"
  and find_union :: "member list \<Rightarrow> nat \<Rightarrow> string \<Rightarrow> slot option" where
  "find_in (Struct ms) base s = find_struct ms base 0 s"
| "find_in (Union ms) base s = find_union ms base s"
| "find_in _ base s = None"
| "find_member (Fld t n) base s = (if n = s then Some (base, t, None) else None)"
| "find_member (Anon t) base s = find_in t base s"
| "find_member (Bits p w n) base s = (if n = s then Some (base, Prim p, Some w) else None)"
| "find_member (Pad p w) base s = None"
| "find_struct [] base b s = None"
| "find_struct (m # ms) base b s =
     (case find_member m (base + place m b) s of
        Some r \<Rightarrow> Some r | None \<Rightarrow> find_struct ms base (place m b + room m) s)"
| "find_union [] base s = None"
| "find_union (m # ms) base s =
     (case find_member m base s of Some r \<Rightarrow> Some r | None \<Rightarrow> find_union ms base s)"

datatype access = Dot string | Ix nat

fun resolve :: "ctype \<Rightarrow> nat \<Rightarrow> access list \<Rightarrow> slot option" where
  "resolve t b [] = Some (b, t, None)"
| "resolve t b (Dot s # as) =
     (case find_in t b s of
        Some (b', t', None) \<Rightarrow> resolve t' b' as
      | Some (b', t', Some w) \<Rightarrow> (if as = [] then Some (b', t', Some w) else None)
      | None \<Rightarrow> None)"
| "resolve (Arr t n) b (Ix i # as) = (if i < n then resolve t (b + i * (8 * size_of t)) as else None)"
| "resolve t b (Ix i # as) = None"

text \<open>\<open>offsetof\<close>, in bytes, and \<open>bpf_core_field_exists\<close> against the same declarations.\<close>

definition offset_of :: "ctype \<Rightarrow> access list \<Rightarrow> nat" where
  "offset_of t as = (case resolve t 0 as of Some (b, _) \<Rightarrow> b div 8 | None \<Rightarrow> 0)"

definition core_field_exists :: "ctype \<Rightarrow> access list \<Rightarrow> bool" where
  "core_field_exists t as \<longleftrightarrow> resolve t 0 as \<noteq> None"

text \<open>While a member list is walked, only the position is worth simplifying.\<close>

lemma walk_cong:
  "b = b' \<Longrightarrow> struct_end ms b = struct_end ms b'"
  "b = b' \<Longrightarrow> find_struct ms base b s = find_struct ms base b' s"
  "aligns ms = aligns ms"
  by simp_all

section \<open>Reading memory\<close>

type_synonym memory = "64 word \<Rightarrow> 8 word"

primrec read_le :: "memory \<Rightarrow> 64 word \<Rightarrow> nat \<Rightarrow> nat" where
  "read_le B a 0 = 0"
| "read_le B a (Suc n) = unat (B a) + 256 * read_le B (a + 1) n"

text \<open>
  \<open>BPF_CORE_READ\<close> and \<open>BPF_CORE_READ_BITFIELD_PROBED\<close>. A path that does not resolve is not read:
  the loader rejects the program unless the access is behind a failing \<open>bpf_core_field_exists\<close>.
\<close>

definition core_read :: "memory \<Rightarrow> ctype \<Rightarrow> 64 word \<Rightarrow> access list \<Rightarrow> nat" where
  "core_read B t a as =
     (case resolve t 0 as of
        Some (b, t', None) \<Rightarrow> read_le B (a + of_nat (b div 8)) (size_of t')
      | Some (b, t', Some w) \<Rightarrow>
          read_le B (a + of_nat (b div 8)) ((b mod 8 + w + 7) div 8) div 2 ^ (b mod 8) mod 2 ^ w
      | None \<Rightarrow> 0)"

section \<open>Placement\<close>

lemma roundup_dvd: "a dvd roundup b a"
  by (simp add: roundup_def)

lemma roundup_ge: "0 < a \<Longrightarrow> b \<le> roundup b a"
proof -
  assume "0 < a"
  then have "(b + a - 1) mod a < a" by simp
  with \<open>0 < a\<close> show ?thesis
    using mod_div_mult_eq [of "b + a - 1" a] unfolding roundup_def by linarith
qed

lemma roundup_less: "0 < a \<Longrightarrow> roundup b a < b + a"
  using div_times_less_eq_dividend [of "b + a - 1" a] unfolding roundup_def by linarith

lemma prim_size_pos [simp]: "0 < prim_size p"
  by (cases p) simp_all

lemma align_pos [simp]: "0 < align_of t" "0 < member_align m" "0 < aligns ms"
  by (induction t and m and ms rule: align_of_member_align_aligns.induct) auto

lemma place_bits_ge: "b \<le> place_bits p w b"
  by (simp add: place_bits_def Let_def roundup_ge)

lemma place_ge: "b \<le> place m b"
  by (cases m) (simp_all add: roundup_ge place_bits_ge)

text \<open>Fields are aligned, and no more is skipped than alignment asks for.\<close>

lemma place_aligned: "8 * align_of t dvd place (Fld t s) b" "8 * align_of t dvd place (Anon t) b"
  by (simp_all add: roundup_dvd)

lemma place_tight: "place (Fld t s) b < b + 8 * align_of t" "place (Anon t) b < b + 8 * align_of t"
  by (simp_all add: roundup_less)

lemma place_bits_unit:
  assumes "w \<le> 8 * prim_size p"
  shows "place_bits p w b mod (8 * prim_size p) + w \<le> 8 * prim_size p"
  using assms roundup_dvd [of "8 * prim_size p" b]
  by (simp add: place_bits_def Let_def dvd_imp_mod_0)

lemma struct_end_ge: "b \<le> struct_end ms b"
  by (induction ms arbitrary: b) (auto intro: order_trans [OF place_ge] le_trans [OF le_add1])

lemma struct_end_append: "struct_end (ms @ ns) b = struct_end ns (struct_end ms b)"
  by (induction ms arbitrary: b) simp_all

lemma aligns_append: "aligns (ms @ ns) = max (aligns ms) (aligns ns)"
proof (induction ms)
  case Nil
  have "1 \<le> aligns ns" using align_pos(3) [of ns] by linarith
  then show ?case by (simp add: max_absorb2)
qed (simp add: max.assoc)

lemma find_struct_append:
  "find_struct (ms @ ns) base b s =
     (case find_struct ms base b s of
        Some r \<Rightarrow> Some r | None \<Rightarrow> find_struct ns base (struct_end ms b) s)"
  by (induction ms arbitrary: b) (simp_all split: option.split)

lemma align_dvd_size: "align_of t dvd size_of t"
proof (induction t)
  case (Arr t n) then show ?case by simp
qed (simp_all add: roundup_dvd)

text \<open>The end of the last member fits the size.\<close>

lemma bytes_fit: "n \<le> 8 * roundup ((n + 7) div 8) a" if "0 < a"
  using roundup_ge [OF that, of "(n + 7) div 8"] by linarith

section \<open>Members do not overlap and stay inside\<close>

text \<open>The bits of the members in order, each with its first bit and its width.\<close>

fun spans :: "member list \<Rightarrow> nat \<Rightarrow> (nat \<times> nat) list" where
  "spans [] b = []"
| "spans (m # ms) b = (place m b, room m) # spans ms (place m b + room m)"

lemma spans_within: "(a, w) \<in> set (spans ms b) \<Longrightarrow> b \<le> a \<and> a + w \<le> struct_end ms b"
proof (induction ms b rule: spans.induct)
  case (2 m ms b)
  then show ?case
    using place_ge [of b m] struct_end_ge [of "place m b + room m" ms] by fastforce
qed simp

lemma members_disjoint: "sorted_wrt (\<lambda>(a, w) (a', w'). a + w \<le> a') (spans ms b)"
  by (induction ms b rule: spans.induct) (auto dest: spans_within)

definition slot_bits :: "ctype \<Rightarrow> nat option \<Rightarrow> nat" where
  "slot_bits t w = (case w of None \<Rightarrow> 8 * size_of t | Some w \<Rightarrow> w)"

lemma slot_bits_simps [simp]: "slot_bits t None = 8 * size_of t" "slot_bits t (Some w) = w"
  by (simp_all add: slot_bits_def)

lemma find_within:
  "find_in t base s = Some (b', t', w) \<Longrightarrow> base \<le> b' \<and> b' + slot_bits t' w \<le> base + 8 * size_of t"
  "find_member m base s = Some (b', t', w) \<Longrightarrow> base \<le> b' \<and> b' + slot_bits t' w \<le> base + room m"
  "find_struct ms base b s = Some (b', t', w)
     \<Longrightarrow> base + b \<le> b' \<and> b' + slot_bits t' w \<le> base + struct_end ms b"
  "find_union ms base s = Some (b', t', w)
     \<Longrightarrow> base \<le> b' \<and> b' + slot_bits t' w \<le> base + union_end ms"
proof (induction t base s and m base s and ms base b s and ms base s
    rule: find_in_find_member_find_struct_find_union.induct, goal_cases)
  case (1 ms base s)
  then have "base \<le> b'" "b' + slot_bits t' w \<le> base + struct_end ms 0" by simp_all
  with bytes_fit [OF align_pos(3) [of ms], of "struct_end ms 0"] show ?case by simp
next
  case (2 ms base s)
  then have "base \<le> b'" "b' + slot_bits t' w \<le> base + union_end ms" by simp_all
  with bytes_fit [OF align_pos(3) [of ms], of "union_end ms"] show ?case by simp
next
  case (12 m ms base b s)
  then show ?case
    using place_ge [of b m] struct_end_ge [of "place m b + room m" ms]
    by (fastforce split: option.splits)
next
  case (14 m ms base s)
  then show ?case by (fastforce split: option.splits)
qed (auto split: if_splits)

text \<open>The bits a resolved path denotes belong to the object.\<close>

lemma resolve_within:
  "resolve t b as = Some (b', t', w) \<Longrightarrow> b \<le> b' \<and> b' + slot_bits t' w \<le> b + 8 * size_of t"
proof (induction t b as rule: resolve.induct)
  case (2 t b s as)
  then obtain c u v where f: "find_in t b s = Some (c, u, v)"
    by (auto split: option.splits)
  note wf = find_within(1) [OF f]
  show ?case
  proof (cases v)
    case None
    with 2 f have "c \<le> b' \<and> b' + slot_bits t' w \<le> c + 8 * size_of u" by simp
    with wf None show ?thesis by simp
  next
    case (Some x)
    with 2 f wf show ?thesis by (auto split: if_splits)
  qed
next
  case (3 t n b i as)
  then have i: "i < n" by (simp split: if_splits)
  with 3 have "b + i * (8 * size_of t) \<le> b' \<and> b' + slot_bits t' w \<le> b + i * (8 * size_of t) + 8 * size_of t"
    by simp
  moreover have "i * (8 * size_of t) + 8 * size_of t \<le> 8 * (n * size_of t)"
    using mult_le_mono1 [OF Suc_leI [OF i], of "8 * size_of t"] by (simp add: mult.left_commute)
  ultimately show ?case by simp
qed simp_all

section \<open>Reads are local\<close>

definition same_bytes :: "memory \<Rightarrow> memory \<Rightarrow> 64 word \<Rightarrow> nat \<Rightarrow> bool" where
  "same_bytes B B' a n \<longleftrightarrow> (\<forall>i<n. B (a + of_nat i) = B' (a + of_nat i))"

lemma same_bytes_sub: "same_bytes B B' a n \<Longrightarrow> k + m \<le> n \<Longrightarrow> same_bytes B B' (a + of_nat k) m"
  unfolding same_bytes_def
proof (intro allI impI)
  fix i assume *: "\<forall>i<n. B (a + of_nat i) = B' (a + of_nat i)" "k + m \<le> n" "i < m"
  have "B (a + of_nat (k + i)) = B' (a + of_nat (k + i))" by (rule *(1) [rule_format]) (use * in simp)
  then show "B (a + of_nat k + of_nat i) = B' (a + of_nat k + of_nat i)" by (simp add: algebra_simps)
qed

lemma read_le_cong: "same_bytes B B' a n \<Longrightarrow> read_le B a n = read_le B' a n"
proof (induction n arbitrary: a)
  case (Suc n)
  from Suc.prems have "B a = B' a" by (auto simp: same_bytes_def)
  moreover have "same_bytes B B' (a + 1) n" using same_bytes_sub [OF Suc.prems, of 1 n] by simp
  ultimately show ?case using Suc.IH by simp
qed simp

lemma byte_window:
  fixes b x n :: nat
  assumes "b + x \<le> 8 * n"
  shows "b div 8 + (b mod 8 + x + 7) div 8 \<le> n"
proof -
  have "b + x + 7 = b mod 8 + x + 7 + b div 8 * 8" by simp
  then have "(b + x + 7) div 8 = b div 8 + (b mod 8 + x + 7) div 8" by (metis add.commute div_mult_self1 zero_neq_numeral)
  moreover have "(b + x + 7) div 8 \<le> n" using assms by linarith
  ultimately show ?thesis by linarith
qed

lemma core_read_cong:
  assumes "same_bytes B B' a (size_of t)"
  shows "core_read B t a as = core_read B' t a as"
proof (cases "resolve t 0 as")
  case (Some r)
  obtain b t' w where r: "r = (b, t', w)" by (cases r)
  have "b + slot_bits t' w \<le> 8 * size_of t" using resolve_within Some r by fastforce
  then have "b div 8 + (b mod 8 + slot_bits t' w + 7) div 8 \<le> size_of t" by (rule byte_window)
  moreover have "size_of t' \<le> (b mod 8 + 8 * size_of t' + 7) div 8" by linarith
  ultimately have "same_bytes B B' (a + of_nat (b div 8)) (case w of None \<Rightarrow> size_of t' | Some w \<Rightarrow> (b mod 8 + w + 7) div 8)"
    using same_bytes_sub [OF assms] by (auto split: option.split)
  then show ?thesis using Some r
    by (cases w) (simp_all add: core_read_def read_le_cong)
qed (simp add: core_read_def)

text \<open>
  A reader decodes a value from the \<open>n\<close> bytes at an address. Whoever holds an object that contains
  those bytes knows what the reader sees.
\<close>

locale reader =
  fixes rd :: "memory \<Rightarrow> 64 word \<Rightarrow> 'a" and n :: nat
  assumes local: "same_bytes B B' a n \<Longrightarrow> rd B a = rd B' a"
begin

lemma inside: "same_bytes B B' a m \<Longrightarrow> k + n \<le> m \<Longrightarrow> rd B (a + of_nat k) = rd B' (a + of_nat k)"
  by (rule local) (rule same_bytes_sub)

lemma inside_at:
  assumes "same_bytes B B' a m" "k + n \<le> m" "c = a + of_nat k"
  shows "rd B c = rd B' c"
  using inside [OF assms(1,2)] assms(3) by simp

end

end
