(* ===== verification/SA_Vmlinux_Base.thy ===== *)
theory SA_Vmlinux_Base imports SA_Ctypes begin

text \<open>
  Component: the kernel types of \<open>vmlinux.h\<close> that the scheduler's structures are built from, up to
  the parts of \<open>struct task_struct\<close>: scalar typedefs, locks, lists, trees, timers, PELT signals and
  scheduling entities, in the order of the header, every member and every padding bit included.
  \<open>struct x\<close> is \<^emph>\<open>struct_x\<close>, \<open>typedef ... x\<close> is \<^emph>\<open>td_x\<close>. Each aggregate comes with its size and
  alignment, which the definitions that contain it use.
\<close>

definition td_bool :: ctype where "td_bool = c_bool"
definition td___u8 :: ctype where "td___u8 = c_uchar"
definition td___u32 :: ctype where "td___u32 = c_uint"
definition td___u64 :: ctype where "td___u64 = c_ullong"
definition td_u8 :: ctype where "td_u8 = td___u8"
definition td_u32 :: ctype where "td_u32 = td___u32"
definition td_u64 :: ctype where "td_u64 = td___u64"
definition td___kernel_ulong_t :: ctype where "td___kernel_ulong_t = c_ulong"
definition td___kernel_size_t :: ctype where "td___kernel_size_t = td___kernel_ulong_t"
definition td_size_t :: ctype where "td_size_t = td___kernel_size_t"
definition td_gfp_t :: ctype where "td_gfp_t = c_uint"

lemmas [simp] = td_bool_def td___u8_def td___u32_def td___u64_def td_u8_def td_u32_def
  td_u64_def td___kernel_ulong_t_def td___kernel_size_t_def td_size_t_def td_gfp_t_def

definition td_atomic_t :: ctype where
  "td_atomic_t = Struct
    [Fld c_int ''counter'']"

lemma td_atomic_t_layout [simp]: "size_of td_atomic_t = 4" "align_of td_atomic_t = 4"
  by (simp_all add: td_atomic_t_def layout)

definition struct_cpumask :: ctype where
  "struct_cpumask = Struct
    [Fld (Arr c_ulong 4) ''bits'']"

lemma struct_cpumask_layout [simp]: "size_of struct_cpumask = 32" "align_of struct_cpumask = 8"
  by (simp_all add: struct_cpumask_def layout)

definition td___u16 :: ctype where "td___u16 = c_ushort"
definition td___s64 :: ctype where "td___s64 = c_llong"
definition td_u16 :: ctype where "td_u16 = td___u16"
definition td_s64 :: ctype where "td_s64 = td___s64"
definition td___kernel_long_t :: ctype where "td___kernel_long_t = c_long"
definition td___kernel_pid_t :: ctype where "td___kernel_pid_t = c_int"
definition td___kernel_uid32_t :: ctype where "td___kernel_uid32_t = c_uint"
definition td___kernel_gid32_t :: ctype where "td___kernel_gid32_t = c_uint"
definition td___kernel_clock_t :: ctype where "td___kernel_clock_t = td___kernel_long_t"
definition td___kernel_timer_t :: ctype where "td___kernel_timer_t = c_int"
definition td___kernel_clockid_t :: ctype where "td___kernel_clockid_t = c_int"
definition td_pid_t :: ctype where "td_pid_t = td___kernel_pid_t"
definition td_clockid_t :: ctype where "td_clockid_t = td___kernel_clockid_t"
definition td_uid_t :: ctype where "td_uid_t = td___kernel_uid32_t"
definition td_gid_t :: ctype where "td_gid_t = td___kernel_gid32_t"

lemmas [simp] = td___u16_def td___s64_def td_u16_def td_s64_def td___kernel_long_t_def
  td___kernel_pid_t_def td___kernel_uid32_t_def td___kernel_gid32_t_def td___kernel_clock_t_def
  td___kernel_timer_t_def td___kernel_clockid_t_def td_pid_t_def td_clockid_t_def td_uid_t_def
  td_gid_t_def

definition td_atomic64_t :: ctype where
  "td_atomic64_t = Struct
    [Fld td_s64 ''counter'']"

lemma td_atomic64_t_layout [simp]: "size_of td_atomic64_t = 8" "align_of td_atomic64_t = 8"
  by (simp_all add: td_atomic64_t_def layout)

definition struct_list_head :: ctype where
  "struct_list_head = Struct
    [Fld (Ptr ''struct list_head'') ''next'',
     Fld (Ptr ''struct list_head'') ''prev'']"

lemma struct_list_head_layout [simp]:
  "size_of struct_list_head = 16" "align_of struct_list_head = 8"
  by (simp_all add: struct_list_head_def layout)

definition struct_hlist_head :: ctype where
  "struct_hlist_head = Struct
    [Fld (Ptr ''struct hlist_node'') ''first'']"

lemma struct_hlist_head_layout [simp]:
  "size_of struct_hlist_head = 8" "align_of struct_hlist_head = 8"
  by (simp_all add: struct_hlist_head_def layout)

definition struct_hlist_node :: ctype where
  "struct_hlist_node = Struct
    [Fld (Ptr ''struct hlist_node'') ''next'',
     Fld (Ptr ''struct hlist_node *'') ''pprev'']"

lemma struct_hlist_node_layout [simp]:
  "size_of struct_hlist_node = 16" "align_of struct_hlist_node = 8"
  by (simp_all add: struct_hlist_node_def layout)

definition struct_callback_head :: ctype where
  "struct_callback_head = Struct
    [Fld (Ptr ''struct callback_head'') ''next'',
     Fld (Ptr ''void (struct callback_head *)'') ''func'']"

lemma struct_callback_head_layout [simp]:
  "size_of struct_callback_head = 16" "align_of struct_callback_head = 8"
  by (simp_all add: struct_callback_head_def layout)

definition td_atomic_long_t :: ctype where "td_atomic_long_t = td_atomic64_t"

lemmas [simp] = td_atomic_long_t_def

definition struct_qspinlock :: ctype where
  "struct_qspinlock = Struct
    [Anon (Union
      [Fld td_atomic_t ''val'',
       Anon (Struct
        [Fld td_u8 ''locked'',
         Fld td_u8 ''pending'']),
       Anon (Struct
        [Fld td_u16 ''locked_pending'',
         Fld td_u16 ''tail''])])]"

lemma struct_qspinlock_layout [simp]:
  "size_of struct_qspinlock = 4" "align_of struct_qspinlock = 4"
  by (simp_all add: struct_qspinlock_def layout)

definition td_arch_spinlock_t :: ctype where "td_arch_spinlock_t = struct_qspinlock"

lemmas [simp] = td_arch_spinlock_t_def

definition struct_raw_spinlock :: ctype where
  "struct_raw_spinlock = Struct
    [Fld td_arch_spinlock_t ''raw_lock'']"

lemma struct_raw_spinlock_layout [simp]:
  "size_of struct_raw_spinlock = 4" "align_of struct_raw_spinlock = 4"
  by (simp_all add: struct_raw_spinlock_def layout)

definition td_raw_spinlock_t :: ctype where "td_raw_spinlock_t = struct_raw_spinlock"

lemmas [simp] = td_raw_spinlock_t_def

definition struct_refcount_struct :: ctype where
  "struct_refcount_struct = Struct
    [Fld td_atomic_t ''refs'']"

lemma struct_refcount_struct_layout [simp]:
  "size_of struct_refcount_struct = 4" "align_of struct_refcount_struct = 4"
  by (simp_all add: struct_refcount_struct_def layout)

definition td_refcount_t :: ctype where "td_refcount_t = struct_refcount_struct"

lemmas [simp] = td_refcount_t_def

definition struct_optimistic_spin_queue :: ctype where
  "struct_optimistic_spin_queue = Struct
    [Fld td_atomic_t ''tail'']"

lemma struct_optimistic_spin_queue_layout [simp]:
  "size_of struct_optimistic_spin_queue = 4" "align_of struct_optimistic_spin_queue = 4"
  by (simp_all add: struct_optimistic_spin_queue_def layout)

definition struct_mutex :: ctype where
  "struct_mutex = Struct
    [Fld td_atomic_long_t ''owner'',
     Fld td_raw_spinlock_t ''wait_lock'',
     Fld struct_optimistic_spin_queue ''osq'',
     Fld struct_list_head ''wait_list'']"

lemma struct_mutex_layout [simp]: "size_of struct_mutex = 32" "align_of struct_mutex = 8"
  unfolding struct_mutex_def by (simp_all add: layout cong: walk_cong)

definition struct_rb_node :: ctype where
  "struct_rb_node = Struct
    [Fld c_ulong ''__rb_parent_color'',
     Fld (Ptr ''struct rb_node'') ''rb_right'',
     Fld (Ptr ''struct rb_node'') ''rb_left'']"

lemma struct_rb_node_layout [simp]: "size_of struct_rb_node = 24" "align_of struct_rb_node = 8"
  by (simp_all add: struct_rb_node_def layout)

definition enum_timespec_type :: ctype where
  "enum_timespec_type = Enum
    [(''TT_NONE'', 0),
     (''TT_NATIVE'', 1),
     (''TT_COMPAT'', 2)]"

lemma enum_timespec_type_layout [simp]:
  "size_of enum_timespec_type = 4" "align_of enum_timespec_type = 4"
  by (simp_all add: enum_timespec_type_def layout)

definition struct_restart_block :: ctype where
  "struct_restart_block = Struct
    [Fld c_ulong ''arch_data'',
     Fld (Ptr ''long int (struct restart_block *)'') ''fn'',
     Anon (Union
      [Fld (Struct
        [Fld (Ptr ''u32'') ''uaddr'',
         Fld td_u32 ''val'',
         Fld td_u32 ''flags'',
         Fld td_u32 ''bitset'',
         Fld td_u64 ''time'',
         Fld (Ptr ''u32'') ''uaddr2'']) ''futex'',
       Fld (Struct
        [Fld td_clockid_t ''clockid'',
         Fld enum_timespec_type ''type'',
         Anon (Union
          [Fld (Ptr ''struct __kernel_timespec'') ''rmtp'',
           Fld (Ptr ''struct old_timespec32'') ''compat_rmtp'']),
         Fld td_u64 ''expires'']) ''nanosleep'',
       Fld (Struct
        [Fld (Ptr ''struct pollfd'') ''ufds'',
         Fld c_int ''nfds'',
         Fld c_int ''has_timeout'',
         Fld c_ulong ''tv_sec'',
         Fld c_ulong ''tv_nsec'']) ''poll''])]"

lemma struct_restart_block_layout [simp]:
  "size_of struct_restart_block = 56" "align_of struct_restart_block = 8"
  by (simp_all add: struct_restart_block_def layout)

definition struct_thread_info :: ctype where
  "struct_thread_info = Struct
    [Fld c_ulong ''flags'',
     Fld td_u64 ''ttbr0'',
     Anon (Union
      [Fld td_u64 ''preempt_count'',
       Fld (Struct
        [Fld td_u32 ''count'',
         Fld td_u32 ''need_resched'']) ''preempt'']),
     Fld td_u32 ''cpu'']"

lemma struct_thread_info_layout [simp]:
  "size_of struct_thread_info = 32" "align_of struct_thread_info = 8"
  unfolding struct_thread_info_def by (simp_all add: layout cong: walk_cong)

definition struct_llist_node :: ctype where
  "struct_llist_node = Struct
    [Fld (Ptr ''struct llist_node'') ''next'']"

lemma struct_llist_node_layout [simp]:
  "size_of struct_llist_node = 8" "align_of struct_llist_node = 8"
  by (simp_all add: struct_llist_node_def layout)

definition struct___call_single_node :: ctype where
  "struct___call_single_node = Struct
    [Fld struct_llist_node ''llist'',
     Anon (Union
      [Fld c_uint ''u_flags'',
       Fld td_atomic_t ''a_flags'']),
     Fld td_u16 ''src'',
     Fld td_u16 ''dst'']"

lemma struct___call_single_node_layout [simp]:
  "size_of struct___call_single_node = 16" "align_of struct___call_single_node = 8"
  unfolding struct___call_single_node_def by (simp_all add: layout cong: walk_cong)

definition struct_load_weight :: ctype where
  "struct_load_weight = Struct
    [Fld c_ulong ''weight'',
     Fld td_u32 ''inv_weight'']"

lemma struct_load_weight_layout [simp]:
  "size_of struct_load_weight = 16" "align_of struct_load_weight = 8"
  by (simp_all add: struct_load_weight_def layout)

definition struct_sched_avg :: ctype where
  "struct_sched_avg = Struct
    [Fld td_u64 ''last_update_time'',
     Fld td_u64 ''load_sum'',
     Fld td_u64 ''runnable_sum'',
     Fld td_u32 ''util_sum'',
     Fld td_u32 ''period_contrib'',
     Fld c_ulong ''load_avg'',
     Fld c_ulong ''runnable_avg'',
     Fld c_ulong ''util_avg'',
     Fld c_uint ''util_est'']"

lemma struct_sched_avg_layout [simp]:
  "size_of struct_sched_avg = 64" "align_of struct_sched_avg = 8"
  unfolding struct_sched_avg_def by (simp_all add: layout cong: walk_cong)

definition struct_sched_entity :: ctype where
  "struct_sched_entity = Struct
    [Fld struct_load_weight ''load'',
     Fld struct_rb_node ''run_node'',
     Fld td_u64 ''deadline'',
     Fld td_u64 ''min_deadline'',
     Fld struct_list_head ''group_node'',
     Fld c_uint ''on_rq'',
     Fld td_u64 ''exec_start'',
     Fld td_u64 ''sum_exec_runtime'',
     Fld td_u64 ''prev_sum_exec_runtime'',
     Fld td_u64 ''vruntime'',
     Fld td_s64 ''vlag'',
     Fld td_u64 ''slice'',
     Fld td_u64 ''nr_migrations'',
     Fld c_int ''depth'',
     Fld (Ptr ''struct sched_entity'') ''parent'',
     Fld (Ptr ''struct cfs_rq'') ''cfs_rq'',
     Fld (Ptr ''struct cfs_rq'') ''my_q'',
     Fld c_ulong ''runnable_weight'',
     Pad C_long 64,
     Pad C_long 64,
     Fld struct_sched_avg ''avg'']"

lemma struct_sched_entity_layout [simp]:
  "size_of struct_sched_entity = 256" "align_of struct_sched_entity = 8"
  unfolding struct_sched_entity_def by (simp_all add: layout cong: walk_cong)

definition struct_sched_rt_entity :: ctype where
  "struct_sched_rt_entity = Struct
    [Fld struct_list_head ''run_list'',
     Fld c_ulong ''timeout'',
     Fld c_ulong ''watchdog_stamp'',
     Fld c_uint ''time_slice'',
     Fld c_ushort ''on_rq'',
     Fld c_ushort ''on_list'',
     Fld (Ptr ''struct sched_rt_entity'') ''back'']"

lemma struct_sched_rt_entity_layout [simp]:
  "size_of struct_sched_rt_entity = 48" "align_of struct_sched_rt_entity = 8"
  unfolding struct_sched_rt_entity_def by (simp_all add: layout cong: walk_cong)

definition td_ktime_t :: ctype where "td_ktime_t = td_s64"

lemmas [simp] = td_ktime_t_def

definition struct_timerqueue_node :: ctype where
  "struct_timerqueue_node = Struct
    [Fld struct_rb_node ''node'',
     Fld td_ktime_t ''expires'']"

lemma struct_timerqueue_node_layout [simp]:
  "size_of struct_timerqueue_node = 32" "align_of struct_timerqueue_node = 8"
  by (simp_all add: struct_timerqueue_node_def layout)

definition struct_hrtimer :: ctype where
  "struct_hrtimer = Struct
    [Fld struct_timerqueue_node ''node'',
     Fld td_ktime_t ''_softexpires'',
     Fld (Ptr ''enum hrtimer_restart (struct hrtimer *)'') ''function'',
     Fld (Ptr ''struct hrtimer_clock_base'') ''base'',
     Fld td_u8 ''state'',
     Fld td_u8 ''is_rel'',
     Fld td_u8 ''is_soft'',
     Fld td_u8 ''is_hard'']"

lemma struct_hrtimer_layout [simp]: "size_of struct_hrtimer = 64" "align_of struct_hrtimer = 8"
  unfolding struct_hrtimer_def by (simp_all add: layout cong: walk_cong)

definition struct_sched_dl_entity :: ctype where
  "struct_sched_dl_entity = Struct
    [Fld struct_rb_node ''rb_node'',
     Fld td_u64 ''dl_runtime'',
     Fld td_u64 ''dl_deadline'',
     Fld td_u64 ''dl_period'',
     Fld td_u64 ''dl_bw'',
     Fld td_u64 ''dl_density'',
     Fld td_s64 ''runtime'',
     Fld td_u64 ''deadline'',
     Fld c_uint ''flags'',
     Bits C_uint 1 ''dl_throttled'',
     Bits C_uint 1 ''dl_yielded'',
     Bits C_uint 1 ''dl_non_contending'',
     Bits C_uint 1 ''dl_overrun'',
     Fld struct_hrtimer ''dl_timer'',
     Fld struct_hrtimer ''inactive_timer'',
     Fld (Ptr ''struct sched_dl_entity'') ''pi_se'']"

lemma struct_sched_dl_entity_layout [simp]:
  "size_of struct_sched_dl_entity = 224" "align_of struct_sched_dl_entity = 8"
  unfolding struct_sched_dl_entity_def by (simp_all add: layout cong: walk_cong)

definition struct_uclamp_se :: ctype where
  "struct_uclamp_se = Struct
    [Bits C_uint 11 ''value'',
     Bits C_uint 3 ''bucket_id'',
     Bits C_uint 1 ''active'',
     Bits C_uint 1 ''user_defined'']"

lemma struct_uclamp_se_layout [simp]:
  "size_of struct_uclamp_se = 4" "align_of struct_uclamp_se = 4"
  unfolding struct_uclamp_se_def by (simp_all add: layout cong: walk_cong)

definition struct_sched_statistics :: ctype where
  "struct_sched_statistics = Struct
    [Fld td_u64 ''wait_start'',
     Fld td_u64 ''wait_max'',
     Fld td_u64 ''wait_count'',
     Fld td_u64 ''wait_sum'',
     Fld td_u64 ''iowait_count'',
     Fld td_u64 ''iowait_sum'',
     Fld td_u64 ''sleep_start'',
     Fld td_u64 ''sleep_max'',
     Fld td_s64 ''sum_sleep_runtime'',
     Fld td_u64 ''block_start'',
     Fld td_u64 ''block_max'',
     Fld td_s64 ''sum_block_runtime'',
     Fld td_u64 ''exec_max'',
     Fld td_u64 ''slice_max'',
     Fld td_u64 ''nr_migrations_cold'',
     Fld td_u64 ''nr_failed_migrations_affine'',
     Fld td_u64 ''nr_failed_migrations_running'',
     Fld td_u64 ''nr_failed_migrations_hot'',
     Fld td_u64 ''nr_forced_migrations'',
     Fld td_u64 ''nr_wakeups'',
     Fld td_u64 ''nr_wakeups_sync'',
     Fld td_u64 ''nr_wakeups_migrate'',
     Fld td_u64 ''nr_wakeups_local'',
     Fld td_u64 ''nr_wakeups_remote'',
     Fld td_u64 ''nr_wakeups_affine'',
     Fld td_u64 ''nr_wakeups_affine_attempts'',
     Fld td_u64 ''nr_wakeups_passive'',
     Fld td_u64 ''nr_wakeups_idle'',
     Fld td_u64 ''core_forceidle_sum'',
     Pad C_long 64,
     Pad C_long 64,
     Pad C_long 64]"

lemma struct_sched_statistics_layout [simp]:
  "size_of struct_sched_statistics = 256" "align_of struct_sched_statistics = 8"
  unfolding struct_sched_statistics_def by (simp_all add: layout cong: walk_cong)

definition td_cpumask_t :: ctype where "td_cpumask_t = struct_cpumask"

lemmas [simp] = td_cpumask_t_def

definition union_rcu_special :: ctype where
  "union_rcu_special = Union
    [Fld (Struct
      [Fld td_u8 ''blocked'',
       Fld td_u8 ''need_qs'',
       Fld td_u8 ''exp_hint'',
       Fld td_u8 ''need_mb'']) ''b'',
     Fld td_u32 ''s'']"

lemma union_rcu_special_layout [simp]:
  "size_of union_rcu_special = 4" "align_of union_rcu_special = 4"
  by (simp_all add: union_rcu_special_def layout)

definition struct_sched_info :: ctype where
  "struct_sched_info = Struct
    [Fld c_ulong ''pcount'',
     Fld c_ullong ''run_delay'',
     Fld c_ullong ''last_arrival'',
     Fld c_ullong ''last_queued'']"

lemma struct_sched_info_layout [simp]:
  "size_of struct_sched_info = 32" "align_of struct_sched_info = 8"
  unfolding struct_sched_info_def by (simp_all add: layout cong: walk_cong)

definition struct_plist_node :: ctype where
  "struct_plist_node = Struct
    [Fld c_int ''prio'',
     Fld struct_list_head ''prio_list'',
     Fld struct_list_head ''node_list'']"

lemma struct_plist_node_layout [simp]:
  "size_of struct_plist_node = 40" "align_of struct_plist_node = 8"
  by (simp_all add: struct_plist_node_def layout)

definition struct_prev_cputime :: ctype where
  "struct_prev_cputime = Struct
    [Fld td_u64 ''utime'',
     Fld td_u64 ''stime'',
     Fld td_raw_spinlock_t ''lock'']"

lemma struct_prev_cputime_layout [simp]:
  "size_of struct_prev_cputime = 24" "align_of struct_prev_cputime = 8"
  by (simp_all add: struct_prev_cputime_def layout)

definition struct_rb_root :: ctype where
  "struct_rb_root = Struct
    [Fld (Ptr ''struct rb_node'') ''rb_node'']"

lemma struct_rb_root_layout [simp]: "size_of struct_rb_root = 8" "align_of struct_rb_root = 8"
  by (simp_all add: struct_rb_root_def layout)

definition struct_rb_root_cached :: ctype where
  "struct_rb_root_cached = Struct
    [Fld struct_rb_root ''rb_root'',
     Fld (Ptr ''struct rb_node'') ''rb_leftmost'']"

lemma struct_rb_root_cached_layout [simp]:
  "size_of struct_rb_root_cached = 16" "align_of struct_rb_root_cached = 8"
  by (simp_all add: struct_rb_root_cached_def layout)

definition struct_timerqueue_head :: ctype where
  "struct_timerqueue_head = Struct
    [Fld struct_rb_root_cached ''rb_root'']"

lemma struct_timerqueue_head_layout [simp]:
  "size_of struct_timerqueue_head = 16" "align_of struct_timerqueue_head = 8"
  by (simp_all add: struct_timerqueue_head_def layout)

definition struct_posix_cputimer_base :: ctype where
  "struct_posix_cputimer_base = Struct
    [Fld td_u64 ''nextevt'',
     Fld struct_timerqueue_head ''tqhead'']"

lemma struct_posix_cputimer_base_layout [simp]:
  "size_of struct_posix_cputimer_base = 24" "align_of struct_posix_cputimer_base = 8"
  by (simp_all add: struct_posix_cputimer_base_def layout)

definition struct_posix_cputimers :: ctype where
  "struct_posix_cputimers = Struct
    [Fld (Arr struct_posix_cputimer_base 3) ''bases'',
     Fld c_uint ''timers_active'',
     Fld c_uint ''expiry_active'']"

lemma struct_posix_cputimers_layout [simp]:
  "size_of struct_posix_cputimers = 80" "align_of struct_posix_cputimers = 8"
  by (simp_all add: struct_posix_cputimers_def layout)

definition struct_posix_cputimers_work :: ctype where
  "struct_posix_cputimers_work = Struct
    [Fld struct_callback_head ''work'',
     Fld struct_mutex ''mutex'',
     Fld c_uint ''scheduled'']"

lemma struct_posix_cputimers_work_layout [simp]:
  "size_of struct_posix_cputimers_work = 56" "align_of struct_posix_cputimers_work = 8"
  by (simp_all add: struct_posix_cputimers_work_def layout)

definition struct_sysv_sem :: ctype where
  "struct_sysv_sem = Struct
    [Fld (Ptr ''struct sem_undo_list'') ''undo_list'']"

lemma struct_sysv_sem_layout [simp]: "size_of struct_sysv_sem = 8" "align_of struct_sysv_sem = 8"
  by (simp_all add: struct_sysv_sem_def layout)

definition struct_sysv_shm :: ctype where
  "struct_sysv_shm = Struct
    [Fld struct_list_head ''shm_clist'']"

lemma struct_sysv_shm_layout [simp]: "size_of struct_sysv_shm = 16" "align_of struct_sysv_shm = 8"
  by (simp_all add: struct_sysv_shm_def layout)

definition td_sigset_t :: ctype where
  "td_sigset_t = Struct
    [Fld (Arr c_ulong 1) ''sig'']"

lemma td_sigset_t_layout [simp]: "size_of td_sigset_t = 8" "align_of td_sigset_t = 8"
  by (simp_all add: td_sigset_t_def layout)

definition struct_sigpending :: ctype where
  "struct_sigpending = Struct
    [Fld struct_list_head ''list'',
     Fld td_sigset_t ''signal'']"

lemma struct_sigpending_layout [simp]:
  "size_of struct_sigpending = 24" "align_of struct_sigpending = 8"
  by (simp_all add: struct_sigpending_def layout)

definition td_kuid_t :: ctype where
  "td_kuid_t = Struct
    [Fld td_uid_t ''val'']"

lemma td_kuid_t_layout [simp]: "size_of td_kuid_t = 4" "align_of td_kuid_t = 4"
  by (simp_all add: td_kuid_t_def layout)

definition struct_seccomp :: ctype where
  "struct_seccomp = Struct
    [Fld c_int ''mode'',
     Fld td_atomic_t ''filter_count'',
     Fld (Ptr ''struct seccomp_filter'') ''filter'']"

lemma struct_seccomp_layout [simp]: "size_of struct_seccomp = 16" "align_of struct_seccomp = 8"
  by (simp_all add: struct_seccomp_def layout)

definition struct_syscall_user_dispatch :: ctype where "struct_syscall_user_dispatch = Struct []"

lemma struct_syscall_user_dispatch_layout [simp]:
  "size_of struct_syscall_user_dispatch = 0" "align_of struct_syscall_user_dispatch = 1"
  by (simp_all add: struct_syscall_user_dispatch_def layout)

definition struct_spinlock :: ctype where
  "struct_spinlock = Struct
    [Anon (Union
      [Fld struct_raw_spinlock ''rlock''])]"

lemma struct_spinlock_layout [simp]: "size_of struct_spinlock = 4" "align_of struct_spinlock = 4"
  by (simp_all add: struct_spinlock_def layout)

definition td_spinlock_t :: ctype where "td_spinlock_t = struct_spinlock"

lemmas [simp] = td_spinlock_t_def

definition struct_wake_q_node :: ctype where
  "struct_wake_q_node = Struct
    [Fld (Ptr ''struct wake_q_node'') ''next'']"

lemma struct_wake_q_node_layout [simp]:
  "size_of struct_wake_q_node = 8" "align_of struct_wake_q_node = 8"
  by (simp_all add: struct_wake_q_node_def layout)

definition struct_task_io_accounting :: ctype where
  "struct_task_io_accounting = Struct
    [Fld td_u64 ''rchar'',
     Fld td_u64 ''wchar'',
     Fld td_u64 ''syscr'',
     Fld td_u64 ''syscw'',
     Fld td_u64 ''read_bytes'',
     Fld td_u64 ''write_bytes'',
     Fld td_u64 ''cancelled_write_bytes'']"

lemma struct_task_io_accounting_layout [simp]:
  "size_of struct_task_io_accounting = 56" "align_of struct_task_io_accounting = 8"
  unfolding struct_task_io_accounting_def by (simp_all add: layout cong: walk_cong)

definition td_nodemask_t :: ctype where
  "td_nodemask_t = Struct
    [Fld (Arr c_ulong 1) ''bits'']"

lemma td_nodemask_t_layout [simp]: "size_of td_nodemask_t = 8" "align_of td_nodemask_t = 8"
  by (simp_all add: td_nodemask_t_def layout)

definition struct_seqcount :: ctype where
  "struct_seqcount = Struct
    [Fld c_uint ''sequence'']"

lemma struct_seqcount_layout [simp]: "size_of struct_seqcount = 4" "align_of struct_seqcount = 4"
  by (simp_all add: struct_seqcount_def layout)

definition td_seqcount_t :: ctype where "td_seqcount_t = struct_seqcount"

lemmas [simp] = td_seqcount_t_def

definition struct_seqcount_spinlock :: ctype where
  "struct_seqcount_spinlock = Struct
    [Fld td_seqcount_t ''seqcount'']"

lemma struct_seqcount_spinlock_layout [simp]:
  "size_of struct_seqcount_spinlock = 4" "align_of struct_seqcount_spinlock = 4"
  by (simp_all add: struct_seqcount_spinlock_def layout)

definition td_seqcount_spinlock_t :: ctype where "td_seqcount_spinlock_t = struct_seqcount_spinlock"

lemmas [simp] = td_seqcount_spinlock_t_def

definition struct_arch_tlbflush_unmap_batch :: ctype where "struct_arch_tlbflush_unmap_batch = Struct []"

lemma struct_arch_tlbflush_unmap_batch_layout [simp]:
  "size_of struct_arch_tlbflush_unmap_batch = 0" "align_of struct_arch_tlbflush_unmap_batch = 1"
  by (simp_all add: struct_arch_tlbflush_unmap_batch_def layout)

definition struct_tlbflush_unmap_batch :: ctype where
  "struct_tlbflush_unmap_batch = Struct
    [Fld struct_arch_tlbflush_unmap_batch ''arch'',
     Fld td_bool ''flush_required'',
     Fld td_bool ''writable'']"

lemma struct_tlbflush_unmap_batch_layout [simp]:
  "size_of struct_tlbflush_unmap_batch = 2" "align_of struct_tlbflush_unmap_batch = 1"
  by (simp_all add: struct_tlbflush_unmap_batch_def layout)

definition struct_page_frag :: ctype where
  "struct_page_frag = Struct
    [Fld (Ptr ''struct page'') ''page'',
     Fld td___u32 ''offset'',
     Fld td___u32 ''size'']"

lemma struct_page_frag_layout [simp]:
  "size_of struct_page_frag = 16" "align_of struct_page_frag = 8"
  by (simp_all add: struct_page_frag_def layout)

definition struct_kmap_ctrl :: ctype where "struct_kmap_ctrl = Struct []"

lemma struct_kmap_ctrl_layout [simp]:
  "size_of struct_kmap_ctrl = 0" "align_of struct_kmap_ctrl = 1"
  by (simp_all add: struct_kmap_ctrl_def layout)

definition struct_timer_list :: ctype where
  "struct_timer_list = Struct
    [Fld struct_hlist_node ''entry'',
     Fld c_ulong ''expires'',
     Fld (Ptr ''void (struct timer_list *)'') ''function'',
     Fld td_u32 ''flags'']"

lemma struct_timer_list_layout [simp]:
  "size_of struct_timer_list = 40" "align_of struct_timer_list = 8"
  unfolding struct_timer_list_def by (simp_all add: layout cong: walk_cong)

definition struct_llist_head :: ctype where
  "struct_llist_head = Struct
    [Fld (Ptr ''struct llist_node'') ''first'']"

lemma struct_llist_head_layout [simp]:
  "size_of struct_llist_head = 8" "align_of struct_llist_head = 8"
  by (simp_all add: struct_llist_head_def layout)

definition struct_cpu_context :: ctype where
  "struct_cpu_context = Struct
    [Fld c_ulong ''x19'',
     Fld c_ulong ''x20'',
     Fld c_ulong ''x21'',
     Fld c_ulong ''x22'',
     Fld c_ulong ''x23'',
     Fld c_ulong ''x24'',
     Fld c_ulong ''x25'',
     Fld c_ulong ''x26'',
     Fld c_ulong ''x27'',
     Fld c_ulong ''x28'',
     Fld c_ulong ''fp'',
     Fld c_ulong ''sp'',
     Fld c_ulong ''pc'']"

lemma struct_cpu_context_layout [simp]:
  "size_of struct_cpu_context = 104" "align_of struct_cpu_context = 8"
  unfolding struct_cpu_context_def by (simp_all add: layout cong: walk_cong)

definition struct_user_fpsimd_state :: ctype where
  "struct_user_fpsimd_state = Struct
    [Fld (Arr c_uint128 32) ''vregs'',
     Fld td___u32 ''fpsr'',
     Fld td___u32 ''fpcr'',
     Fld (Arr td___u32 2) ''__reserved'']"

lemma struct_user_fpsimd_state_layout [simp]:
  "size_of struct_user_fpsimd_state = 528" "align_of struct_user_fpsimd_state = 16"
  unfolding struct_user_fpsimd_state_def by (simp_all add: layout cong: walk_cong)

definition enum_fp_type :: ctype where
  "enum_fp_type = Enum
    [(''FP_STATE_CURRENT'', 0),
     (''FP_STATE_FPSIMD'', 1),
     (''FP_STATE_SVE'', 2)]"

lemma enum_fp_type_layout [simp]: "size_of enum_fp_type = 4" "align_of enum_fp_type = 4"
  by (simp_all add: enum_fp_type_def layout)

definition struct_debug_info :: ctype where
  "struct_debug_info = Struct
    [Fld c_int ''suspended_step'',
     Fld c_int ''bps_disabled'',
     Fld c_int ''wps_disabled'',
     Fld (Arr (Ptr ''struct perf_event'') 16) ''hbp_break'',
     Fld (Arr (Ptr ''struct perf_event'') 16) ''hbp_watch'']"

lemma struct_debug_info_layout [simp]:
  "size_of struct_debug_info = 272" "align_of struct_debug_info = 8"
  unfolding struct_debug_info_def by (simp_all add: layout cong: walk_cong)

definition struct_ptrauth_key :: ctype where
  "struct_ptrauth_key = Struct
    [Fld c_ulong ''lo'',
     Fld c_ulong ''hi'']"

lemma struct_ptrauth_key_layout [simp]:
  "size_of struct_ptrauth_key = 16" "align_of struct_ptrauth_key = 8"
  by (simp_all add: struct_ptrauth_key_def layout)

definition struct_ptrauth_keys_user :: ctype where
  "struct_ptrauth_keys_user = Struct
    [Fld struct_ptrauth_key ''apia'',
     Fld struct_ptrauth_key ''apib'',
     Fld struct_ptrauth_key ''apda'',
     Fld struct_ptrauth_key ''apdb'',
     Fld struct_ptrauth_key ''apga'']"

lemma struct_ptrauth_keys_user_layout [simp]:
  "size_of struct_ptrauth_keys_user = 80" "align_of struct_ptrauth_keys_user = 8"
  unfolding struct_ptrauth_keys_user_def by (simp_all add: layout cong: walk_cong)

definition struct_ptrauth_keys_kernel :: ctype where
  "struct_ptrauth_keys_kernel = Struct
    [Fld struct_ptrauth_key ''apia'']"

lemma struct_ptrauth_keys_kernel_layout [simp]:
  "size_of struct_ptrauth_keys_kernel = 16" "align_of struct_ptrauth_keys_kernel = 8"
  by (simp_all add: struct_ptrauth_keys_kernel_def layout)

definition struct_thread_struct :: ctype where
  "struct_thread_struct = Struct
    [Fld struct_cpu_context ''cpu_context'',
     Pad C_long 64,
     Fld (Struct
      [Fld c_ulong ''tp_value'',
       Fld c_ulong ''tp2_value'',
       Fld struct_user_fpsimd_state ''fpsimd_state'']) ''uw'',
     Fld enum_fp_type ''fp_type'',
     Fld c_uint ''fpsimd_cpu'',
     Fld (Ptr ''void'') ''sve_state'',
     Fld (Ptr ''void'') ''sme_state'',
     Fld (Arr c_uint 2) ''vl'',
     Fld (Arr c_uint 2) ''vl_onexec'',
     Fld c_ulong ''fault_address'',
     Fld c_ulong ''fault_code'',
     Fld struct_debug_info ''debug'',
     Fld struct_ptrauth_keys_user ''keys_user'',
     Fld struct_ptrauth_keys_kernel ''keys_kernel'',
     Fld td_u64 ''mte_ctrl'',
     Fld td_u64 ''sctlr_user'',
     Fld td_u64 ''svcr'',
     Fld td_u64 ''tpidr2_el0'',
     Fld td_u64 ''actlr'']"

lemma struct_thread_struct_layout [simp]:
  "size_of struct_thread_struct = 1120" "align_of struct_thread_struct = 16"
  unfolding struct_thread_struct_def by (simp_all add: layout cong: walk_cong)

end
