(* ===== verification/SA_Vmlinux.thy ===== *)
theory SA_Vmlinux imports SA_Vmlinux_Base begin

text \<open>
  Component: the kernel types of \<open>vmlinux.h\<close> the BPF programs read: \<open>struct task_struct\<close>, whose
  members are listed in six parts, \<open>struct cfs_rq\<close>, \<open>struct rq\<close>, \<open>struct root_domain\<close>,
  \<open>struct sched_domain\<close> and the main objects a task or a run queue points to (its memory map, signal
  state, credentials, task group, scheduling class, ...), in the order of the header. The padding
  that \<open>vmlinux.h\<close> spells out (\<open>long: 64;\<close>) is part of the layout.
\<close>

text \<open>State, wake-up and scheduling classes.\<close>

definition task_struct_sched :: "member list" where
  "task_struct_sched =
    [Fld struct_thread_info ''thread_info'',
     Fld c_uint ''__state'',
     Fld (Ptr ''void'') ''stack'',
     Fld td_refcount_t ''usage'',
     Fld c_uint ''flags'',
     Fld c_uint ''ptrace'',
     Fld c_int ''on_cpu'',
     Fld struct___call_single_node ''wake_entry'',
     Fld c_uint ''wakee_flips'',
     Fld c_ulong ''wakee_flip_decay_ts'',
     Fld (Ptr ''struct task_struct'') ''last_wakee'',
     Fld c_int ''recent_used_cpu'',
     Fld c_int ''wake_cpu'',
     Fld c_int ''on_rq'',
     Fld c_int ''prio'',
     Fld c_int ''static_prio'',
     Fld c_int ''normal_prio'',
     Fld c_uint ''rt_priority'',
     Pad C_long 64,
     Pad C_long 64,
     Pad C_long 64,
     Pad C_long 64,
     Pad C_long 64,
     Pad C_long 64,
     Pad C_long 64,
     Fld struct_sched_entity ''se'',
     Fld struct_sched_rt_entity ''rt'',
     Fld struct_sched_dl_entity ''dl'',
     Fld (Ptr ''const struct sched_class'') ''sched_class'',
     Fld struct_rb_node ''core_node'',
     Fld c_ulong ''core_cookie'',
     Fld c_uint ''core_occupation'',
     Fld (Ptr ''struct task_group'') ''sched_task_group'',
     Fld (Arr struct_uclamp_se 2) ''uclamp_req'',
     Fld (Arr struct_uclamp_se 2) ''uclamp'',
     Pad C_long 64,
     Pad C_long 64,
     Pad C_long 64,
     Pad C_long 64,
     Pad C_long 64]"

lemma task_struct_sched_layout [simp]:
  "struct_end task_struct_sched 0 = 6656" "aligns task_struct_sched = 8"
  unfolding task_struct_sched_def by (simp_all add: layout cong: walk_cong)

text \<open>CPU affinity, RCU bookkeeping, memory and exit state.\<close>

definition task_struct_rcu :: "member list" where
  "task_struct_rcu =
    [Fld struct_sched_statistics ''stats'',
     Fld struct_hlist_head ''preempt_notifiers'',
     Fld c_uint ''btrace_seq'',
     Fld c_uint ''policy'',
     Fld c_int ''nr_cpus_allowed'',
     Fld (Ptr ''const cpumask_t'') ''cpus_ptr'',
     Fld (Ptr ''cpumask_t'') ''user_cpus_ptr'',
     Fld td_cpumask_t ''cpus_mask'',
     Fld (Ptr ''void'') ''migration_pending'',
     Fld c_ushort ''migration_disabled'',
     Fld c_ushort ''migration_flags'',
     Fld c_int ''rcu_read_lock_nesting'',
     Fld union_rcu_special ''rcu_read_unlock_special'',
     Fld struct_list_head ''rcu_node_entry'',
     Fld (Ptr ''struct rcu_node'') ''rcu_blocked_node'',
     Fld c_ulong ''rcu_tasks_nvcsw'',
     Fld td_u8 ''rcu_tasks_holdout'',
     Fld td_u8 ''rcu_tasks_idx'',
     Fld c_int ''rcu_tasks_idle_cpu'',
     Fld struct_list_head ''rcu_tasks_holdout_list'',
     Fld c_int ''trc_reader_nesting'',
     Fld c_int ''trc_ipi_to_cpu'',
     Fld union_rcu_special ''trc_reader_special'',
     Fld struct_list_head ''trc_holdout_list'',
     Fld struct_list_head ''trc_blkd_node'',
     Fld c_int ''trc_blkd_cpu'',
     Fld struct_sched_info ''sched_info'',
     Fld struct_list_head ''tasks'',
     Fld struct_plist_node ''pushable_tasks'',
     Fld struct_rb_node ''pushable_dl_tasks'',
     Fld (Ptr ''struct mm_struct'') ''mm'',
     Fld (Ptr ''struct mm_struct'') ''active_mm'',
     Fld c_int ''exit_state'',
     Fld c_int ''exit_code'',
     Fld c_int ''exit_signal'',
     Fld c_int ''pdeath_signal'',
     Fld c_ulong ''jobctl'']"

lemma task_struct_rcu_layout [simp]:
  "struct_end task_struct_rcu 6656 = 11584" "aligns task_struct_rcu = 8"
  unfolding task_struct_rcu_def by (simp_all add: layout cong: walk_cong)

text \<open>Flag bits, identity, family and time accounting.\<close>

definition task_struct_ids :: "member list" where
  "task_struct_ids =
    [Fld c_uint ''personality'',
     Bits C_uint 1 ''sched_reset_on_fork'',
     Bits C_uint 1 ''sched_contributes_to_load'',
     Bits C_uint 1 ''sched_migrated'',
     Pad C_long 29,
     Bits C_uint 1 ''sched_remote_wakeup'',
     Bits C_uint 1 ''in_execve'',
     Bits C_uint 1 ''in_iowait'',
     Bits C_uint 1 ''in_user_fault'',
     Bits C_uint 1 ''no_cgroup_migration'',
     Bits C_uint 1 ''frozen'',
     Bits C_uint 1 ''use_memdelay'',
     Bits C_uint 1 ''in_memstall'',
     Bits C_uint 1 ''in_eventfd'',
     Bits C_uint 1 ''in_thrashing'',
     Fld c_ulong ''atomic_flags'',
     Fld struct_restart_block ''restart_block'',
     Fld td_pid_t ''pid'',
     Fld td_pid_t ''tgid'',
     Fld c_ulong ''stack_canary'',
     Fld (Ptr ''struct task_struct'') ''real_parent'',
     Fld (Ptr ''struct task_struct'') ''parent'',
     Fld struct_list_head ''children'',
     Fld struct_list_head ''sibling'',
     Fld (Ptr ''struct task_struct'') ''group_leader'',
     Fld struct_list_head ''ptraced'',
     Fld struct_list_head ''ptrace_entry'',
     Fld (Ptr ''struct pid'') ''thread_pid'',
     Fld (Arr struct_hlist_node 4) ''pid_links'',
     Fld struct_list_head ''thread_group'',
     Fld struct_list_head ''thread_node'',
     Fld (Ptr ''struct completion'') ''vfork_done'',
     Fld (Ptr ''int'') ''set_child_tid'',
     Fld (Ptr ''int'') ''clear_child_tid'',
     Fld (Ptr ''void'') ''worker_private'',
     Fld td_u64 ''utime'',
     Fld td_u64 ''stime'',
     Fld td_u64 ''gtime'',
     Fld struct_prev_cputime ''prev_cputime'',
     Fld c_ulong ''nvcsw'',
     Fld c_ulong ''nivcsw'',
     Fld td_u64 ''start_time'',
     Fld td_u64 ''start_boottime'',
     Fld c_ulong ''min_flt'',
     Fld c_ulong ''maj_flt'',
     Fld struct_posix_cputimers ''posix_cputimers'',
     Fld struct_posix_cputimers_work ''posix_cputimers_work'',
     Fld (Ptr ''const struct cred'') ''ptracer_cred'',
     Fld (Ptr ''const struct cred'') ''real_cred'',
     Fld (Ptr ''const struct cred'') ''cred'',
     Fld (Ptr ''struct key'') ''cached_requested_key'',
     Fld (Arr c_char 16) ''comm'',
     Fld (Ptr ''struct nameidata'') ''nameidata'',
     Fld struct_sysv_sem ''sysvsem'',
     Fld struct_sysv_shm ''sysvshm'',
     Fld c_ulong ''last_switch_count'',
     Fld c_ulong ''last_switch_time'']"

lemma task_struct_ids_layout [simp]:
  "struct_end task_struct_ids 11584 = 16768" "aligns task_struct_ids = 8"
  unfolding task_struct_ids_def by (simp_all add: layout cong: walk_cong)

text \<open>Credentials, name, files, signals and locks.\<close>

definition task_struct_files :: "member list" where
  "task_struct_files =
    [Fld (Ptr ''struct fs_struct'') ''fs'',
     Fld (Ptr ''struct files_struct'') ''files'',
     Fld (Ptr ''struct io_uring_task'') ''io_uring'',
     Fld (Ptr ''struct nsproxy'') ''nsproxy'',
     Fld (Ptr ''struct signal_struct'') ''signal'',
     Fld (Ptr ''struct sighand_struct'') ''sighand'',
     Fld td_sigset_t ''blocked'',
     Fld td_sigset_t ''real_blocked'',
     Fld td_sigset_t ''saved_sigmask'',
     Fld struct_sigpending ''pending'',
     Fld c_ulong ''sas_ss_sp'',
     Fld td_size_t ''sas_ss_size'',
     Fld c_uint ''sas_ss_flags'',
     Fld (Ptr ''struct callback_head'') ''task_works'',
     Fld (Ptr ''struct audit_context'') ''audit_context'',
     Fld td_kuid_t ''loginuid'',
     Fld c_uint ''sessionid'',
     Fld struct_seccomp ''seccomp'',
     Fld struct_syscall_user_dispatch ''syscall_dispatch'',
     Fld td_u64 ''parent_exec_id'',
     Fld td_u64 ''self_exec_id'',
     Fld td_spinlock_t ''alloc_lock'',
     Fld td_raw_spinlock_t ''pi_lock'',
     Fld struct_wake_q_node ''wake_q'',
     Fld struct_rb_root_cached ''pi_waiters'',
     Fld (Ptr ''struct task_struct'') ''pi_top_task'',
     Fld (Ptr ''struct rt_mutex_waiter'') ''pi_blocked_on'',
     Fld (Ptr ''void'') ''journal_info'',
     Fld (Ptr ''struct bio_list'') ''bio_list'',
     Fld (Ptr ''struct blk_plug'') ''plug'',
     Fld (Ptr ''struct reclaim_state'') ''reclaim_state'',
     Fld (Ptr ''struct io_context'') ''io_context'',
     Fld (Ptr ''struct capture_control'') ''capture_control'',
     Fld c_ulong ''ptrace_message'',
     Fld (Ptr ''kernel_siginfo_t'') ''last_siginfo'',
     Fld struct_task_io_accounting ''ioac'',
     Fld c_uint ''psi_flags'',
     Fld td_u64 ''acct_rss_mem1'',
     Fld td_u64 ''acct_vm_mem1'',
     Fld td_u64 ''acct_timexpd'',
     Fld td_nodemask_t ''mems_allowed'',
     Fld td_seqcount_spinlock_t ''mems_allowed_seq'',
     Fld c_int ''cpuset_mem_spread_rotor'',
     Fld c_int ''cpuset_slab_spread_rotor'',
     Fld (Ptr ''struct css_set'') ''cgroups'',
     Fld struct_list_head ''cg_list'',
     Fld (Ptr ''struct robust_list_head'') ''robust_list'',
     Fld (Ptr ''struct compat_robust_list_head'') ''compat_robust_list'',
     Fld struct_list_head ''pi_state_list'',
     Fld (Ptr ''struct futex_pi_state'') ''pi_state_cache'',
     Fld struct_mutex ''futex_exit_mutex'']"

lemma task_struct_files_layout [simp]:
  "struct_end task_struct_files 16768 = 20736" "aligns task_struct_files = 8"
  unfolding task_struct_files_def by (simp_all add: layout cong: walk_cong)

text \<open>Block I/O, accounting, cpusets, futexes, performance events and NUMA.\<close>

definition task_struct_mem :: "member list" where
  "task_struct_mem =
    [Fld c_uint ''futex_state'',
     Fld (Ptr ''struct perf_event_context'') ''perf_event_ctxp'',
     Fld struct_mutex ''perf_event_mutex'',
     Fld struct_list_head ''perf_event_list'',
     Fld (Ptr ''struct mempolicy'') ''mempolicy'',
     Fld c_short ''il_prev'',
     Fld c_short ''pref_node_fork'',
     Fld c_int ''numa_scan_seq'',
     Fld c_uint ''numa_scan_period'',
     Fld c_uint ''numa_scan_period_max'',
     Fld c_int ''numa_preferred_nid'',
     Fld c_ulong ''numa_migrate_retry'',
     Fld td_u64 ''node_stamp'',
     Fld td_u64 ''last_task_numa_placement'',
     Fld td_u64 ''last_sum_exec_runtime'',
     Fld struct_callback_head ''numa_work'',
     Fld (Ptr ''struct numa_group'') ''numa_group'',
     Fld (Ptr ''long unsigned int'') ''numa_faults'',
     Fld c_ulong ''total_numa_faults'',
     Fld (Arr c_ulong 3) ''numa_faults_locality'',
     Fld c_ulong ''numa_pages_migrated'',
     Fld (Ptr ''struct rseq'') ''rseq'',
     Fld td_u32 ''rseq_len'',
     Fld td_u32 ''rseq_sig'',
     Fld c_ulong ''rseq_event_mask'',
     Fld c_int ''mm_cid'',
     Fld c_int ''last_mm_cid'',
     Fld c_int ''migrate_from_cpu'']"

lemma task_struct_mem_layout [simp]:
  "struct_end task_struct_mem 20736 = 22624" "aligns task_struct_mem = 8"
  unfolding task_struct_mem_def by (simp_all add: layout cong: walk_cong)

text \<open>Restartable sequences, tracing, memory control and the architecture part.\<close>

definition task_struct_trace :: "member list" where
  "task_struct_trace =
    [Fld c_int ''mm_cid_active'',
     Fld struct_callback_head ''cid_work'',
     Fld struct_tlbflush_unmap_batch ''tlb_ubc'',
     Fld (Ptr ''struct pipe_inode_info'') ''splice_pipe'',
     Fld struct_page_frag ''task_frag'',
     Fld (Ptr ''struct task_delay_info'') ''delays'',
     Fld c_int ''nr_dirtied'',
     Fld c_int ''nr_dirtied_pause'',
     Fld c_ulong ''dirty_paused_when'',
     Fld td_u64 ''timer_slack_ns'',
     Fld td_u64 ''default_timer_slack_ns'',
     Fld c_int ''curr_ret_stack'',
     Fld c_int ''curr_ret_depth'',
     Fld (Ptr ''struct ftrace_ret_stack'') ''ret_stack'',
     Fld c_ullong ''ftrace_timestamp'',
     Fld td_atomic_t ''trace_overrun'',
     Fld td_atomic_t ''tracing_graph_pause'',
     Fld c_ulong ''trace_recursion'',
     Fld (Ptr ''struct mem_cgroup'') ''memcg_in_oom'',
     Fld td_gfp_t ''memcg_oom_gfp_mask'',
     Fld c_int ''memcg_oom_order'',
     Fld c_uint ''memcg_nr_pages_over_high'',
     Fld (Ptr ''struct mem_cgroup'') ''active_memcg'',
     Fld (Ptr ''struct gendisk'') ''throttle_disk'',
     Fld (Ptr ''struct uprobe_task'') ''utask'',
     Fld struct_kmap_ctrl ''kmap_ctrl'',
     Fld struct_callback_head ''rcu'',
     Fld td_refcount_t ''rcu_users'',
     Fld c_int ''pagefault_disabled'',
     Fld (Ptr ''struct task_struct'') ''oom_reaper_list'',
     Fld struct_timer_list ''oom_reaper_timer'',
     Fld (Ptr ''struct vm_struct'') ''stack_vm_area'',
     Fld td_refcount_t ''stack_refcount'',
     Fld (Ptr ''void'') ''security'',
     Fld (Ptr ''struct bpf_local_storage'') ''bpf_storage'',
     Fld (Ptr ''struct bpf_run_ctx'') ''bpf_ctx'',
     Fld struct_llist_head ''kretprobe_instances'',
     Pad C_long 64,
     Fld struct_thread_struct ''thread'',
     Pad C_long 64,
     Pad C_long 64,
     Pad C_long 64,
     Pad C_long 64]"

lemma task_struct_trace_layout [simp]:
  "struct_end task_struct_trace 22624 = 34304" "aligns task_struct_trace = 16"
  unfolding task_struct_trace_def by (simp_all add: layout cong: walk_cong)

definition struct_task_struct :: ctype where
  "struct_task_struct = Struct (task_struct_sched @ task_struct_rcu @ task_struct_ids @
     task_struct_files @ task_struct_mem @ task_struct_trace)"

lemma struct_task_struct_layout [simp]:
  "size_of struct_task_struct = 4288" "align_of struct_task_struct = 16"
  by (simp_all add: struct_task_struct_def struct_end_append aligns_append layout)

definition struct_wait_queue_head :: ctype where
  "struct_wait_queue_head = Struct
    [Fld td_spinlock_t ''lock'',
     Fld struct_list_head ''head'']"

lemma struct_wait_queue_head_layout [simp]:
  "size_of struct_wait_queue_head = 24" "align_of struct_wait_queue_head = 8"
  by (simp_all add: struct_wait_queue_head_def layout)

definition td_wait_queue_head_t :: ctype where "td_wait_queue_head_t = struct_wait_queue_head"

lemmas [simp] = td_wait_queue_head_t_def

definition struct_upid :: ctype where
  "struct_upid = Struct
    [Fld c_int ''nr'',
     Fld (Ptr ''struct pid_namespace'') ''ns'']"

lemma struct_upid_layout [simp]: "size_of struct_upid = 16" "align_of struct_upid = 8"
  by (simp_all add: struct_upid_def layout)

definition struct_pid :: ctype where
  "struct_pid = Struct
    [Fld td_refcount_t ''count'',
     Fld c_uint ''level'',
     Fld td_spinlock_t ''lock'',
     Fld (Arr struct_hlist_head 4) ''tasks'',
     Fld struct_hlist_head ''inodes'',
     Fld td_wait_queue_head_t ''wait_pidfd'',
     Fld struct_callback_head ''rcu'',
     Fld (Arr struct_upid 0) ''numbers'']"

lemma struct_pid_layout [simp]: "size_of struct_pid = 96" "align_of struct_pid = 8"
  unfolding struct_pid_def by (simp_all add: layout cong: walk_cong)

definition td_kgid_t :: ctype where
  "td_kgid_t = Struct
    [Fld td_gid_t ''val'']"

lemma td_kgid_t_layout [simp]: "size_of td_kgid_t = 4" "align_of td_kgid_t = 4"
  by (simp_all add: td_kgid_t_def layout)

definition td_work_func_t :: ctype where "td_work_func_t = Ptr ''void (struct work_struct *)''"

lemmas [simp] = td_work_func_t_def

definition struct_work_struct :: ctype where
  "struct_work_struct = Struct
    [Fld td_atomic_long_t ''data'',
     Fld struct_list_head ''entry'',
     Fld td_work_func_t ''func'']"

lemma struct_work_struct_layout [simp]:
  "size_of struct_work_struct = 32" "align_of struct_work_struct = 8"
  by (simp_all add: struct_work_struct_def layout)

definition struct_seqcount_raw_spinlock :: ctype where
  "struct_seqcount_raw_spinlock = Struct
    [Fld td_seqcount_t ''seqcount'']"

lemma struct_seqcount_raw_spinlock_layout [simp]:
  "size_of struct_seqcount_raw_spinlock = 4" "align_of struct_seqcount_raw_spinlock = 4"
  by (simp_all add: struct_seqcount_raw_spinlock_def layout)

definition td_seqcount_raw_spinlock_t :: ctype where "td_seqcount_raw_spinlock_t = struct_seqcount_raw_spinlock"

lemmas [simp] = td_seqcount_raw_spinlock_t_def

definition td_seqlock_t :: ctype where
  "td_seqlock_t = Struct
    [Fld td_seqcount_spinlock_t ''seqcount'',
     Fld td_spinlock_t ''lock'']"

lemma td_seqlock_t_layout [simp]: "size_of td_seqlock_t = 8" "align_of td_seqlock_t = 4"
  by (simp_all add: td_seqlock_t_def layout)

definition struct_hrtimer_clock_base :: ctype where
  "struct_hrtimer_clock_base = Struct
    [Fld (Ptr ''struct hrtimer_cpu_base'') ''cpu_base'',
     Fld c_uint ''index'',
     Fld td_clockid_t ''clockid'',
     Fld td_seqcount_raw_spinlock_t ''seq'',
     Fld (Ptr ''struct hrtimer'') ''running'',
     Fld struct_timerqueue_head ''active'',
     Fld (Ptr ''ktime_t ()'') ''get_time'',
     Fld td_ktime_t ''offset'']"

lemma struct_hrtimer_clock_base_layout [simp]:
  "size_of struct_hrtimer_clock_base = 64" "align_of struct_hrtimer_clock_base = 8"
  unfolding struct_hrtimer_clock_base_def by (simp_all add: layout cong: walk_cong)

definition struct_rlimit :: ctype where
  "struct_rlimit = Struct
    [Fld td___kernel_ulong_t ''rlim_cur'',
     Fld td___kernel_ulong_t ''rlim_max'']"

lemma struct_rlimit_layout [simp]: "size_of struct_rlimit = 16" "align_of struct_rlimit = 8"
  by (simp_all add: struct_rlimit_def layout)

definition td___sighandler_t :: ctype where "td___sighandler_t = Ptr ''__signalfn_t''"
definition td___sigrestore_t :: ctype where "td___sigrestore_t = Ptr ''__restorefn_t''"

lemmas [simp] = td___sighandler_t_def td___sigrestore_t_def

definition union_sigval :: ctype where
  "union_sigval = Union
    [Fld c_int ''sival_int'',
     Fld (Ptr ''void'') ''sival_ptr'']"

lemma union_sigval_layout [simp]: "size_of union_sigval = 8" "align_of union_sigval = 8"
  by (simp_all add: union_sigval_def layout)

definition td_sigval_t :: ctype where "td_sigval_t = union_sigval"

lemmas [simp] = td_sigval_t_def

definition union___sifields :: ctype where
  "union___sifields = Union
    [Fld (Struct
      [Fld td___kernel_pid_t ''_pid'',
       Fld td___kernel_uid32_t ''_uid'']) ''_kill'',
     Fld (Struct
      [Fld td___kernel_timer_t ''_tid'',
       Fld c_int ''_overrun'',
       Fld td_sigval_t ''_sigval'',
       Fld c_int ''_sys_private'']) ''_timer'',
     Fld (Struct
      [Fld td___kernel_pid_t ''_pid'',
       Fld td___kernel_uid32_t ''_uid'',
       Fld td_sigval_t ''_sigval'']) ''_rt'',
     Fld (Struct
      [Fld td___kernel_pid_t ''_pid'',
       Fld td___kernel_uid32_t ''_uid'',
       Fld c_int ''_status'',
       Fld td___kernel_clock_t ''_utime'',
       Fld td___kernel_clock_t ''_stime'']) ''_sigchld'',
     Fld (Struct
      [Fld (Ptr ''void'') ''_addr'',
       Anon (Union
        [Fld c_int ''_trapno'',
         Fld c_short ''_addr_lsb'',
         Fld (Struct
          [Fld (Arr c_char 8) ''_dummy_bnd'',
           Fld (Ptr ''void'') ''_lower'',
           Fld (Ptr ''void'') ''_upper'']) ''_addr_bnd'',
         Fld (Struct
          [Fld (Arr c_char 8) ''_dummy_pkey'',
           Fld td___u32 ''_pkey'']) ''_addr_pkey'',
         Fld (Struct
          [Fld c_ulong ''_data'',
           Fld td___u32 ''_type'',
           Fld td___u32 ''_flags'']) ''_perf''])]) ''_sigfault'',
     Fld (Struct
      [Fld c_long ''_band'',
       Fld c_int ''_fd'']) ''_sigpoll'',
     Fld (Struct
      [Fld (Ptr ''void'') ''_call_addr'',
       Fld c_int ''_syscall'',
       Fld c_uint ''_arch'']) ''_sigsys'']"

lemma union___sifields_layout [simp]:
  "size_of union___sifields = 32" "align_of union___sifields = 8"
  unfolding union___sifields_def by (simp_all add: layout cong: walk_cong)

definition struct_kernel_siginfo :: ctype where
  "struct_kernel_siginfo = Struct
    [Anon (Struct
      [Fld c_int ''si_signo'',
       Fld c_int ''si_errno'',
       Fld c_int ''si_code'',
       Fld union___sifields ''_sifields''])]"

lemma struct_kernel_siginfo_layout [simp]:
  "size_of struct_kernel_siginfo = 48" "align_of struct_kernel_siginfo = 8"
  by (simp_all add: struct_kernel_siginfo_def layout)

definition struct_sigaction :: ctype where
  "struct_sigaction = Struct
    [Fld td___sighandler_t ''sa_handler'',
     Fld c_ulong ''sa_flags'',
     Fld td___sigrestore_t ''sa_restorer'',
     Fld td_sigset_t ''sa_mask'']"

lemma struct_sigaction_layout [simp]:
  "size_of struct_sigaction = 32" "align_of struct_sigaction = 8"
  unfolding struct_sigaction_def by (simp_all add: layout cong: walk_cong)

definition struct_k_sigaction :: ctype where
  "struct_k_sigaction = Struct
    [Fld struct_sigaction ''sa'']"

lemma struct_k_sigaction_layout [simp]:
  "size_of struct_k_sigaction = 32" "align_of struct_k_sigaction = 8"
  by (simp_all add: struct_k_sigaction_def layout)

definition struct_cpu_itimer :: ctype where
  "struct_cpu_itimer = Struct
    [Fld td_u64 ''expires'',
     Fld td_u64 ''incr'']"

lemma struct_cpu_itimer_layout [simp]:
  "size_of struct_cpu_itimer = 16" "align_of struct_cpu_itimer = 8"
  by (simp_all add: struct_cpu_itimer_def layout)

definition struct_task_cputime_atomic :: ctype where
  "struct_task_cputime_atomic = Struct
    [Fld td_atomic64_t ''utime'',
     Fld td_atomic64_t ''stime'',
     Fld td_atomic64_t ''sum_exec_runtime'']"

lemma struct_task_cputime_atomic_layout [simp]:
  "size_of struct_task_cputime_atomic = 24" "align_of struct_task_cputime_atomic = 8"
  by (simp_all add: struct_task_cputime_atomic_def layout)

definition struct_thread_group_cputimer :: ctype where
  "struct_thread_group_cputimer = Struct
    [Fld struct_task_cputime_atomic ''cputime_atomic'']"

lemma struct_thread_group_cputimer_layout [simp]:
  "size_of struct_thread_group_cputimer = 24" "align_of struct_thread_group_cputimer = 8"
  by (simp_all add: struct_thread_group_cputimer_def layout)

definition struct_pacct_struct :: ctype where
  "struct_pacct_struct = Struct
    [Fld c_int ''ac_flag'',
     Fld c_long ''ac_exitcode'',
     Fld c_ulong ''ac_mem'',
     Fld td_u64 ''ac_utime'',
     Fld td_u64 ''ac_stime'',
     Fld c_ulong ''ac_minflt'',
     Fld c_ulong ''ac_majflt'']"

lemma struct_pacct_struct_layout [simp]:
  "size_of struct_pacct_struct = 56" "align_of struct_pacct_struct = 8"
  unfolding struct_pacct_struct_def by (simp_all add: layout cong: walk_cong)

definition struct_rw_semaphore :: ctype where
  "struct_rw_semaphore = Struct
    [Fld td_atomic_long_t ''count'',
     Fld td_atomic_long_t ''owner'',
     Fld struct_optimistic_spin_queue ''osq'',
     Fld td_raw_spinlock_t ''wait_lock'',
     Fld struct_list_head ''wait_list'']"

lemma struct_rw_semaphore_layout [simp]:
  "size_of struct_rw_semaphore = 40" "align_of struct_rw_semaphore = 8"
  unfolding struct_rw_semaphore_def by (simp_all add: layout cong: walk_cong)

definition struct_signal_struct :: ctype where
  "struct_signal_struct = Struct
    [Fld td_refcount_t ''sigcnt'',
     Fld td_atomic_t ''live'',
     Fld c_int ''nr_threads'',
     Fld c_int ''quick_threads'',
     Fld struct_list_head ''thread_head'',
     Fld td_wait_queue_head_t ''wait_chldexit'',
     Fld (Ptr ''struct task_struct'') ''curr_target'',
     Fld struct_sigpending ''shared_pending'',
     Fld struct_hlist_head ''multiprocess'',
     Fld c_int ''group_exit_code'',
     Fld c_int ''notify_count'',
     Fld (Ptr ''struct task_struct'') ''group_exec_task'',
     Fld c_int ''group_stop_count'',
     Fld c_uint ''flags'',
     Fld (Ptr ''struct core_state'') ''core_state'',
     Bits C_uint 1 ''is_child_subreaper'',
     Bits C_uint 1 ''has_child_subreaper'',
     Fld c_uint ''next_posix_timer_id'',
     Fld struct_list_head ''posix_timers'',
     Fld struct_hrtimer ''real_timer'',
     Fld td_ktime_t ''it_real_incr'',
     Fld (Arr struct_cpu_itimer 2) ''it'',
     Fld struct_thread_group_cputimer ''cputimer'',
     Fld struct_posix_cputimers ''posix_cputimers'',
     Fld (Arr (Ptr ''struct pid'') 4) ''pids'',
     Fld (Ptr ''struct pid'') ''tty_old_pgrp'',
     Fld c_int ''leader'',
     Fld (Ptr ''struct tty_struct'') ''tty'',
     Fld (Ptr ''struct autogroup'') ''autogroup'',
     Fld td_seqlock_t ''stats_lock'',
     Fld td_u64 ''utime'',
     Fld td_u64 ''stime'',
     Fld td_u64 ''cutime'',
     Fld td_u64 ''cstime'',
     Fld td_u64 ''gtime'',
     Fld td_u64 ''cgtime'',
     Fld struct_prev_cputime ''prev_cputime'',
     Fld c_ulong ''nvcsw'',
     Fld c_ulong ''nivcsw'',
     Fld c_ulong ''cnvcsw'',
     Fld c_ulong ''cnivcsw'',
     Fld c_ulong ''min_flt'',
     Fld c_ulong ''maj_flt'',
     Fld c_ulong ''cmin_flt'',
     Fld c_ulong ''cmaj_flt'',
     Fld c_ulong ''inblock'',
     Fld c_ulong ''oublock'',
     Fld c_ulong ''cinblock'',
     Fld c_ulong ''coublock'',
     Fld c_ulong ''maxrss'',
     Fld c_ulong ''cmaxrss'',
     Fld struct_task_io_accounting ''ioac'',
     Fld c_ullong ''sum_sched_runtime'',
     Fld (Arr struct_rlimit 16) ''rlim'',
     Fld struct_pacct_struct ''pacct'',
     Fld (Ptr ''struct taskstats'') ''stats'',
     Fld c_uint ''audit_tty'',
     Fld (Ptr ''struct tty_audit_buf'') ''tty_audit_buf'',
     Fld td_bool ''oom_flag_origin'',
     Fld c_short ''oom_score_adj'',
     Fld c_short ''oom_score_adj_min'',
     Fld (Ptr ''struct mm_struct'') ''oom_mm'',
     Fld struct_mutex ''cred_guard_mutex'',
     Fld struct_rw_semaphore ''exec_update_lock'']"

lemma struct_signal_struct_layout [simp]:
  "size_of struct_signal_struct = 1104" "align_of struct_signal_struct = 8"
  unfolding struct_signal_struct_def by (simp_all add: layout cong: walk_cong)

definition struct_sched_class :: ctype where
  "struct_sched_class = Struct
    [Fld c_int ''uclamp_enabled'',
     Fld (Ptr ''void (struct rq *, struct task_struct *, int)'') ''enqueue_task'',
     Fld (Ptr ''void (struct rq *, struct task_struct *, int)'') ''dequeue_task'',
     Fld (Ptr ''void (struct rq *)'') ''yield_task'',
     Fld (Ptr ''bool (struct rq *, struct task_struct *)'') ''yield_to_task'',
     Fld (Ptr ''void (struct rq *, struct task_struct *, int)'') ''check_preempt_curr'',
     Fld (Ptr ''struct task_struct * (struct rq *)'') ''pick_next_task'',
     Fld (Ptr ''void (struct rq *, struct task_struct *)'') ''put_prev_task'',
     Fld (Ptr ''void (struct rq *, struct task_struct *, bool)'') ''set_next_task'',
     Fld (Ptr ''int (struct rq *, struct task_struct *, struct rq_flags *)'') ''balance'',
     Fld (Ptr ''int (struct task_struct *, int, int)'') ''select_task_rq'',
     Fld (Ptr ''struct task_struct * (struct rq *)'') ''pick_task'',
     Fld (Ptr ''void (struct task_struct *, int)'') ''migrate_task_rq'',
     Fld (Ptr ''void (struct rq *, struct task_struct *)'') ''task_woken'',
     Fld (Ptr ''void (struct task_struct *, struct affinity_context *)'') ''set_cpus_allowed'',
     Fld (Ptr ''void (struct rq *)'') ''rq_online'',
     Fld (Ptr ''void (struct rq *)'') ''rq_offline'',
     Fld (Ptr ''struct rq * (struct task_struct *, struct rq *)'') ''find_lock_rq'',
     Fld (Ptr ''void (struct rq *, struct task_struct *, int)'') ''task_tick'',
     Fld (Ptr ''void (struct task_struct *)'') ''task_fork'',
     Fld (Ptr ''void (struct task_struct *)'') ''task_dead'',
     Fld (Ptr ''void (struct rq *, struct task_struct *)'') ''switched_from'',
     Fld (Ptr ''void (struct rq *, struct task_struct *)'') ''switched_to'',
     Fld (Ptr ''void (struct rq *, struct task_struct *, int)'') ''prio_changed'',
     Fld (Ptr ''unsigned int (struct rq *, struct task_struct *)'') ''get_rr_interval'',
     Fld (Ptr ''void (struct rq *)'') ''update_curr'',
     Fld (Ptr ''void (struct task_struct *)'') ''task_change_group'',
     Fld (Ptr ''int (struct task_struct *, int)'') ''task_is_throttled'']"

lemma struct_sched_class_layout [simp]:
  "size_of struct_sched_class = 224" "align_of struct_sched_class = 8"
  unfolding struct_sched_class_def by (simp_all add: layout cong: walk_cong)

definition td_lockdep_map_p :: ctype where "td_lockdep_map_p = Struct []"

lemma td_lockdep_map_p_layout [simp]:
  "size_of td_lockdep_map_p = 0" "align_of td_lockdep_map_p = 1"
  by (simp_all add: td_lockdep_map_p_def layout)

definition struct_maple_tree :: ctype where
  "struct_maple_tree = Struct
    [Anon (Union
      [Fld td_spinlock_t ''ma_lock'',
       Fld td_lockdep_map_p ''ma_external_lock'']),
     Fld c_uint ''ma_flags'',
     Fld (Ptr ''void'') ''ma_root'']"

lemma struct_maple_tree_layout [simp]:
  "size_of struct_maple_tree = 16" "align_of struct_maple_tree = 8"
  by (simp_all add: struct_maple_tree_def layout)

definition struct_percpu_counter :: ctype where
  "struct_percpu_counter = Struct
    [Fld td_raw_spinlock_t ''lock'',
     Fld td_s64 ''count'',
     Fld struct_list_head ''list'',
     Fld (Ptr ''s32'') ''counters'']"

lemma struct_percpu_counter_layout [simp]:
  "size_of struct_percpu_counter = 40" "align_of struct_percpu_counter = 8"
  unfolding struct_percpu_counter_def by (simp_all add: layout cong: walk_cong)

definition td_mm_context_t :: ctype where
  "td_mm_context_t = Struct
    [Fld td_atomic64_t ''id'',
     Fld (Ptr ''void'') ''sigpage'',
     Fld td_refcount_t ''pinned'',
     Fld (Ptr ''void'') ''vdso'',
     Fld c_ulong ''flags'']"

lemma td_mm_context_t_layout [simp]: "size_of td_mm_context_t = 40" "align_of td_mm_context_t = 8"
  unfolding td_mm_context_t_def by (simp_all add: layout cong: walk_cong)

definition struct_uprobes_state :: ctype where
  "struct_uprobes_state = Struct
    [Fld (Ptr ''struct xol_area'') ''xol_area'']"

lemma struct_uprobes_state_layout [simp]:
  "size_of struct_uprobes_state = 8" "align_of struct_uprobes_state = 8"
  by (simp_all add: struct_uprobes_state_def layout)

definition struct_mm_struct :: ctype where
  "struct_mm_struct = Struct
    [Anon (Struct
      [Anon (Struct
        [Fld td_atomic_t ''mm_count'',
         Pad C_long 64,
         Pad C_long 64,
         Pad C_long 64,
         Pad C_long 64,
         Pad C_long 64,
         Pad C_long 64,
         Pad C_long 64]),
       Fld struct_maple_tree ''mm_mt'',
       Fld (Ptr ''long unsigned int (struct file *, long unsigned int, long unsigned int, long unsigned int, long unsigned int)'') ''get_unmapped_area'',
       Fld c_ulong ''mmap_base'',
       Fld c_ulong ''mmap_legacy_base'',
       Fld c_ulong ''task_size'',
       Fld (Ptr ''pgd_t'') ''pgd'',
       Fld td_atomic_t ''membarrier_state'',
       Fld td_atomic_t ''mm_users'',
       Fld (Ptr ''struct mm_cid'') ''pcpu_cid'',
       Fld c_ulong ''mm_cid_next_scan'',
       Fld td_atomic_long_t ''pgtables_bytes'',
       Fld c_int ''map_count'',
       Fld td_spinlock_t ''page_table_lock'',
       Fld struct_rw_semaphore ''mmap_lock'',
       Fld struct_list_head ''mmlist'',
       Fld c_int ''mm_lock_seq'',
       Fld c_ulong ''hiwater_rss'',
       Fld c_ulong ''hiwater_vm'',
       Fld c_ulong ''total_vm'',
       Fld c_ulong ''locked_vm'',
       Fld td_atomic64_t ''pinned_vm'',
       Fld c_ulong ''data_vm'',
       Fld c_ulong ''exec_vm'',
       Fld c_ulong ''stack_vm'',
       Fld c_ulong ''def_flags'',
       Fld td_seqcount_t ''write_protect_seq'',
       Fld td_spinlock_t ''arg_lock'',
       Fld c_ulong ''start_code'',
       Fld c_ulong ''end_code'',
       Fld c_ulong ''start_data'',
       Fld c_ulong ''end_data'',
       Fld c_ulong ''start_brk'',
       Fld c_ulong ''brk'',
       Fld c_ulong ''start_stack'',
       Fld c_ulong ''arg_start'',
       Fld c_ulong ''arg_end'',
       Fld c_ulong ''env_start'',
       Fld c_ulong ''env_end'',
       Fld (Arr c_ulong 50) ''saved_auxv'',
       Fld (Arr struct_percpu_counter 4) ''rss_stat'',
       Fld (Ptr ''struct linux_binfmt'') ''binfmt'',
       Fld td_mm_context_t ''context'',
       Fld c_ulong ''flags'',
       Fld td_spinlock_t ''ioctx_lock'',
       Fld (Ptr ''struct kioctx_table'') ''ioctx_table'',
       Fld (Ptr ''struct task_struct'') ''owner'',
       Fld (Ptr ''struct user_namespace'') ''user_ns'',
       Fld (Ptr ''struct file'') ''exe_file'',
       Fld (Ptr ''struct mmu_notifier_subscriptions'') ''notifier_subscriptions'',
       Fld c_ulong ''numa_next_scan'',
       Fld c_ulong ''numa_scan_offset'',
       Fld c_int ''numa_scan_seq'',
       Fld td_atomic_t ''tlb_flush_pending'',
       Fld td_atomic_t ''tlb_flush_batched'',
       Fld struct_uprobes_state ''uprobes_state'',
       Fld td_atomic_long_t ''hugetlb_usage'',
       Fld struct_work_struct ''async_put_work'',
       Fld c_ulong ''ksm_merging_pages'',
       Fld c_ulong ''ksm_rmap_items'',
       Fld c_ulong ''ksm_zero_pages'',
       Pad C_long 64,
       Pad C_long 64,
       Pad C_long 64,
       Pad C_long 64,
       Pad C_long 64,
       Pad C_long 64,
       Pad C_long 64]),
     Fld (Arr c_ulong 0) ''cpu_bitmap'']"

lemma struct_mm_struct_layout [simp]:
  "size_of struct_mm_struct = 1216" "align_of struct_mm_struct = 8"
  by (simp_all add: struct_mm_struct_def layout)

definition td_kernel_cap_t :: ctype where
  "td_kernel_cap_t = Struct
    [Fld td_u64 ''val'']"

lemma td_kernel_cap_t_layout [simp]: "size_of td_kernel_cap_t = 8" "align_of td_kernel_cap_t = 8"
  by (simp_all add: td_kernel_cap_t_def layout)

definition struct_cred :: ctype where
  "struct_cred = Struct
    [Fld td_atomic_t ''usage'',
     Fld td_kuid_t ''uid'',
     Fld td_kgid_t ''gid'',
     Fld td_kuid_t ''suid'',
     Fld td_kgid_t ''sgid'',
     Fld td_kuid_t ''euid'',
     Fld td_kgid_t ''egid'',
     Fld td_kuid_t ''fsuid'',
     Fld td_kgid_t ''fsgid'',
     Fld c_uint ''securebits'',
     Fld td_kernel_cap_t ''cap_inheritable'',
     Fld td_kernel_cap_t ''cap_permitted'',
     Fld td_kernel_cap_t ''cap_effective'',
     Fld td_kernel_cap_t ''cap_bset'',
     Fld td_kernel_cap_t ''cap_ambient'',
     Fld c_uchar ''jit_keyring'',
     Fld (Ptr ''struct key'') ''session_keyring'',
     Fld (Ptr ''struct key'') ''process_keyring'',
     Fld (Ptr ''struct key'') ''thread_keyring'',
     Fld (Ptr ''struct key'') ''request_key_auth'',
     Fld (Ptr ''void'') ''security'',
     Fld (Ptr ''struct user_struct'') ''user'',
     Fld (Ptr ''struct user_namespace'') ''user_ns'',
     Fld (Ptr ''struct ucounts'') ''ucounts'',
     Fld (Ptr ''struct group_info'') ''group_info'',
     Anon (Union
      [Fld c_int ''non_rcu'',
       Fld struct_callback_head ''rcu''])]"

lemma struct_cred_layout [simp]: "size_of struct_cred = 176" "align_of struct_cred = 8"
  unfolding struct_cred_def by (simp_all add: layout cong: walk_cong)

definition struct_nsproxy :: ctype where
  "struct_nsproxy = Struct
    [Fld td_refcount_t ''count'',
     Fld (Ptr ''struct uts_namespace'') ''uts_ns'',
     Fld (Ptr ''struct ipc_namespace'') ''ipc_ns'',
     Fld (Ptr ''struct mnt_namespace'') ''mnt_ns'',
     Fld (Ptr ''struct pid_namespace'') ''pid_ns_for_children'',
     Fld (Ptr ''struct net'') ''net_ns'',
     Fld (Ptr ''struct time_namespace'') ''time_ns'',
     Fld (Ptr ''struct time_namespace'') ''time_ns_for_children'',
     Fld (Ptr ''struct cgroup_namespace'') ''cgroup_ns'']"

lemma struct_nsproxy_layout [simp]: "size_of struct_nsproxy = 72" "align_of struct_nsproxy = 8"
  unfolding struct_nsproxy_def by (simp_all add: layout cong: walk_cong)

definition struct_sighand_struct :: ctype where
  "struct_sighand_struct = Struct
    [Fld td_spinlock_t ''siglock'',
     Fld td_refcount_t ''count'',
     Fld td_wait_queue_head_t ''signalfd_wqh'',
     Fld (Arr struct_k_sigaction 64) ''action'']"

lemma struct_sighand_struct_layout [simp]:
  "size_of struct_sighand_struct = 2080" "align_of struct_sighand_struct = 8"
  unfolding struct_sighand_struct_def by (simp_all add: layout cong: walk_cong)

definition struct_io_context :: ctype where
  "struct_io_context = Struct
    [Fld td_atomic_long_t ''refcount'',
     Fld td_atomic_t ''active_ref'',
     Fld c_ushort ''ioprio'']"

lemma struct_io_context_layout [simp]:
  "size_of struct_io_context = 16" "align_of struct_io_context = 8"
  by (simp_all add: struct_io_context_def layout)

definition struct_percpu_ref :: ctype where
  "struct_percpu_ref = Struct
    [Fld c_ulong ''percpu_count_ptr'',
     Fld (Ptr ''struct percpu_ref_data'') ''data'']"

lemma struct_percpu_ref_layout [simp]:
  "size_of struct_percpu_ref = 16" "align_of struct_percpu_ref = 8"
  by (simp_all add: struct_percpu_ref_def layout)

definition struct_path :: ctype where
  "struct_path = Struct
    [Fld (Ptr ''struct vfsmount'') ''mnt'',
     Fld (Ptr ''struct dentry'') ''dentry'']"

lemma struct_path_layout [simp]: "size_of struct_path = 16" "align_of struct_path = 8"
  by (simp_all add: struct_path_def layout)

definition struct_rcuwait :: ctype where
  "struct_rcuwait = Struct
    [Fld (Ptr ''struct task_struct'') ''task'']"

lemma struct_rcuwait_layout [simp]: "size_of struct_rcuwait = 8" "align_of struct_rcuwait = 8"
  by (simp_all add: struct_rcuwait_def layout)

definition td_cpumask_var_t :: ctype where "td_cpumask_var_t = Arr struct_cpumask 1"

lemmas [simp] = td_cpumask_var_t_def

definition struct_irq_work :: ctype where
  "struct_irq_work = Struct
    [Fld struct___call_single_node ''node'',
     Fld (Ptr ''void (struct irq_work *)'') ''func'',
     Fld struct_rcuwait ''irqwait'']"

lemma struct_irq_work_layout [simp]: "size_of struct_irq_work = 32" "align_of struct_irq_work = 8"
  by (simp_all add: struct_irq_work_def layout)

definition struct_rcu_work :: ctype where
  "struct_rcu_work = Struct
    [Fld struct_work_struct ''work'',
     Fld struct_callback_head ''rcu'',
     Fld (Ptr ''struct workqueue_struct'') ''wq'']"

lemma struct_rcu_work_layout [simp]: "size_of struct_rcu_work = 56" "align_of struct_rcu_work = 8"
  by (simp_all add: struct_rcu_work_def layout)

definition struct_plist_head :: ctype where
  "struct_plist_head = Struct
    [Fld struct_list_head ''node_list'']"

lemma struct_plist_head_layout [simp]:
  "size_of struct_plist_head = 16" "align_of struct_plist_head = 8"
  by (simp_all add: struct_plist_head_def layout)

definition struct_css_set :: ctype where
  "struct_css_set = Struct
    [Fld (Arr (Ptr ''struct cgroup_subsys_state'') 14) ''subsys'',
     Fld td_refcount_t ''refcount'',
     Fld (Ptr ''struct css_set'') ''dom_cset'',
     Fld (Ptr ''struct cgroup'') ''dfl_cgrp'',
     Fld c_int ''nr_tasks'',
     Fld struct_list_head ''tasks'',
     Fld struct_list_head ''mg_tasks'',
     Fld struct_list_head ''dying_tasks'',
     Fld struct_list_head ''task_iters'',
     Fld (Arr struct_list_head 14) ''e_cset_node'',
     Fld struct_list_head ''threaded_csets'',
     Fld struct_list_head ''threaded_csets_node'',
     Fld struct_hlist_node ''hlist'',
     Fld struct_list_head ''cgrp_links'',
     Fld struct_list_head ''mg_src_preload_node'',
     Fld struct_list_head ''mg_dst_preload_node'',
     Fld struct_list_head ''mg_node'',
     Fld (Ptr ''struct cgroup'') ''mg_src_cgrp'',
     Fld (Ptr ''struct cgroup'') ''mg_dst_cgrp'',
     Fld (Ptr ''struct css_set'') ''mg_dst_cset'',
     Fld td_bool ''dead'',
     Fld struct_callback_head ''callback_head'']"

lemma struct_css_set_layout [simp]: "size_of struct_css_set = 592" "align_of struct_css_set = 8"
  unfolding struct_css_set_def by (simp_all add: layout cong: walk_cong)

definition struct_cgroup_subsys_state :: ctype where
  "struct_cgroup_subsys_state = Struct
    [Fld (Ptr ''struct cgroup'') ''cgroup'',
     Fld (Ptr ''struct cgroup_subsys'') ''ss'',
     Fld struct_percpu_ref ''refcnt'',
     Fld struct_list_head ''sibling'',
     Fld struct_list_head ''children'',
     Fld struct_list_head ''rstat_css_node'',
     Fld c_int ''id'',
     Fld c_uint ''flags'',
     Fld td_u64 ''serial_nr'',
     Fld td_atomic_t ''online_cnt'',
     Fld struct_work_struct ''destroy_work'',
     Fld struct_rcu_work ''destroy_rwork'',
     Fld (Ptr ''struct cgroup_subsys_state'') ''parent'']"

lemma struct_cgroup_subsys_state_layout [simp]:
  "size_of struct_cgroup_subsys_state = 200" "align_of struct_cgroup_subsys_state = 8"
  unfolding struct_cgroup_subsys_state_def by (simp_all add: layout cong: walk_cong)

definition td_smp_call_func_t :: ctype where "td_smp_call_func_t = Ptr ''void (void *)''"

lemmas [simp] = td_smp_call_func_t_def

definition struct_fs_struct :: ctype where
  "struct_fs_struct = Struct
    [Fld c_int ''users'',
     Fld td_spinlock_t ''lock'',
     Fld td_seqcount_spinlock_t ''seq'',
     Fld c_int ''umask'',
     Fld c_int ''in_exec'',
     Fld struct_path ''root'',
     Fld struct_path ''pwd'']"

lemma struct_fs_struct_layout [simp]:
  "size_of struct_fs_struct = 56" "align_of struct_fs_struct = 8"
  unfolding struct_fs_struct_def by (simp_all add: layout cong: walk_cong)

definition struct_fdtable :: ctype where
  "struct_fdtable = Struct
    [Fld c_uint ''max_fds'',
     Fld (Ptr ''struct file *'') ''fd'',
     Fld (Ptr ''long unsigned int'') ''close_on_exec'',
     Fld (Ptr ''long unsigned int'') ''open_fds'',
     Fld (Ptr ''long unsigned int'') ''full_fds_bits'',
     Fld struct_callback_head ''rcu'']"

lemma struct_fdtable_layout [simp]: "size_of struct_fdtable = 56" "align_of struct_fdtable = 8"
  unfolding struct_fdtable_def by (simp_all add: layout cong: walk_cong)

definition struct_files_struct :: ctype where
  "struct_files_struct = Struct
    [Fld td_atomic_t ''count'',
     Fld td_bool ''resize_in_progress'',
     Fld td_wait_queue_head_t ''resize_wait'',
     Fld (Ptr ''struct fdtable'') ''fdt'',
     Fld struct_fdtable ''fdtab'',
     Pad C_long 64,
     Pad C_long 64,
     Pad C_long 64,
     Pad C_long 64,
     Fld td_spinlock_t ''file_lock'',
     Fld c_uint ''next_fd'',
     Fld (Arr c_ulong 1) ''close_on_exec_init'',
     Fld (Arr c_ulong 1) ''open_fds_init'',
     Fld (Arr c_ulong 1) ''full_fds_bits_init'',
     Fld (Arr (Ptr ''struct file'') 64) ''fd_array'',
     Pad C_long 64,
     Pad C_long 64,
     Pad C_long 64,
     Pad C_long 64]"

lemma struct_files_struct_layout [simp]:
  "size_of struct_files_struct = 704" "align_of struct_files_struct = 8"
  unfolding struct_files_struct_def by (simp_all add: layout cong: walk_cong)

definition struct_task_delay_info :: ctype where
  "struct_task_delay_info = Struct
    [Fld td_raw_spinlock_t ''lock'',
     Fld td_u64 ''blkio_start'',
     Fld td_u64 ''blkio_delay'',
     Fld td_u64 ''swapin_start'',
     Fld td_u64 ''swapin_delay'',
     Fld td_u32 ''blkio_count'',
     Fld td_u32 ''swapin_count'',
     Fld td_u64 ''freepages_start'',
     Fld td_u64 ''freepages_delay'',
     Fld td_u64 ''thrashing_start'',
     Fld td_u64 ''thrashing_delay'',
     Fld td_u64 ''compact_start'',
     Fld td_u64 ''compact_delay'',
     Fld td_u64 ''wpcopy_start'',
     Fld td_u64 ''wpcopy_delay'',
     Fld td_u64 ''irq_delay'',
     Fld td_u32 ''freepages_count'',
     Fld td_u32 ''thrashing_count'',
     Fld td_u32 ''compact_count'',
     Fld td_u32 ''wpcopy_count'',
     Fld td_u32 ''irq_count'']"

lemma struct_task_delay_info_layout [simp]:
  "size_of struct_task_delay_info = 144" "align_of struct_task_delay_info = 8"
  unfolding struct_task_delay_info_def by (simp_all add: layout cong: walk_cong)

definition struct___call_single_data :: ctype where
  "struct___call_single_data = Struct
    [Fld struct___call_single_node ''node'',
     Fld td_smp_call_func_t ''func'',
     Fld (Ptr ''void'') ''info'']"

lemma struct___call_single_data_layout [simp]:
  "size_of struct___call_single_data = 32" "align_of struct___call_single_data = 8"
  by (simp_all add: struct___call_single_data_def layout)

definition td_call_single_data_t :: ctype where "td_call_single_data_t = struct___call_single_data"

lemmas [simp] = td_call_single_data_t_def

definition struct_dl_bw :: ctype where
  "struct_dl_bw = Struct
    [Fld td_raw_spinlock_t ''lock'',
     Fld td_u64 ''bw'',
     Fld td_u64 ''total_bw'']"

lemma struct_dl_bw_layout [simp]: "size_of struct_dl_bw = 24" "align_of struct_dl_bw = 8"
  by (simp_all add: struct_dl_bw_def layout)

definition struct_cpudl :: ctype where
  "struct_cpudl = Struct
    [Fld td_raw_spinlock_t ''lock'',
     Fld c_int ''size'',
     Fld td_cpumask_var_t ''free_cpus'',
     Fld (Ptr ''struct cpudl_item'') ''elements'']"

lemma struct_cpudl_layout [simp]: "size_of struct_cpudl = 48" "align_of struct_cpudl = 8"
  unfolding struct_cpudl_def by (simp_all add: layout cong: walk_cong)

definition struct_cpupri_vec :: ctype where
  "struct_cpupri_vec = Struct
    [Fld td_atomic_t ''count'',
     Fld td_cpumask_var_t ''mask'']"

lemma struct_cpupri_vec_layout [simp]:
  "size_of struct_cpupri_vec = 40" "align_of struct_cpupri_vec = 8"
  by (simp_all add: struct_cpupri_vec_def layout)

definition struct_cpupri :: ctype where
  "struct_cpupri = Struct
    [Fld (Arr struct_cpupri_vec 101) ''pri_to_cpu'',
     Fld (Ptr ''int'') ''cpu_to_pri'']"

lemma struct_cpupri_layout [simp]: "size_of struct_cpupri = 4048" "align_of struct_cpupri = 8"
  by (simp_all add: struct_cpupri_def layout)

definition struct_root_domain :: ctype where
  "struct_root_domain = Struct
    [Fld td_atomic_t ''refcount'',
     Fld td_atomic_t ''rto_count'',
     Fld struct_callback_head ''rcu'',
     Fld td_cpumask_var_t ''span'',
     Fld td_cpumask_var_t ''online'',
     Fld c_int ''overload'',
     Fld c_int ''overutilized'',
     Fld td_cpumask_var_t ''dlo_mask'',
     Fld td_atomic_t ''dlo_count'',
     Fld struct_dl_bw ''dl_bw'',
     Fld struct_cpudl ''cpudl'',
     Fld td_u64 ''visit_gen'',
     Fld struct_irq_work ''rto_push_work'',
     Fld td_raw_spinlock_t ''rto_lock'',
     Fld c_int ''rto_loop'',
     Fld c_int ''rto_cpu'',
     Fld td_atomic_t ''rto_loop_next'',
     Fld td_atomic_t ''rto_loop_start'',
     Fld td_cpumask_var_t ''rto_mask'',
     Fld struct_cpupri ''cpupri'',
     Fld c_ulong ''max_cpu_capacity'',
     Fld (Ptr ''struct perf_domain'') ''pd'']"

lemma struct_root_domain_layout [simp]:
  "size_of struct_root_domain = 4368" "align_of struct_root_domain = 8"
  unfolding struct_root_domain_def by (simp_all add: layout cong: walk_cong)

definition struct_cfs_rq :: ctype where
  "struct_cfs_rq = Struct
    [Fld struct_load_weight ''load'',
     Fld c_uint ''nr_running'',
     Fld c_uint ''h_nr_running'',
     Fld c_uint ''idle_nr_running'',
     Fld c_uint ''idle_h_nr_running'',
     Fld td_s64 ''avg_vruntime'',
     Fld td_u64 ''avg_load'',
     Fld td_u64 ''exec_clock'',
     Fld td_u64 ''min_vruntime'',
     Fld c_uint ''forceidle_seq'',
     Fld td_u64 ''min_vruntime_fi'',
     Fld struct_rb_root_cached ''tasks_timeline'',
     Fld (Ptr ''struct sched_entity'') ''curr'',
     Fld (Ptr ''struct sched_entity'') ''next'',
     Fld c_uint ''nr_spread_over'',
     Pad C_long 64,
     Fld struct_sched_avg ''avg'',
     Fld (Struct
      [Fld td_raw_spinlock_t ''lock'',
       Fld c_int ''nr'',
       Fld c_ulong ''load_avg'',
       Fld c_ulong ''util_avg'',
       Fld c_ulong ''runnable_avg'',
       Pad C_long 64,
       Pad C_long 64,
       Pad C_long 64,
       Pad C_long 64]) ''removed'',
     Fld c_ulong ''tg_load_avg_contrib'',
     Fld c_long ''propagate'',
     Fld c_long ''prop_runnable_sum'',
     Fld c_ulong ''h_load'',
     Fld td_u64 ''last_h_load_update'',
     Fld (Ptr ''struct sched_entity'') ''h_load_next'',
     Fld (Ptr ''struct rq'') ''rq'',
     Fld c_int ''on_list'',
     Fld struct_list_head ''leaf_cfs_rq_list'',
     Fld (Ptr ''struct task_group'') ''tg'',
     Fld c_int ''idle'',
     Fld c_int ''runtime_enabled'',
     Fld td_s64 ''runtime_remaining'',
     Fld td_u64 ''throttled_pelt_idle'',
     Fld td_u64 ''throttled_clock'',
     Fld td_u64 ''throttled_clock_pelt'',
     Fld td_u64 ''throttled_clock_pelt_time'',
     Fld td_u64 ''throttled_clock_self'',
     Fld td_u64 ''throttled_clock_self_time'',
     Fld c_int ''throttled'',
     Fld c_int ''throttle_count'',
     Fld struct_list_head ''throttled_list'',
     Fld struct_list_head ''throttled_csd_list'']"

lemma struct_cfs_rq_layout [simp]: "size_of struct_cfs_rq = 448" "align_of struct_cfs_rq = 8"
  unfolding struct_cfs_rq_def by (simp_all add: layout cong: walk_cong)

definition struct_cfs_bandwidth :: ctype where
  "struct_cfs_bandwidth = Struct
    [Fld td_raw_spinlock_t ''lock'',
     Fld td_ktime_t ''period'',
     Fld td_u64 ''quota'',
     Fld td_u64 ''runtime'',
     Fld td_u64 ''burst'',
     Fld td_u64 ''runtime_snap'',
     Fld td_s64 ''hierarchical_quota'',
     Fld td_u8 ''idle'',
     Fld td_u8 ''period_active'',
     Fld td_u8 ''slack_started'',
     Fld struct_hrtimer ''period_timer'',
     Fld struct_hrtimer ''slack_timer'',
     Fld struct_list_head ''throttled_cfs_rq'',
     Fld c_int ''nr_periods'',
     Fld c_int ''nr_throttled'',
     Fld c_int ''nr_burst'',
     Fld td_u64 ''throttled_time'',
     Fld td_u64 ''burst_time'']"

lemma struct_cfs_bandwidth_layout [simp]:
  "size_of struct_cfs_bandwidth = 240" "align_of struct_cfs_bandwidth = 8"
  unfolding struct_cfs_bandwidth_def by (simp_all add: layout cong: walk_cong)

definition struct_task_group :: ctype where
  "struct_task_group = Struct
    [Fld struct_cgroup_subsys_state ''css'',
     Fld (Ptr ''struct sched_entity *'') ''se'',
     Fld (Ptr ''struct cfs_rq *'') ''cfs_rq'',
     Fld c_ulong ''shares'',
     Fld c_int ''idle'',
     Pad C_long 64,
     Pad C_long 64,
     Pad C_long 64,
     Fld td_atomic_long_t ''load_avg'',
     Fld struct_callback_head ''rcu'',
     Fld struct_list_head ''list'',
     Fld (Ptr ''struct task_group'') ''parent'',
     Fld struct_list_head ''siblings'',
     Fld struct_list_head ''children'',
     Fld (Ptr ''struct autogroup'') ''autogroup'',
     Fld struct_cfs_bandwidth ''cfs_bandwidth'',
     Fld (Arr c_uint 2) ''uclamp_pct'',
     Fld (Arr struct_uclamp_se 2) ''uclamp_req'',
     Fld (Arr struct_uclamp_se 2) ''uclamp'',
     Pad C_long 64,
     Pad C_long 64,
     Pad C_long 64,
     Pad C_long 64]"

lemma struct_task_group_layout [simp]:
  "size_of struct_task_group = 640" "align_of struct_task_group = 8"
  unfolding struct_task_group_def by (simp_all add: layout cong: walk_cong)

definition struct_sched_domain_shared :: ctype where
  "struct_sched_domain_shared = Struct
    [Fld td_atomic_t ''ref'',
     Fld td_atomic_t ''nr_busy_cpus'',
     Fld c_int ''has_idle_cores'',
     Fld c_int ''nr_idle_scan'']"

lemma struct_sched_domain_shared_layout [simp]:
  "size_of struct_sched_domain_shared = 16" "align_of struct_sched_domain_shared = 4"
  unfolding struct_sched_domain_shared_def by (simp_all add: layout cong: walk_cong)

definition struct_sched_domain :: ctype where
  "struct_sched_domain = Struct
    [Fld (Ptr ''struct sched_domain'') ''parent'',
     Fld (Ptr ''struct sched_domain'') ''child'',
     Fld (Ptr ''struct sched_group'') ''groups'',
     Fld c_ulong ''min_interval'',
     Fld c_ulong ''max_interval'',
     Fld c_uint ''busy_factor'',
     Fld c_uint ''imbalance_pct'',
     Fld c_uint ''cache_nice_tries'',
     Fld c_uint ''imb_numa_nr'',
     Fld c_int ''nohz_idle'',
     Fld c_int ''flags'',
     Fld c_int ''level'',
     Fld c_ulong ''last_balance'',
     Fld c_uint ''balance_interval'',
     Fld c_uint ''nr_balance_failed'',
     Fld td_u64 ''max_newidle_lb_cost'',
     Fld c_ulong ''last_decay_max_lb_cost'',
     Fld td_u64 ''avg_scan_cost'',
     Fld (Arr c_uint 3) ''lb_count'',
     Fld (Arr c_uint 3) ''lb_failed'',
     Fld (Arr c_uint 3) ''lb_balanced'',
     Fld (Arr c_uint 3) ''lb_imbalance'',
     Fld (Arr c_uint 3) ''lb_gained'',
     Fld (Arr c_uint 3) ''lb_hot_gained'',
     Fld (Arr c_uint 3) ''lb_nobusyg'',
     Fld (Arr c_uint 3) ''lb_nobusyq'',
     Fld c_uint ''alb_count'',
     Fld c_uint ''alb_failed'',
     Fld c_uint ''alb_pushed'',
     Fld c_uint ''sbe_count'',
     Fld c_uint ''sbe_balanced'',
     Fld c_uint ''sbe_pushed'',
     Fld c_uint ''sbf_count'',
     Fld c_uint ''sbf_balanced'',
     Fld c_uint ''sbf_pushed'',
     Fld c_uint ''ttwu_wake_remote'',
     Fld c_uint ''ttwu_move_affine'',
     Fld c_uint ''ttwu_move_balance'',
     Fld (Ptr ''char'') ''name'',
     Anon (Union
      [Fld (Ptr ''void'') ''private'',
       Fld struct_callback_head ''rcu'']),
     Fld (Ptr ''struct sched_domain_shared'') ''shared'',
     Fld c_uint ''span_weight'',
     Fld (Arr c_ulong 0) ''span'']"

lemma struct_sched_domain_layout [simp]:
  "size_of struct_sched_domain = 296" "align_of struct_sched_domain = 8"
  unfolding struct_sched_domain_def by (simp_all add: layout cong: walk_cong)

definition struct_sched_group :: ctype where
  "struct_sched_group = Struct
    [Fld (Ptr ''struct sched_group'') ''next'',
     Fld td_atomic_t ''ref'',
     Fld c_uint ''group_weight'',
     Fld c_uint ''cores'',
     Fld (Ptr ''struct sched_group_capacity'') ''sgc'',
     Fld c_int ''asym_prefer_cpu'',
     Fld c_int ''flags'',
     Fld (Arr c_ulong 0) ''cpumask'']"

lemma struct_sched_group_layout [simp]:
  "size_of struct_sched_group = 40" "align_of struct_sched_group = 8"
  unfolding struct_sched_group_def by (simp_all add: layout cong: walk_cong)

definition struct_uclamp_bucket :: ctype where
  "struct_uclamp_bucket = Struct
    [Bits C_ulong 11 ''value'',
     Bits C_ulong 53 ''tasks'']"

lemma struct_uclamp_bucket_layout [simp]:
  "size_of struct_uclamp_bucket = 8" "align_of struct_uclamp_bucket = 8"
  by (simp_all add: struct_uclamp_bucket_def layout)

definition struct_uclamp_rq :: ctype where
  "struct_uclamp_rq = Struct
    [Fld c_uint ''value'',
     Fld (Arr struct_uclamp_bucket 5) ''bucket'']"

lemma struct_uclamp_rq_layout [simp]:
  "size_of struct_uclamp_rq = 48" "align_of struct_uclamp_rq = 8"
  by (simp_all add: struct_uclamp_rq_def layout)

definition struct_rt_prio_array :: ctype where
  "struct_rt_prio_array = Struct
    [Fld (Arr c_ulong 2) ''bitmap'',
     Fld (Arr struct_list_head 100) ''queue'']"

lemma struct_rt_prio_array_layout [simp]:
  "size_of struct_rt_prio_array = 1616" "align_of struct_rt_prio_array = 8"
  by (simp_all add: struct_rt_prio_array_def layout)

definition struct_rt_rq :: ctype where
  "struct_rt_rq = Struct
    [Fld struct_rt_prio_array ''active'',
     Fld c_uint ''rt_nr_running'',
     Fld c_uint ''rr_nr_running'',
     Fld (Struct
      [Fld c_int ''curr'',
       Fld c_int ''next'']) ''highest_prio'',
     Fld c_uint ''rt_nr_migratory'',
     Fld c_uint ''rt_nr_total'',
     Fld c_int ''overloaded'',
     Fld struct_plist_head ''pushable_tasks'',
     Fld c_int ''rt_queued'',
     Fld c_int ''rt_throttled'',
     Fld td_u64 ''rt_time'',
     Fld td_u64 ''rt_runtime'',
     Fld td_raw_spinlock_t ''rt_runtime_lock'']"

lemma struct_rt_rq_layout [simp]: "size_of struct_rt_rq = 1696" "align_of struct_rt_rq = 8"
  unfolding struct_rt_rq_def by (simp_all add: layout cong: walk_cong)

definition struct_dl_rq :: ctype where
  "struct_dl_rq = Struct
    [Fld struct_rb_root_cached ''root'',
     Fld c_uint ''dl_nr_running'',
     Fld (Struct
      [Fld td_u64 ''curr'',
       Fld td_u64 ''next'']) ''earliest_dl'',
     Fld c_uint ''dl_nr_migratory'',
     Fld c_int ''overloaded'',
     Fld struct_rb_root_cached ''pushable_dl_tasks_root'',
     Fld td_u64 ''running_bw'',
     Fld td_u64 ''this_bw'',
     Fld td_u64 ''extra_bw'',
     Fld td_u64 ''max_bw'',
     Fld td_u64 ''bw_ratio'']"

lemma struct_dl_rq_layout [simp]: "size_of struct_dl_rq = 104" "align_of struct_dl_rq = 8"
  unfolding struct_dl_rq_def by (simp_all add: layout cong: walk_cong)

definition td_cpu_stop_fn_t :: ctype where "td_cpu_stop_fn_t = Ptr ''int (void *)''"

lemmas [simp] = td_cpu_stop_fn_t_def

definition struct_cpu_stop_work :: ctype where
  "struct_cpu_stop_work = Struct
    [Fld struct_list_head ''list'',
     Fld td_cpu_stop_fn_t ''fn'',
     Fld c_ulong ''caller'',
     Fld (Ptr ''void'') ''arg'',
     Fld (Ptr ''struct cpu_stop_done'') ''done'']"

lemma struct_cpu_stop_work_layout [simp]:
  "size_of struct_cpu_stop_work = 48" "align_of struct_cpu_stop_work = 8"
  unfolding struct_cpu_stop_work_def by (simp_all add: layout cong: walk_cong)

definition struct_rq :: ctype where
  "struct_rq = Struct
    [Fld td_raw_spinlock_t ''__lock'',
     Fld c_uint ''nr_running'',
     Fld c_uint ''nr_numa_running'',
     Fld c_uint ''nr_preferred_running'',
     Fld c_uint ''numa_migrate_on'',
     Fld c_ulong ''last_blocked_load_update_tick'',
     Fld c_uint ''has_blocked_load'',
     Pad C_long 64,
     Pad C_long 64,
     Pad C_long 64,
     Fld td_call_single_data_t ''nohz_csd'',
     Fld c_uint ''nohz_tick_stopped'',
     Fld td_atomic_t ''nohz_flags'',
     Fld c_uint ''ttwu_pending'',
     Fld td_u64 ''nr_switches'',
     Pad C_long 64,
     Fld (Arr struct_uclamp_rq 2) ''uclamp'',
     Fld c_uint ''uclamp_flags'',
     Pad C_long 64,
     Pad C_long 64,
     Pad C_long 64,
     Fld struct_cfs_rq ''cfs'',
     Fld struct_rt_rq ''rt'',
     Fld struct_dl_rq ''dl'',
     Fld struct_list_head ''leaf_cfs_rq_list'',
     Fld (Ptr ''struct list_head'') ''tmp_alone_branch'',
     Fld c_uint ''nr_uninterruptible'',
     Fld (Ptr ''struct task_struct'') ''curr'',
     Fld (Ptr ''struct task_struct'') ''idle'',
     Fld (Ptr ''struct task_struct'') ''stop'',
     Fld c_ulong ''next_balance'',
     Fld (Ptr ''struct mm_struct'') ''prev_mm'',
     Fld c_uint ''clock_update_flags'',
     Fld td_u64 ''clock'',
     Pad C_long 64,
     Pad C_long 64,
     Pad C_long 64,
     Pad C_long 64,
     Fld td_u64 ''clock_task'',
     Fld td_u64 ''clock_pelt'',
     Fld c_ulong ''lost_idle_time'',
     Fld td_u64 ''clock_pelt_idle'',
     Fld td_u64 ''clock_idle'',
     Fld td_atomic_t ''nr_iowait'',
     Fld td_u64 ''last_seen_need_resched_ns'',
     Fld c_int ''ticks_without_resched'',
     Fld c_int ''membarrier_state'',
     Fld (Ptr ''struct root_domain'') ''rd'',
     Fld (Ptr ''struct sched_domain'') ''sd'',
     Fld c_ulong ''cpu_capacity'',
     Fld c_ulong ''cpu_capacity_orig'',
     Fld (Ptr ''struct balance_callback'') ''balance_callback'',
     Fld c_uchar ''nohz_idle_balance'',
     Fld c_uchar ''idle_balance'',
     Fld c_ulong ''misfit_task_load'',
     Fld c_int ''active_balance'',
     Fld c_int ''push_cpu'',
     Fld struct_cpu_stop_work ''active_balance_work'',
     Fld c_int ''cpu'',
     Fld c_int ''online'',
     Fld struct_list_head ''cfs_tasks'',
     Pad C_long 64,
     Pad C_long 64,
     Pad C_long 64,
     Pad C_long 64,
     Pad C_long 64,
     Pad C_long 64,
     Pad C_long 64,
     Fld struct_sched_avg ''avg_rt'',
     Fld struct_sched_avg ''avg_dl'',
     Fld struct_sched_avg ''avg_irq'',
     Fld struct_sched_avg ''avg_thermal'',
     Fld td_u64 ''idle_stamp'',
     Fld td_u64 ''avg_idle'',
     Fld c_ulong ''wake_stamp'',
     Fld td_u64 ''wake_avg_idle'',
     Fld td_u64 ''max_idle_balance_cost'',
     Fld struct_rcuwait ''hotplug_wait'',
     Fld td_u64 ''prev_steal_time'',
     Fld c_ulong ''calc_load_update'',
     Fld c_long ''calc_load_active'',
     Pad C_long 64,
     Pad C_long 64,
     Pad C_long 64,
     Fld td_call_single_data_t ''hrtick_csd'',
     Fld struct_hrtimer ''hrtick_timer'',
     Fld td_ktime_t ''hrtick_time'',
     Fld struct_sched_info ''rq_sched_info'',
     Fld c_ullong ''rq_cpu_time'',
     Fld c_uint ''yld_count'',
     Fld c_uint ''sched_count'',
     Fld c_uint ''sched_goidle'',
     Fld c_uint ''ttwu_count'',
     Fld c_uint ''ttwu_local'',
     Fld (Ptr ''struct cpuidle_state'') ''idle_state'',
     Fld c_uint ''nr_pinned'',
     Fld c_uint ''push_busy'',
     Fld struct_cpu_stop_work ''push_work'',
     Fld (Ptr ''struct rq'') ''core'',
     Fld (Ptr ''struct task_struct'') ''core_pick'',
     Fld c_uint ''core_enabled'',
     Fld c_uint ''core_sched_seq'',
     Fld struct_rb_root ''core_tree'',
     Fld c_uint ''core_task_seq'',
     Fld c_uint ''core_pick_seq'',
     Fld c_ulong ''core_cookie'',
     Fld c_uint ''core_forceidle_count'',
     Fld c_uint ''core_forceidle_seq'',
     Fld c_uint ''core_forceidle_occupation'',
     Fld td_u64 ''core_forceidle_start'',
     Fld td_cpumask_var_t ''scratch_mask'',
     Pad C_long 64,
     Pad C_long 64,
     Fld td_call_single_data_t ''cfsb_csd'',
     Fld struct_list_head ''cfsb_csd_list'',
     Pad C_long 64,
     Pad C_long 64]"

lemma struct_rq_layout [simp]: "size_of struct_rq = 3648" "align_of struct_rq = 8"
  unfolding struct_rq_def by (simp_all add: layout cong: walk_cong)

definition struct_cpudl_item :: ctype where
  "struct_cpudl_item = Struct
    [Fld td_u64 ''dl'',
     Fld c_int ''cpu'',
     Fld c_int ''idx'']"

lemma struct_cpudl_item_layout [simp]:
  "size_of struct_cpudl_item = 16" "align_of struct_cpudl_item = 8"
  by (simp_all add: struct_cpudl_item_def layout)

definition struct_perf_domain :: ctype where
  "struct_perf_domain = Struct
    [Fld (Ptr ''struct em_perf_domain'') ''em_pd'',
     Fld (Ptr ''struct perf_domain'') ''next'',
     Fld struct_callback_head ''rcu'']"

lemma struct_perf_domain_layout [simp]:
  "size_of struct_perf_domain = 32" "align_of struct_perf_domain = 8"
  by (simp_all add: struct_perf_domain_def layout)

definition struct_balance_callback :: ctype where
  "struct_balance_callback = Struct
    [Fld (Ptr ''struct balance_callback'') ''next'',
     Fld (Ptr ''void (struct rq *)'') ''func'']"

lemma struct_balance_callback_layout [simp]:
  "size_of struct_balance_callback = 16" "align_of struct_balance_callback = 8"
  by (simp_all add: struct_balance_callback_def layout)

definition struct_rt_mutex_base :: ctype where
  "struct_rt_mutex_base = Struct
    [Fld td_raw_spinlock_t ''wait_lock'',
     Fld struct_rb_root_cached ''waiters'',
     Fld (Ptr ''struct task_struct'') ''owner'']"

lemma struct_rt_mutex_base_layout [simp]:
  "size_of struct_rt_mutex_base = 32" "align_of struct_rt_mutex_base = 8"
  by (simp_all add: struct_rt_mutex_base_def layout)

definition struct_rt_mutex :: ctype where
  "struct_rt_mutex = Struct
    [Fld struct_rt_mutex_base ''rtmutex'']"

lemma struct_rt_mutex_layout [simp]: "size_of struct_rt_mutex = 32" "align_of struct_rt_mutex = 8"
  by (simp_all add: struct_rt_mutex_def layout)

definition struct_cpuidle_state :: ctype where
  "struct_cpuidle_state = Struct
    [Fld (Arr c_char 16) ''name'',
     Fld (Arr c_char 32) ''desc'',
     Fld td_s64 ''exit_latency_ns'',
     Fld td_s64 ''target_residency_ns'',
     Fld c_uint ''flags'',
     Fld c_uint ''exit_latency'',
     Fld c_int ''power_usage'',
     Fld c_uint ''target_residency'',
     Fld (Ptr ''int (struct cpuidle_device *, struct cpuidle_driver *, int)'') ''enter'',
     Fld (Ptr ''int (struct cpuidle_device *, int)'') ''enter_dead'',
     Fld (Ptr ''int (struct cpuidle_device *, struct cpuidle_driver *, int)'') ''enter_s2idle'']"

lemma struct_cpuidle_state_layout [simp]:
  "size_of struct_cpuidle_state = 104" "align_of struct_cpuidle_state = 8"
  unfolding struct_cpuidle_state_def by (simp_all add: layout cong: walk_cong)

definition struct_rt_waiter_node :: ctype where
  "struct_rt_waiter_node = Struct
    [Fld struct_rb_node ''entry'',
     Fld c_int ''prio'',
     Fld td_u64 ''deadline'']"

lemma struct_rt_waiter_node_layout [simp]:
  "size_of struct_rt_waiter_node = 40" "align_of struct_rt_waiter_node = 8"
  by (simp_all add: struct_rt_waiter_node_def layout)

definition struct_rt_mutex_waiter :: ctype where
  "struct_rt_mutex_waiter = Struct
    [Fld struct_rt_waiter_node ''tree'',
     Fld struct_rt_waiter_node ''pi_tree'',
     Fld (Ptr ''struct task_struct'') ''task'',
     Fld (Ptr ''struct rt_mutex_base'') ''lock'',
     Fld c_uint ''wake_state'',
     Fld (Ptr ''struct ww_acquire_ctx'') ''ww_ctx'']"

lemma struct_rt_mutex_waiter_layout [simp]:
  "size_of struct_rt_mutex_waiter = 112" "align_of struct_rt_mutex_waiter = 8"
  unfolding struct_rt_mutex_waiter_def by (simp_all add: layout cong: walk_cong)

definition struct_rcu_exp_work :: ctype where
  "struct_rcu_exp_work = Struct
    [Fld c_ulong ''rew_s'',
     Fld struct_work_struct ''rew_work'']"

lemma struct_rcu_exp_work_layout [simp]:
  "size_of struct_rcu_exp_work = 40" "align_of struct_rcu_exp_work = 8"
  by (simp_all add: struct_rcu_exp_work_def layout)

definition struct_rcu_node :: ctype where
  "struct_rcu_node = Struct
    [Fld td_raw_spinlock_t ''lock'',
     Fld c_ulong ''gp_seq'',
     Fld c_ulong ''gp_seq_needed'',
     Fld c_ulong ''completedqs'',
     Fld c_ulong ''qsmask'',
     Fld c_ulong ''rcu_gp_init_mask'',
     Fld c_ulong ''qsmaskinit'',
     Fld c_ulong ''qsmaskinitnext'',
     Fld c_ulong ''expmask'',
     Fld c_ulong ''expmaskinit'',
     Fld c_ulong ''expmaskinitnext'',
     Fld c_ulong ''cbovldmask'',
     Fld c_ulong ''ffmask'',
     Fld c_ulong ''grpmask'',
     Fld c_int ''grplo'',
     Fld c_int ''grphi'',
     Fld td_u8 ''grpnum'',
     Fld td_u8 ''level'',
     Fld td_bool ''wait_blkd_tasks'',
     Fld (Ptr ''struct rcu_node'') ''parent'',
     Fld struct_list_head ''blkd_tasks'',
     Fld (Ptr ''struct list_head'') ''gp_tasks'',
     Fld (Ptr ''struct list_head'') ''exp_tasks'',
     Fld (Ptr ''struct list_head'') ''boost_tasks'',
     Fld struct_rt_mutex ''boost_mtx'',
     Fld c_ulong ''boost_time'',
     Fld struct_mutex ''boost_kthread_mutex'',
     Fld (Ptr ''struct task_struct'') ''boost_kthread_task'',
     Fld c_uint ''boost_kthread_status'',
     Fld c_ulong ''n_boosts'',
     Pad C_long 64,
     Pad C_long 64,
     Pad C_long 64,
     Pad C_long 64,
     Pad C_long 64,
     Pad C_long 64,
     Fld td_raw_spinlock_t ''fqslock'',
     Pad C_long 64,
     Pad C_long 64,
     Pad C_long 64,
     Pad C_long 64,
     Pad C_long 64,
     Pad C_long 64,
     Pad C_long 64,
     Fld td_spinlock_t ''exp_lock'',
     Fld c_ulong ''exp_seq_rq'',
     Fld (Arr td_wait_queue_head_t 4) ''exp_wq'',
     Fld struct_rcu_exp_work ''rew'',
     Fld td_bool ''exp_need_flush'',
     Fld td_raw_spinlock_t ''exp_poll_lock'',
     Fld c_ulong ''exp_seq_poll_rq'',
     Fld struct_work_struct ''exp_poll_wq'',
     Pad C_long 64,
     Pad C_long 64,
     Pad C_long 64,
     Pad C_long 64,
     Pad C_long 64,
     Pad C_long 64,
     Pad C_long 64]"

lemma struct_rcu_node_layout [simp]:
  "size_of struct_rcu_node = 640" "align_of struct_rcu_node = 8"
  unfolding struct_rcu_node_def by (simp_all add: layout cong: walk_cong)

end
