(* ===== verification/SA_Btf.thy ===== *)
theory SA_Btf imports SA_Vmlinux SA_Kernel begin

text \<open>
  The kernel \<open>vmlinux.h\<close> was generated from, as a running kernel of the model: its memory is a
  function from addresses to bytes, and what a program reads through a pointer is decoded from the
  bytes at the place the C layout gives the member (\<^emph>\<open>btf_kernel\<close>). On this kernel the loader's
  relocations find every field where the declarations put it, so offsets and field existence
  are no parameters any more but facts. The two views the BPF object declares itself,
  \<open>struct sched_avg__pre68\<close> and \<open>struct util_est\<close>, are read at their own offsets
  (\<open>BPF_PROBE_READ\<close>).
\<close>

section \<open>Where the members are\<close>

text \<open>Part by part for \<open>struct task_struct\<close>.\<close>

lemma task_struct_parts:
  "find_struct task_struct_sched base 0 ''se'' = Some (base + 1536, struct_sched_entity, None)"
  "find_struct task_struct_sched base 0 ''wake_cpu'' = Some (base + 864, c_int, None)"
  "find_struct task_struct_sched base 0 ''uclamp_req'' = Some (base + 6208, Arr struct_uclamp_se 2, None)"
  "find_struct task_struct_sched base 0 ''uclamp'' = Some (base + 6272, Arr struct_uclamp_se 2, None)"
  "find_struct task_struct_sched base 0 ''pid'' = None"
  "find_struct task_struct_sched base 0 ''comm'' = None"
  "find_struct task_struct_rcu base 6656 ''pid'' = None"
  "find_struct task_struct_rcu base 6656 ''comm'' = None"
  "find_struct task_struct_ids base 11584 ''pid'' = Some (base + 12224, c_int, None)"
  "find_struct task_struct_ids base 11584 ''comm'' = Some (base + 16256, Arr c_char 16, None)"
  "find_struct task_struct_sched base 0 ''cpu'' = None"
  "find_struct task_struct_rcu base 6656 ''cpu'' = None"
  "find_struct task_struct_ids base 11584 ''cpu'' = None"
  "find_struct task_struct_files base 16768 ''cpu'' = None"
  "find_struct task_struct_mem base 20736 ''cpu'' = None"
  "find_struct task_struct_trace base 22624 ''cpu'' = None"
  unfolding task_struct_sched_def task_struct_rcu_def task_struct_ids_def task_struct_files_def
    task_struct_mem_def task_struct_trace_def
  by (simp_all add: layout cong: walk_cong)

lemma struct_task_struct_members [simp]:
  "find_in struct_task_struct b ''pid'' = Some (b + 12224, c_int, None)"
  "find_in struct_task_struct b ''comm'' = Some (b + 16256, Arr c_char 16, None)"
  "find_in struct_task_struct b ''wake_cpu'' = Some (b + 864, c_int, None)"
  "find_in struct_task_struct b ''uclamp_req'' = Some (b + 6208, Arr struct_uclamp_se 2, None)"
  "find_in struct_task_struct b ''uclamp'' = Some (b + 6272, Arr struct_uclamp_se 2, None)"
  "find_in struct_task_struct b ''se'' = Some (b + 1536, struct_sched_entity, None)"
  "find_in struct_task_struct b ''cpu'' = None"
  by (simp_all add: struct_task_struct_def find_struct_append task_struct_parts)

lemma struct_sched_entity_members [simp]:
  "find_in struct_sched_entity b ''my_q'' = Some (b + 1280, Ptr ''struct cfs_rq'', None)"
  "find_in struct_sched_entity b ''avg'' = Some (b + 1536, struct_sched_avg, None)"
  unfolding struct_sched_entity_def by (simp_all add: layout cong: walk_cong)

lemma struct_sched_avg_members [simp]:
  "find_in struct_sched_avg b ''last_update_time'' = Some (b, c_ullong, None)"
  "find_in struct_sched_avg b ''load_sum'' = Some (b + 64, c_ullong, None)"
  "find_in struct_sched_avg b ''runnable_sum'' = Some (b + 128, c_ullong, None)"
  "find_in struct_sched_avg b ''util_sum'' = Some (b + 192, c_uint, None)"
  "find_in struct_sched_avg b ''period_contrib'' = Some (b + 224, c_uint, None)"
  "find_in struct_sched_avg b ''load_avg'' = Some (b + 256, c_ulong, None)"
  "find_in struct_sched_avg b ''runnable_avg'' = Some (b + 320, c_ulong, None)"
  "find_in struct_sched_avg b ''util_avg'' = Some (b + 384, c_ulong, None)"
  "find_in struct_sched_avg b ''util_est'' = Some (b + 448, c_uint, None)"
  unfolding struct_sched_avg_def by (simp_all add: layout cong: walk_cong)

lemma struct_uclamp_se_members [simp]:
  "find_in struct_uclamp_se b ''value'' = Some (b, c_uint, Some 11)"
  "find_in struct_uclamp_se b ''bucket_id'' = Some (b + 11, c_uint, Some 3)"
  "find_in struct_uclamp_se b ''active'' = Some (b + 14, c_uint, Some 1)"
  "find_in struct_uclamp_se b ''user_defined'' = Some (b + 15, c_uint, Some 1)"
  by (simp_all add: struct_uclamp_se_def layout)

lemma struct_cfs_rq_members [simp]:
  "find_in struct_cfs_rq b ''idle_h_nr_running'' = Some (b + 224, c_uint, None)"
  "find_in struct_cfs_rq b ''avg'' = Some (b + 1024, struct_sched_avg, None)"
  "find_in struct_cfs_rq b ''rq'' = Some (b + 2432, Ptr ''struct rq'', None)"
  unfolding struct_cfs_rq_def by (simp_all add: layout cong: walk_cong)

lemma struct_rq_members [simp]:
  "find_in struct_rq b ''nr_running'' = Some (b + 32, c_uint, None)"
  "find_in struct_rq b ''uclamp'' = Some (b + 1024, Arr struct_uclamp_rq 2, None)"
  "find_in struct_rq b ''rd'' = Some (b + 21504, Ptr ''struct root_domain'', None)"
  "find_in struct_rq b ''sd'' = Some (b + 21568, Ptr ''struct sched_domain'', None)"
  "find_in struct_rq b ''misfit_task_load'' = Some (b + 21888, c_ulong, None)"
  "find_in struct_rq b ''cpu'' = Some (b + 22400, c_int, None)"
  "find_in struct_rq b ''avg_rt'' = Some (b + 23040, struct_sched_avg, None)"
  "find_in struct_rq b ''avg_dl'' = Some (b + 23552, struct_sched_avg, None)"
  "find_in struct_rq b ''avg_irq'' = Some (b + 24064, struct_sched_avg, None)"
  "find_in struct_rq b ''avg_thermal'' = Some (b + 24576, struct_sched_avg, None)"
  "find_in struct_rq b ''cfs'' = Some (b + 2048, struct_cfs_rq, None)"
  unfolding struct_rq_def by (simp_all add: layout cong: walk_cong)

lemma struct_uclamp_rq_members [simp]:
  "find_in struct_uclamp_rq b ''value'' = Some (b, c_uint, None)"
  by (simp_all add: struct_uclamp_rq_def layout)

lemma struct_root_domain_members [simp]:
  "find_in struct_root_domain b ''overload'' = Some (b + 704, c_int, None)"
  "find_in struct_root_domain b ''overutilized'' = Some (b + 736, c_int, None)"
  unfolding struct_root_domain_def by (simp_all add: layout cong: walk_cong)

lemma struct_sched_domain_members [simp]:
  "find_in struct_sched_domain b ''parent'' = Some (b, Ptr ''struct sched_domain'', None)"
  "find_in struct_sched_domain b ''busy_factor'' = Some (b + 320, c_uint, None)"
  "find_in struct_sched_domain b ''level'' = Some (b + 512, c_int, None)"
  "find_in struct_sched_domain b ''balance_interval'' = Some (b + 640, c_uint, None)"
  unfolding struct_sched_domain_def by (simp_all add: layout cong: walk_cong)

section \<open>Structures declared by the BPF object\<close>

definition struct_util_est :: ctype where
  "struct_util_est = Struct
    [Fld c_uint ''enqueued'',
     Fld c_uint ''ewma'']"

definition struct_sched_avg__pre68 :: ctype where
  "struct_sched_avg__pre68 = Struct
    [Fld td_u64 ''last_update_time'',
     Fld td_u64 ''load_sum'',
     Fld td_u64 ''runnable_sum'',
     Fld td_u32 ''util_sum'',
     Fld td_u32 ''period_contrib'',
     Fld c_ulong ''load_avg'',
     Fld c_ulong ''runnable_avg'',
     Fld c_ulong ''util_avg'',
     Fld struct_util_est ''util_est'']"

lemma struct_util_est_members [simp]:
  "size_of struct_util_est = 8" "align_of struct_util_est = 4"
  "find_in struct_util_est b ''enqueued'' = Some (b, c_uint, None)"
  "find_in struct_util_est b ''ewma'' = Some (b + 32, c_uint, None)"
  by (simp_all add: struct_util_est_def layout)

lemma struct_sched_avg__pre68_members [simp]:
  "size_of struct_sched_avg__pre68 = 64" "align_of struct_sched_avg__pre68 = 8"
  "find_in struct_sched_avg__pre68 b ''last_update_time'' = Some (b, c_ullong, None)"
  "find_in struct_sched_avg__pre68 b ''load_sum'' = Some (b + 64, c_ullong, None)"
  "find_in struct_sched_avg__pre68 b ''runnable_sum'' = Some (b + 128, c_ullong, None)"
  "find_in struct_sched_avg__pre68 b ''util_sum'' = Some (b + 192, c_uint, None)"
  "find_in struct_sched_avg__pre68 b ''period_contrib'' = Some (b + 224, c_uint, None)"
  "find_in struct_sched_avg__pre68 b ''load_avg'' = Some (b + 256, c_ulong, None)"
  "find_in struct_sched_avg__pre68 b ''runnable_avg'' = Some (b + 320, c_ulong, None)"
  "find_in struct_sched_avg__pre68 b ''util_avg'' = Some (b + 384, c_ulong, None)"
  "find_in struct_sched_avg__pre68 b ''util_est'' = Some (b + 448, struct_util_est, None)"
  unfolding struct_sched_avg__pre68_def by (simp_all add: layout cong: walk_cong)

section \<open>Decoding\<close>

definition core_word :: "memory \<Rightarrow> ctype \<Rightarrow> ptr \<Rightarrow> access list \<Rightarrow> 'a::len word" where
  "core_word B t a as = of_nat (core_read B t a as)"

text \<open>\<open>BPF_CORE_READ_STR_INTO\<close>: at most 15 characters, up to the terminator.\<close>

definition read_str :: "memory \<Rightarrow> ptr \<Rightarrow> nat \<Rightarrow> string" where
  "read_str B a n = map (\<lambda>b. char_of (unat b)) (takeWhile (\<lambda>b. b \<noteq> 0) (map (\<lambda>i. B (a + of_nat i)) [0..<n - 1]))"

definition read_avg :: "memory \<Rightarrow> ctype \<Rightarrow> ptr \<Rightarrow> access list \<Rightarrow> sched_avg" where
  "read_avg B t a as = \<lparr>
     avg_last_update_time = core_word B t a (as @ [Dot ''last_update_time'']),
     avg_load_sum = core_word B t a (as @ [Dot ''load_sum'']),
     avg_runnable_sum = core_word B t a (as @ [Dot ''runnable_sum'']),
     avg_util_sum = core_word B t a (as @ [Dot ''util_sum'']),
     avg_period_contrib = core_word B t a (as @ [Dot ''period_contrib'']),
     avg_load_avg = core_word B t a (as @ [Dot ''load_avg'']),
     avg_runnable_avg = core_word B t a (as @ [Dot ''runnable_avg'']),
     avg_util_avg = core_word B t a (as @ [Dot ''util_avg'']),
     avg_util_est = core_word B t a (as @ [Dot ''util_est''])\<rparr>"

fun uclamp_index :: "uclamp_id \<Rightarrow> nat" where
  "uclamp_index UCLAMP_MIN = 0" | "uclamp_index UCLAMP_MAX = 1"

definition read_uclamp :: "memory \<Rightarrow> ptr \<Rightarrow> string \<Rightarrow> uclamp_id \<Rightarrow> uclamp_se" where
  "read_uclamp B a member c = (let as = [Dot member, Ix (uclamp_index c)] in \<lparr>
     uc_value = core_word B struct_task_struct a (as @ [Dot ''value'']),
     uc_bucket_id = core_word B struct_task_struct a (as @ [Dot ''bucket_id'']),
     uc_active = core_read B struct_task_struct a (as @ [Dot ''active'']) \<noteq> 0,
     uc_user_defined = core_read B struct_task_struct a (as @ [Dot ''user_defined'']) \<noteq> 0\<rparr>)"

definition read_task :: "memory \<Rightarrow> ptr \<Rightarrow> task_struct" where
  "read_task B a = \<lparr>
     p_pid = core_word B struct_task_struct a [Dot ''pid''],
     p_comm = read_str B (a + of_nat (offset_of struct_task_struct [Dot ''comm''])) 16,
     p_wake_cpu = core_word B struct_task_struct a [Dot ''wake_cpu''],
     p_uclamp_req = read_uclamp B a ''uclamp_req'',
     p_uclamp = read_uclamp B a ''uclamp''\<rparr>"

definition read_se :: "memory \<Rightarrow> ptr \<Rightarrow> sched_entity" where
  "read_se B a = \<lparr>
     se_my_q = core_word B struct_sched_entity a [Dot ''my_q''],
     se_avg = read_avg B struct_sched_entity a [Dot ''avg'']\<rparr>"

definition read_cfs :: "memory \<Rightarrow> ptr \<Rightarrow> cfs_rq" where
  "read_cfs B a = \<lparr>
     cfs_idle_h_nr_running = core_word B struct_cfs_rq a [Dot ''idle_h_nr_running''],
     cfs_avg = read_avg B struct_cfs_rq a [Dot ''avg''],
     cfs_rq_rq = core_word B struct_cfs_rq a [Dot ''rq'']\<rparr>"

definition read_rq :: "memory \<Rightarrow> ptr \<Rightarrow> rq" where
  "read_rq B a = \<lparr>
     rq_nr_running = core_word B struct_rq a [Dot ''nr_running''],
     rq_uclamp = (\<lambda>c. core_word B struct_rq a [Dot ''uclamp'', Ix (uclamp_index c), Dot ''value'']),
     rq_rd = core_word B struct_rq a [Dot ''rd''],
     rq_sd = core_word B struct_rq a [Dot ''sd''],
     rq_misfit_task_load = core_word B struct_rq a [Dot ''misfit_task_load''],
     rq_cpu = core_word B struct_rq a [Dot ''cpu''],
     rq_avg_rt = read_avg B struct_rq a [Dot ''avg_rt''],
     rq_avg_dl = read_avg B struct_rq a [Dot ''avg_dl''],
     rq_avg_irq = read_avg B struct_rq a [Dot ''avg_irq''],
     rq_avg_thermal = read_avg B struct_rq a [Dot ''avg_thermal'']\<rparr>"

definition read_rd :: "memory \<Rightarrow> ptr \<Rightarrow> root_domain" where
  "read_rd B a = \<lparr>
     rd_overload = core_word B struct_root_domain a [Dot ''overload''],
     rd_overutilized = core_word B struct_root_domain a [Dot ''overutilized'']\<rparr>"

definition read_sd :: "memory \<Rightarrow> ptr \<Rightarrow> sched_domain" where
  "read_sd B a = \<lparr>
     dom_parent = core_word B struct_sched_domain a [Dot ''parent''],
     dom_busy_factor = core_word B struct_sched_domain a [Dot ''busy_factor''],
     dom_level = core_word B struct_sched_domain a [Dot ''level''],
     dom_balance_interval = core_word B struct_sched_domain a [Dot ''balance_interval'']\<rparr>"

definition read_avg_pre68 :: "memory \<Rightarrow> ptr \<Rightarrow> sched_avg__pre68" where
  "read_avg_pre68 B a = (let rd = \<lambda>m. core_word B struct_sched_avg__pre68 a [Dot m] in \<lparr>
     pre68_last_update_time = rd ''last_update_time'',
     pre68_load_sum = rd ''load_sum'',
     pre68_runnable_sum = rd ''runnable_sum'',
     pre68_util_sum = core_word B struct_sched_avg__pre68 a [Dot ''util_sum''],
     pre68_period_contrib = core_word B struct_sched_avg__pre68 a [Dot ''period_contrib''],
     pre68_load_avg = rd ''load_avg'',
     pre68_runnable_avg = rd ''runnable_avg'',
     pre68_util_avg = rd ''util_avg'',
     pre68_util_est = \<lparr>
       ue_enqueued = core_word B struct_sched_avg__pre68 a [Dot ''util_est'', Dot ''enqueued''],
       ue_ewma = core_word B struct_sched_avg__pre68 a [Dot ''util_est'', Dot ''ewma'']\<rparr>\<rparr>)"

section \<open>The kernel of \<open>vmlinux.h\<close>\<close>

text \<open>The paths the programs ask \<open>bpf_core_field_exists\<close> about.\<close>

fun core_path :: "core_field \<Rightarrow> ctype \<times> access list" where
  "core_path SE_my_q = (struct_sched_entity, [Dot ''my_q''])"
| "core_path CFS_rq_rq = (struct_cfs_rq, [Dot ''rq''])"
| "core_path P_wake_cpu = (struct_task_struct, [Dot ''wake_cpu''])"
| "core_path (P_uclamp_req c) = (struct_task_struct, [Dot ''uclamp_req'', Ix (uclamp_index c), Dot ''value''])"
| "core_path (P_uclamp c) = (struct_task_struct, [Dot ''uclamp'', Ix (uclamp_index c), Dot ''value''])"
| "core_path (RQ_uclamp c) = (struct_rq, [Dot ''uclamp'', Ix (uclamp_index c), Dot ''value''])"
| "core_path RQ_avg_rt = (struct_rq, [Dot ''avg_rt''])"
| "core_path RQ_avg_dl = (struct_rq, [Dot ''avg_dl''])"
| "core_path RQ_avg_irq = (struct_rq, [Dot ''avg_irq''])"
| "core_path RQ_avg_thermal = (struct_rq, [Dot ''avg_thermal''])"

text \<open>
  \<open>struct task_struct__old\<close> is a flavour of \<open>struct task_struct\<close>: its \<open>cpu\<close> is looked up there, in
  vain on this kernel, and the program does not get to that read.
\<close>

definition btf_kernel :: "s32 \<Rightarrow> memory \<Rightarrow> kernel" where
  "btf_kernel version B = \<lparr>
     LINUX_KERNEL_VERSION = version,
     field_exists = (\<lambda>f. case core_path f of (t, as) \<Rightarrow> core_field_exists t as),
     off_task_se = of_nat (offset_of struct_task_struct [Dot ''se'']),
     off_rq_cfs = of_nat (offset_of struct_rq [Dot ''cfs'']),
     off_se_avg = of_nat (offset_of struct_sched_entity [Dot ''avg'']),
     off_cfs_avg = of_nat (offset_of struct_cfs_rq [Dot ''avg'']),
     mem_task = read_task B,
     mem_task_old = (\<lambda>a. \<lparr>old_cpu = core_word B struct_task_struct a [Dot ''cpu'']\<rparr>),
     mem_se = read_se B,
     mem_cfs = read_cfs B,
     mem_rq = read_rq B,
     mem_rd = read_rd B,
     mem_sd = read_sd B,
     mem_avg_pre68 = read_avg_pre68 B\<rparr>"

section \<open>Every decoder reads its object only\<close>

lemma core_word_cong: "same_bytes B B' a (size_of t) \<Longrightarrow> core_word B t a as = core_word B' t a as"
  by (simp add: core_word_def core_read_cong)

lemma read_avg_cong: "same_bytes B B' a (size_of t) \<Longrightarrow> read_avg B t a as = read_avg B' t a as"
  by (simp add: read_avg_def core_word_cong [of B B'])

lemma read_uclamp_cong: "same_bytes B B' p 4288 \<Longrightarrow> read_uclamp B p s = read_uclamp B' p s"
  by (rule ext) (simp add: read_uclamp_def Let_def core_word_cong [of B B'] core_read_cong [of B B'])

interpretation str: reader "\<lambda>B a. read_str B a n" n
  by unfold_locales
    (auto simp: read_str_def same_bytes_def intro!: arg_cong [of _ _ "\<lambda>l. map _ (takeWhile _ l)"])

interpretation task: reader read_task "size_of struct_task_struct"
proof
  fix B B' a
  assume *: "same_bytes B B' a (size_of struct_task_struct)"
  then show "read_task B a = read_task B' a"
    using str.inside [OF *, of 2032 16]
    by (simp add: read_task_def core_word_cong [of B B'] read_uclamp_cong [of B B'] offset_of_def)
qed

interpretation se: reader read_se "size_of struct_sched_entity"
  by unfold_locales (simp add: read_se_def core_word_cong read_avg_cong)

interpretation cfs: reader read_cfs "size_of struct_cfs_rq"
  by unfold_locales (simp add: read_cfs_def core_word_cong read_avg_cong)

interpretation rq: reader read_rq "size_of struct_rq"
  by unfold_locales (simp add: read_rq_def core_word_cong [of _ _ _ struct_rq] read_avg_cong [of _ _ _ struct_rq])

interpretation rd: reader read_rd "size_of struct_root_domain"
  by unfold_locales (simp add: read_rd_def core_word_cong)

interpretation sd: reader read_sd "size_of struct_sched_domain"
  by unfold_locales (simp add: read_sd_def core_word_cong)

interpretation avg_pre68: reader read_avg_pre68 "size_of struct_sched_avg__pre68"
  by unfold_locales (simp add: read_avg_pre68_def Let_def core_word_cong)

section \<open>Cache lines\<close>

text \<open>
  The kernel declares \<open>struct sched_avg\<close> cache-line aligned. Its BTF does not say so, only the
  padding that \<open>vmlinux.h\<close> spells out does: every place a probe finds such a structure in is a
  multiple of 64 bytes, and so are the sizes of the objects around it.
\<close>

lemma signals_aligned:
  "64 dvd offset_of struct_task_struct [Dot ''se'', Dot ''avg'']"
  "64 dvd offset_of struct_rq [Dot ''cfs'', Dot ''avg'']"
  "64 dvd offset_of struct_rq [Dot ''avg_rt'']" "64 dvd offset_of struct_rq [Dot ''avg_dl'']"
  "64 dvd offset_of struct_rq [Dot ''avg_irq'']" "64 dvd offset_of struct_rq [Dot ''avg_thermal'']"
  "64 dvd size_of struct_sched_entity" "64 dvd size_of struct_cfs_rq"
  "64 dvd size_of struct_task_struct" "64 dvd size_of struct_rq"
  by (simp_all add: offset_of_def)

end
