(* ===== verification/SA_Btf_Probes.thy ===== *)
theory SA_Btf_Probes imports SA_Btf SA_Pelt SA_Samples begin

text \<open>
  The PELT probes on the bytes of the kernel \<open>vmlinux.h\<close> describes: what they emit equals what loads
  at constant offsets give (the form the loader leaves the programs in), it depends on the bytes
  of the one \<open>task_struct\<close> or \<open>rq\<close> only, and the two versions of the \<open>util_est\<close> read meet on
  the same bytes.
\<close>

abbreviation on_kernel :: "kernel \<Rightarrow> ('sw, 'si, 'lb) run_env \<Rightarrow> ('sw, 'si, 'lb) run_env" where
  "on_kernel k env \<equiv> env\<lparr>env_kernel := k\<rparr>"

section \<open>The kernel's facts\<close>

lemma btf_offsets [simp]:
  "off_task_se (btf_kernel v B) = 192" "off_rq_cfs (btf_kernel v B) = 256"
  "off_se_avg (btf_kernel v B) = 192" "off_cfs_avg (btf_kernel v B) = 128"
  by (simp_all add: btf_kernel_def offset_of_def)

lemma btf_field_exists [simp]: "field_exists (btf_kernel v B) f"
proof (cases f)
  case (P_uclamp_req c) then show ?thesis by (cases c) (simp_all add: btf_kernel_def core_field_exists_def)
next
  case (P_uclamp c) then show ?thesis by (cases c) (simp_all add: btf_kernel_def core_field_exists_def)
next
  case (RQ_uclamp c) then show ?thesis by (cases c) (simp_all add: btf_kernel_def core_field_exists_def)
qed (simp_all add: btf_kernel_def core_field_exists_def)

lemma btf_kernel_sel [simp]:
  "LINUX_KERNEL_VERSION (btf_kernel v B) = v"
  "mem_task (btf_kernel v B) = read_task B" "mem_se (btf_kernel v B) = read_se B"
  "mem_cfs (btf_kernel v B) = read_cfs B" "mem_rq (btf_kernel v B) = read_rq B"
  "mem_rd (btf_kernel v B) = read_rd B" "mem_sd (btf_kernel v B) = read_sd B"
  "mem_avg_pre68 (btf_kernel v B) = read_avg_pre68 B"
  by (simp_all add: btf_kernel_def)

section \<open>Loads at constant offsets\<close>

definition ld16 :: "memory \<Rightarrow> ptr \<Rightarrow> 16 word" where "ld16 B a = of_nat (read_le B a 2)"
definition ld32 :: "memory \<Rightarrow> ptr \<Rightarrow> 32 word" where "ld32 B a = of_nat (read_le B a 4)"
definition ld64 :: "memory \<Rightarrow> ptr \<Rightarrow> 64 word" where "ld64 B a = of_nat (read_le B a 8)"

lemmas load_defs = ld32_def ld64_def core_word_def core_read_def

lemma read_le_2: "read_le B a 2 = unat (B a) + 256 * unat (B (a + 1))"
  by (simp add: numeral_2_eq_2)

lemma read_le_less: "read_le B a n < 256 ^ n"
proof (induction n arbitrary: a)
  case (Suc n)
  have "unat (B a) < 256" using unsigned_less [of "B a"] by simp
  moreover have "read_le B (a + 1) n + 1 \<le> 256 ^ n" using Suc.IH [of "a + 1"] by simp
  ultimately show ?case by simp
qed simp

text \<open>The bit-fields of \<open>struct uclamp_se\<close>, in the low half of its word.\<close>

lemma uclamp_value_bits:
  "(ucast (of_nat (read_le B a 2 mod 2048) :: 11 word) :: u64) = ucast (take_bit 11 (ld16 B a))"
proof -
  have "unat (of_nat (read_le B a 2 mod 2048) :: 11 word) = read_le B a 2 mod 2048"
    by (simp add: unat_of_nat)
  moreover have "unat (take_bit 11 (ld16 B a)) = read_le B a 2 mod 2048"
    unfolding unsigned_take_bit_eq
    using read_le_less [of B a 2] by (simp add: ld16_def unat_of_nat take_bit_eq_mod)
  ultimately have "(of_nat (unat (of_nat (read_le B a 2 mod 2048) :: 11 word)) :: u64)
    = of_nat (unat (take_bit 11 (ld16 B a)))" by (simp only:)
  then show ?thesis by (simp only: of_nat_unat)
qed

lemma uclamp_active_bit:
  "(read_le B (a + 1) 1 div 64 mod 2 \<noteq> 0) \<longleftrightarrow> bit (ld16 B a) 14"
proof -
  have l: "read_le B a 2 < 65536" using read_le_less [of B a 2] by simp
  have x: "unat (B a) < 256" using unsigned_less [of "B a"] by simp
  have "read_le B a 2 div 2 ^ 14 = read_le B a 2 div 256 div 64" by (simp add: div_mult2_eq)
  also have "\<dots> = unat (B (a + 1)) div 64" using x by (simp add: read_le_2)
  finally have "bit (read_le B a 2) 14 \<longleftrightarrow> odd (unat (B (a + 1)) div 64)" by (simp add: bit_iff_odd)
  moreover have "bit (ld16 B a) 14 \<longleftrightarrow> bit (read_le B a 2) 14"
    using l by (simp add: ld16_def bit_of_nat_iff)
  ultimately show ?thesis by (simp add: odd_iff_mod_2_eq_one)
qed

lemma task_loads:
  "p_pid (read_task B p) = ld32 B (p + 1528)"
  "p_wake_cpu (read_task B p) = ld32 B (p + 108)"
  "p_comm (read_task B p) = read_str B (p + 2032) 16"
  "se_my_q (read_se B se) = ld64 B (se + 160)"
  by (simp_all add: read_task_def read_se_def load_defs offset_of_def)

lemma avg_loads:
  "avg_load_avg (se_avg (read_se B se)) = ld64 B (se + 224)"
  "avg_runnable_avg (se_avg (read_se B se)) = ld64 B (se + 232)"
  "avg_util_avg (se_avg (read_se B se)) = ld64 B (se + 240)"
  "avg_util_est (se_avg (read_se B se)) = ld32 B (se + 248)"
  "avg_load_avg (cfs_avg (read_cfs B cfs)) = ld64 B (cfs + 160)"
  "avg_runnable_avg (cfs_avg (read_cfs B cfs)) = ld64 B (cfs + 168)"
  "avg_util_avg (cfs_avg (read_cfs B cfs)) = ld64 B (cfs + 176)"
  "avg_util_est (cfs_avg (read_cfs B cfs)) = ld32 B (cfs + 184)"
  by (simp_all add: read_se_def read_cfs_def read_avg_def load_defs)

lemma uclamp_loads:
  "ucast (uc_value (p_uclamp_req (read_task B p) UCLAMP_MIN)) = (ucast (take_bit 11 (ld16 B (p + 776))) :: u64)"
  "ucast (uc_value (p_uclamp_req (read_task B p) UCLAMP_MAX)) = (ucast (take_bit 11 (ld16 B (p + 780))) :: u64)"
  "ucast (uc_value (p_uclamp (read_task B p) UCLAMP_MIN)) = (ucast (take_bit 11 (ld16 B (p + 784))) :: u64)"
  "ucast (uc_value (p_uclamp (read_task B p) UCLAMP_MAX)) = (ucast (take_bit 11 (ld16 B (p + 788))) :: u64)"
  "uc_active (p_uclamp (read_task B p) UCLAMP_MIN) \<longleftrightarrow> bit (ld16 B (p + 784)) 14"
  "uc_active (p_uclamp (read_task B p) UCLAMP_MAX) \<longleftrightarrow> bit (ld16 B (p + 788)) 14"
  using uclamp_active_bit [of B "p + 784"] uclamp_active_bit [of B "p + 788"]
  by (simp_all add: read_task_def read_uclamp_def core_word_def core_read_def Let_def
      uclamp_value_bits add.assoc)

lemma rq_loads:
  "rq_cpu (read_rq B rq) = ld32 B (rq + 2800)"
  "rq_uclamp (read_rq B rq) UCLAMP_MIN = ld32 B (rq + 128)"
  "rq_uclamp (read_rq B rq) UCLAMP_MAX = ld32 B (rq + 176)"
  "cfs_rq_rq (read_cfs B cfs) = ld64 B (cfs + 304)"
  by (simp_all add: read_rq_def read_cfs_def load_defs)

section \<open>The probes as loads\<close>

text \<open>
  The programs as the loader leaves them on this kernel: every relocated access is a load at a
  constant, the test for a missing field is gone, a bit-field is masked out of a half word.
\<close>

definition compiled_pelt_se ::
  "memory \<Rightarrow> ('sw, 'si, 'lb) run_env \<Rightarrow> ptr \<Rightarrow> ('sw, 'si, 'lb) bpf_state \<Rightarrow> ('sw, 'si, 'lb) bpf_state" where
  "compiled_pelt_se B env se st =
     (if ld64 B (se + 160) = 0 then
        let p = se - 192;
            pid = ld32 B (p + 1528);
            clamp = (\<lambda>req eff. ucast (take_bit 11 (ld16 B (if bit (ld16 B eff) 14 then eff else req))))
        in st\<lparr>task_pelt_rb := reserve_submit (reserve_task_pelt env 0)
               (\<lambda>e. \<lparr>tp_ts = ktime_boot_ns env 0, tp_cpu = ld32 B (p + 108), tp_pid = pid,
                     tp_comm = read_str B (p + 2032) 16,
                     tp_load_avg = ld64 B (p + 416), tp_runnable_avg = ld64 B (p + 424),
                     tp_util_avg = ld64 B (p + 432),
                     tp_util_est_enqueued = - 1, tp_util_est_ewma = - 1,
                     tp_uclamp_min = clamp (p + 776) (p + 784), tp_uclamp_max = clamp (p + 780) (p + 788),
                     tp_running = (if map_lookup_elem (sw_ops env) (sched_switch_map st) pid \<noteq> None then 1 else 0)\<rparr>)
               (task_pelt_rb st)\<rparr>
      else st)"

definition compiled_pelt_cfs ::
  "memory \<Rightarrow> ('sw, 'si, 'lb) run_env \<Rightarrow> ptr \<Rightarrow> ('sw, 'si, 'lb) bpf_state \<Rightarrow> ('sw, 'si, 'lb) bpf_state" where
  "compiled_pelt_cfs B env cfs st =
     (let rq = ld64 B (cfs + 304) in
      if rq = 0 \<or> cfs \<noteq> rq + 256 then st
      else st\<lparr>rq_pelt_rb := reserve_submit (reserve_rq_pelt env 0)
               (\<lambda>e. \<lparr>rp_ts = ktime_boot_ns env 0, rp_cpu = ld32 B (rq + 2800), rp_type = PELT_TYPE_CFS,
                     rp_load_avg = ld64 B (cfs + 160), rp_runnable_avg = ld64 B (cfs + 168),
                     rp_util_avg = ld64 B (cfs + 176),
                     rp_util_est_enqueued = - 1, rp_util_est_ewma = - 1,
                     rp_uclamp_min = ucast (ld32 B (rq + 128)), rp_uclamp_max = ucast (ld32 B (rq + 176))\<rparr>)
               (rq_pelt_rb st)\<rparr>)"

text \<open>Assigning every field of an event leaves nothing of what the reserved memory held.\<close>

lemma task_pelt_all:
  "(e :: task_pelt_event)\<lparr>tp_ts := x0, tp_cpu := x1, tp_pid := x2, tp_comm := x3,
     tp_load_avg := x4, tp_runnable_avg := x5, tp_util_avg := x6, tp_util_est_enqueued := x7,
     tp_util_est_ewma := x8, tp_uclamp_min := x9, tp_uclamp_max := x10, tp_running :=
     x11\<rparr> =
   \<lparr>tp_ts = x0, tp_cpu = x1, tp_pid = x2, tp_comm = x3, tp_load_avg = x4, tp_runnable_avg
     = x5, tp_util_avg = x6, tp_util_est_enqueued = x7, tp_util_est_ewma = x8, tp_uclamp_min =
     x9, tp_uclamp_max = x10, tp_running = x11\<rparr>"
  by (cases e) simp

lemma rq_pelt_all:
  "(e :: rq_pelt_event)\<lparr>rp_ts := x0, rp_cpu := x1, rp_type := x2, rp_load_avg := x3,
     rp_runnable_avg := x4, rp_util_avg := x5, rp_util_est_enqueued := x6, rp_util_est_ewma :=
     x7, rp_uclamp_min := x8, rp_uclamp_max := x9\<rparr> =
   \<lparr>rp_ts = x0, rp_cpu = x1, rp_type = x2, rp_load_avg = x3, rp_runnable_avg = x4,
     rp_util_avg = x5, rp_util_est_enqueued = x6, rp_util_est_ewma = x7, rp_uclamp_min = x8,
     rp_uclamp_max = x9\<rparr>"
  by (cases e) simp

text \<open>
  Claim C12: on the kernel \<open>vmlinux.h\<close> describes, whatever its memory holds and whatever version it
  reports, \<open>handle_pelt_se\<close> and \<open>handle_pelt_cfs\<close> do exactly what plain loads at the offsets of
  this kernel's structures do: the record of a task is made of the words at 108, 1528, 416, 424 and
  432 of its \<open>task_struct\<close>, the name at 2032 and the utilisation clamps at 776 to 791, with the
  effective clamp (bit 14 set) taking the place of the requested one; an entity is a task if the
  word at 160 is zero; the record of a CPU is made of the words at 160, 168 and 176 of the \<open>cfs_rq\<close>
  and of those at 128, 176 and 2800 of the \<open>rq\<close>, and only the \<open>cfs_rq\<close> at offset 256 of the \<open>rq\<close> it
  points back to is traced.
\<close>

theorem pelt_compiled:
  "handle_pelt_se (on_kernel (btf_kernel v B) env) se st = compiled_pelt_se B env se st \<and>
   handle_pelt_cfs (on_kernel (btf_kernel v B) env) cfs st = compiled_pelt_cfs B env cfs st"
proof
  have p: "se + 224 = se - 192 + 416" "se + 232 = se - 192 + 424" "se + 240 = se - 192 + 432"
    by simp_all
  show "handle_pelt_se (on_kernel (btf_kernel v B) env) se st = compiled_pelt_se B env se st"
    by (simp add: handle_pelt_se_def compiled_pelt_se_def entity_is_task_def task_of_def task_cpu_def
        task_loads avg_loads uclamp_loads task_pelt_all p Let_def)
  obtain rq where rq: "ld64 B (cfs + 304) = rq" by simp
  have owner: "rq_of (btf_kernel v B) cfs = rq" by (simp add: rq_of_def rq_loads rq)
  obtain traced where traced: "rq = 0 \<or> cfs \<noteq> rq + 256 \<longleftrightarrow> \<not> traced" by blast
  then have root: "cfs_rq_is_root (btf_kernel v B) cfs = traced"
    by (auto simp: cfs_rq_is_root_def owner)
  show "handle_pelt_cfs (on_kernel (btf_kernel v B) env) cfs st = compiled_pelt_cfs B env cfs st"
    by (simp add: handle_pelt_cfs_def compiled_pelt_cfs_def owner root rq traced Let_def avg_loads rq_loads
        rq_pelt_all)
qed

lemma btf_guards:
  "entity_is_task (btf_kernel v B) se \<longleftrightarrow> se_my_q (read_se B se) = 0"
  "rq_of (btf_kernel v B) cfs = cfs_rq_rq (read_cfs B cfs)"
  "cfs_rq_is_root (btf_kernel v B) cfs \<longleftrightarrow> cfs_rq_rq (read_cfs B cfs) \<noteq> 0 \<and> cfs_rq_rq (read_cfs B cfs) + 256 = cfs"
  by (auto simp: entity_is_task_def cfs_rq_is_root_def rq_of_def Let_def)

section \<open>A record comes from one object\<close>

lemma task_reads_local:
  assumes "same_bytes B B' (se - 192) (size_of struct_task_struct)"
  shows "read_task B (se - 192) = read_task B' (se - 192)" "read_se B se = read_se B' se"
    "read_avg_pre68 B (se + 192) = read_avg_pre68 B' (se + 192)"
  by (rule task.local [OF assms], rule se.inside_at [OF assms, of 192], simp_all)
     (rule avg_pre68.inside_at [OF assms, of 384], simp_all)

lemma rq_reads_local:
  assumes "same_bytes B B' r (size_of struct_rq)"
  shows "read_rq B r = read_rq B' r" "read_cfs B (r + 256) = read_cfs B' (r + 256)"
    "read_avg_pre68 B (384 + r) = read_avg_pre68 B' (384 + r)"
  by (rule rq.local [OF assms], rule cfs.inside_at [OF assms, of 256], simp_all)
     (rule avg_pre68.inside_at [OF assms, of 384], simp_all)

text \<open>
  What the kernel keeps true of a run queue: the \<open>cfs_rq\<close> inside points back to it. Then both ways
  \<open>rq_of\<close> can go, the pointer and \<open>container_of\<close>, end at the same run queue, and the queue is a root.
  A task group's queue, wherever else it lies, is none.
\<close>

definition linked :: "memory \<Rightarrow> ptr \<Rightarrow> bool" where
  "linked B rq \<longleftrightarrow> rq \<noteq> 0 \<and> ld64 B (rq + 560) = rq"

lemma linked_root:
  assumes "linked B rq"
  shows "rq_of (btf_kernel v B) (rq + 256) = rq + 256 - off_rq_cfs (btf_kernel v B)"
    "cfs_rq_is_root (btf_kernel v B) (rq + 256)"
  using assms by (simp_all add: btf_guards rq_loads linked_def add.commute)

lemma group_not_root: "cfs \<noteq> ld64 B (cfs + 304) + 256 \<Longrightarrow> \<not> cfs_rq_is_root (btf_kernel v B) cfs"
  by (auto simp: btf_guards rq_loads)

text \<open>
  Claim C14: what a PELT probe does depends on no byte of kernel memory outside one object. Two
  kernels that agree on the 4288 bytes of the \<open>task_struct\<close> around a scheduling entity get the same
  state from \<open>handle_pelt_se\<close> and \<open>handle_util_est_se\<close>; two that agree on the 3648 bytes of an \<open>rq\<close>
  get the same from the probes of its RT, deadline, interrupt and thermal signals and, although
  these follow the pointer \<open>cfs_rq->rq\<close>, from the two probes of the \<open>cfs_rq\<close> inside it. All on either
  side of Linux 6.8.
\<close>

theorem probes_local:
  assumes task: "same_bytes B B' (se - 192) (size_of struct_task_struct)"
    and rq: "same_bytes B B' r (size_of struct_rq)"
  shows "(\<forall>h \<in> {handle_pelt_se, handle_util_est_se}.
           h (on_kernel (btf_kernel v B) env) se st = h (on_kernel (btf_kernel v B') env) se st) \<and>
         (\<forall>h \<in> {handle_pelt_rt, handle_pelt_dl, handle_pelt_irq, handle_pelt_thermal}.
           h (on_kernel (btf_kernel v B) env) r st = h (on_kernel (btf_kernel v B') env) r st) \<and>
         (\<forall>h \<in> {handle_pelt_cfs, handle_util_est_cfs}.
           h (on_kernel (btf_kernel v B) env) (r + 256) st = h (on_kernel (btf_kernel v B') env) (r + 256) st)"
proof (intro conjI)
  note reads = task_reads_local [OF task] rq_reads_local [OF rq]
  show "\<forall>h \<in> {handle_pelt_se, handle_util_est_se}.
      h (on_kernel (btf_kernel v B) env) se st = h (on_kernel (btf_kernel v B') env) se st"
    by (simp add: handle_pelt_se_def handle_util_est_se_def btf_guards task_of_def task_cpu_def pre68_def reads Let_def)
  show "\<forall>h \<in> {handle_pelt_rt, handle_pelt_dl, handle_pelt_irq, handle_pelt_thermal}.
      h (on_kernel (btf_kernel v B) env) r st = h (on_kernel (btf_kernel v B') env) r st"
    by (simp add: handle_pelt_rt_def handle_pelt_dl_def handle_pelt_irq_def handle_pelt_thermal_def reads Let_def)
  show "\<forall>h \<in> {handle_pelt_cfs, handle_util_est_cfs}.
      h (on_kernel (btf_kernel v B) env) (r + 256) st = h (on_kernel (btf_kernel v B') env) (r + 256) st"
  proof (cases "cfs_rq_rq (read_cfs B' (r + 256)) = r")
    case True
    then show ?thesis
      by (simp add: handle_pelt_cfs_def handle_util_est_cfs_def btf_guards pre68_def reads Let_def)
  next
    case False
    then show ?thesis by (simp add: handle_pelt_cfs_def handle_util_est_cfs_def btf_guards reads Let_def)
  qed
qed

definition sample_bytes :: "8 word \<Rightarrow> memory" where
  "sample_bytes x a = (if a = 0 then x else 0)"

lemma sample_bytes_same: "n \<le> 4288 \<Longrightarrow> same_bytes (sample_bytes x) (sample_bytes y) 0x1000 n"
proof -
  assume "n \<le> 4288"
  then have "of_nat (4096 + i) \<noteq> (0 :: 64 word)" if "i < n" for i
    using that by (auto simp: word_of_nat_eq_0_iff simp del: of_nat_add dest: dvd_imp_le)
  then show ?thesis by (simp add: same_bytes_def sample_bytes_def)
qed

lemma probes_local_witness:
  "sample_bytes 0 \<noteq> sample_bytes 1 \<and>
   handle_pelt_se (on_kernel (btf_kernel 0 (sample_bytes 0)) (sample_env (sample_kernel 0 0) 0 0)) 0x10C0 sample_state
     = handle_pelt_se (on_kernel (btf_kernel 0 (sample_bytes 1)) (sample_env (sample_kernel 0 0) 0 0)) 0x10C0 sample_state"
proof
  show "sample_bytes 0 \<noteq> sample_bytes 1"
    by (auto simp: sample_bytes_def fun_eq_iff)
  have "same_bytes (sample_bytes 0) (sample_bytes 1) (0x10C0 - 192) (size_of struct_task_struct)"
    "same_bytes (sample_bytes 0) (sample_bytes 1) 0x1000 (size_of struct_rq)"
    by (simp_all add: sample_bytes_same)
  from probes_local [OF this, of 0 "sample_env (sample_kernel 0 0) 0 0" sample_state]
  show "handle_pelt_se (on_kernel (btf_kernel 0 (sample_bytes 0)) (sample_env (sample_kernel 0 0) 0 0)) 0x10C0 sample_state
     = handle_pelt_se (on_kernel (btf_kernel 0 (sample_bytes 1)) (sample_env (sample_kernel 0 0) 0 0)) 0x10C0 sample_state"
    by simp
qed

section \<open>The two reads of \<open>util_est\<close>\<close>

lemma util_est_enqueued_same:
  "ue_enqueued (pre68_util_est (read_avg_pre68 B (se + 192))) = avg_util_est (se_avg (read_se B se))"
  "ue_enqueued (pre68_util_est (read_avg_pre68 B (cfs + 128))) = avg_util_est (cfs_avg (read_cfs B cfs))"
  by (simp_all add: read_avg_pre68_def avg_loads load_defs Let_def add.assoc)

lemma reserve_submit_map:
  "map g (reserve_submit r f rb) = map g rb @ (case r of None \<Rightarrow> [] | Some e \<Rightarrow> [g (f e)])"
  by (simp add: reserve_submit_def split: option.split)

text \<open>
  Claim C39: on the kernel \<open>vmlinux.h\<close> describes the two ways \<open>handle_util_est_se\<close> and
  \<open>handle_util_est_cfs\<close> read \<open>util_est\<close>, through the local \<open>struct sched_avg__pre68\<close> when the
  version is below 6.8 and through the relocated \<open>avg.util_est\<close> otherwise, are equivalent up to the
  weighted average, which only the old layout has: for any two versions the rings end up with the same
  records apart from \<open>util_est_ewma\<close>, and nothing else of the state differs.
\<close>

theorem util_est_versions_agree:
  "map (tp_util_est_ewma_update (\<lambda>w. 0)) (task_pelt_rb (handle_util_est_se (on_kernel (btf_kernel v B) env) se st)) =
           map (tp_util_est_ewma_update (\<lambda>w. 0)) (task_pelt_rb (handle_util_est_se (on_kernel (btf_kernel v' B) env) se st)) \<and>
         (handle_util_est_se (on_kernel (btf_kernel v B) env) se st)\<lparr>task_pelt_rb := []\<rparr> =
           (handle_util_est_se (on_kernel (btf_kernel v' B) env) se st)\<lparr>task_pelt_rb := []\<rparr> \<and>
         map (rp_util_est_ewma_update (\<lambda>w. 0)) (rq_pelt_rb (handle_util_est_cfs (on_kernel (btf_kernel v B) env) cfs st)) =
           map (rp_util_est_ewma_update (\<lambda>w. 0)) (rq_pelt_rb (handle_util_est_cfs (on_kernel (btf_kernel v' B) env) cfs st)) \<and>
         (handle_util_est_cfs (on_kernel (btf_kernel v B) env) cfs st)\<lparr>rq_pelt_rb := []\<rparr> =
           (handle_util_est_cfs (on_kernel (btf_kernel v' B) env) cfs st)\<lparr>rq_pelt_rb := []\<rparr>"
  by (simp add: handle_util_est_se_def handle_util_est_cfs_def btf_guards task_of_def task_cpu_def
      util_est_enqueued_same Let_def reserve_submit_map split: option.split)

end
