(* ===== verification/SA_Context.thy ===== *)
theory SA_Context imports SA_Btf_Probes SA_Lb_Spec SA_Main begin

text \<open>
  How the programs of \<open>sched-analyzer.bpf.c\<close> come by their arguments. Each one is declared with
  \<open>SEC\<close> and \<open>BPF_PROG\<close>: the section names a tracepoint or a kernel function, the macro turns the
  context of the run into typed parameters. For a raw tracepoint the context is the array of the
  tracepoint's arguments, whose prototype is in \<open>vmlinux.h\<close> (\<open>btf_trace_x\<close>, first the tracepoint's
  own data); for a kprobe it is a \<open>struct pt_regs\<close>. How the macro reads the context is a parameter
  under the locale \<^emph>\<open>bpf_context\<close>.
\<close>

section \<open>What \<open>vmlinux.h\<close> declares\<close>

definition struct_user_pt_regs :: ctype where
  "struct_user_pt_regs = Struct
    [Fld (Arr td___u64 31) ''regs'',
     Fld td___u64 ''sp'',
     Fld td___u64 ''pc'',
     Fld td___u64 ''pstate'']"

definition struct_pt_regs :: ctype where
  "struct_pt_regs = Struct
    [Anon (Union
      [Fld struct_user_pt_regs ''user_regs'',
       Anon (Struct
        [Fld (Arr td_u64 31) ''regs'',
         Fld td_u64 ''sp'',
         Fld td_u64 ''pc'',
         Fld td_u64 ''pstate''])]),
     Fld td_u64 ''orig_x0'',
     Fld c_int ''syscallno'',
     Fld td_u32 ''unused2'',
     Fld td_u64 ''sdei_ttbr1'',
     Fld td_u64 ''pmr_save'',
     Fld (Arr td_u64 2) ''stackframe'',
     Fld td_u64 ''lockdep_hardirqs'',
     Fld td_u64 ''exit_rcu'']"

lemma pt_regs_layout [simp]:
  "size_of struct_user_pt_regs = 272" "align_of struct_user_pt_regs = 8"
  "size_of struct_pt_regs = 336" "align_of struct_pt_regs = 8"
  by (simp_all add: struct_user_pt_regs_def struct_pt_regs_def layout)

lemma pt_regs_member [simp]: "find_in struct_pt_regs b ''regs'' = Some (b, Arr c_ullong 31, None)"
  unfolding struct_pt_regs_def by (simp add: layout cong: walk_cong)

text \<open>The prototypes of the tracepoints the programs attach to.\<close>

definition btf_trace_sched_switch :: "ctype list" where
  "btf_trace_sched_switch = [Ptr ''void'', td_bool, Ptr ''struct task_struct'', Ptr ''struct task_struct'', c_uint]"
definition btf_trace_sched_process_free :: "ctype list" where
  "btf_trace_sched_process_free = [Ptr ''void'', Ptr ''struct task_struct'']"
definition btf_trace_pelt_cfs_tp :: "ctype list" where
  "btf_trace_pelt_cfs_tp = [Ptr ''void'', Ptr ''struct cfs_rq'']"
definition btf_trace_pelt_rt_tp :: "ctype list" where
  "btf_trace_pelt_rt_tp = [Ptr ''void'', Ptr ''struct rq'']"
definition btf_trace_pelt_dl_tp :: "ctype list" where
  "btf_trace_pelt_dl_tp = [Ptr ''void'', Ptr ''struct rq'']"
definition btf_trace_pelt_thermal_tp :: "ctype list" where
  "btf_trace_pelt_thermal_tp = [Ptr ''void'', Ptr ''struct rq'']"
definition btf_trace_pelt_irq_tp :: "ctype list" where
  "btf_trace_pelt_irq_tp = [Ptr ''void'', Ptr ''struct rq'']"
definition btf_trace_pelt_se_tp :: "ctype list" where
  "btf_trace_pelt_se_tp = [Ptr ''void'', Ptr ''struct sched_entity'']"
definition btf_trace_sched_util_est_cfs_tp :: "ctype list" where
  "btf_trace_sched_util_est_cfs_tp = [Ptr ''void'', Ptr ''struct cfs_rq'']"
definition btf_trace_sched_util_est_se_tp :: "ctype list" where
  "btf_trace_sched_util_est_se_tp = [Ptr ''void'', Ptr ''struct sched_entity'']"
definition btf_trace_sched_update_nr_running_tp :: "ctype list" where
  "btf_trace_sched_update_nr_running_tp = [Ptr ''void'', Ptr ''struct rq'', c_int]"
definition btf_trace_ipi_send_cpu :: "ctype list" where
  "btf_trace_ipi_send_cpu = [Ptr ''void'', c_uint, c_ulong, Ptr ''void'']"
definition btf_trace_softirq_entry :: "ctype list" where
  "btf_trace_softirq_entry = [Ptr ''void'', c_uint]"
definition btf_trace_softirq_exit :: "ctype list" where
  "btf_trace_softirq_exit = [Ptr ''void'', c_uint]"
definition btf_trace_cpu_idle :: "ctype list" where
  "btf_trace_cpu_idle = [Ptr ''void'', c_uint, c_uint]"
definition btf_trace_cpu_idle_miss :: "ctype list" where
  "btf_trace_cpu_idle_miss = [Ptr ''void'', c_uint, c_uint, td_bool]"
definition btf_trace_cpu_frequency :: "ctype list" where
  "btf_trace_cpu_frequency = [Ptr ''void'', c_uint, c_uint]"

definition tracepoints :: "(string \<times> ctype list) list" where
  "tracepoints =
    [(''sched_switch'', btf_trace_sched_switch),
     (''sched_process_free'', btf_trace_sched_process_free),
     (''pelt_cfs_tp'', btf_trace_pelt_cfs_tp),
     (''pelt_rt_tp'', btf_trace_pelt_rt_tp),
     (''pelt_dl_tp'', btf_trace_pelt_dl_tp),
     (''pelt_thermal_tp'', btf_trace_pelt_thermal_tp),
     (''pelt_irq_tp'', btf_trace_pelt_irq_tp),
     (''pelt_se_tp'', btf_trace_pelt_se_tp),
     (''sched_util_est_cfs_tp'', btf_trace_sched_util_est_cfs_tp),
     (''sched_util_est_se_tp'', btf_trace_sched_util_est_se_tp),
     (''sched_update_nr_running_tp'', btf_trace_sched_update_nr_running_tp),
     (''ipi_send_cpu'', btf_trace_ipi_send_cpu),
     (''softirq_entry'', btf_trace_softirq_entry),
     (''softirq_exit'', btf_trace_softirq_exit),
     (''cpu_idle'', btf_trace_cpu_idle),
     (''cpu_idle_miss'', btf_trace_cpu_idle_miss),
     (''cpu_frequency'', btf_trace_cpu_frequency)]"

lemmas tracepoint_defs = tracepoints_def btf_trace_sched_switch_def btf_trace_sched_process_free_def
  btf_trace_pelt_cfs_tp_def btf_trace_pelt_rt_tp_def btf_trace_pelt_dl_tp_def
  btf_trace_pelt_thermal_tp_def btf_trace_pelt_irq_tp_def btf_trace_pelt_se_tp_def
  btf_trace_sched_util_est_cfs_tp_def btf_trace_sched_util_est_se_tp_def
  btf_trace_sched_update_nr_running_tp_def btf_trace_ipi_send_cpu_def btf_trace_softirq_entry_def
  btf_trace_softirq_exit_def btf_trace_cpu_idle_def btf_trace_cpu_idle_miss_def
  btf_trace_cpu_frequency_def

section \<open>What the programs declare\<close>

text \<open>The sections.\<close>

datatype attach_point = Raw_tp string | Kprobe string | Kretprobe string

fun lb_function :: "lb_phases \<Rightarrow> string" where
  "lb_function LB_NOHZ_IDLE_BALANCE = ''_nohz_idle_balance.isra.0''"
| "lb_function LB_RUN_REBALANCE_DOMAINS = ''run_rebalance_domains''"
| "lb_function LB_REBALANCE_DOMAINS = ''rebalance_domains''"
| "lb_function LB_BALANCE_FAIR = ''balance_fair''"
| "lb_function LB_PICK_NEXT_TASK_FAIR = ''pick_next_task_fair''"
| "lb_function LB_NEWIDLE_BALANCE = ''newidle_balance''"
| "lb_function LB_LOAD_BALANCE = ''load_balance''"

fun sec :: "prog \<Rightarrow> attach_point" where
  "sec Prog_pelt_se = Raw_tp ''pelt_se_tp''"
| "sec Prog_util_est_se = Raw_tp ''sched_util_est_se_tp''"
| "sec Prog_pelt_cfs = Raw_tp ''pelt_cfs_tp''"
| "sec Prog_util_est_cfs = Raw_tp ''sched_util_est_cfs_tp''"
| "sec Prog_pelt_rt = Raw_tp ''pelt_rt_tp''"
| "sec Prog_pelt_dl = Raw_tp ''pelt_dl_tp''"
| "sec Prog_pelt_irq = Raw_tp ''pelt_irq_tp''"
| "sec Prog_pelt_thermal = Raw_tp ''pelt_thermal_tp''"
| "sec Prog_sched_update_nr_running = Raw_tp ''sched_update_nr_running_tp''"
| "sec Prog_sched_switch = Raw_tp ''sched_switch''"
| "sec Prog_sched_process_free = Raw_tp ''sched_process_free''"
| "sec Prog_cpu_frequency = Raw_tp ''cpu_frequency''"
| "sec Prog_cpu_idle = Raw_tp ''cpu_idle''"
| "sec Prog_cpu_idle_miss = Raw_tp ''cpu_idle_miss''"
| "sec Prog_softirq_entry = Raw_tp ''softirq_entry''"
| "sec Prog_softirq_exit = Raw_tp ''softirq_exit''"
| "sec (Prog_lb_entry phase) = Kprobe (lb_function phase)"
| "sec (Prog_lb_exit phase) = Kretprobe (lb_function phase)"
| "sec Prog_ipi_send_cpu = Raw_tp ''ipi_send_cpu''"

text \<open>The parameters behind the name in \<open>BPF_PROG\<close>.\<close>

definition enum_cpu_idle_type :: ctype where
  "enum_cpu_idle_type = Enum
    [(''CPU_IDLE'', 0), (''CPU_NOT_IDLE'', 1), (''CPU_NEWLY_IDLE'', 2), (''CPU_MAX_IDLE_TYPES'', 3)]"

fun lb_params :: "lb_phases \<Rightarrow> ctype list" where
  "lb_params LB_NOHZ_IDLE_BALANCE = [Ptr ''struct rq'']"
| "lb_params LB_RUN_REBALANCE_DOMAINS = []"
| "lb_params LB_REBALANCE_DOMAINS = [Ptr ''struct rq'', enum_cpu_idle_type]"
| "lb_params LB_BALANCE_FAIR = [Ptr ''struct rq'']"
| "lb_params LB_PICK_NEXT_TASK_FAIR = [Ptr ''struct rq'']"
| "lb_params LB_NEWIDLE_BALANCE = [Ptr ''struct rq'']"
| "lb_params LB_LOAD_BALANCE = [c_int, Ptr ''struct rq'', Ptr ''struct sched_domain'', enum_cpu_idle_type]"

fun prog_params :: "prog \<Rightarrow> ctype list" where
  "prog_params Prog_pelt_se = [Ptr ''struct sched_entity'']"
| "prog_params Prog_util_est_se = [Ptr ''struct sched_entity'']"
| "prog_params Prog_pelt_cfs = [Ptr ''struct cfs_rq'']"
| "prog_params Prog_util_est_cfs = [Ptr ''struct cfs_rq'']"
| "prog_params Prog_pelt_rt = [Ptr ''struct rq'']"
| "prog_params Prog_pelt_dl = [Ptr ''struct rq'']"
| "prog_params Prog_pelt_irq = [Ptr ''struct rq'']"
| "prog_params Prog_pelt_thermal = [Ptr ''struct rq'']"
| "prog_params Prog_sched_update_nr_running = [Ptr ''struct rq'', c_int]"
| "prog_params Prog_sched_switch = [td_bool, Ptr ''struct task_struct'', Ptr ''struct task_struct'']"
| "prog_params Prog_sched_process_free = [Ptr ''struct task_struct'']"
| "prog_params Prog_cpu_frequency = [c_uint, c_uint]"
| "prog_params Prog_cpu_idle = [c_uint, c_uint]"
| "prog_params Prog_cpu_idle_miss = [c_uint, c_uint, td_bool]"
| "prog_params Prog_softirq_entry = [c_uint]"
| "prog_params Prog_softirq_exit = [c_uint]"
| "prog_params (Prog_lb_entry phase) = lb_params phase"
| "prog_params (Prog_lb_exit phase) = []"
| "prog_params Prog_ipi_send_cpu = [c_int, Ptr ''void'', Ptr ''void'']"

section \<open>From the context to the handler\<close>

text \<open>
  The cast of an argument to \<open>enum cpu_idle_type\<close>. The programs only compare it with \<open>CPU_IDLE\<close>, so a
  value past the constants is as good as the last one.
\<close>

definition cpu_idle_of :: "u64 \<Rightarrow> cpu_idle_type" where
  "cpu_idle_of w = (let c = (ucast w :: 32 word) in
     if c = 0 then CPU_IDLE else if c = 1 then CPU_NOT_IDLE else if c = 2 then CPU_NEWLY_IDLE
     else CPU_MAX_IDLE_TYPES)"

fun cpu_idle_code :: "cpu_idle_type \<Rightarrow> u64" where
  "cpu_idle_code CPU_IDLE = 0" | "cpu_idle_code CPU_NOT_IDLE = 1"
| "cpu_idle_code CPU_NEWLY_IDLE = 2" | "cpu_idle_code CPU_MAX_IDLE_TYPES = 3"

text \<open>The arguments of a run, each word of the context cast to its parameter.\<close>

fun lb_args :: "lb_phases \<Rightarrow> (nat \<Rightarrow> u64) \<Rightarrow> lb_call" where
  "lb_args LB_NOHZ_IDLE_BALANCE a = Nohz_idle_balance (a 0)"
| "lb_args LB_RUN_REBALANCE_DOMAINS a = Run_rebalance_domains"
| "lb_args LB_REBALANCE_DOMAINS a = Rebalance_domains (a 0) (cpu_idle_of (a 1))"
| "lb_args LB_BALANCE_FAIR a = Balance_fair (a 0)"
| "lb_args LB_PICK_NEXT_TASK_FAIR a = Pick_next_task_fair (a 0)"
| "lb_args LB_NEWIDLE_BALANCE a = Newidle_balance (a 0)"
| "lb_args LB_LOAD_BALANCE a = Load_balance (ucast (a 0)) (a 1) (a 2) (cpu_idle_of (a 3))"

fun probe_args :: "prog \<Rightarrow> (nat \<Rightarrow> u64) \<Rightarrow> probe" where
  "probe_args Prog_pelt_se a = Pelt_se (a 0)"
| "probe_args Prog_util_est_se a = Util_est_se (a 0)"
| "probe_args Prog_pelt_cfs a = Pelt_cfs (a 0)"
| "probe_args Prog_util_est_cfs a = Util_est_cfs (a 0)"
| "probe_args Prog_pelt_rt a = Pelt_rt (a 0)"
| "probe_args Prog_pelt_dl a = Pelt_dl (a 0)"
| "probe_args Prog_pelt_irq a = Pelt_irq (a 0)"
| "probe_args Prog_pelt_thermal a = Pelt_thermal (a 0)"
| "probe_args Prog_sched_update_nr_running a = Sched_update_nr_running (a 0) (ucast (a 1))"
| "probe_args Prog_sched_switch a = Sched_switch (a 0 \<noteq> 0) (a 1) (a 2)"
| "probe_args Prog_sched_process_free a = Sched_process_free (a 0)"
| "probe_args Prog_cpu_frequency a = Cpu_frequency (ucast (a 0)) (ucast (a 1))"
| "probe_args Prog_cpu_idle a = Cpu_idle (ucast (a 0)) (ucast (a 1))"
| "probe_args Prog_cpu_idle_miss a = Cpu_idle_miss (ucast (a 0)) (ucast (a 1)) (a 2 \<noteq> 0)"
| "probe_args Prog_softirq_entry a = Softirq_entry (ucast (a 0))"
| "probe_args Prog_softirq_exit a = Softirq_exit (ucast (a 0))"
| "probe_args (Prog_lb_entry phase) a = Lb_call (lb_args phase a)"
| "probe_args (Prog_lb_exit phase) a = Lb_return phase"
| "probe_args Prog_ipi_send_cpu a = Ipi_send_cpu (ucast (a 0)) (a 1) (a 2)"

text \<open>
  One run of a program: \<open>arg B ctx i\<close> is what \<open>BPF_PROG\<close> takes for the parameter \<open>i\<close> of a run whose
  context is at \<open>ctx\<close> in the memory \<open>B\<close>.
\<close>

definition run_prog ::
  "(memory \<Rightarrow> ptr \<Rightarrow> nat \<Rightarrow> u64) \<Rightarrow> memory \<Rightarrow> ptr \<Rightarrow> prog \<Rightarrow> ('sw, 'si, 'lb) run_env \<Rightarrow>
     ('sw, 'si, 'lb) bpf_state \<Rightarrow> ('sw, 'si, 'lb) bpf_state" where
  "run_prog arg B ctx p env st = run_probe env (probe_args p (arg B ctx)) st"

text \<open>The values of the parameters as unsigned words, the other way round.\<close>

fun lb_words :: "lb_call \<Rightarrow> u64 list" where
  "lb_words (Nohz_idle_balance rq) = [rq]"
| "lb_words Run_rebalance_domains = []"
| "lb_words (Rebalance_domains rq idle) = [rq, cpu_idle_code idle]"
| "lb_words (Balance_fair rq) = [rq]"
| "lb_words (Pick_next_task_fair rq) = [rq]"
| "lb_words (Newidle_balance rq) = [rq]"
| "lb_words (Load_balance lb_cpu lb_rq sd idle) = [ucast lb_cpu, lb_rq, sd, cpu_idle_code idle]"

fun probe_words :: "probe \<Rightarrow> u64 list" where
  "probe_words (Pelt_se se) = [se]"
| "probe_words (Util_est_se se) = [se]"
| "probe_words (Pelt_cfs cfs) = [cfs]"
| "probe_words (Util_est_cfs cfs) = [cfs]"
| "probe_words (Pelt_rt rq) = [rq]"
| "probe_words (Pelt_dl rq) = [rq]"
| "probe_words (Pelt_irq rq) = [rq]"
| "probe_words (Pelt_thermal rq) = [rq]"
| "probe_words (Sched_update_nr_running rq change) = [rq, ucast change]"
| "probe_words (Sched_switch preempt prev nxt) = [of_bool preempt, prev, nxt]"
| "probe_words (Sched_process_free p) = [p]"
| "probe_words (Cpu_frequency f cpu) = [ucast f, ucast cpu]"
| "probe_words (Cpu_idle state cpu) = [ucast state, ucast cpu]"
| "probe_words (Cpu_idle_miss cpu state below) = [ucast cpu, ucast state, of_bool below]"
| "probe_words (Softirq_entry v) = [ucast v]"
| "probe_words (Softirq_exit v) = [ucast v]"
| "probe_words (Lb_call c) = lb_words c"
| "probe_words (Lb_return phase) = []"
| "probe_words (Ipi_send_cpu cpu callsite callback) = [ucast cpu, callsite, callback]"

lemma prog_of_args: "prog_of (probe_args p a) = p"
proof (cases p)
  case (Prog_lb_entry phase) then show ?thesis by (cases phase) simp_all
qed simp_all

section \<open>The contract of \<open>BPF_PROG\<close>\<close>

text \<open>The macro, from libbpf, takes parameter \<open>i\<close> from the \<open>i\<close>th of the 64-bit words of the context.\<close>

locale bpf_context =
  fixes arg :: "memory \<Rightarrow> ptr \<Rightarrow> nat \<Rightarrow> u64"
  assumes arg: "i < 12 \<Longrightarrow> arg B ctx i = ld64 B (ctx + 8 * of_nat i)"
begin

text \<open>On this kernel, a kprobe gets the general registers.\<close>

lemma arg_reg: "i < 12 \<Longrightarrow> arg B ctx i = core_word B struct_pt_regs ctx [Dot ''regs'', Ix i]"
  by (simp add: arg core_word_def core_read_def ld64_def mult.commute)

end

definition ctx_word :: "memory \<Rightarrow> ptr \<Rightarrow> nat \<Rightarrow> u64" where
  "ctx_word B ctx i = ld64 B (ctx + 8 * of_nat i)"

interpretation ctx: bpf_context ctx_word
  by unfold_locales (simp add: ctx_word_def)

section \<open>Arguments of tracepoints\<close>

text \<open>
  A tracepoint fires: its arguments, widened to 64 bits without sign as the kernel does, are in the
  context one after the other. What a word can be depends on the type it had.
\<close>

definition in_range :: "ctype \<Rightarrow> u64 \<Rightarrow> bool" where
  "in_range t w \<longleftrightarrow> (if t = td_bool then w < 2 else unat w < 256 ^ size_of t)"

definition fires :: "ctype list \<Rightarrow> u64 list \<Rightarrow> memory \<Rightarrow> ptr \<Rightarrow> bool" where
  "fires ts ws B ctx \<longleftrightarrow> list_all2 in_range ts ws
     \<and> (\<forall>i<length ws. ld64 B (ctx + 8 * of_nat i) = ws ! i)"

text \<open>One parameter: the cast to a 32-bit type or to \<open>bool\<close> loses nothing.\<close>

lemma cast_32:
  assumes "unat w < 4294967296"
  shows "(ucast (ucast (w :: u64) :: 32 word) :: u64) = w"
proof -
  have "unat (ucast (ucast w :: 32 word) :: u64) = unat w mod 4294967296"
    by (simp add: unsigned_ucast_eq take_bit_eq_mod unat_mod)
  with assms show ?thesis by (simp only: word_unat_eq_iff mod_less)
qed

lemma cast_bool: "(w :: u64) < 2 \<Longrightarrow> w \<noteq> 0 \<Longrightarrow> w = 1"
proof -
  assume "w < 2" and n: "w \<noteq> 0"
  then have "unat w < 2" by (simp only: word_less_nat_alt unat_numeral) simp
  then consider "unat w = unat (0 :: u64)" | "unat w = unat (1 :: u64)" by fastforce
  then show ?thesis unfolding word_unat_eq_iff [symmetric] using n by cases simp_all
qed

lemma in_range_simps [simp]:
  "in_range c_uint w \<longleftrightarrow> unat w < 4294967296" "in_range c_int w \<longleftrightarrow> unat w < 4294967296"
  "in_range c_bool w \<longleftrightarrow> w < 2"
  by (simp_all add: in_range_def)

context bpf_context begin

lemma fires_arg: "fires ts ws B ctx \<Longrightarrow> i < length ws \<Longrightarrow> i < 12 \<Longrightarrow> arg B ctx i = ws ! i"
  by (simp add: fires_def arg)

text \<open>Every parameter gets the argument at its place, whole.\<close>

lemma args_of_tracepoint:
  assumes "sec p = Raw_tp tp" "map_of tracepoints tp = Some (v # ts)" "fires ts ws B ctx"
  shows "probe_words (probe_args p (arg B ctx)) = take (length (prog_params p)) ws"
proof -
  note a = fires_arg [OF assms(3)]
  have w: "list_all2 in_range ts ws" using assms(3) by (simp add: fires_def)
  show ?thesis
    using assms(1,2) w
    by (cases p) (auto simp: tracepoint_defs list_all2_Cons1 a cast_32 cast_bool)
qed

end

text \<open>
  Claim C16: every program on a tracepoint attaches to one that \<open>vmlinux.h\<close> declares, takes no
  more parameters than it passes, each of the declared type (only the IPI program takes others of the same
  size), and whenever the tracepoint fires each parameter is the argument at its place, whole.
\<close>

theorem tracepoint_arguments:
  assumes "bpf_context arg" "sec p = Raw_tp tp"
  shows "\<exists>ts. map_of tracepoints tp = Some (Ptr ''void'' # ts)
    \<and> list_all2 (\<lambda>t u. t = u \<or> p = Prog_ipi_send_cpu \<and> size_of t = size_of u)
         (prog_params p) (take (length (prog_params p)) ts)
    \<and> (\<forall>ws. fires ts ws B ctx \<longrightarrow> probe_words (probe_args p (arg B ctx)) = take (length (prog_params p)) ws)"
proof -
  obtain ts where ts: "map_of tracepoints tp = Some (Ptr ''void'' # ts)"
      "list_all2 (\<lambda>t u. t = u \<or> p = Prog_ipi_send_cpu \<and> size_of t = size_of u)
         (prog_params p) (take (length (prog_params p)) ts)"
    using assms(2) by (cases p) (auto simp: tracepoint_defs)
  then show ?thesis
    using bpf_context.args_of_tracepoint [OF assms(1,2) ts(1)] by blast
qed

text \<open>A context switch from the task at \<open>0x1000\<close> to the one at \<open>0x2000\<close>, its arguments at \<open>0x100\<close>.\<close>

definition sample_switch :: memory where
  "sample_switch a = (if a = 0x100 then 1 else if a = 0x109 then 0x10 else if a = 0x111 then 0x20 else 0)"

lemma ld64_bytes:
  "ld64 B a = of_nat (unat (B a) + 256 * (unat (B (a + 1)) + 256 * (unat (B (a + 2)) + 256 * (unat (B (a + 3))
     + 256 * (unat (B (a + 4)) + 256 * (unat (B (a + 5)) + 256 * (unat (B (a + 6)) + 256 * unat (B (a + 7)))))))))"
proof -
  have "(8 :: nat) = Suc (Suc (Suc (Suc (Suc (Suc (Suc (Suc 0)))))))" by simp
  then show ?thesis unfolding ld64_def by (simp only: read_le.simps add.assoc) simp
qed

lemma sample_switch_fires:
  "fires [c_bool, Ptr ''struct task_struct'', Ptr ''struct task_struct'', c_uint] [1, 0x1000, 0x2000, 0]
     sample_switch 0x100"
proof -
  have "ld64 sample_switch 0x100 = 1" "ld64 sample_switch 0x108 = 0x1000"
    "ld64 sample_switch 0x110 = 0x2000" "ld64 sample_switch 0x118 = 0"
    by (simp_all add: ld64_bytes sample_switch_def)
  then show ?thesis
    by (simp add: fires_def in_range_def All_less_Suc)
qed

theorem tracepoint_arguments_witness:
  "take 3 (probe_words (probe_args Prog_sched_switch (ctx_word sample_switch 0x100))) = [1, 0x1000, 0x2000]"
proof -
  have s: "sec Prog_sched_switch = Raw_tp ''sched_switch''" by simp
  have m: "map_of tracepoints ''sched_switch''
      = Some [Ptr ''void'', c_bool, Ptr ''struct task_struct'', Ptr ''struct task_struct'', c_uint]"
    by (simp add: tracepoint_defs)
  show ?thesis
    using tracepoint_arguments [OF ctx.bpf_context_axioms s, of sample_switch "0x100"] sample_switch_fires m
    by auto
qed

section \<open>Arguments of kernel functions\<close>

text \<open>
  How the kernel passes arguments on arm64, the machine of this \<open>vmlinux.h\<close>: argument \<open>i\<close> is in register
  \<open>i\<close>, and above the bits of its type the register holds anything.
\<close>

definition passes :: "ctype list \<Rightarrow> u64 list \<Rightarrow> (nat \<Rightarrow> u64) \<Rightarrow> bool" where
  "passes ts ws x \<longleftrightarrow> length ws = length ts
     \<and> (\<forall>i<length ws. take_bit (8 * size_of (ts ! i)) (x i) = ws ! i)"

lemma ucast_low: "(ucast (take_bit 32 (w :: u64)) :: 32 word) = ucast w"
  by (rule bit_word_eqI) (simp add: bit_simps)

lemma ucast_of_low: "take_bit 32 (w :: u64) = ucast (c :: 32 word) \<Longrightarrow> ucast w = c"
proof -
  assume w: "take_bit 32 w = ucast c"
  have "(ucast w :: 32 word) = ucast (take_bit 32 w)" by (simp only: ucast_low)
  also have "\<dots> = c" unfolding w by (rule bit_word_eqI) (simp add: bit_simps)
  finally show ?thesis .
qed

lemma cpu_idle_of_code: "take_bit 32 w = cpu_idle_code idle \<Longrightarrow> cpu_idle_of w = idle"
proof -
  assume w: "take_bit 32 w = cpu_idle_code idle"
  have "(ucast w :: 32 word) = ucast (take_bit 32 w)" by (simp only: ucast_low)
  with w show ?thesis by (cases idle) (simp_all add: cpu_idle_of_def)
qed

lemma take_bit_64: "take_bit 64 (w :: u64) = w"
  by (rule bit_word_eqI) (simp add: bit_simps)

lemma lb_args_passed:
  "passes (lb_params (lb_call_phase c)) (lb_words c) x \<Longrightarrow> lb_args (lb_call_phase c) x = c"
  by (cases c) (auto simp: passes_def All_less_Suc enum_cpu_idle_type_def cpu_idle_of_code ucast_of_low
      take_bit_64 numeral_2_eq_2 numeral_3_eq_3)


lemma passes_cong: "length ts \<le> 12 \<Longrightarrow> (\<And>i. i < 12 \<Longrightarrow> x i = y i) \<Longrightarrow> passes ts ws x = passes ts ws y"
  by (auto simp: passes_def)

lemma lb_params_le: "length (lb_params phase) \<le> 12"
  by (cases phase) simp_all

text \<open>
  On the kernel of \<open>vmlinux.h\<close> the entry probe of a load balancer function runs on
  the arguments of the call, whatever the registers hold above a 32-bit argument: \<open>BPF_PROG\<close> takes the first
  words of the context, and \<open>struct pt_regs\<close> begins with the registers that carry the arguments. The
  return probes take nothing from the context.
\<close>

lemma kprobe_arguments:
  assumes "bpf_context arg"
    and "passes (lb_params (lb_call_phase c)) (lb_words c)
      (\<lambda>i. core_word B struct_pt_regs ctx [Dot ''regs'', Ix i])"
  shows "run_prog arg B ctx (Prog_lb_entry (lb_call_phase c)) env st = lb_enter env c st
    \<and> run_prog any_arg B ctx (Prog_lb_exit phase) env st = lb_leave env phase st"
proof -
  have "passes (lb_params (lb_call_phase c)) (lb_words c) (arg B ctx)
      = passes (lb_params (lb_call_phase c)) (lb_words c) (\<lambda>i. core_word B struct_pt_regs ctx [Dot ''regs'', Ix i])"
    by (rule passes_cong [OF lb_params_le]) (rule bpf_context.arg_reg [OF assms(1)])
  with assms(2) show ?thesis by (simp add: run_prog_def lb_args_passed)
qed

text \<open>\<open>load_balance(2, 0x1000, 0x2000, CPU_IDLE)\<close>, with a stray bit in the upper half of the first register.\<close>

definition sample_regs :: memory where
  "sample_regs a = (if a = 0x100 then 2 else if a = 0x104 then 1 else if a = 0x109 then 0x10
     else if a = 0x111 then 0x20 else if a = 0x1AF0 then 3 else 0)"

lemma sample_regs_words:
  "core_word sample_regs struct_pt_regs 0x100 [Dot ''regs'', Ix 0] = (0x100000002 :: u64)"
  "core_word sample_regs struct_pt_regs 0x100 [Dot ''regs'', Ix (Suc 0)] = (0x1000 :: u64)"
  "core_word sample_regs struct_pt_regs 0x100 [Dot ''regs'', Ix (Suc (Suc 0))] = (0x2000 :: u64)"
  "core_word sample_regs struct_pt_regs 0x100 [Dot ''regs'', Ix (Suc (Suc (Suc 0)))] = (0 :: u64)"
  unfolding ctx.arg_reg [symmetric, simplified]
  by (simp_all add: ctx.arg_reg [symmetric] ctx_word_def ld64_bytes sample_regs_def)

lemma kprobe_arguments_instance:
  "run_prog ctx_word sample_regs 0x100 (Prog_lb_entry LB_LOAD_BALANCE) (sample_env (sample_kernel 0 0) 1 50) sample_state
    = handle_load_balance_entry (sample_env (sample_kernel 0 0) 1 50) 2 0x1000 0x2000 CPU_IDLE sample_state"
proof -
  let ?c = "Load_balance 2 0x1000 0x2000 CPU_IDLE"
  have "passes (lb_params (lb_call_phase ?c)) (lb_words ?c)
      (\<lambda>i. core_word sample_regs struct_pt_regs 0x100 [Dot ''regs'', Ix i])"
    by (simp add: passes_def All_less_Suc sample_regs_words enum_cpu_idle_type_def)
  from kprobe_arguments [OF ctx.bpf_context_axioms this, THEN conjunct1] show ?thesis by simp
qed

section \<open>The load balancer probes as loads\<close>

text \<open>
  What the loader makes of the entry probes on this kernel: arguments are words of the saved
  registers, and every relocated access is a load at a constant.
\<close>

fun compiled_sd_loop :: "memory \<Rightarrow> bool \<Rightarrow> nat \<Rightarrow> nat \<Rightarrow> ptr \<Rightarrow> lb_sd_stats \<Rightarrow> nat \<times> lb_sd_stats" where
  "compiled_sd_loop B busy 0 i sd st = (i, st)"
| "compiled_sd_loop B busy (Suc n) i sd st =
     (if sd = 0 then (i, st)
      else compiled_sd_loop B busy n (Suc i) (ld64 B sd)
        (set_stat_balance_interval i (ld32 B (sd + 80) * (if busy then ld32 B (sd + 40) else 1))
          (set_stat_level i (ld32 B (sd + 64)) st)))"

definition compiled_sd_stats :: "memory \<Rightarrow> ptr \<Rightarrow> 32 word \<Rightarrow> lb_sd_stats \<Rightarrow> lb_sd_stats" where
  "compiled_sd_stats B rq idle st =
     (let nr = ld32 B (rq + 4);
          busy = (idle \<noteq> 0 \<and> \<not> (nr = ld32 B (rq + 284) \<and> nr \<noteq> 0));
          (i, st') = compiled_sd_loop B busy MAX_SD_LEVELS 0 (ld64 B (rq + 2696)) (st\<lparr>sd_cpu := ld32 B (rq + 2800)\<rparr>)
      in set_stat_balance_interval i 0 (set_stat_level i (- 1) st'))"

lemma sd_loads:
  "dom_parent (read_sd B sd) = ld64 B sd" "dom_busy_factor (read_sd B sd) = ld32 B (sd + 40)"
  "dom_level (read_sd B sd) = ld32 B (sd + 64)" "dom_balance_interval (read_sd B sd) = ld32 B (sd + 80)"
  by (simp_all add: read_sd_def load_defs)

lemma lb_loads:
  "rq_nr_running (read_rq B rq) = ld32 B (rq + 4)" "rq_rd (read_rq B rq) = ld64 B (rq + 2688)"
  "rq_sd (read_rq B rq) = ld64 B (rq + 2696)" "rq_misfit_task_load (read_rq B rq) = ld64 B (rq + 2736)"
  "cfs_idle_h_nr_running (read_cfs B cfs) = ld32 B (cfs + 28)"
  "rd_overload (read_rd B rd) = ld32 B (rd + 88)" "rd_overutilized (read_rd B rd) = ld32 B (rd + 92)"
  by (simp_all add: read_rq_def read_cfs_def read_rd_def load_defs)

lemma sd_loop_compiled:
  "sd_stats_loop (btf_kernel v B) busy n i sd st = compiled_sd_loop B busy n i sd st"
  by (induction n arbitrary: i sd st) (simp_all add: sd_loads Let_def)

lemma cpu_idle_of_eq: "cpu_idle_of w = CPU_IDLE \<longleftrightarrow> (ucast w :: 32 word) = 0"
  by (simp add: cpu_idle_of_def Let_def)

lemma sd_stats_compiled:
  "gen_sched_domain_stats (btf_kernel v B) rq (cpu_idle_of w) st = compiled_sd_stats B rq (ucast w) st"
  by (simp add: gen_sched_domain_stats_def compiled_sd_stats_def sd_loop_compiled lb_loads rq_loads
      cpu_idle_of_eq add.assoc Let_def)

text \<open>The low half of a word is the 32-bit word at its address.\<close>

lemma read_le_add: "read_le B a (m + n) = read_le B a m + 256 ^ m * read_le B (a + of_nat m) n"
  by (induction m arbitrary: a) (simp_all add: algebra_simps)

lemma ucast_of_nat: "(ucast (of_nat n :: u64) :: 32 word) = of_nat n"
  by (rule bit_word_eqI) (simp add: bit_simps)

lemma ld32_low: "(ucast (ld64 B a) :: 32 word) = ld32 B a"
proof -
  have "(of_nat (x + 4294967296 * y) :: 32 word) = of_nat x" for x y
    by (rule word_of_nat_eq_iff [THEN iffD2]) (simp add: take_bit_eq_mod)
  then have "(of_nat (read_le B a 8) :: 32 word) = of_nat (read_le B a 4)"
    using read_le_add [of B a 4 4] by simp
  then show ?thesis by (simp add: ld64_def ld32_def ucast_of_nat)
qed

definition compiled_lb_entry ::
  "memory \<Rightarrow> ('sw, 'si, 'lb) run_env \<Rightarrow> lb_phases \<Rightarrow> ptr \<Rightarrow> ('sw, 'si, 'lb) bpf_state \<Rightarrow> ('sw, 'si, 'lb) bpf_state" where
  "compiled_lb_entry B env phase ctx st =
     (let no_rq = (phase = LB_RUN_REBALANCE_DOMAINS);
          rq = ld64 B (if phase = LB_LOAD_BALANCE then ctx + 8 else ctx);
          rd = ld64 B (rq + 2688);
          this_cpu = smp_processor_id env;
          cpu = (if no_rq then this_cpu else ld32 B (if phase = LB_LOAD_BALANCE then ctx else rq + 2800))
      in st\<lparr>lb_map := (if no_rq then lb_map st
                      else snd (map_update_elem (lb_ops env) (lb_map st) (lb_key phase this_cpu) cpu)),
            lb_rb := reserve_submit (reserve_lb env 0)
              (\<lambda>e. \<lparr>lb_ts = ktime_boot_ns env 0, lb_this_cpu = this_cpu, lb_lb_cpu = cpu,
                    lb_phase = phase, lb_entry = True,
                    lb_overloaded = (if no_rq then - 1 else ld32 B (rd + 88)),
                    lb_overutilized = (if no_rq then - 1 else ld32 B (rd + 92)),
                    lb_misfit_task_load =
                      (if no_rq \<or> phase = LB_NOHZ_IDLE_BALANCE then - 1 else ld64 B (rq + 2736)),
                    lb_sd_stats =
                      (if phase = LB_REBALANCE_DOMAINS
                       then compiled_sd_stats B rq (ld32 B (ctx + 8)) (lb_sd_stats e) else lb_sd_stats e)\<rparr>)
              (lb_rb st)\<rparr>)"

lemma lb_event_all:
  "(e :: lb_event)\<lparr>lb_ts := x0, lb_this_cpu := x1, lb_lb_cpu := x2, lb_phase := x3, lb_entry := x4,
     lb_overloaded := x5, lb_overutilized := x6, lb_misfit_task_load := x7, lb_sd_stats := x8\<rparr> =
   \<lparr>lb_ts = x0, lb_this_cpu = x1, lb_lb_cpu = x2, lb_phase = x3, lb_entry = x4, lb_overloaded = x5,
     lb_overutilized = x6, lb_misfit_task_load = x7, lb_sd_stats = x8\<rparr>"
  by (cases e) simp

lemma lb_args_phase [simp]: "lb_call_phase (lb_args phase a) = phase"
  by (cases phase) simp_all

text \<open>
  Claim C15: on the kernel of \<open>vmlinux.h\<close>, whatever its memory holds, the entry probes of the load
  balancer do exactly what loads at constants do: the run queue is the first word of the context (the
  second, for \<open>load_balance\<close>), its CPU the word at 2800, the root domain's flags at 88 and 92 behind
  the pointer at 2688, the misfit load at 2736, and the domains a list through their first word
  starting at 2696, with their statistics at 80, 40 and 64.
\<close>

theorem kprobe_compiled:
  assumes "bpf_context arg"
  shows "run_prog arg B ctx (Prog_lb_entry phase) (on_kernel (btf_kernel v B) env) st
    = compiled_lb_entry B env phase ctx st"
proof -
  have a: "arg B ctx 0 = ld64 B ctx" "arg B ctx (Suc 0) = ld64 B (ctx + 8)"
    using bpf_context.arg [OF assms, of 0] bpf_context.arg [OF assms, of "Suc 0"] by simp_all
  show ?thesis
    by (cases phase)
      (simp_all add: run_prog_def lb_enter_eq lb_entry_event_def [abs_def] compiled_lb_entry_def Let_def a
        lb_event_all lb_loads rq_loads sd_stats_compiled ld32_low)
qed

theorem kprobe_compiled_witness:
  "map lb_lb_cpu (lb_rb (run_prog ctx_word sample_regs 0x108 (Prog_lb_entry LB_NEWIDLE_BALANCE)
     (on_kernel (btf_kernel 0 sample_regs) (sample_env (sample_kernel 0 0) 1 50)) sample_state)) = [3]"
  unfolding kprobe_compiled [OF ctx.bpf_context_axioms]
  by (simp add: compiled_lb_entry_def Let_def sample_env_def
      sample_state_def reserve_submit_def ld64_bytes sample_regs_def ld32_low [symmetric])

end
