(* ===== verification/SA_Rq_Signals.thy ===== *)
theory SA_Rq_Signals imports SA_Signals begin

text \<open>
  PELT signals of run queues end to end: the root CFS queue, the other scheduling classes, IRQ and
  thermal pressure.
\<close>

section \<open>The root CFS queue\<close>

definition rq_clamp :: "kernel \<Rightarrow> ptr \<Rightarrow> uclamp_id \<Rightarrow> u64 option" where
  "rq_clamp k rq c =
     (if field_exists k (RQ_uclamp c) then Some (ucast (rq_uclamp (mem_rq k rq) c)) else None)"

lemma rq_clamp_not_minus_one: "rq_clamp k rq c \<noteq> Some (- 1)"
  by (simp add: rq_clamp_def)

lemma rq_clamp_field:
  "(if field_exists k (RQ_uclamp c) then ucast (rq_uclamp (mem_rq k rq) c) else - 1)
    = (case rq_clamp k rq c of Some v \<Rightarrow> v | None \<Rightarrow> (- 1 :: u64))"
  by (simp add: rq_clamp_def)

lemma rq_clamp_fits: "\<forall>c. unat (rq_uclamp (mem_rq k rq) c) < 2 ^ 31 \<Longrightarrow> rq_clamp k rq c = Some v \<Longrightarrow> fits v"
  by (auto simp: rq_clamp_def fits_def split: if_splits)

lemma rq_clamp_sint:
  "\<forall>c. unat (rq_uclamp (mem_rq k rq) c) < 2 ^ 31 \<Longrightarrow> fits val \<Longrightarrow> rq_clamp k rq c = Some lo
    \<Longrightarrow> rq_clamp k rq d = Some hi
    \<Longrightarrow> sint (ucast (clamp val lo hi) :: s32) = uint (clamp val lo hi)"
  by (intro fits_sint fits_clamp) (assumption | erule (1) rq_clamp_fits)+

definition cfs_signals :: "sa_opts \<Rightarrow> kernel \<Rightarrow> ptr \<Rightarrow> u64 \<Rightarrow> output_call list" where
  "cfs_signals opts k cfs ts =
     (let rq = rq_of k cfs; cpu = rq_cpu (mem_rq k rq); a = cfs_avg (mem_cfs k cfs) in
      (if load_avg_cpu opts then [cpu_counter cpu ts '' load_avg'' (uint (avg_load_avg a))] else []) @
      (if runnable_avg_cpu opts then [cpu_counter cpu ts '' runnable_avg'' (uint (avg_runnable_avg a))] else []) @
      (if util_avg_cpu opts then
         cpu_counter cpu ts '' util_avg'' (uint (avg_util_avg a)) #
         (case (rq_clamp k rq UCLAMP_MIN, rq_clamp k rq UCLAMP_MAX) of
            (Some lo, Some hi) \<Rightarrow> [cpu_counter cpu ts '' uclamped_avg'' (uint (clamp (avg_util_avg a) lo hi))]
          | _ \<Rightarrow> [])
       else []))"

lemmas rq_consumer = handle_rq_pelt_event_def trace_cpu_load_avg_def trace_cpu_runnable_avg_def
  trace_cpu_util_avg_def trace_cpu_uclamped_avg_def trace_cpu_util_est_enqueued_def
  trace_cpu_util_avg_rt_def trace_cpu_util_avg_dl_def trace_cpu_util_avg_irq_def
  trace_cpu_load_avg_thermal_def cpu_counter_def

text \<open>The record the probe submits, and its consumption.\<close>

definition cfs_record :: "('sw, 'si, 'lb) run_env \<Rightarrow> ptr \<Rightarrow> rq_pelt_event \<Rightarrow> rq_pelt_event" where
  "cfs_record env cfs m =
     (let k = env_kernel env; rq = rq_of k cfs; a = cfs_avg (mem_cfs k cfs) in
      m\<lparr>rp_ts := ktime_boot_ns env 0, rp_cpu := rq_cpu (mem_rq k rq), rp_type := PELT_TYPE_CFS,
        rp_load_avg := avg_load_avg a, rp_runnable_avg := avg_runnable_avg a, rp_util_avg := avg_util_avg a,
        rp_util_est_enqueued := - 1, rp_util_est_ewma := - 1,
        rp_uclamp_min := (case rq_clamp k rq UCLAMP_MIN of Some v \<Rightarrow> v | None \<Rightarrow> - 1),
        rp_uclamp_max := (case rq_clamp k rq UCLAMP_MAX of Some v \<Rightarrow> v | None \<Rightarrow> - 1)\<rparr>)"

lemma handle_pelt_cfs_record:
  assumes "cfs_rq_is_root (env_kernel env) cfs" "reserve_rq_pelt env 0 = Some m"
  shows "handle_pelt_cfs env cfs st = st\<lparr>rq_pelt_rb := rq_pelt_rb st @ [cfs_record env cfs m]\<rparr>"
  using assms by (simp add: handle_pelt_cfs_def cfs_record_def Let_def rq_clamp_field)

lemma cfs_record_consumed:
  assumes "k = env_kernel env"
    and "fits (avg_load_avg (cfs_avg (mem_cfs k cfs)))" "fits (avg_runnable_avg (cfs_avg (mem_cfs k cfs)))"
      "fits (avg_util_avg (cfs_avg (mem_cfs k cfs)))"
    and clamps: "\<forall>c. unat (rq_uclamp (mem_rq k (rq_of k cfs)) c) < 2 ^ 31"
  shows "handle_rq_pelt_event opts (cfs_record env cfs m) = cfs_signals opts k cfs (ktime_boot_ns env 0)"
proof -
  let ?a = "cfs_avg (mem_cfs k cfs)" and ?rq = "rq_of k cfs"
  note s = fits_sint [OF assms(2)] fits_sint [OF assms(3)] fits_sint [OF assms(4)]
    assms(2-4) [THEN fits_neq_minus_one] rq_clamp_not_minus_one [of k ?rq]
    rq_clamp_sint [OF clamps assms(4)]
  show ?thesis
    using s unfolding cfs_record_def assms(1) [symmetric] Let_def
    by (cases "rq_clamp k ?rq UCLAMP_MIN"; cases "rq_clamp k ?rq UCLAMP_MAX")
      (auto simp: rq_consumer cfs_signals_def Let_def)
qed

text \<open>
  Claim C13: a PELT update of a CFS queue is traced only for the root queue of a CPU, and then as
  exactly the counters the options ask for, on that CPU's tracks and with the kernel's values; the
  queue of a task group leaves no record.
\<close>

theorem cfs_pelt_traced:
  assumes "k = env_kernel env" "reserve_rq_pelt env 0 = Some m"
    and "fits (avg_load_avg (cfs_avg (mem_cfs k cfs)))" "fits (avg_runnable_avg (cfs_avg (mem_cfs k cfs)))"
      "fits (avg_util_avg (cfs_avg (mem_cfs k cfs)))"
    and "\<forall>c. unat (rq_uclamp (mem_rq k (rq_of k cfs)) c) < 2 ^ 31"
  shows "if cfs_rq_is_root k cfs
    then \<exists>e. rq_pelt_rb (handle_pelt_cfs env cfs st) = rq_pelt_rb st @ [e]
      \<and> handle_rq_pelt_event opts e = cfs_signals opts k cfs (ktime_boot_ns env 0)
    else handle_pelt_cfs env cfs st = st"
proof (cases "cfs_rq_is_root k cfs")
  case True
  note rec = handle_pelt_cfs_record [OF True [unfolded assms(1)] assms(2), of st]
  have "handle_rq_pelt_event opts (cfs_record env cfs m) = cfs_signals opts k cfs (ktime_boot_ns env 0)"
    by (rule cfs_record_consumed [OF assms(1,3-6)])
  with True rec show ?thesis by simp
qed (simp add: handle_pelt_cfs_def Let_def assms(1))

theorem cfs_pelt_traced_witness:
  "\<exists>e. rq_pelt_rb (handle_pelt_cfs (sample_env (sample_kernel 0 0) 1 50) 0x5040 sample_state) = [e]
    \<and> handle_rq_pelt_event sample_opts e =
      [TRACE_COUNTER ''pelt-cpu'' (cpu_track 2 '' load_avg'') 50 300,
       TRACE_COUNTER ''pelt-cpu'' (cpu_track 2 '' util_avg'') 50 100,
       TRACE_COUNTER ''pelt-cpu'' (cpu_track 2 '' uclamped_avg'') 50 512]"
proof -
  let ?k = "sample_kernel 0 0"
  have r: "cfs_rq_is_root ?k 0x5040" by (simp add: cfs_rq_is_root_def rq_of_def sample_kernel_def)
  have v: "fits (avg_load_avg (cfs_avg (mem_cfs ?k 0x5040)))" "fits (avg_runnable_avg (cfs_avg (mem_cfs ?k 0x5040)))"
    "fits (avg_util_avg (cfs_avg (mem_cfs ?k 0x5040)))"
    "\<forall>c. unat (rq_uclamp (mem_rq ?k (rq_of ?k 0x5040)) c) < 2 ^ 31"
    by (simp_all add: sample_kernel_def sample_avg_def fits_def)
  have "cfs_signals sample_opts ?k 0x5040 50 =
      [TRACE_COUNTER ''pelt-cpu'' (cpu_track 2 '' load_avg'') 50 300,
       TRACE_COUNTER ''pelt-cpu'' (cpu_track 2 '' util_avg'') 50 100,
       TRACE_COUNTER ''pelt-cpu'' (cpu_track 2 '' uclamped_avg'') 50 512]"
    by (simp add: cfs_signals_def sample_opts_def sa_opts_init_def cpu_counter_def
        sample_kernel_def rq_clamp_def sample_avg_def clamp_def)
  then show ?thesis
    using cfs_pelt_traced [where k = ?k and env = "sample_env ?k 1 50" and m = "sample_rq_pelt PELT_TYPE_THERMAL" and st = sample_state and opts = sample_opts,
        OF _ sample_reserved(2) v] r
    by simp
qed

section \<open>The other classes\<close>

text \<open>
  Claim C31: the utilisation of the RT class, the deadline class and IRQ time are all traced on the
  track of the RT class: the three probes' records become counters with the same name.
\<close>

theorem class_signals_share_track:
  assumes "k = env_kernel env" "reserve_rq_pelt env 0 = Some m" "r = mem_rq k rq"
    and "field_exists k RQ_avg_rt" "field_exists k RQ_avg_dl" "field_exists k RQ_avg_irq"
    and "fits (avg_util_avg (rq_avg_rt r))" "fits (avg_util_avg (rq_avg_dl r))" "fits (avg_util_avg (rq_avg_irq r))"
    and "util_avg_rt opts" "util_avg_dl opts" "util_avg_irq opts"
  shows "concat (map (handle_rq_pelt_event opts)
      (drop (length (rq_pelt_rb st)) (rq_pelt_rb
        (handle_pelt_irq env rq (handle_pelt_dl env rq (handle_pelt_rt env rq st))))))
    = map (\<lambda>v. cpu_counter (rq_cpu r) (ktime_boot_ns env 0) '' util_avg_rt'' (uint v))
        [avg_util_avg (rq_avg_rt r), avg_util_avg (rq_avg_dl r), avg_util_avg (rq_avg_irq r)]"
  using assms(2,4-12) unfolding assms(1,3)
  by (simp add: handle_pelt_rt_def handle_pelt_dl_def handle_pelt_irq_def rq_consumer Let_def
      fits_sint fits_neq_minus_one)

theorem class_signals_share_track_witness:
  "concat (map (handle_rq_pelt_event sample_opts) (rq_pelt_rb
      (let env = sample_env (sample_kernel 0 0) 1 50 in
       handle_pelt_irq env 0x5000 (handle_pelt_dl env 0x5000 (handle_pelt_rt env 0x5000 sample_state)))))
    = replicate 3 (TRACE_COUNTER ''pelt-cpu'' (cpu_track 2 '' util_avg_rt'') 50 100)"
proof -
  let ?k = "sample_kernel 0 0"
  have "field_exists ?k RQ_avg_rt" "field_exists ?k RQ_avg_dl" "field_exists ?k RQ_avg_irq"
    and "fits (avg_util_avg (rq_avg_rt (mem_rq ?k 0x5000)))" "fits (avg_util_avg (rq_avg_dl (mem_rq ?k 0x5000)))"
      "fits (avg_util_avg (rq_avg_irq (mem_rq ?k 0x5000)))"
    and "util_avg_rt sample_opts" "util_avg_dl sample_opts" "util_avg_irq sample_opts"
    by (simp_all add: sample_kernel_def sample_avg_def fits_def sample_opts_def)
  from class_signals_share_track [where k = ?k and env = "sample_env ?k 1 50" and m = "sample_rq_pelt PELT_TYPE_THERMAL" and st = sample_state and opts = sample_opts,
      OF _ sample_reserved(2) refl this]
  show ?thesis
    by (simp add: Let_def cpu_counter_def) (simp add: sample_kernel_def sample_avg_def numeral_3_eq_3)
qed

text \<open>
  Claim C29: a thermal update is traced as thermal pressure when \<open>--load_avg_thermal\<close> asks for it, and
  also, when \<open>--load_avg_cpu\<close> is on, as the load average of the CPU: the record's \<open>load_avg\<close> is taken
  for the one of the CFS queue.
\<close>

theorem thermal_traced_twice:
  assumes "k = env_kernel env" "reserve_rq_pelt env 0 = Some m" "field_exists k RQ_avg_thermal"
    and "r = mem_rq k rq" "fits (avg_load_avg (rq_avg_thermal r))"
  shows "\<exists>e. rq_pelt_rb (handle_pelt_thermal env rq st) = rq_pelt_rb st @ [e]
    \<and> handle_rq_pelt_event opts e =
      (let v = uint (avg_load_avg (rq_avg_thermal r)); c = cpu_counter (rq_cpu r) (ktime_boot_ns env 0) in
       (if load_avg_cpu opts then [c '' load_avg'' v] else []) @
       (if load_avg_thermal opts then [c '' load_avg_thermal'' v] else []))"
  using assms(2,3,5) unfolding assms(1,4)
  by (simp add: handle_pelt_thermal_def rq_consumer Let_def fits_sint fits_neq_minus_one)

theorem thermal_traced_twice_witness:
  "\<exists>e. rq_pelt_rb (handle_pelt_thermal (sample_env (sample_kernel 0 0) 1 50) 0x5000 sample_state) = [e]
    \<and> handle_rq_pelt_event sample_opts e =
      [TRACE_COUNTER ''pelt-cpu'' (cpu_track 2 '' load_avg'') 50 300,
       TRACE_COUNTER ''pelt-cpu'' (cpu_track 2 '' load_avg_thermal'') 50 300]"
proof -
  let ?k = "sample_kernel 0 0"
  have "field_exists ?k RQ_avg_thermal" "fits (avg_load_avg (rq_avg_thermal (mem_rq ?k 0x5000)))"
    by (simp_all add: sample_kernel_def sample_avg_def fits_def)
  from thermal_traced_twice [where k = ?k and env = "sample_env ?k 1 50" and m = "sample_rq_pelt PELT_TYPE_THERMAL" and st = sample_state and opts = sample_opts,
      OF _ sample_reserved(2) this(1) refl this(2)]
  show ?thesis
    by (simp add: cpu_counter_def sample_opts_def Let_def) (simp add: sample_kernel_def sample_avg_def)
qed

section \<open>Utilisation estimates of run queues\<close>

lemma sint_minus_one: "sint (ucast (- 1 :: u64) :: s32) = - 1"
proof -
  have "(ucast (- 1 :: u64) :: s32) = - 1" by (rule bit_word_eqI) (simp add: bit_ucast_iff)
  then show ?thesis by simp
qed

text \<open>
  Claim C30: an estimate update of the root queue gives the estimate counter the options ask for, but
  the probe leaves the type of the record as the ring memory had it: left over from a thermal
  record, it adds a thermal counter with the value -1.
\<close>

theorem cfs_util_est_traced:
  assumes "k = env_kernel env" "reserve_rq_pelt env 0 = Some m" "cfs_rq_is_root k cfs"
    and "old = mem_avg_pre68 k (cfs + off_cfs_avg k)"
  shows "\<exists>e. rq_pelt_rb (handle_util_est_cfs env cfs st) = rq_pelt_rb st @ [e]
    \<and> handle_rq_pelt_event opts e =
      (let c = cpu_counter (rq_cpu (mem_rq k (rq_of k cfs))) (ktime_boot_ns env 0) in
       (if pelt_code (rp_type m) = pelt_code PELT_TYPE_THERMAL \<and> load_avg_thermal opts
        then [c '' load_avg_thermal'' (- 1)] else []) @
       (if util_est_cpu opts
        then [c '' util_est.enqueued'' (uint (est_enqueued k (cfs_avg (mem_cfs k cfs)) old) mod 2 ^ 31)]
        else []))"
proof -
  have s: "sint (ucast (drop_unchanged (ucast (est_enqueued k (cfs_avg (mem_cfs k cfs)) old))) :: s32)
      = uint (est_enqueued k (cfs_avg (mem_cfs k cfs)) old) mod 2 ^ 31"
    by (simp only: fits_sint [OF fits_masked] uint_masked)
  show ?thesis
    using assms(2,3) s unfolding assms(1,4)
    by (simp add: handle_util_est_cfs_def Let_def est_fields rq_consumer sint_minus_one)
qed

theorem cfs_util_est_traced_witness:
  "\<exists>e. rq_pelt_rb (handle_util_est_cfs (sample_env (sample_kernel (KERNEL_VERSION 6 8 0) 0) 1 50) 0x5040 sample_state) = [e]
    \<and> handle_rq_pelt_event sample_opts e =
      [TRACE_COUNTER ''pelt-cpu'' (cpu_track 2 '' load_avg_thermal'') 50 (- 1),
       TRACE_COUNTER ''pelt-cpu'' (cpu_track 2 '' util_est.enqueued'') 50 100]"
proof -
  let ?k = "sample_kernel (KERNEL_VERSION 6 8 0) 0"
  have "cfs_rq_is_root ?k 0x5040" by (simp add: cfs_rq_is_root_def rq_of_def sample_kernel_def)
  moreover have "\<not> pre68 ?k" by (simp add: pre68_def sample_kernel_def)
  ultimately show ?thesis
    using cfs_util_est_traced [where k = ?k and env = "sample_env ?k 1 50" and m = "sample_rq_pelt PELT_TYPE_THERMAL" and st = sample_state and opts = sample_opts and cfs = "0x5040",
      OF _ sample_reserved(2) _ refl]
    by (simp add: cpu_counter_def sample_opts_def Let_def est_enqueued_def sample_rq_pelt_def)
      (simp add: sample_kernel_def sample_avg_def)
qed

end
