(* ===== verification/SA_Bytes.thy ===== *)
theory SA_Bytes imports SA_Context SA_Rq_Signals begin

text \<open>
  The whole way of a signal, from the bytes of the kernel of \<open>vmlinux.h\<close> to the calls of the tracing
  SDK: a tracepoint fires or a probed function is called, the program decodes its context, loads
  from kernel memory and submits a record, and the callback of the ring makes calls of it.
\<close>

section \<open>PELT updates of tasks\<close>

text \<open>
  The counters of the task whose scheduling entity is at \<open>se\<close>: its name and pid, the averages, and the
  utilisation clamped by the effective clamps where they are active, else by the requested ones.
\<close>

definition bytes_task_signals :: "sa_opts \<Rightarrow> memory \<Rightarrow> ptr \<Rightarrow> u64 \<Rightarrow> output_call list" where
  "bytes_task_signals opts B se ts =
     (let p = se - 192;
          counter = (\<lambda>sfx (v :: u64). TRACE_COUNTER ''pelt-task''
            (task_track (read_str B (p + 2032) 16) (ld32 B (p + 1528)) sfx) ts (uint v));
          uclamp = (\<lambda>req eff. ucast (take_bit 11 (ld16 B (if bit (ld16 B eff) 14 then eff else req))));
          util = ld64 B (p + 432)
      in (if load_avg_task opts then [counter '' load_avg'' (ld64 B (p + 416))] else []) @
         (if runnable_avg_task opts then [counter '' runnable_avg'' (ld64 B (p + 424))] else []) @
         (if util_avg_task opts
          then [counter '' util_avg'' util,
                counter '' uclamped_avg'' (clamp util (uclamp (p + 776) (p + 784)) (uclamp (p + 780) (p + 788)))]
          else []))"

lemma btf_task_uclamp:
  "task_uclamp (btf_kernel v B) p UCLAMP_MIN
     = Some (ucast (take_bit 11 (ld16 B (if bit (ld16 B (p + 784)) 14 then p + 784 else p + 776))))"
  "task_uclamp (btf_kernel v B) p UCLAMP_MAX
     = Some (ucast (take_bit 11 (ld16 B (if bit (ld16 B (p + 788)) 14 then p + 788 else p + 780))))"
  by (simp_all add: task_uclamp_def uclamp_loads)

lemma btf_task_signals:
  "task_signals opts (btf_kernel v B) se ts = bytes_task_signals opts B se ts"
proof -
  have p: "se + 224 = se - 192 + 416" "se + 232 = se - 192 + 424" "se + 240 = se - 192 + 432"
    by simp_all
  show ?thesis
    by (simp add: task_signals_def bytes_task_signals_def Let_def task_of_def task_counter_def btf_task_uclamp
        task_loads avg_loads p)
qed

text \<open>
  Claim C10: a PELT tracepoint of a task, from the words of its context and the bytes of its
  \<open>task_struct\<close> to the trace: the record the program submits becomes exactly the counters the options ask
  for, with the values at 416, 424 and 432 of the structure, the clamps at 776 to 791, and the track
  named by the bytes at 2032 and the pid at 1528.
\<close>

theorem task_bytes_traced:
  assumes "bpf_context arg" "fires [Ptr ''struct sched_entity''] [se] B ctx" "ld64 B (se + 160) = 0"
    and "reserve_task_pelt env 0 = Some m"
    and "\<not> ignore_pid_comm opts (ld32 B (se - 192 + 1528)) (read_str B (se - 192 + 2032) 16)"
    and "\<And>i. i \<in> {416, 424, 432} \<Longrightarrow> fits (ld64 B (se - 192 + i))"
  shows "\<exists>e. task_pelt_rb (run_prog arg B ctx Prog_pelt_se (on_kernel (btf_kernel v B) env) st) = task_pelt_rb st @ [e]
    \<and> handle_task_pelt_event opts e = bytes_task_signals opts B se (ktime_boot_ns env 0)"
proof -
  let ?k = "btf_kernel v B"
  have "run_prog arg B ctx Prog_pelt_se (on_kernel ?k env) st = handle_pelt_se (on_kernel ?k env) se st"
    using bpf_context.fires_arg [OF assms(1,2), of 0] by (simp add: run_prog_def)
  moreover have "entity_is_task ?k se" using assms(3) by (simp add: btf_guards task_loads)
  moreover have "task_traced opts ?k (task_of ?k se)"
    using assms(5) by (simp add: task_traced_def task_of_def task_loads)
  moreover have "fits (avg_load_avg (se_avg (mem_se ?k se)))" "fits (avg_runnable_avg (se_avg (mem_se ?k se)))"
    "fits (avg_util_avg (se_avg (mem_se ?k se)))"
    using assms(6) [of 416] assms(6) [of 424] assms(6) [of 432] by (simp_all add: avg_loads add.commute)
  ultimately show ?thesis
    using task_pelt_traced [of ?k "on_kernel ?k env" se m opts st] assms(4) by (simp add: btf_task_signals)
qed

text \<open>A tracepoint of the entity at \<open>0x10C0\<close>, its context at \<open>0x100\<close>; the task has the utilisation 9.\<close>

definition sample_task :: memory where
  "sample_task a = (if a = 0x100 then 0xC0 else if a = 0x101 then 0x10 else if a = 0x11B0 then 9
     else if a = 0x130D then 4 else 0)"

lemma sample_task_signals:
  "bytes_task_signals (sa_opts_init\<lparr>util_avg_task := True\<rparr>) sample_task 0x10C0 50 =
    [TRACE_COUNTER ''pelt-task'' (task_track [] 0 '' util_avg'') 50 9,
     TRACE_COUNTER ''pelt-task'' (task_track [] 0 '' uclamped_avg'') 50 9]"
proof -
  have "ld64 sample_task 0x11B0 = 9" "ld32 sample_task 0x15F8 = 0"
    by (simp_all add: ld64_bytes ld32_low [symmetric] sample_task_def)
  moreover have "ld16 sample_task 0x1308 = 0" "ld16 sample_task 0x130C = 1024"
    "ld16 sample_task 0x1310 = 0" "ld16 sample_task 0x1314 = 0"
    by (simp_all add: ld16_def read_le_2 sample_task_def)
  moreover have "read_str sample_task 0x17F0 16 = []"
    by (simp add: read_str_def sample_task_def upt_rec)
  ultimately show ?thesis
    by (simp add: bytes_task_signals_def Let_def sa_opts_init_def clamp_def)
qed

theorem task_bytes_traced_witness:
  "\<exists>e. task_pelt_rb (run_prog ctx_word sample_task 0x100 Prog_pelt_se
      (on_kernel (btf_kernel 0 sample_task) (sample_env (sample_kernel 0 0) 1 50)) sample_state) = [e]
    \<and> handle_task_pelt_event (sa_opts_init\<lparr>util_avg_task := True\<rparr>) e =
      [TRACE_COUNTER ''pelt-task'' (task_track [] 0 '' util_avg'') 50 9,
       TRACE_COUNTER ''pelt-task'' (task_track [] 0 '' uclamped_avg'') 50 9]"
proof -
  have c: "ld64 sample_task 0x100 = 0x10C0" "ld64 sample_task 0x1160 = 0"
    by (simp_all add: ld64_bytes sample_task_def)
  have f: "fires [Ptr ''struct sched_entity''] [0x10C0] sample_task 0x100"
    by (simp add: fires_def in_range_def c)
  have t: "ld64 sample_task (0x10C0 + 160) = 0" by (simp add: c)
  have i: "\<not> ignore_pid_comm (sa_opts_init\<lparr>util_avg_task := True\<rparr>) p n" for p n
    by (simp add: ignore_pid_comm_def sa_opts_init_def)
  have v: "fits (ld64 sample_task (0x10C0 - 192 + j))" if "j \<in> {416, 424, 432}" for j
  proof -
    have "ld64 sample_task 0x11A0 = 0" "ld64 sample_task 0x11A8 = 0" "ld64 sample_task 0x11B0 = 9"
      by (simp_all add: ld64_bytes sample_task_def)
    moreover have "fits 0" "fits 9" by (simp_all add: fits_def)
    ultimately show ?thesis using that by fastforce
  qed
  obtain m where m: "reserve_task_pelt (sample_env (sample_kernel 0 0) 1 50) 0 = Some m"
    using sample_reserved by blast
  have "ktime_boot_ns (sample_env (sample_kernel 0 0) 1 50) 0 = 50" by (simp add: sample_env_def)
  with task_bytes_traced [OF ctx.bpf_context_axioms f t m i v, of 0 sample_state]
  show ?thesis by (simp only: sample_state_rings append_Nil sample_task_signals)
qed

section \<open>Calls of the load balancer\<close>

lemma cpu_idle_of_code_eq [simp]: "cpu_idle_of (cpu_idle_code idle) = idle"
  by (cases idle) (simp_all add: cpu_idle_of_def)

lemma btf_sd_stats:
  "gen_sched_domain_stats (btf_kernel v B) rq idle st = compiled_sd_stats B rq (ucast (cpu_idle_code idle)) st"
  using sd_stats_compiled [of v B rq "cpu_idle_code idle" st] by simp

definition bytes_lb_signals ::
  "memory \<Rightarrow> lb_call \<Rightarrow> ptr \<Rightarrow> lb_sd_stats \<Rightarrow> s32 \<Rightarrow> u64 \<Rightarrow> output_call list" where
  "bytes_lb_signals B c rq old this_cpu ts =
     (let rd = ld64 B (rq + 2688);
          cpu = (case c of Load_balance lb_cpu lb_rq sd idle \<Rightarrow> lb_cpu | _ \<Rightarrow> ld32 B (rq + 2800))
      in (case c of Rebalance_domains rq idle \<Rightarrow>
            trace_lb_sd_stats ts (compiled_sd_stats B rq (ucast (cpu_idle_code idle)) old) | _ \<Rightarrow> []) @
         trace_lb_overloaded ts (ld32 B (rd + 88)) @
         trace_lb_overutilized ts (ld32 B (rd + 92)) @
         (case c of Nohz_idle_balance rq \<Rightarrow> [] | _ \<Rightarrow> trace_lb_misfit ts cpu (ld64 B (rq + 2736))) @
         trace_lb_entry ts this_cpu cpu (lb_phase_name (lb_call_phase c)))"

text \<open>
  Claim C11: a call of a load balancer function, from the registers that carry its arguments and the bytes of
  the run queue and its root domain to the trace: the entry becomes the flags of the root domain, the
  misfit load, for \<open>rebalance_domains\<close> the statistics of the scheduling domains, and the begin of
  a slice on this CPU that names the CPU being balanced. That the registers are the first words of the
  context is what \<open>BPF_PROG\<close> relies on.
\<close>

theorem lb_bytes_traced:
  assumes "bpf_context arg"
    and "passes (lb_params (lb_call_phase c)) (lb_words c)
      (\<lambda>i. core_word B struct_pt_regs ctx [Dot ''regs'', Ix i])"
    and "lb_call_rq c = Some rq" "reserve_lb env 0 = Some m"
    and "ld32 B (ld64 B (rq + 2688) + 88) \<noteq> - 1" "ld32 B (ld64 B (rq + 2688) + 92) \<noteq> - 1"
      "ld64 B (rq + 2736) \<noteq> - 1"
  shows "\<exists>e. lb_rb (run_prog arg B ctx (Prog_lb_entry (lb_call_phase c)) (on_kernel (btf_kernel v B) env) st)
      = lb_rb st @ [e]
    \<and> handle_lb_event opts e
      = bytes_lb_signals B c rq (lb_sd_stats m) (smp_processor_id env) (ktime_boot_ns env 0)"
proof -
  note run = kprobe_arguments [OF assms(1,2), of "on_kernel (btf_kernel v B) env" st, THEN conjunct1]
  show ?thesis
    unfolding run lb_enter_eq using assms(3-7)
    by (cases c) (simp_all add: lb_entry_event_def bytes_lb_signals_def handle_lb_event_def Let_def lb_loads
        rq_loads btf_sd_stats)
qed

theorem lb_bytes_traced_witness:
  "\<exists>e. lb_rb (run_prog ctx_word sample_regs 0x100 (Prog_lb_entry LB_LOAD_BALANCE)
      (on_kernel (btf_kernel 0 sample_regs) (sample_env (sample_kernel 0 0) 1 50)) sample_state) = [e]
    \<and> handle_lb_event sa_opts_init e = bytes_lb_signals sample_regs (Load_balance 2 0x1000 0x2000 CPU_IDLE) 0x1000
        sample_sd_stats 1 50"
proof -
  let ?c = "Load_balance 2 0x1000 0x2000 CPU_IDLE" and ?e = "sample_env (sample_kernel 0 0) 1 50"
  have p: "passes (lb_params (lb_call_phase ?c)) (lb_words ?c)
      (\<lambda>i. core_word sample_regs struct_pt_regs 0x100 [Dot ''regs'', Ix i])"
    by (simp add: passes_def All_less_Suc sample_regs_words enum_cpu_idle_type_def)
  have q: "lb_call_rq ?c = Some 0x1000" by simp
  obtain m where m: "reserve_lb ?e 0 = Some m" "lb_sd_stats m = sample_sd_stats"
    by (simp add: sample_env_def)
  have w: "ld64 sample_regs (0x1000 + 2688) = 0" "ld64 sample_regs (0x1000 + 2736) \<noteq> - 1"
    by (simp_all add: ld64_bytes sample_regs_def)
  have "ld32 sample_regs (ld64 sample_regs (0x1000 + 2688) + 88) \<noteq> - 1"
    "ld32 sample_regs (ld64 sample_regs (0x1000 + 2688) + 92) \<noteq> - 1"
    unfolding w(1) by (simp_all add: ld32_low [symmetric] ld64_bytes sample_regs_def)
  note lb_bytes_traced [OF ctx.bpf_context_axioms p q m(1) this w(2), of 0 sample_state sa_opts_init]
  moreover have "ktime_boot_ns ?e 0 = 50" "smp_processor_id ?e = 1" "lb_rb sample_state = []"
    by (simp_all add: sample_env_def sample_state_def)
  ultimately show ?thesis by (simp only: m(2) lb_call_phase.simps append_Nil)
qed

end
