(* ===== verification/SA_Ring.thy ===== *)
theory SA_Ring imports SA_Ctypes SA_Pipeline begin

text \<open>
  The ring buffers as memory: the C layout of the eight event records, the \<open>RB_SIZE\<close> bytes of each
  ring, and how far an event thread may fall behind before a record is lost. The rings of
  \<^emph>\<open>bpf_state\<close> are lists and a reservation is an input of the run; here the two meet, under what the
  kernel documents about \<open>bpf_ringbuf_reserve\<close>.
\<close>

section \<open>The records of \<open>sched-analyzer-events.h\<close>\<close>

definition enum_pelt_type :: ctype where
  "enum_pelt_type = Enum
    [(''PELT_TYPE_CFS'', 0), (''PELT_TYPE_RT'', 1), (''PELT_TYPE_DL'', 2), (''PELT_TYPE_IRQ'', 3),
     (''PELT_TYPE_THERMAL'', 4)]"

definition enum_lb_phases :: ctype where
  "enum_lb_phases = Enum
    [(''LB_NOHZ_IDLE_BALANCE'', 0), (''LB_RUN_REBALANCE_DOMAINS'', 1), (''LB_REBALANCE_DOMAINS'', 2),
     (''LB_BALANCE_FAIR'', 3), (''LB_PICK_NEXT_TASK_FAIR'', 4), (''LB_NEWIDLE_BALANCE'', 5),
     (''LB_LOAD_BALANCE'', 6)]"

definition struct_rq_pelt_event :: ctype where
  "struct_rq_pelt_event = Struct
    [Fld c_ullong ''ts'',
     Fld c_int ''cpu'',
     Fld enum_pelt_type ''type'',
     Fld c_ulong ''load_avg'',
     Fld c_ulong ''runnable_avg'',
     Fld c_ulong ''util_avg'',
     Fld c_ulong ''util_est_enqueued'',
     Fld c_ulong ''util_est_ewma'',
     Fld c_ulong ''uclamp_min'',
     Fld c_ulong ''uclamp_max'']"

text \<open>\<open>pid_t\<close> is an \<open>int\<close> on both sides.\<close>

definition struct_task_pelt_event :: ctype where
  "struct_task_pelt_event = Struct
    [Fld c_ullong ''ts'',
     Fld c_int ''cpu'',
     Fld c_int ''pid'',
     Fld (Arr c_char TASK_COMM_LEN) ''comm'',
     Fld c_ulong ''load_avg'',
     Fld c_ulong ''runnable_avg'',
     Fld c_ulong ''util_avg'',
     Fld c_ulong ''util_est_enqueued'',
     Fld c_ulong ''util_est_ewma'',
     Fld c_ulong ''uclamp_min'',
     Fld c_ulong ''uclamp_max'',
     Fld c_int ''running'']"

definition struct_rq_nr_running_event :: ctype where
  "struct_rq_nr_running_event = Struct
    [Fld c_ullong ''ts'',
     Fld c_int ''cpu'',
     Fld c_int ''nr_running'',
     Fld c_int ''change'']"

definition struct_sched_switch_event :: ctype where
  "struct_sched_switch_event = Struct
    [Fld c_ullong ''ts'',
     Fld c_int ''cpu'',
     Fld c_int ''pid'',
     Fld (Arr c_char TASK_COMM_LEN) ''comm'',
     Fld c_int ''running'']"

definition struct_freq_idle_event :: ctype where
  "struct_freq_idle_event = Struct
    [Fld c_ullong ''ts'',
     Fld c_int ''cpu'',
     Fld c_uint ''frequency'',
     Fld c_int ''idle_state'',
     Fld c_int ''idle_miss'']"

definition struct_softirq_event :: ctype where
  "struct_softirq_event = Struct
    [Fld c_ullong ''ts'',
     Fld c_int ''cpu'',
     Fld (Arr c_char TASK_COMM_LEN) ''softirq'',
     Fld c_ulong ''duration'']"

definition struct_lb_sd_stats :: ctype where
  "struct_lb_sd_stats = Struct
    [Fld c_int ''cpu'',
     Fld (Arr c_int MAX_SD_LEVELS) ''level'',
     Fld (Arr c_uint MAX_SD_LEVELS) ''balance_interval'']"

definition struct_lb_event :: ctype where
  "struct_lb_event = Struct
    [Fld c_ullong ''ts'',
     Fld c_int ''this_cpu'',
     Fld c_int ''lb_cpu'',
     Fld enum_lb_phases ''phase'',
     Fld c_bool ''entry'',
     Fld c_uint ''overloaded'',
     Fld c_uint ''overutilized'',
     Fld c_ulong ''misfit_task_load'',
     Fld struct_lb_sd_stats ''sd_stats'']"

definition struct_ipi_event :: ctype where
  "struct_ipi_event = Struct
    [Fld c_ullong ''ts'',
     Fld c_int ''from_cpu'',
     Fld c_int ''target_cpu'',
     Fld (Ptr ''void'') ''callsite'',
     Fld (Ptr ''void'') ''callback'']"

lemmas event_layout_defs = enum_pelt_type_def enum_lb_phases_def struct_rq_pelt_event_def
  struct_task_pelt_event_def struct_rq_nr_running_event_def struct_sched_switch_event_def
  struct_freq_idle_event_def struct_softirq_event_def struct_lb_sd_stats_def struct_lb_event_def
  struct_ipi_event_def TASK_COMM_LEN_def MAX_SD_LEVELS_def

lemma event_sizes [simp]:
  "size_of struct_rq_pelt_event = 72" "size_of struct_task_pelt_event = 96"
  "size_of struct_rq_nr_running_event = 24" "size_of struct_sched_switch_event = 40"
  "size_of struct_freq_idle_event = 24" "size_of struct_softirq_event = 40"
  "size_of struct_lb_sd_stats = 84" "size_of struct_lb_event = 128" "size_of struct_ipi_event = 32"
  by (simp_all add: event_layout_defs layout)

text \<open>
  The block of words \<^emph>\<open>sd_words\<close> is what the layout makes of the two arrays: one past \<open>level\<close> is
  \<open>balance_interval[0]\<close>, and one past \<open>balance_interval\<close> is the padding that ends \<open>struct lb_event\<close>.
\<close>

lemma sd_words_layout:
  "offset_of struct_lb_event [Dot ''sd_stats'', Dot ''level'', Ix 0] = 44"
  "offset_of struct_lb_event [Dot ''sd_stats'', Dot ''balance_interval'', Ix 0]
     = 44 + 4 * MAX_SD_LEVELS"
  "44 + 4 * (2 * MAX_SD_LEVELS + 1) = size_of struct_lb_event"
  by (simp_all add: offset_of_def event_layout_defs layout)

section \<open>Room in a ring\<close>

definition RB_SIZE :: nat where "RB_SIZE = 256 * 1024"

fun record_type :: "event_kind \<Rightarrow> ctype" where
  "record_type Rq_pelt = struct_rq_pelt_event"
| "record_type Task_pelt = struct_task_pelt_event"
| "record_type Rq_nr_running = struct_rq_nr_running_event"
| "record_type Sched_switches = struct_sched_switch_event"
| "record_type Freq_idle = struct_freq_idle_event"
| "record_type Softirqs = struct_softirq_event"
| "record_type Lb = struct_lb_event"
| "record_type Ipi = struct_ipi_event"

text \<open>A record takes its size and a header of 8 bytes, rounded up to a multiple of 8.\<close>

definition record_size :: "event_kind \<Rightarrow> nat" where
  "record_size k = roundup (size_of (record_type k) + 8) 8"

lemma record_sizes [simp]:
  "record_size Rq_pelt = 80" "record_size Task_pelt = 104" "record_size Rq_nr_running = 32"
  "record_size Sched_switches = 48" "record_size Freq_idle = 32" "record_size Softirqs = 48"
  "record_size Lb = 136" "record_size Ipi = 40"
  by (simp_all add: record_size_def roundup_def)

text \<open>How many records a ring holds for certain.\<close>

fun capacity :: "event_kind \<Rightarrow> nat" where
  "capacity Rq_pelt = 3276"
| "capacity Task_pelt = 2520"
| "capacity Rq_nr_running = 8191"
| "capacity Sched_switches = 5461"
| "capacity Freq_idle = 8191"
| "capacity Softirqs = 5461"
| "capacity Lb = 1927"
| "capacity Ipi = 6553"

lemma capacity_eq: "capacity k = (RB_SIZE - 1) div record_size k"
  by (cases k) (simp_all add: RB_SIZE_def)

lemma capacity_fits: "n \<le> capacity k \<longleftrightarrow> record_size k * n < RB_SIZE"
  by (cases k) (auto simp: RB_SIZE_def)

text \<open>
  The kernel's side: \<open>reserve used len\<close> says whether a reservation of \<open>len\<close> bytes succeeds when
  \<open>used\<close> bytes of the ring are not consumed yet. It is documented to fail only for want of room.
\<close>

locale ring_memory =
  fixes reserve :: "nat \<Rightarrow> nat \<Rightarrow> bool"
  assumes room: "used + roundup (len + 8) 8 < RB_SIZE \<Longrightarrow> reserve used len"
begin

lemma reserve_below:
  "n < capacity k \<Longrightarrow> reserve (record_size k * n) (size_of (record_type k))"
  using capacity_fits [of "Suc n" k] by (auto simp: record_size_def intro!: room)

end

text \<open>A ring whose producer must not catch up with its consumer.\<close>

definition ring_reserve :: "nat \<Rightarrow> nat \<Rightarrow> bool" where
  "ring_reserve used len \<longleftrightarrow> used + roundup (len + 8) 8 < RB_SIZE"

interpretation ring: ring_memory ring_reserve
  by unfold_locales (simp add: ring_reserve_def)

section \<open>Records due\<close>

text \<open>How many records a run of a program is there to submit.\<close>

definition due :: "('sw, 'si, 'lb) run_env \<Rightarrow> probe \<Rightarrow> ('sw, 'si, 'lb) bpf_state \<Rightarrow> nat" where
  "due env p st = (let k = env_kernel env in
     case p of
       Pelt_se se \<Rightarrow> of_bool (entity_is_task k se)
     | Util_est_se se \<Rightarrow> of_bool (entity_is_task k se)
     | Pelt_cfs cfs \<Rightarrow> of_bool (cfs_rq_is_root k cfs)
     | Util_est_cfs cfs \<Rightarrow> of_bool (cfs_rq_is_root k cfs)
     | Pelt_rt rq \<Rightarrow> of_bool (field_exists k RQ_avg_rt)
     | Pelt_dl rq \<Rightarrow> of_bool (field_exists k RQ_avg_dl)
     | Pelt_irq rq \<Rightarrow> of_bool (field_exists k RQ_avg_irq)
     | Pelt_thermal rq \<Rightarrow> of_bool (field_exists k RQ_avg_thermal)
     | Sched_switch preempt prev nxt \<Rightarrow> 2
     | Softirq_entry v \<Rightarrow> 0
     | Softirq_exit v \<Rightarrow>
         of_bool (map_lookup_elem (si_ops env) (softirq_entry_map st) (smp_processor_id env) \<noteq> None)
     | Lb_return phase \<Rightarrow> of_bool (phase = LB_RUN_REBALANCE_DOMAINS \<or>
         map_lookup_elem (lb_ops env) (lb_map st) (lb_key phase (smp_processor_id env)) \<noteq> None)
     | _ \<Rightarrow> 1)"

lemma due_le: "due env p st \<le> 2"
  by (simp add: due_def Let_def split: probe.split)

fun reserved :: "event_kind \<Rightarrow> ('sw, 'si, 'lb) run_env \<Rightarrow> nat \<Rightarrow> bool" where
  "reserved Rq_pelt env n \<longleftrightarrow> reserve_rq_pelt env n \<noteq> None"
| "reserved Task_pelt env n \<longleftrightarrow> reserve_task_pelt env n \<noteq> None"
| "reserved Rq_nr_running env n \<longleftrightarrow> reserve_rq_nr_running env n \<noteq> None"
| "reserved Sched_switches env n \<longleftrightarrow> reserve_sched_switch env n \<noteq> None"
| "reserved Freq_idle env n \<longleftrightarrow> reserve_freq_idle env n \<noteq> None"
| "reserved Softirqs env n \<longleftrightarrow> reserve_softirq env n \<noteq> None"
| "reserved Lb env n \<longleftrightarrow> reserve_lb env n \<noteq> None"
| "reserved Ipi env n \<longleftrightarrow> reserve_ipi env n \<noteq> None"

lemma length_reserve: "r \<noteq> None \<Longrightarrow> length (reserve_submit r f xs) = Suc (length xs)"
  by auto

lemma lb_leave_due:
  "reserve_lb env 0 \<noteq> None \<Longrightarrow>
     length (lb_rb (lb_leave env phase st)) = length (lb_rb st) + due env (Lb_return phase) st"
  by (cases phase) (auto simp: due_def lb_exit_defs Let_def split: option.splits)

lemma lb_enter_due:
  "reserve_lb env 0 \<noteq> None \<Longrightarrow> length (lb_rb (lb_enter env c st)) = Suc (length (lb_rb st))"
  by (simp add: lb_enter_eq Let_def length_reserve)

text \<open>When the reservations succeed, exactly these are added.\<close>

lemma probe_due:
  assumes "probe_ring p = Some k" "\<And>n. n < due env p st \<Longrightarrow> reserved k env n"
  shows "length (ring_of k (run_probe env p st)) = length (ring_of k st) + due env p st"
proof (cases p)
  case (Lb_call c)
  with assms show ?thesis using lb_enter_due [of env c st] by (auto simp: due_def)
next
  case (Lb_return phase)
  have "reserve_lb env 0 \<noteq> None \<or> due env p st = 0" using assms Lb_return by (cases "due env p st") auto
  then show ?thesis
  proof
    assume "due env p st = 0"
    then show ?thesis using assms(1) Lb_return
      by (cases phase) (auto simp: due_def lb_exit_defs Let_def split: option.splits)
  qed (use assms(1) Lb_return lb_leave_due [of env phase st] in auto)
next
  case (Sched_switch preempt prev nxt)
  with assms(2) [of 0] assms(2) [of 1] assms(1) show ?thesis
    by (auto simp: due_def handle_sched_switch_def Let_def)
qed (use assms in \<open>auto simp: due_def probe_defs Let_def split: option.splits\<close>)

section \<open>No record is lost while the threads keep up\<close>

definition waiting :: "('sw, 'si, 'lb) pipeline \<Rightarrow> event_kind \<Rightarrow> nat" where
  "waiting s k = length (ring_of k (bpf s)) - consumed s k"

text \<open>The environments that hand out reservations as the rings' memory does.\<close>

definition obeys :: "(nat \<Rightarrow> nat \<Rightarrow> bool) \<Rightarrow> ('sw, 'si, 'lb) pipeline \<Rightarrow> ('sw, 'si, 'lb) run_env \<Rightarrow> bool" where
  "obeys reserve s env \<longleftrightarrow>
     (\<forall>k n. reserve (record_size k * (waiting s k + n)) (size_of (record_type k)) \<longrightarrow> reserved k env n)"

lemma probe_complete:
  assumes "ring_memory reserve" "obeys reserve s env" "probe_ring p = Some k"
    and "waiting s k + due env p (bpf s) \<le> capacity k"
  shows "length (ring_of k (run_probe env p (bpf s))) = length (ring_of k (bpf s)) + due env p (bpf s)"
proof (rule probe_due [OF assms(3)])
  fix n assume "n < due env p (bpf s)"
  then have "waiting s k + n < capacity k" using assms(4) by simp
  then have "reserve (record_size k * (waiting s k + n)) (size_of (record_type k))"
    by (rule ring_memory.reserve_below [OF assms(1)])
  then show "reserved k env n" using assms(2) by (simp add: obeys_def)
qed

text \<open>
  Runs of the program next to a count, for every ring, of the records that were due. Without
  environments \<^emph>\<open>pipeline_step\<close> has only the steps of the threads and the signal.
\<close>

type_synonym ('sw, 'si, 'lb) counted = "('sw, 'si, 'lb) pipeline \<times> (event_kind \<Rightarrow> nat)"

inductive counted_step ::
  "(nat \<Rightarrow> nat \<Rightarrow> bool) \<Rightarrow> ('sw, 'si, 'lb) run_env set \<Rightarrow> kallsyms \<Rightarrow> sa_opts \<Rightarrow>
     ('sw, 'si, 'lb) counted \<Rightarrow> ('sw, 'si, 'lb) counted \<Rightarrow> bool"
  for reserve envs ks opts where
  program: "env \<in> envs \<Longrightarrow> obeys reserve s env \<Longrightarrow> prog_of p \<in> autoload opts \<Longrightarrow>
    counted_step reserve envs ks opts (s, d) (s\<lparr>bpf := run_probe env p (bpf s)\<rparr>,
      \<lambda>k. d k + (if probe_ring p = Some k then due env p (bpf s) else 0))"
| thread: "pipeline_step {} ks opts s s' \<Longrightarrow> counted_step reserve envs ks opts (s, d) (s', d)"

inductive_simps counted_step_iff: "counted_step reserve envs ks opts (s, d) (s', d')"

lemma thread_step:
  "pipeline_step {} ks opts s s' \<Longrightarrow> pipeline_step envs ks opts s s' \<and> bpf s' = bpf s"
  by (induction rule: pipeline_step.induct) (auto intro: pipeline_step.intros)

lemma counted_pipeline:
  "counted_step reserve envs ks opts (s, d) (s', d') \<Longrightarrow> pipeline_step envs ks opts s s'"
  by (auto simp: counted_step_iff intro: run_program dest: thread_step)

text \<open>The most records one run submits to a ring.\<close>

definition burst :: "event_kind \<Rightarrow> nat" where
  "burst k = (if k = Sched_switches then 2 else 1)"

lemma due_burst: "probe_ring p = Some k \<Longrightarrow> due env p st \<le> burst k"
  by (auto simp: due_def burst_def Let_def split: probe.splits)

definition keeps_up :: "event_kind \<Rightarrow> ('sw, 'si, 'lb) counted \<Rightarrow> bool" where
  "keeps_up k x \<longleftrightarrow> waiting (fst x) k + burst k \<le> capacity k"

lemma counted_all:
  assumes "counted_step reserve envs ks opts (s, d) (s', d')" "ring_memory reserve" "keeps_up k (s, d)"
    and "length (ring_of k (bpf s)) = d k"
  shows "length (ring_of k (bpf s')) = d' k"
proof -
  from assms(1) consider
      (program) env p where "obeys reserve s env" "s' = s\<lparr>bpf := run_probe env p (bpf s)\<rparr>"
        "d' = (\<lambda>k. d k + (if probe_ring p = Some k then due env p (bpf s) else 0))"
    | (thread) "pipeline_step {} ks opts s s'" "d' = d"
    unfolding counted_step_iff by blast
  then show ?thesis
  proof cases
    case program
    show ?thesis
    proof (cases "probe_ring p = Some k")
      case True
      then have "waiting s k + due env p (bpf s) \<le> capacity k"
        using assms(3) due_burst [OF True, of env "bpf s"] by (simp add: keeps_up_def)
      from probe_complete [OF assms(2) program(1) True this] show ?thesis
        using True assms(4) by (simp add: program)
    qed (simp add: program assms(4) other_ring_unchanged)
  next
    case thread
    then show ?thesis using assms(4) thread_step [OF thread(1)] by simp
  qed
qed

text \<open>
  Claim C9: as long as the thread of a ring is never so far behind that another run would fill the
  ring past its room (3276 records of a run queue, 2520 of a task, 1927 of the load balancer, and
  so on), every record that is due gets into the ring, and what the thread has traced is what its
  handler makes of all of them but the last ones that still wait.
\<close>

theorem nothing_lost:
  assumes "ring_memory reserve" "rings_empty st"
    and "(\<lambda>x y. counted_step reserve envs ks opts x y \<and> keeps_up k x)\<^sup>*\<^sup>*
      (pipeline_init st, \<lambda>k. 0) (s, d)"
  shows "length (ring_of k (bpf s)) = d k \<and> consumed s k + waiting s k = d k
    \<and> output_of k (traced s) = concat (map (handle_event ks opts) (take (d k - waiting s k) (ring_of k (bpf s))))"
proof -
  have "length (ring_of k (bpf s)) = d k \<and> fifo ks opts s"
    using assms(3)
  proof (induction rule: rtranclp_induct2)
    case refl
    have "fifo ks opts (pipeline_init st)"
      using fifo_reachable [OF rtranclp.rtrancl_refl assms(2)] .
    with assms(2) show ?case by (simp add: rings_empty_def pipeline_init_def)
  next
    case (step s d s' d')
    from step.hyps(2) have c: "counted_step reserve envs ks opts (s, d) (s', d')" "keeps_up k (s, d)"
      by simp_all
    with step.IH show ?case
      using counted_all [OF c(1) assms(1) c(2)] fifo_step [OF counted_pipeline [OF c(1)]] by simp
  qed
  then have l: "length (ring_of k (bpf s)) = d k" and f: "fifo ks opts s" by simp_all
  from f have "consumed s k \<le> length (ring_of k (bpf s))" by (simp add: fifo_def)
  then have "consumed s k \<le> d k" by (simp only: l)
  then have "d k - waiting s k = consumed s k" "consumed s k + waiting s k = d k"
    by (simp_all add: waiting_def l)
  with l f show ?thesis by (simp add: fifo_def)
qed

lemma sample_env_obeys: "obeys reserve s (sample_env k cpu now)"
  unfolding obeys_def
proof (intro allI impI)
  fix j n show "reserved j (sample_env k cpu now) n" by (cases j) (simp_all add: sample_env_def)
qed

text \<open>The sample run again: the idle record is due, gets into the ring and is consumed.\<close>

abbreviation sample_counted :: "(sample_map, sample_times, sample_map) counted \<Rightarrow>
    (sample_map, sample_times, sample_map) counted \<Rightarrow> bool" where
  "sample_counted x y \<equiv> counted_step ring_reserve UNIV kallsyms_init sample_cpu_idle_opts x y \<and> keeps_up Freq_idle x"

lemma sample_counted_reach:
  "sample_counted\<^sup>*\<^sup>* (pipeline_init sample_state, \<lambda>k. 0) (sample_step1, \<lambda>k. if k = Freq_idle then 1 else 0)"
proof -
  let ?s0 = "pipeline_init sample_state"
  let ?b = "run_probe (sample_env (sample_kernel 0 0) 1 100) (Cpu_idle 2 3) sample_state"
  let ?s1 = "?s0\<lparr>bpf := ?b\<rparr>"
  let ?s2 = "?s1\<lparr>thread := (thread ?s1)(Freq_idle := At_test)\<rparr>"
  let ?s3 = "?s2\<lparr>thread := (thread ?s2)(Freq_idle := In_poll)\<rparr>"
  let ?z = "(\<lambda>k. 0) :: event_kind \<Rightarrow> nat"
  let ?e = "(\<lambda>k. if k = Freq_idle then 1 else 0) :: event_kind \<Rightarrow> nat"
  have b: "freq_idle_rb ?b = [\<lparr>fi_ts = 100, fi_cpu = 3, fi_frequency = 0, fi_idle_state = 2, fi_idle_miss = 0\<rparr>]"
    by (simp add: handle_cpu_idle_def sample_env_def sample_state_def)
  have e: "freq_idle_rb sample_state = []" by (simp add: sample_state_def)
  have s3: "?s3 = sample_step1" by (simp add: sample_step1_def pipeline_init_def)
  have "counted_step ring_reserve UNIV kallsyms_init sample_cpu_idle_opts (?s0, ?z)
      (?s0\<lparr>bpf := run_probe (sample_env (sample_kernel 0 0) 1 100) (Cpu_idle 2 3) (bpf ?s0)\<rparr>,
       \<lambda>k. ?z k + (if probe_ring (Cpu_idle 2 3) = Some k
         then due (sample_env (sample_kernel 0 0) 1 100) (Cpu_idle 2 3) (bpf ?s0) else 0))"
    by (rule program) (simp_all add: autoload_iff sample_cpu_idle_opts_def sample_env_obeys)
  then have "counted_step ring_reserve UNIV kallsyms_init sample_cpu_idle_opts (?s0, ?z) (?s1, ?e)"
    by (simp add: pipeline_init_def due_def eq_commute cong: if_cong)
  moreover have "counted_step ring_reserve UNIV kallsyms_init sample_cpu_idle_opts (?s1, ?e) (?s2, ?e)"
    by (rule thread, rule rb_created) (simp add: pipeline_init_def)
  moreover have "counted_step ring_reserve UNIV kallsyms_init sample_cpu_idle_opts (?s2, ?e) (?s3, ?e)"
    by (rule thread, rule enter_poll) (simp_all add: pipeline_init_def)
  moreover have "keeps_up Freq_idle (?s0, ?z)" "keeps_up Freq_idle (?s1, ?e)" "keeps_up Freq_idle (?s2, ?e)"
    by (simp_all add: keeps_up_def waiting_def burst_def b e pipeline_init_def del: run_probe.simps)
  ultimately have steps: "sample_counted (?s0, ?z) (?s1, ?e)" "sample_counted (?s1, ?e) (?s2, ?e)"
    "sample_counted (?s2, ?e) (?s3, ?e)" by blast+
  show ?thesis unfolding s3 [symmetric]
    by (rule converse_rtranclp_into_rtranclp, rule steps(1), rule converse_rtranclp_into_rtranclp, rule steps(2),
        rule converse_rtranclp_into_rtranclp, rule steps(3), rule rtranclp.rtrancl_refl)
qed

theorem nothing_lost_witness:
  "length (freq_idle_rb (bpf sample_step1)) = 1
    \<and> consumed sample_step1 Freq_idle + waiting sample_step1 Freq_idle = 1"
  using nothing_lost [OF ring.ring_memory_axioms sample_rings_empty sample_counted_reach] by simp

end
