(* ===== verification/Spec2Isabelle.thy ===== *)
theory Spec2Isabelle
  imports SA_Process SA_Sched_Spec SA_Bytes SA_Ring
begin

text \<open>
  \<^bold>\<open>sched-analyzer\<close>: a verification library for the program in \<open>src/\<close>.

  \<^bold>\<open>The program.\<close> BPF programs (\<open>sched-analyzer.bpf.c\<close>) run on scheduler tracepoints and on the entry
  and return of load balancer functions. Each fills a record (\<open>sched-analyzer-events.h\<close>) and submits
  it to one of eight ring buffers. The user space binary (\<open>sched-analyzer.c\<close>) parses its command line
  (\<open>parse_argp.c\<close>) into the global \<open>sa_opts\<close>, decides which BPF programs to load, and starts one thread
  per ring, which polls it and turns records into tracing calls of the Perfetto SDK
  (\<open>perfetto_wrapper.cc\<close>), IPIs with the names of kernel functions (\<open>parse_kallsyms.c\<close>). A signal sets
  \<open>exiting\<close>, the threads leave their loops, and \<open>main\<close> joins them.

  \<^bold>\<open>Theories, bottom up.\<close>

    \<^item> \<open>SA_Prelude\<close>: widths of the C types, word lemmas, the reserve-fill-submit idiom of the rings.
    \<^item> \<open>SA_Libc\<close>: what the code uses of the C library (\<open>strtol\<close>, \<open>strncpy\<close>, \<open>strstr\<close>, \<open>snprintf\<close>, \<open>%d\<close>).
    \<^item> \<open>SA_Options\<close>: \<open>sa_opts\<close>, the option table and \<open>parse_arg\<close>, one equation per case; \<open>argp_run\<close> is
      \<open>argp_parse\<close> from the list of options argp cut the command line into.
    \<^item> \<open>SA_Events\<close>: the event records and \<open>copy_softirq\<close>.
    \<^item> \<open>SA_Kernel\<close>: the kernel as the BPF programs read it, a parameter (record \<open>kernel\<close>), and the
      helpers \<open>entity_is_task\<close>, \<open>rq_of\<close>, \<open>cfs_rq_is_root\<close>.
    \<^item> \<open>SA_Bpf\<close>: the interface of the hash maps (locale \<open>bpf_hash\<close>), a preallocated table that meets it,
      the state of the BPF object (\<open>bpf_state\<close>: three maps and eight rings) and the environment of one
      run of a program (\<open>run_env\<close>: CPU, clock, what each reservation returned).
    \<^item> \<open>SA_Pelt\<close>, \<open>SA_Sched\<close>, \<open>SA_Lb\<close>: the 31 handlers of \<open>sched-analyzer.bpf.c\<close>, each a function from
      environment, arguments and state to state. \<open>SA_Lb\<close> also has the locale \<open>lb_pair\<close>, the contract of an
      entry and its exit probe, interpreted on the six saving phases.
    \<^item> \<open>SA_Perfetto\<close>: the \<open>trace_*\<close> functions as lists of SDK calls (\<open>output_call\<close>).
    \<^item> \<open>SA_Session\<close>: the trace configuration and the session (\<open>init_perfetto\<close>, start, stop).
    \<^item> \<open>SA_Kallsyms\<close>, \<open>SA_Lookup\<close>: parsing, sorting and searching the symbol table; \<open>qsort\<close> is a
      parameter under the locale \<open>c_qsort\<close>, interpreted on insertion sort.
    \<^item> \<open>SA_Consumer\<close>: the filter, \<open>clamp\<close> and the eight \<open>handle_*_event\<close> callbacks.
    \<^item> \<open>SA_Main\<close>: which programs are loaded, thread creation and clean-up, the exit status.
    \<^item> \<open>SA_Pipeline\<close>: the running program as a step relation (\<open>pipeline_step\<close>): probes, the eight threads
      of \<open>EVENT_THREAD_FN\<close>, and the signal interleave; locale \<open>event_thread\<close> with eight interpretations.
    \<^item> \<open>SA_Process\<close>: \<open>main\<close> next to its threads (\<open>process_step\<close>): the actions of \<open>SA_Main\<close> one after the
      other, with the blocking wait and joins, over the steps of \<open>SA_Pipeline\<close>, which it simulates (locale
      \<open>simulation\<close>), and with the session of \<open>SA_Session\<close> deciding what reaches the trace file.
    \<^item> \<open>SA_Samples\<close>: a concrete kernel and environment for the witnesses.
    \<^item> \<open>SA_Ctypes\<close>: C object types, their layout (size, alignment, place of every member and bit-field),
      access paths, and reads from a memory of bytes; locale \<open>reader\<close>, what depends on the bytes of one
      object only.
    \<^item> \<open>SA_Vmlinux_Base\<close>, \<open>SA_Vmlinux\<close>: the declarations of \<open>vmlinux.h\<close> behind what the programs read,
      \<open>struct task_struct\<close>, \<open>struct rq\<close>, \<open>struct cfs_rq\<close>, \<open>struct sched_domain\<close>, \<open>struct root_domain\<close> and the
      main objects a task or a run queue points to, with every type they contain, member by member and with
      the padding the header spells out.
    \<^item> \<open>SA_Btf\<close>: the kernel of \<open>vmlinux.h\<close> (\<open>btf_kernel\<close>), an instance of \<open>kernel\<close> whose offsets and fields come
      from these layouts and whose contents are decoded from bytes; the decoders interpret \<open>reader\<close>.
    \<^item> \<open>SA_Btf_Probes\<close>: the PELT probes on those bytes.
    \<^item> \<open>SA_Context\<close>: \<open>SEC\<close> and \<open>BPF_PROG\<close> of the programs: where each attaches, and how it gets its
      arguments from a tracepoint's prototype or from \<open>struct pt_regs\<close>; the macro is a parameter under
      the locale \<open>bpf_context\<close>. Also the load balancer probes on those bytes.
    \<^item> \<open>SA_Bytes\<close>: signals all the way from kernel memory to the tracing calls, and calls of the load
      balancer all the way from the registers.
    \<^item> \<open>SA_Ring\<close>: the C layout of the event records, the room of a ring (locale \<open>ring_memory\<close>, what
      \<open>bpf_ringbuf_reserve\<close> promises), and runs of the pipeline with a count of the records due.
    \<^item> \<open>SA_Lb_Spec\<close>, \<open>SA_Signals\<close>, \<open>SA_Rq_Signals\<close>, \<open>SA_Sched_Spec\<close>: properties of the probes together with
      the handlers that consume their records.

  \<^bold>\<open>What the lemmas show.\<close> Options: well-formedness, the selected signals and the filters of a whole
  command line, round trips of numbers. Symbol table: lookups terminate inside the array
  (\<open>partial_function\<close>, so that not returning would be \<open>None\<close>), are right on ordered tables, and what the
  truncating comparison does to kernel addresses. Load balancer: refinement of an abstract machine
  for up to 1365 CPUs (8192 map entries for six keys per CPU), balanced slices in the six phases that use the
  map, and the domain statistics up to and past \<open>MAX_SD_LEVELS\<close>. Signals: each PELT, idle, softirq and IPI update
  end to end, from the kernel's data to the counters. Running program: every record is traced once
  and in order, only selected categories appear, polls drain their rings, and shutting down loses
  what is left: no thread polls again once it has seen the signal. Process: the trace file gets what is
  traced between the start and the stop of the session and nothing else, the skeleton outlives the threads, a signal always lets \<open>main\<close> finish, and nothing else does. Kernel memory: members never overlap and an access path stays inside its object, so
  a PELT probe reads one \<open>task_struct\<close> or one \<open>rq\<close> and nothing else; on the kernel of \<open>vmlinux.h\<close> the
  probes equal loads at constant offsets, and the two versions of the \<open>util_est\<close> read agree. Arguments:
  a tracepoint's program gets what the tracepoint passes, a kprobe's the arguments of the call; the
  latter because \<open>pt_regs\<close> of this (arm64) header begins with the argument registers. Rings: a
  thread that stays less than a ring's room behind misses nothing (the room is 1927 records for the load
  balancer and 2520 to 8191 for the others).

  \<^bold>\<open>Conventions.\<close> Integers keep their C widths; \<open>-1\<close> in an unsigned field is the program's mark for
  "not collected". Fields a probe does not assign keep what the reserved memory held. Reads and
  stores outside an array are values of their own (\<open>Bad_store\<close>, \<open>Inl\<close>), never unspecified.

  \<^bold>\<open>Bounds.\<close> \<open>trace_sd_levels\<close>, \<open>sd_stats_loop\<close>, \<open>add_from\<close>, \<open>pid_listed\<close> and \<open>comm_listed\<close> take the number of
  iterations left, started at the bound of the source's loop; nothing else uses fuel.

  \<^bold>\<open>Not modelled.\<close> \<open>bpf_printk\<close> and the messages on stderr (but for the one in
  \<open>handle_rq_pelt_event\<close>), the text of the help, \<open>flush_perfetto\<close> (never called), the Perfetto SDK (with the limits it puts on
  a session, an hour and the file size),
  libbpf, argp's splitting of the command line, the build files, and the Python scripts of
  \<open>sched-analyzer-pp\<close>. Of the generated \<open>vmlinux.h\<close> the types that are further away from a task or
  a run queue are left out: no program reads them. The relocations of the loader are modelled by
  their outcome on one kernel; on another the record \<open>kernel\<close> stays a parameter. A name without a
  terminator is read up to the end of its array.
\<close>

end
